(* ===== verification/Prelude.thy ===== *)
theory Prelude
  imports Main "HOL-Library.AList" "HOL-Library.Char_ord" "HOL-Library.List_Lexorder"
    "HOL-Library.Word"
begin

text \<open>
  Shared vocabulary of the development: runes and strings, results, Go maps of pointers as
  association lists in an arbitrary iteration order, and the list lemmas that the component
  theories use. A Go map of type \<open>map[K]*V\<close> is an association list with distinct keys; the
  order of the list stands for the iteration order, which Go leaves open, so that a theorem
  for all lists is a theorem for all iteration orders. A nil pointer stored in a map is
  \<open>None\<close>. A nil map is the empty list.
\<close>

named_theorems lexing \<open>equations that compute the lexer\<close>
named_theorems parsing \<open>defining equations of the parser\<close>
named_theorems advance \<open>every parser function consumes tokens\<close>
named_theorems running \<open>effect of one printed line on the parser\<close>
named_theorems fresh \<open>objects that differ from the freshly allocated one\<close>

type_synonym rune = char
type_synonym ('k, 'v) gomap = "('k \<times> 'v option) list"

section \<open>Pointers and maps\<close>

text \<open>The value behind a pointer, or the fresh object that get-or-create code allocates.\<close>

definition getOr :: "'a \<Rightarrow> 'a option \<Rightarrow> 'a" where
  "getOr d p = (case p of None \<Rightarrow> d | Some v \<Rightarrow> v)"

lemma getOr_simps [simp]: "getOr d None = d" "getOr d (Some v) = v"
  by (simp_all add: getOr_def)

text \<open>\<open>m[k]\<close> on a map of pointers: nil where the key is missing or holds nil.\<close>

definition mget :: "('k, 'v) gomap \<Rightarrow> 'k \<Rightarrow> 'v option" where
  "mget m k = (case map_of m k of None \<Rightarrow> None | Some p \<Rightarrow> p)"

text \<open>\<open>m[k] = &v\<close>\<close>

definition mput :: "'k \<Rightarrow> 'v \<Rightarrow> ('k, 'v) gomap \<Rightarrow> ('k, 'v) gomap" where
  "mput k v m = AList.update k (Some v) m"

definition keys_ok :: "('k, 'v) gomap \<Rightarrow> bool" where
  "keys_ok m \<longleftrightarrow> distinct (map fst m)"

lemma mget_Nil [simp]: "mget [] k = None"
  by (simp add: mget_def)

lemma mget_mput [simp]: "mget (mput k v m) k' = (if k' = k then Some v else mget m k')"
  by (simp add: mget_def mput_def update_conv)

lemma keys_ok_mput [simp]: "keys_ok m \<Longrightarrow> keys_ok (mput k v m)"
  by (simp add: keys_ok_def mput_def distinct_update)

lemma keys_ok_Nil [simp]: "keys_ok []"
  by (simp add: keys_ok_def)

lemma mput_twice [simp]: "mput k w (mput k v m) = mput k w m"
  unfolding mput_def by (induction m) auto

lemma mput_fresh: "k \<notin> fst ` set m \<Longrightarrow> mput k v m = m @ [(k, Some v)]"
  unfolding mput_def by (induction m) auto

lemma mput_last: "k \<notin> fst ` set m \<Longrightarrow> mput k v (m @ [(k, p)]) = m @ [(k, Some v)]"
  unfolding mput_def by (induction m) auto

lemma mget_fresh: "k \<notin> fst ` set m \<Longrightarrow> mget m k = None"
  unfolding mget_def by (simp add: map_of_eq_None_iff [THEN iffD2])

lemma mget_last: "k \<notin> fst ` set m \<Longrightarrow> mget (m @ [(k, p)]) k = p"
  unfolding mget_def by (induction m) auto

lemma fst_set_mput [simp]: "fst ` set (mput k v m) = insert k (fst ` set m)"
  unfolding mput_def by (rule dom_update [unfolded dom_map_of_conv_image_fst, simplified])

lemma mget_in_set: "keys_ok m \<Longrightarrow> (k, p) \<in> set m \<Longrightarrow> mget m k = p"
  by (simp add: mget_def keys_ok_def)

lemma mget_SomeD: "mget m k = Some v \<Longrightarrow> (k, Some v) \<in> set m"
  unfolding mget_def by (auto split: option.splits dest: map_of_SomeD)

lemma mget_key: "mget m k = Some v \<Longrightarrow> k \<in> fst ` set m"
  by (force dest: mget_SomeD)

section \<open>Maps without nil entries\<close>

text \<open>A map with unique keys and no nil entries whose values satisfy \<open>P\<close>.\<close>

definition fullMap :: "('k \<Rightarrow> 'v \<Rightarrow> bool) \<Rightarrow> ('k, 'v) gomap \<Rightarrow> bool" where
  "fullMap P m \<longleftrightarrow> keys_ok m \<and> list_all (\<lambda>(k, x). case x of None \<Rightarrow> False | Some v \<Rightarrow> P k v) m"

lemma fullMap_Nil [simp]: "fullMap P []"
  by (simp add: fullMap_def)

lemma set_mput: "x \<in> set (mput k v m) \<Longrightarrow> x = (k, Some v) \<or> x \<in> set m"
  unfolding mput_def by (induction m) (auto split: if_splits)

lemma fullMap_mput:
  assumes "fullMap P m" and "P k v"
  shows "fullMap P (mput k v m)"
proof -
  have "(case b of None \<Rightarrow> False | Some v \<Rightarrow> P a v)" if "(a, b) \<in> set (mput k v m)" for a b
    using set_mput [OF that] assms by (auto simp: fullMap_def list_all_iff)
  then have "list_all (\<lambda>(a, b). case b of None \<Rightarrow> False | Some v \<Rightarrow> P a v) (mput k v m)" by (auto simp only: list_all_iff)
  with assms(1) show ?thesis by (simp add: fullMap_def)
qed

lemma fullMapD: "fullMap P m \<Longrightarrow> mget m k = Some v \<Longrightarrow> P k v"
  by (force simp: fullMap_def list_all_iff dest: mget_SomeD)

lemma fullMap_get: "fullMap P m \<Longrightarrow> P k d \<Longrightarrow> P k (getOr d (mget m k))"
  using fullMapD [of P m k] by (cases "mget m k") simp_all

lemma pred_getOr: "pred_option P x \<Longrightarrow> P d \<Longrightarrow> P (getOr d x)"
  by (cases x) simp_all

section \<open>Loops over maps and slices of pointers\<close>

text \<open>
  A loop that fills a new map from an old one: \<open>derefMap\<close> dereferences every entry and panics
  (\<open>None\<close>) at nil, \<open>keepMap\<close> skips nil entries, \<open>passMap\<close> copies nil as nil. \<open>derefList\<close> is the
  loop over a slice of pointers, \<open>foldM\<close> a loop whose body may panic.
\<close>

primrec derefMap :: "('k \<Rightarrow> 'v \<Rightarrow> 'w option) \<Rightarrow> ('k, 'v) gomap \<Rightarrow> ('k, 'w) gomap option" where
  "derefMap f [] = Some []"
| "derefMap f (x # xs) =
     (case snd x of None \<Rightarrow> None
      | Some v \<Rightarrow> (case f (fst x) v of None \<Rightarrow> None
          | Some w \<Rightarrow> map_option (\<lambda>r. (fst x, Some w) # r) (derefMap f xs)))"

definition keepMap :: "('k \<Rightarrow> 'v \<Rightarrow> 'w) \<Rightarrow> ('k, 'v) gomap \<Rightarrow> ('k, 'w) gomap" where
  "keepMap f m = concat (map (\<lambda>(k, p). case p of None \<Rightarrow> [] | Some v \<Rightarrow> [(k, Some (f k v))]) m)"

definition passMap :: "('k \<Rightarrow> 'v \<Rightarrow> 'w) \<Rightarrow> ('k, 'v) gomap \<Rightarrow> ('k, 'w) gomap" where
  "passMap f m = map (\<lambda>(k, p). (k, map_option (f k) p)) m"

primrec derefList :: "('v \<Rightarrow> 'w option) \<Rightarrow> 'v option list \<Rightarrow> 'w option list option" where
  "derefList f [] = Some []"
| "derefList f (x # xs) =
     (case x of None \<Rightarrow> None
      | Some v \<Rightarrow> (case f v of None \<Rightarrow> None | Some w \<Rightarrow> map_option (Cons (Some w)) (derefList f xs)))"

primrec foldM :: "('b \<Rightarrow> 'a \<Rightarrow> 'b option) \<Rightarrow> 'a list \<Rightarrow> 'b \<Rightarrow> 'b option" where
  "foldM f [] s = Some s"
| "foldM f (x # xs) s = (case f s x of None \<Rightarrow> None | Some s' \<Rightarrow> foldM f xs s')"

lemma fullMap_Cons: "fullMap P ((k, p) # m) \<longleftrightarrow> (\<exists>v. p = Some v \<and> P k v) \<and> k \<notin> fst ` set m \<and> fullMap P m"
  by (auto simp: fullMap_def keys_ok_def split: option.splits)

text \<open>Two loops that undo each other entry by entry undo each other on the map.\<close>

lemma derefMap_inverse:
  assumes "fullMap P m" and "\<And>k v. P k v \<Longrightarrow> \<exists>w. f k v = Some w \<and> g k w = Some v"
  shows "\<exists>m'. derefMap f m = Some m' \<and> derefMap g m' = Some m"
  using assms(1)
proof (induction m)
  case (Cons x m)
  obtain k p where x: "x = (k, p)" by (cases x)
  from Cons x obtain v m' where "p = Some v" "P k v" "derefMap f m = Some m'" "derefMap g m' = Some m"
    by (auto simp: fullMap_Cons)
  with assms(2) [of k v] x show ?case by auto
qed simp

lemma derefMap_total:
  assumes "fullMap P m" and "\<And>k v. P k v \<Longrightarrow> \<exists>w. f k v = Some w"
  shows "\<exists>m'. derefMap f m = Some m'"
  using assms(1)
proof (induction m)
  case (Cons x m)
  obtain k p where x: "x = (k, p)" by (cases x)
  from Cons x obtain v m' where "p = Some v" "P k v" "derefMap f m = Some m'" by (auto simp: fullMap_Cons)
  with assms(2) [of k v] x show ?case by auto
qed simp

lemma derefList_inverse:
  assumes "list_all (\<lambda>x. \<exists>v. x = Some v \<and> P v) xs" and "\<And>v. P v \<Longrightarrow> \<exists>w. f v = Some w \<and> g w = Some v"
  shows "\<exists>ys. derefList f xs = Some ys \<and> derefList g ys = Some xs"
  using assms(1)
proof (induction xs)
  case (Cons x xs)
  then obtain v ys where "x = Some v" "P v" "derefList f xs = Some ys" "derefList g ys = Some xs" by auto
  with assms(2) [of v] show ?case by auto
qed simp

lemma keepMap_inverse:
  assumes "fullMap (\<lambda>_ _. True) m" and "\<And>k v. g k (f k v) = v"
  shows "keepMap g (keepMap f m) = m"
  using assms(1) by (induction m) (auto simp: keepMap_def fullMap_Cons assms(2))

lemma passMap_inverse:
  assumes "\<And>k v. g k (f k v) = v"
  shows "passMap g (passMap f m) = m"
  by (induction m) (auto simp: passMap_def assms option.map_comp comp_def option.map_ident)

lemma derefMap_passMap:
  assumes "fullMap P m" and "\<And>k v. P k v \<Longrightarrow> g k (f k v) = Some v"
  shows "derefMap g (passMap f m) = Some m"
  using assms(1) by (induction m) (auto simp: passMap_def fullMap_Cons assms(2))

text \<open>A loop that creates the entries of a map one by one.\<close>

lemma foldM_entries:
  assumes "fullMap P m" and "fst ` set M \<inter> fst ` set m = {}"
    and "\<And>k v M. P k v \<Longrightarrow> k \<notin> fst ` set M \<Longrightarrow> step (put M) (k, Some v) = Some (put (mput k (f k v) M))"
  shows "foldM step m (put M) = Some (put (M @ passMap f m))"
  using assms(1,2)
proof (induction m arbitrary: M)
  case (Cons x m)
  obtain k p where x: "x = (k, p)" by (cases x)
  from Cons.prems x obtain v where v: "p = Some v" "P k v" "k \<notin> fst ` set m" "fullMap P m" by (auto simp: fullMap_Cons)
  from Cons.prems(2) x have k: "k \<notin> fst ` set M" by auto
  with v Cons.prems(2) x have "fst ` set (mput k (f k v) M) \<inter> fst ` set m = {}" by auto
  with Cons.IH [OF v(4)] have "foldM step m (put (mput k (f k v) M)) = Some (put (mput k (f k v) M @ passMap f m))" .
  with assms(3) [OF v(2) k] x v(1) k show ?case by (simp add: mput_fresh passMap_def)
qed (simp add: passMap_def)

section \<open>Lists without repetitions\<close>

text \<open>\<open>appendUniqueString\<close> of parser\_cos\_security.go.\<close>

definition appendUniqueString :: "'a list \<Rightarrow> 'a \<Rightarrow> 'a list" where
  "appendUniqueString values v = (if v \<in> set values then values else values @ [v])"

lemma appendUniqueString_distinct:
  "distinct values \<Longrightarrow> distinct (appendUniqueString values v)"
  by (simp add: appendUniqueString_def)

lemma appendUniqueString_fresh: "v \<notin> set values \<Longrightarrow> appendUniqueString values v = values @ [v]"
  by (simp add: appendUniqueString_def)

lemma set_appendUniqueString [simp]: "set (appendUniqueString values v) = insert v (set values)"
  by (auto simp: appendUniqueString_def)

lemma appendUniqueString_ne [simp]: "appendUniqueString values v \<noteq> []"
  by (auto simp: appendUniqueString_def)

lemma appendUniqueString_idem [simp]:
  "appendUniqueString (appendUniqueString values v) v = appendUniqueString values v"
  by (simp add: appendUniqueString_def)

lemma sort_distinct_set: "distinct xs \<Longrightarrow> distinct ys \<Longrightarrow> set xs = set ys \<Longrightarrow> sort xs = sort ys"
  by (metis distinct_sort set_sort sorted_distinct_set_unique sorted_sort)

end
