(* ===== verification/GoLib.thy ===== *)
theory GoLib
  imports Prelude
begin

text \<open>
  The part of the Go standard library that the configuration code uses: the Unicode classes,
  decimal printing and parsing of \<open>strconv\<close> and \<open>fmt\<close>, and the string functions of
  \<open>strings\<close>. A rune is a code point from U+0000 to U+00FF (type \<open>char\<close>), so that the
  Unicode classes are finite and exact on that range; text outside of it is not modelled.
  Go orders strings by their UTF-8 bytes, which is the order of the code points.
\<close>

section \<open>Package unicode\<close>

definition runeval :: "rune \<Rightarrow> nat" where
  "runeval c = of_char c"

definition isSpace :: "rune \<Rightarrow> bool" where
  "isSpace c \<longleftrightarrow> runeval c \<in> {9, 10, 11, 12, 13, 32, 133, 160}"

definition isDigit :: "rune \<Rightarrow> bool" where
  "isDigit c \<longleftrightarrow> 48 \<le> runeval c \<and> runeval c \<le> 57"

definition isLetter :: "rune \<Rightarrow> bool" where
  "isLetter c \<longleftrightarrow>
     65 \<le> runeval c \<and> runeval c \<le> 90 \<or> 97 \<le> runeval c \<and> runeval c \<le> 122 \<or>
     runeval c \<in> {170, 181, 186} \<or> 192 \<le> runeval c \<and> runeval c \<le> 214 \<or>
     216 \<le> runeval c \<and> runeval c \<le> 246 \<or> 248 \<le> runeval c"

definition isPrint :: "rune \<Rightarrow> bool" where
  "isPrint c \<longleftrightarrow> 32 \<le> runeval c \<and> runeval c \<le> 126 \<or> 161 \<le> runeval c \<and> runeval c \<noteq> 173"

lemmas rune_class_defs = isSpace_def isDigit_def isLetter_def isPrint_def runeval_def

abbreviation newline :: rune where "newline \<equiv> CHR 0x0A"
abbreviation tab :: rune where "tab \<equiv> CHR 0x09"
abbreviation quote :: rune where "quote \<equiv> CHR 0x22"
abbreviation backslash :: rune where "backslash \<equiv> CHR 0x5C"

section \<open>Decimal numbers\<close>

definition digitChar :: "nat \<Rightarrow> rune" where
  "digitChar n = ''0123456789'' ! n"

definition digitVal :: "rune \<Rightarrow> nat" where
  "digitVal c = runeval c - 48"

text \<open>The verb \<open>%d\<close> on a natural number.\<close>

fun formatNat :: "nat \<Rightarrow> string" where
  "formatNat n = (if n < 10 then [digitChar n] else formatNat (n div 10) @ [digitChar (n mod 10)])"

declare formatNat.simps [simp del]

definition formatInt :: "int \<Rightarrow> string" where
  "formatInt i = (if i < 0 then CHR ''-'' # formatNat (nat (- i)) else formatNat (nat i))"

definition digitsVal :: "string \<Rightarrow> nat" where
  "digitsVal s = foldl (\<lambda>a c. a * 10 + digitVal c) 0 s"

text \<open>\<open>strconv.Atoi\<close> on a 64-bit platform: an optional sign, digits, and the range of \<open>int\<close>.\<close>

definition Atoi :: "string \<Rightarrow> int option" where
  "Atoi s =
     (let neg = (s \<noteq> [] \<and> hd s = CHR ''-'');
          ds = (if s \<noteq> [] \<and> (hd s = CHR ''-'' \<or> hd s = CHR ''+'') then tl s else s)
      in if ds = [] \<or> \<not> list_all isDigit ds then None
         else let v = (if neg then - int (digitsVal ds) else int (digitsVal ds))
              in if - (2 ^ 63) \<le> v \<and> v < 2 ^ 63 then Some v else None)"

text \<open>\<open>strconv.ParseUint(s, 10, bits)\<close>\<close>

definition ParseUint :: "string \<Rightarrow> nat \<Rightarrow> nat option" where
  "ParseUint s bits =
     (if s = [] \<or> \<not> list_all isDigit s then None
      else if digitsVal s < 2 ^ bits then Some (digitsVal s) else None)"

lemma runeval_digitChar [simp]: "n < 10 \<Longrightarrow> runeval (digitChar n) = 48 + n"
proof -
  assume "n < 10"
  then have "n \<in> {0, 1, 2, 3, 4, 5, 6, 7, 8, 9}" by auto
  then show ?thesis by (auto simp: runeval_def digitChar_def)
qed

lemma isDigit_digitChar [simp]: "n < 10 \<Longrightarrow> isDigit (digitChar n)"
  by (simp add: isDigit_def)

lemma digitVal_digitChar [simp]: "n < 10 \<Longrightarrow> digitVal (digitChar n) = n"
  by (simp add: digitVal_def)

lemma digitsVal_snoc [simp]: "digitsVal (s @ [c]) = digitsVal s * 10 + digitVal c"
  by (simp add: digitsVal_def)

lemma digitsVal_Nil [simp]: "digitsVal [] = 0"
  by (simp add: digitsVal_def)

lemma digitsVal_single [simp]: "digitsVal [c] = digitVal c"
  by (simp add: digitsVal_def)

lemma formatNat_ne [simp]: "formatNat n \<noteq> []"
  by (subst formatNat.simps) simp

lemma formatNat_digits [simp]: "list_all isDigit (formatNat n)"
proof (induction n rule: formatNat.induct)
  case (1 n)
  then show ?case by (subst formatNat.simps) simp
qed

lemma digitsVal_formatNat [simp]: "digitsVal (formatNat n) = n"
proof (induction n rule: formatNat.induct)
  case (1 n)
  then show ?case by (subst formatNat.simps) simp
qed

lemma isDigit_sign [simp]: "\<not> isDigit (CHR ''-'')" "\<not> isDigit (CHR ''+'')"
  by (simp_all add: isDigit_def runeval_def)

lemma hd_formatNat: "isDigit (hd (formatNat n))"
  using formatNat_digits [of n] formatNat_ne [of n] by (cases "formatNat n") auto

lemma Atoi_formatNat: "int n < 2 ^ 63 \<Longrightarrow> Atoi (formatNat n) = Some (int n)"
  using hd_formatNat [of n] by (auto simp: Atoi_def)

lemma Atoi_formatInt:
  assumes "- (2 ^ 63) \<le> i" and "i < 2 ^ 63"
  shows "Atoi (formatInt i) = Some i"
  using assms by (auto simp: formatInt_def Atoi_formatNat) (simp add: Atoi_def)

lemma formatInt_nonneg: "0 \<le> i \<Longrightarrow> formatInt i = formatNat (nat i)"
  by (simp add: formatInt_def)

lemma ParseUint_formatNat: "n < 2 ^ bits \<Longrightarrow> ParseUint (formatNat n) bits = Some n"
  by (simp add: ParseUint_def)

lemma Atoi_bounds: "Atoi s = Some i \<Longrightarrow> - (2 ^ 63) \<le> i \<and> i < 2 ^ 63"
  by (auto simp: Atoi_def Let_def split: if_splits)

lemma Atoi_digits_nonneg: "Atoi s = Some i \<Longrightarrow> list_all isDigit s \<Longrightarrow> 0 \<le> i"
  by (cases s) (auto simp: Atoi_def Let_def split: if_splits)

lemma ParseUint_bounds: "ParseUint s bits = Some n \<Longrightarrow> n < 2 ^ bits"
  by (auto simp: ParseUint_def split: if_splits)

section \<open>Package strings\<close>

definition HasPrefix :: "string \<Rightarrow> string \<Rightarrow> bool" where
  "HasPrefix s p \<longleftrightarrow> take (length p) s = p"

definition TrimPrefix :: "string \<Rightarrow> string \<Rightarrow> string" where
  "TrimPrefix s p = (if HasPrefix s p then drop (length p) s else s)"

definition TrimLeftSpace :: "string \<Rightarrow> string" where
  "TrimLeftSpace s = dropWhile isSpace s"

definition TrimSpace :: "string \<Rightarrow> string" where
  "TrimSpace s = rev (dropWhile isSpace (rev (dropWhile isSpace s)))"

text \<open>\<open>strings.Split(s, sep)\<close> for a one-character separator: always at least one part.\<close>

fun SplitOn :: "rune \<Rightarrow> string \<Rightarrow> string list" where
  "SplitOn sep [] = [[]]"
| "SplitOn sep (c # cs) =
     (if c = sep then [] # SplitOn sep cs
      else case SplitOn sep cs of [] \<Rightarrow> [[c]] | p # ps \<Rightarrow> (c # p) # ps)"

text \<open>\<open>strings.Join(parts, sep)\<close>\<close>

fun JoinWith :: "string \<Rightarrow> string list \<Rightarrow> string" where
  "JoinWith sep [] = []"
| "JoinWith sep [x] = x"
| "JoinWith sep (x # y # ys) = x @ sep @ JoinWith sep (y # ys)"

text \<open>\<open>strings.ReplaceAll(s, old, new)\<close> for a one-character \<open>old\<close>.\<close>

definition ReplaceAll :: "rune \<Rightarrow> string \<Rightarrow> string \<Rightarrow> string" where
  "ReplaceAll old new s = concat (map (\<lambda>c. if c = old then new else [c]) s)"

lemma SplitOn_ne [simp]: "SplitOn sep s \<noteq> []"
  by (induction s) (auto split: list.splits)

lemma SplitOn_no_sep: "sep \<notin> set s \<Longrightarrow> SplitOn sep s = [s]"
  by (induction s) auto

lemma SplitOn_append_sep:
  "sep \<notin> set s \<Longrightarrow> SplitOn sep (s @ sep # t) = s # SplitOn sep t"
  by (induction s) auto

lemma Join_Split: "JoinWith [sep] (SplitOn sep s) = s"
proof (induction s)
  case Nil
  then show ?case by simp
next
  case (Cons c cs)
  obtain p ps where p: "SplitOn sep cs = p # ps"
    using SplitOn_ne [of sep cs] by (cases "SplitOn sep cs") auto
  with Cons show ?case by (cases ps) auto
qed

text \<open>\<open>strconv.Quote\<close>, the verb \<open>%q\<close>.\<close>

definition hexDigit :: "nat \<Rightarrow> rune" where
  "hexDigit n = ''0123456789abcdef'' ! n"

definition quoteRune :: "rune \<Rightarrow> string" where
  "quoteRune c =
     (let v = runeval c in
      if c = quote \<or> c = backslash then [backslash, c]
      else if isPrint c then [c]
      else if v = 7 then [backslash, CHR ''a'']
      else if v = 8 then [backslash, CHR ''b'']
      else if v = 12 then [backslash, CHR ''f'']
      else if v = 10 then [backslash, CHR ''n'']
      else if v = 13 then [backslash, CHR ''r'']
      else if v = 9 then [backslash, CHR ''t'']
      else if v = 11 then [backslash, CHR ''v'']
      else if v < 32 \<or> v = 127 then [backslash, CHR ''x'', hexDigit (v div 16), hexDigit (v mod 16)]
      else [backslash, CHR ''u'', CHR ''0'', CHR ''0'', hexDigit (v div 16), hexDigit (v mod 16)])"

definition Quote :: "string \<Rightarrow> string" where
  "Quote s = [quote] @ concat (map quoteRune s) @ [quote]"

end
