(* ===== verification/ConfigTypes.thy ===== *)
theory ConfigTypes
  imports GoLib
begin

text \<open>
  The configuration tree of pkg/config/types.go. A struct is a record, a pointer an option
  (\<open>None\<close> is nil), a map of pointers a \<open>gomap\<close>, \<open>int\<close> is \<open>int\<close> (the parser keeps it in
  the 64-bit range), \<open>uint32\<close> and \<open>uint64\<close> are words. The prefix of a field names its
  struct. For each struct that code allocates, \<open>new\<dots>\<close> is the value of its composite literal.
\<close>

section \<open>System\<close>

record WebUIConfig =
  web_Enabled :: bool
  web_ListenAddress :: string
  web_Port :: int

record PrometheusConfig =
  prom_Enabled :: bool
  prom_ListenAddress :: string
  prom_Port :: int

record SNMPConfig =
  snmp_Enabled :: bool
  snmp_ListenAddress :: string
  snmp_Port :: int
  snmp_Community :: string

record SystemServicesConfig =
  svc_WebUI :: "WebUIConfig option"
  svc_Prometheus :: "PrometheusConfig option"
  svc_SNMP :: "SNMPConfig option"

record SystemConfig =
  sys_HostName :: string
  sys_Services :: "SystemServicesConfig option"

definition newWebUIConfig :: WebUIConfig where
  "newWebUIConfig = \<lparr>web_Enabled = False, web_ListenAddress = [], web_Port = 0\<rparr>"

definition newPrometheusConfig :: PrometheusConfig where
  "newPrometheusConfig = \<lparr>prom_Enabled = False, prom_ListenAddress = [], prom_Port = 0\<rparr>"

definition newSNMPConfig :: SNMPConfig where
  "newSNMPConfig = \<lparr>snmp_Enabled = False, snmp_ListenAddress = [], snmp_Port = 0, snmp_Community = []\<rparr>"

definition newSystemServicesConfig :: SystemServicesConfig where
  "newSystemServicesConfig = \<lparr>svc_WebUI = None, svc_Prometheus = None, svc_SNMP = None\<rparr>"

definition newSystemConfig :: SystemConfig where
  "newSystemConfig = \<lparr>sys_HostName = [], sys_Services = None\<rparr>"

section \<open>Chassis\<close>

record ClusterNode =
  cn_Name :: string
  cn_Address :: string
  cn_Priority :: int

record EtcdSyncConfig =
  es_Endpoints :: "string list"

record ClusterSyncConfig =
  cs_Etcd :: "EtcdSyncConfig option"

record ClusterConfig =
  cl_Enabled :: bool
  cl_Nodes :: "(string, ClusterNode) gomap"
  cl_Sync :: "ClusterSyncConfig option"

record ChassisConfig =
  ch_Cluster :: "ClusterConfig option"

definition newClusterNode :: "string \<Rightarrow> ClusterNode" where
  "newClusterNode name = \<lparr>cn_Name = name, cn_Address = [], cn_Priority = 0\<rparr>"

definition newEtcdSyncConfig :: EtcdSyncConfig where
  "newEtcdSyncConfig = \<lparr>es_Endpoints = []\<rparr>"

definition newClusterSyncConfig :: ClusterSyncConfig where
  "newClusterSyncConfig = \<lparr>cs_Etcd = None\<rparr>"

definition newClusterConfig :: ClusterConfig where
  "newClusterConfig = \<lparr>cl_Enabled = False, cl_Nodes = [], cl_Sync = None\<rparr>"

definition newChassisConfig :: ChassisConfig where
  "newChassisConfig = \<lparr>ch_Cluster = None\<rparr>"

section \<open>Interfaces\<close>

record Family =
  fam_Addresses :: "string list"

record Unit =
  unit_Family :: "(string, Family) gomap"

record Interface =
  if_Description :: string
  if_Units :: "(int, Unit) gomap"

definition newFamily :: Family where
  "newFamily = \<lparr>fam_Addresses = []\<rparr>"

definition newUnit :: Unit where
  "newUnit = \<lparr>unit_Family = []\<rparr>"

definition newInterface :: Interface where
  "newInterface = \<lparr>if_Description = [], if_Units = []\<rparr>"

section \<open>Routing options and instances\<close>

record StaticRoute =
  sr_Prefix :: string
  sr_NextHop :: string
  sr_Distance :: int
  sr_BFD :: bool
  sr_BFDProfile :: string
  sr_BFDSource :: string
  sr_BFDMultihop :: bool

record RoutingOptions =
  ro_StaticRoutes :: "StaticRoute option list"
  ro_AutonomousSystem :: "32 word"
  ro_RouterID :: string

record RoutingInstance =
  ri_Name :: string
  ri_InstanceType :: string
  ri_RouteDistinguisher :: string
  ri_VRFTarget :: string
  ri_VRFTargetImport :: "string list"
  ri_VRFTargetExport :: "string list"
  ri_VRFImport :: "string list"
  ri_VRFExport :: "string list"
  ri_Interfaces :: "string list"

definition newRoutingOptions :: RoutingOptions where
  "newRoutingOptions = \<lparr>ro_StaticRoutes = [], ro_AutonomousSystem = 0, ro_RouterID = []\<rparr>"

definition newStaticRoute :: "string \<Rightarrow> string \<Rightarrow> StaticRoute" where
  "newStaticRoute prefix nextHop =
     \<lparr>sr_Prefix = prefix, sr_NextHop = nextHop, sr_Distance = 0, sr_BFD = False, sr_BFDProfile = [],
      sr_BFDSource = [], sr_BFDMultihop = False\<rparr>"

definition newRoutingInstance :: "string \<Rightarrow> RoutingInstance" where
  "newRoutingInstance name =
     \<lparr>ri_Name = name, ri_InstanceType = [], ri_RouteDistinguisher = [], ri_VRFTarget = [],
      ri_VRFTargetImport = [], ri_VRFTargetExport = [], ri_VRFImport = [], ri_VRFExport = [],
      ri_Interfaces = []\<rparr>"

section \<open>Protocols\<close>

record BFDProfile =
  bp_Name :: string
  bp_DetectMultiplier :: int
  bp_ReceiveInterval :: int
  bp_TransmitInterval :: int
  bp_EchoMode :: bool
  bp_PassiveMode :: bool

record BFDPeer =
  be_Address :: string
  be_LocalAddress :: string
  be_Interface :: string
  be_VRF :: string
  be_Multihop :: bool
  be_Profile :: string
  be_DetectMultiplier :: int
  be_ReceiveInterval :: int
  be_TransmitInterval :: int
  be_EchoMode :: bool
  be_PassiveMode :: bool
  be_Shutdown :: bool

record BFDConfig =
  bfd_Profiles :: "(string, BFDProfile) gomap"
  bfd_Peers :: "(string, BFDPeer) gomap"

record EVPNVNI =
  ev_VNI :: int
  ev_Type :: string
  ev_BridgeDomain :: string
  ev_VLANID :: int
  ev_RoutingInstance :: string
  ev_RouteDistinguisher :: string
  ev_VRFTarget :: string
  ev_VRFTargetImport :: "string list"
  ev_VRFTargetExport :: "string list"
  ev_SourceInterface :: string
  ev_SourceAddress :: string
  ev_MulticastGroup :: string
  ev_RemoteVTEP :: string

record EVPNConfig =
  evpn_VNIs :: "(int, EVPNVNI) gomap"

record MPLSConfig =
  mpls_Interfaces :: "string list"

record VRRPGroup =
  vg_Name :: string
  vg_Interface :: string
  vg_VirtualAddress :: string
  vg_Priority :: int
  vg_Preempt :: bool

record VRRPConfig =
  vrrp_Groups :: "(string, VRRPGroup) gomap"

record BGPNeighbor =
  bn_IP :: string
  bn_PeerAS :: "32 word"
  bn_Description :: string
  bn_LocalAddress :: string
  bn_BFD :: bool
  bn_BFDProfile :: string

record BGPGroup =
  bg_Type :: string
  bg_Neighbors :: "(string, BGPNeighbor) gomap"
  bg_Import :: string
  bg_Export :: string

record BGPConfig =
  bgp_Groups :: "(string, BGPGroup) gomap"

record OSPFInterface =
  oi_Name :: string
  oi_Passive :: bool
  oi_Metric :: int
  oi_Priority :: int
  oi_PrioritySet :: bool
  oi_BFD :: bool
  oi_BFDProfile :: string

record OSPFArea =
  oa_AreaID :: string
  oa_Interfaces :: "(string, OSPFInterface) gomap"

record OSPFConfig =
  ospf_Areas :: "(string, OSPFArea) gomap"
  ospf_RouterID :: string

record ProtocolConfig =
  pc_BFD :: "BFDConfig option"
  pc_BGP :: "BGPConfig option"
  pc_EVPN :: "EVPNConfig option"
  pc_OSPF :: "OSPFConfig option"
  pc_OSPF3 :: "OSPFConfig option"
  pc_MPLS :: "MPLSConfig option"
  pc_VRRP :: "VRRPConfig option"

definition newBFDProfile :: "string \<Rightarrow> BFDProfile" where
  "newBFDProfile name =
     \<lparr>bp_Name = name, bp_DetectMultiplier = 0, bp_ReceiveInterval = 0, bp_TransmitInterval = 0,
      bp_EchoMode = False, bp_PassiveMode = False\<rparr>"

definition newBFDPeer :: "string \<Rightarrow> BFDPeer" where
  "newBFDPeer address =
     \<lparr>be_Address = address, be_LocalAddress = [], be_Interface = [], be_VRF = [], be_Multihop = False,
      be_Profile = [], be_DetectMultiplier = 0, be_ReceiveInterval = 0, be_TransmitInterval = 0,
      be_EchoMode = False, be_PassiveMode = False, be_Shutdown = False\<rparr>"

definition newBFDConfig :: BFDConfig where
  "newBFDConfig = \<lparr>bfd_Profiles = [], bfd_Peers = []\<rparr>"

definition newEVPNVNI :: "int \<Rightarrow> EVPNVNI" where
  "newEVPNVNI vni =
     \<lparr>ev_VNI = vni, ev_Type = [], ev_BridgeDomain = [], ev_VLANID = 0, ev_RoutingInstance = [],
      ev_RouteDistinguisher = [], ev_VRFTarget = [], ev_VRFTargetImport = [], ev_VRFTargetExport = [],
      ev_SourceInterface = [], ev_SourceAddress = [], ev_MulticastGroup = [], ev_RemoteVTEP = []\<rparr>"

definition newEVPNConfig :: EVPNConfig where
  "newEVPNConfig = \<lparr>evpn_VNIs = []\<rparr>"

definition newMPLSConfig :: MPLSConfig where
  "newMPLSConfig = \<lparr>mpls_Interfaces = []\<rparr>"

definition newVRRPGroup :: "string \<Rightarrow> VRRPGroup" where
  "newVRRPGroup name =
     \<lparr>vg_Name = name, vg_Interface = [], vg_VirtualAddress = [], vg_Priority = 0, vg_Preempt = False\<rparr>"

definition newVRRPConfig :: VRRPConfig where
  "newVRRPConfig = \<lparr>vrrp_Groups = []\<rparr>"

definition newBGPNeighbor :: "string \<Rightarrow> BGPNeighbor" where
  "newBGPNeighbor ip =
     \<lparr>bn_IP = ip, bn_PeerAS = 0, bn_Description = [], bn_LocalAddress = [], bn_BFD = False,
      bn_BFDProfile = []\<rparr>"

definition newBGPGroup :: BGPGroup where
  "newBGPGroup = \<lparr>bg_Type = [], bg_Neighbors = [], bg_Import = [], bg_Export = []\<rparr>"

definition newBGPConfig :: BGPConfig where
  "newBGPConfig = \<lparr>bgp_Groups = []\<rparr>"

definition newOSPFInterface :: "string \<Rightarrow> OSPFInterface" where
  "newOSPFInterface name =
     \<lparr>oi_Name = name, oi_Passive = False, oi_Metric = 0, oi_Priority = 0, oi_PrioritySet = False,
      oi_BFD = False, oi_BFDProfile = []\<rparr>"

definition newOSPFArea :: "string \<Rightarrow> OSPFArea" where
  "newOSPFArea areaID = \<lparr>oa_AreaID = areaID, oa_Interfaces = []\<rparr>"

definition newOSPFConfig :: OSPFConfig where
  "newOSPFConfig = \<lparr>ospf_Areas = [], ospf_RouterID = []\<rparr>"

definition newProtocolConfig :: ProtocolConfig where
  "newProtocolConfig =
     \<lparr>pc_BFD = None, pc_BGP = None, pc_EVPN = None, pc_OSPF = None, pc_OSPF3 = None, pc_MPLS = None,
      pc_VRRP = None\<rparr>"

section \<open>Policy options\<close>

record PrefixList =
  pl_Name :: string
  pl_Prefixes :: "string list"

record PolicyMatchConditions =
  pm_PrefixLists :: "string list"
  pm_Protocol :: string
  pm_Neighbor :: string
  pm_ASPath :: string

record PolicyActions =
  pa_Accept :: "bool option"
  pa_LocalPreference :: "32 word option"
  pa_Community :: string

record PolicyTerm =
  pt_Name :: string
  pt_From :: "PolicyMatchConditions option"
  pt_Then :: "PolicyActions option"

record PolicyStatement =
  ps_Name :: string
  ps_Terms :: "PolicyTerm option list"

record PolicyOptions =
  po_PrefixLists :: "(string, PrefixList) gomap"
  po_PolicyStatements :: "(string, PolicyStatement) gomap"

definition newPrefixList :: "string \<Rightarrow> PrefixList" where
  "newPrefixList name = \<lparr>pl_Name = name, pl_Prefixes = []\<rparr>"

definition newPolicyMatchConditions :: PolicyMatchConditions where
  "newPolicyMatchConditions = \<lparr>pm_PrefixLists = [], pm_Protocol = [], pm_Neighbor = [], pm_ASPath = []\<rparr>"

definition newPolicyActions :: PolicyActions where
  "newPolicyActions = \<lparr>pa_Accept = None, pa_LocalPreference = None, pa_Community = []\<rparr>"

definition newPolicyTerm :: "string \<Rightarrow> PolicyTerm" where
  "newPolicyTerm name =
     \<lparr>pt_Name = name, pt_From = Some newPolicyMatchConditions, pt_Then = Some newPolicyActions\<rparr>"

definition newPolicyStatement :: "string \<Rightarrow> PolicyStatement" where
  "newPolicyStatement name = \<lparr>ps_Name = name, ps_Terms = []\<rparr>"

definition newPolicyOptions :: PolicyOptions where
  "newPolicyOptions = \<lparr>po_PrefixLists = [], po_PolicyStatements = []\<rparr>"

section \<open>Security and class of service\<close>

record NETCONFSSHConfig =
  ssh_Enabled :: bool
  ssh_EnabledSet :: bool
  ssh_ListenAddress :: string
  ssh_Port :: int

record NETCONFConfig =
  nc_SSH :: "NETCONFSSHConfig option"

record UserConfig =
  us_Username :: string
  us_Password :: string
  us_Role :: string
  us_SSHKey :: string

record RateLimitConfig =
  rl_PerIP :: int
  rl_PerUser :: int

record SecurityConfig =
  sec_NETCONF :: "NETCONFConfig option"
  sec_Users :: "(string, UserConfig) gomap"
  sec_RateLimit :: "RateLimitConfig option"

record ForwardingClass =
  fc_Name :: string
  fc_Queue :: int

record TrafficControlProfile =
  tcp_Name :: string
  tcp_ShapingRate :: "64 word"
  tcp_SchedulerMap :: string

record CoSInterface =
  ci_Name :: string
  ci_OutputTrafficControlProfile :: string

record ClassOfServiceConfig =
  cos_ForwardingClasses :: "(string, ForwardingClass) gomap"
  cos_TrafficControlProfiles :: "(string, TrafficControlProfile) gomap"
  cos_Interfaces :: "(string, CoSInterface) gomap"

definition newNETCONFSSHConfig :: NETCONFSSHConfig where
  "newNETCONFSSHConfig =
     \<lparr>ssh_Enabled = False, ssh_EnabledSet = False, ssh_ListenAddress = [], ssh_Port = 0\<rparr>"

definition newNETCONFConfig :: NETCONFConfig where
  "newNETCONFConfig = \<lparr>nc_SSH = None\<rparr>"

definition newUserConfig :: "string \<Rightarrow> UserConfig" where
  "newUserConfig username =
     \<lparr>us_Username = username, us_Password = [], us_Role = [], us_SSHKey = []\<rparr>"

definition newRateLimitConfig :: RateLimitConfig where
  "newRateLimitConfig = \<lparr>rl_PerIP = 0, rl_PerUser = 0\<rparr>"

definition newSecurityConfig :: SecurityConfig where
  "newSecurityConfig = \<lparr>sec_NETCONF = None, sec_Users = [], sec_RateLimit = None\<rparr>"

definition newTrafficControlProfile :: "string \<Rightarrow> TrafficControlProfile" where
  "newTrafficControlProfile name = \<lparr>tcp_Name = name, tcp_ShapingRate = 0, tcp_SchedulerMap = []\<rparr>"

definition newClassOfServiceConfig :: ClassOfServiceConfig where
  "newClassOfServiceConfig =
     \<lparr>cos_ForwardingClasses = [], cos_TrafficControlProfiles = [], cos_Interfaces = []\<rparr>"

section \<open>The whole configuration\<close>

record Config =
  cfg_System :: "SystemConfig option"
  cfg_Chassis :: "ChassisConfig option"
  cfg_Interfaces :: "(string, Interface) gomap"
  cfg_Protocols :: "ProtocolConfig option"
  cfg_RoutingOptions :: "RoutingOptions option"
  cfg_RoutingInstances :: "(string, RoutingInstance) gomap"
  cfg_PolicyOptions :: "PolicyOptions option"
  cfg_ClassOfService :: "ClassOfServiceConfig option"
  cfg_Security :: "SecurityConfig option"

definition NewConfig :: Config where
  "NewConfig =
     \<lparr>cfg_System = None, cfg_Chassis = None, cfg_Interfaces = [], cfg_Protocols = None,
      cfg_RoutingOptions = None, cfg_RoutingInstances = [], cfg_PolicyOptions = None,
      cfg_ClassOfService = None, cfg_Security = None\<rparr>"

text \<open>
  The get-or-create methods return a pointer into the tree; here they return the object, and
  the caller stores it back under the same key after its update.
\<close>

definition GetOrCreateInterface :: "Config \<Rightarrow> string \<Rightarrow> Interface" where
  "GetOrCreateInterface c name = getOr newInterface (mget (cfg_Interfaces c) name)"

definition GetOrCreateUnit :: "Interface \<Rightarrow> int \<Rightarrow> Unit" where
  "GetOrCreateUnit i unitNum = getOr newUnit (mget (if_Units i) unitNum)"

definition GetOrCreateFamily :: "Unit \<Rightarrow> string \<Rightarrow> Family" where
  "GetOrCreateFamily u familyName = getOr newFamily (mget (unit_Family u) familyName)"

lemmas new_defs =
  newWebUIConfig_def newPrometheusConfig_def newSNMPConfig_def newSystemServicesConfig_def
  newSystemConfig_def newClusterNode_def newEtcdSyncConfig_def newClusterSyncConfig_def
  newClusterConfig_def newChassisConfig_def newFamily_def newUnit_def newInterface_def
  newRoutingOptions_def newStaticRoute_def newRoutingInstance_def newBFDProfile_def newBFDPeer_def
  newBFDConfig_def newEVPNVNI_def newEVPNConfig_def newMPLSConfig_def newVRRPGroup_def
  newVRRPConfig_def newBGPNeighbor_def newBGPGroup_def newBGPConfig_def newOSPFInterface_def
  newOSPFArea_def newOSPFConfig_def newProtocolConfig_def newPrefixList_def
  newPolicyMatchConditions_def newPolicyActions_def newPolicyTerm_def newPolicyStatement_def
  newPolicyOptions_def newNETCONFSSHConfig_def newNETCONFConfig_def newUserConfig_def
  newRateLimitConfig_def newSecurityConfig_def newTrafficControlProfile_def
  newClassOfServiceConfig_def NewConfig_def

end
