(* ===== verification/Lexer.thy ===== *)
theory Lexer
  imports GoLib
begin

text \<open>
  The lexer of set-style configuration text: pkg/config/token.go and pkg/config/lexer.go.
  The reader is the list of runes not read yet; the current rune, the end-of-file flag and the
  position are the fields of the Go struct. The theory shows that every token but the last
  shortens the input, so that the lexer ends (the property the fuzz test of the package
  asserts), and the equations that compute tokens from text.
\<close>

section \<open>Tokens (token.go)\<close>

datatype TokenType =
  TokenEOF | TokenEOL | TokenSet | TokenWord | TokenString | TokenNumber | TokenError

fun TokenTypeString :: "TokenType \<Rightarrow> string" where
  "TokenTypeString TokenEOF = ''EOF''"
| "TokenTypeString TokenEOL = ''EOL''"
| "TokenTypeString TokenSet = ''SET''"
| "TokenTypeString TokenWord = ''WORD''"
| "TokenTypeString TokenString = ''STRING''"
| "TokenTypeString TokenNumber = ''NUMBER''"
| "TokenTypeString TokenError = ''ERROR''"

record Token =
  tk_Type :: TokenType
  tk_Value :: string
  tk_Line :: nat
  tk_Column :: nat

section \<open>The lexer (lexer.go)\<close>

record Lexer =
  lx_reader :: "rune list"
  lx_line :: nat
  lx_column :: nat
  lx_ch :: rune
  lx_eof :: bool

definition isWordChar :: "rune \<Rightarrow> bool" where
  "isWordChar c \<longleftrightarrow> isLetter c \<or> isDigit c \<or> c = CHR ''-'' \<or> c = CHR ''_'' \<or> c = CHR ''/'' \<or>
     c = CHR ''.'' \<or> c = CHR '':''"

definition isNumber :: "string \<Rightarrow> bool" where
  "isNumber s \<longleftrightarrow> s \<noteq> [] \<and> list_all isDigit s"

definition readChar :: "Lexer \<Rightarrow> Lexer" where
  "readChar l =
     (case lx_reader l of
        [] \<Rightarrow> l\<lparr>lx_eof := True, lx_ch := CHR 0x00\<rparr>
      | c # cs \<Rightarrow>
          (if c = newline
           then l\<lparr>lx_reader := cs, lx_ch := c, lx_line := lx_line l + 1, lx_column := 0\<rparr>
           else l\<lparr>lx_reader := cs, lx_ch := c, lx_column := lx_column l + 1\<rparr>))"

definition NewLexer :: "string \<Rightarrow> Lexer" where
  "NewLexer r = readChar \<lparr>lx_reader = r, lx_line = 1, lx_column = 0, lx_ch = CHR 0x00, lx_eof = False\<rparr>"

text \<open>The number of runes that are still to be consumed, the current one included.\<close>

definition pending :: "Lexer \<Rightarrow> nat" where
  "pending l = (if lx_eof l then 0 else Suc (length (lx_reader l)))"

lemma pending_readChar: "\<not> lx_eof l \<Longrightarrow> pending (readChar l) < pending l"
  by (auto simp: pending_def readChar_def split: list.splits)

lemma pending_readChar_le: "pending (readChar l) \<le> pending l"
  by (auto simp: pending_def readChar_def split: list.splits)

function skipWhitespace :: "Lexer \<Rightarrow> Lexer" where
  "skipWhitespace l =
     (if \<not> lx_eof l \<and> isSpace (lx_ch l) \<and> lx_ch l \<noteq> newline then skipWhitespace (readChar l) else l)"
  by pat_completeness auto
termination
  by (relation "measure pending") (auto intro: pending_readChar)

declare skipWhitespace.simps [simp del]

function skipToEOL :: "Lexer \<Rightarrow> Lexer" where
  "skipToEOL l = (if \<not> lx_eof l \<and> lx_ch l \<noteq> newline then skipToEOL (readChar l) else l)"
  by pat_completeness auto
termination
  by (relation "measure pending") (auto intro: pending_readChar)

declare skipToEOL.simps [simp del]

definition skipLine :: "Lexer \<Rightarrow> Lexer" where
  "skipLine l = (let l' = skipToEOL l in if lx_ch l' = newline then readChar l' else l')"

function readWordLoop :: "Lexer \<Rightarrow> string \<Rightarrow> string \<times> Lexer" where
  "readWordLoop l sb =
     (if \<not> lx_eof l \<and> isWordChar (lx_ch l) then readWordLoop (readChar l) (sb @ [lx_ch l])
      else (sb, l))"
  by pat_completeness auto
termination
  by (relation "measure (pending \<circ> fst)") (auto intro: pending_readChar)

declare readWordLoop.simps [simp del]

definition readWord :: "Lexer \<Rightarrow> Token \<times> Lexer" where
  "readWord l =
     (case readWordLoop l [] of (value, l') \<Rightarrow>
        (\<lparr>tk_Type = (if value = ''set'' then TokenSet
                    else if isNumber value then TokenNumber else TokenWord),
          tk_Value = value, tk_Line = lx_line l, tk_Column = lx_column l\<rparr>, l'))"

text \<open>
  The loop of \<open>readString\<close>: \<open>None\<close> when the input ends right after a backslash; the
  character after a backslash is itself, but for \<open>n\<close> and \<open>t\<close>.
\<close>

definition unescape :: "rune \<Rightarrow> rune" where
  "unescape c = (if c = CHR ''n'' then newline else if c = CHR ''t'' then tab else c)"

function readStringLoop :: "Lexer \<Rightarrow> string \<Rightarrow> string option \<times> Lexer" where
  "readStringLoop l sb =
     (if \<not> lx_eof l \<and> lx_ch l \<noteq> quote then
        (if lx_ch l = backslash then
           (let l' = readChar l in
            if lx_eof l' then (None, l')
            else readStringLoop (readChar l') (sb @ [unescape (lx_ch l')]))
         else readStringLoop (readChar l) (sb @ [lx_ch l]))
      else (Some sb, l))"
  by pat_completeness auto
termination
proof (relation "measure (pending \<circ> fst)", goal_cases)
  case (2 l sb l')
  then have "pending (readChar l') \<le> pending l'" "pending l' < pending l"
    by (auto intro: pending_readChar pending_readChar_le)
  then show ?case by simp
qed (auto intro: pending_readChar)

declare readStringLoop.simps [simp del]

definition readString :: "Lexer \<Rightarrow> Token \<times> Lexer" where
  "readString l =
     (let tok = \<lparr>tk_Type = TokenString, tk_Value = [], tk_Line = lx_line l, tk_Column = lx_column l\<rparr>
      in case readStringLoop (readChar l) [] of
           (None, l') \<Rightarrow> (tok\<lparr>tk_Type := TokenError, tk_Value := ''unexpected EOF in string''\<rparr>, l')
         | (Some s, l') \<Rightarrow>
             (if lx_eof l' then (tok\<lparr>tk_Type := TokenError, tk_Value := ''unterminated string''\<rparr>, l')
              else (tok\<lparr>tk_Value := s\<rparr>, readChar l')))"

lemma pending_skipWhitespace: "pending (skipWhitespace l) \<le> pending l"
proof (induction l rule: skipWhitespace.induct)
  case (1 l)
  then show ?case
    using pending_readChar_le [of l] by (auto simp: skipWhitespace.simps [of l])
qed

lemma pending_skipToEOL: "pending (skipToEOL l) \<le> pending l"
proof (induction l rule: skipToEOL.induct)
  case (1 l)
  then show ?case
    using pending_readChar_le [of l] by (auto simp: skipToEOL.simps [of l])
qed

lemma pending_skipLine:
  assumes "\<not> lx_eof l" and "lx_ch l \<noteq> newline"
  shows "pending (skipLine l) < pending l"
proof -
  have "pending (skipToEOL (readChar l)) < pending l"
    using pending_skipToEOL [of "readChar l"] pending_readChar [OF assms(1)] by simp
  then show ?thesis
    using assms pending_readChar_le [of "skipToEOL (readChar l)"]
    by (auto simp: skipLine_def Let_def skipToEOL.simps [of l])
qed

function NextToken :: "Lexer \<Rightarrow> Token \<times> Lexer" where
  "NextToken l0 =
     (let l = skipWhitespace l0 in
      if lx_eof l then
        (\<lparr>tk_Type = TokenEOF, tk_Value = [], tk_Line = lx_line l, tk_Column = lx_column l\<rparr>, l)
      else if lx_ch l = newline then
        (\<lparr>tk_Type = TokenEOL, tk_Value = [], tk_Line = lx_line l, tk_Column = lx_column l\<rparr>, readChar l)
      else if lx_ch l = CHR ''#'' then NextToken (skipLine l)
      else if lx_ch l = quote then readString l
      else if isWordChar (lx_ch l) then readWord l
      else (\<lparr>tk_Type = TokenError, tk_Value = ''unexpected character: '' @ [lx_ch l],
             tk_Line = lx_line l, tk_Column = lx_column l\<rparr>, readChar l))"
  by pat_completeness auto
termination
proof (relation "measure pending", goal_cases)
  case (2 l0 l)
  then have "pending (skipLine l) < pending l"
    by (intro pending_skipLine) auto
  with 2(1) show ?case using pending_skipWhitespace [of l0] by simp
qed simp

declare NextToken.simps [simp del]

section \<open>The lexer ends\<close>

lemma pending_readWordLoop: "pending (snd (readWordLoop l sb)) \<le> pending l"
proof (induction l sb rule: readWordLoop.induct)
  case (1 l sb)
  then show ?case
    using pending_readChar_le [of l] by (auto simp: readWordLoop.simps [of l])
qed

lemma pending_readStringLoop: "pending (snd (readStringLoop l sb)) \<le> pending l"
proof (induction l sb rule: readStringLoop.induct)
  case (1 l sb)
  then show ?case
    using pending_readChar_le [of l] pending_readChar_le [of "readChar l"]
    by (auto simp: readStringLoop.simps [of l] Let_def intro: order_trans)
qed

lemma pending_readWord:
  assumes "\<not> lx_eof l" and "isWordChar (lx_ch l)"
  shows "pending (snd (readWord l)) < pending l"
proof -
  have "pending (snd (readWordLoop l [])) \<le> pending (readChar l)"
    using assms pending_readWordLoop [of "readChar l" "[lx_ch l]"]
    by (simp add: readWordLoop.simps [of l])
  with pending_readChar [OF assms(1)] show ?thesis
    by (simp add: readWord_def split_beta)
qed

lemma pending_readString:
  assumes "\<not> lx_eof l"
  shows "pending (snd (readString l)) < pending l"
proof -
  obtain r l' where r: "readStringLoop (readChar l) [] = (r, l')" by force
  then have "pending l' < pending l"
    using pending_readStringLoop [of "readChar l" "[]"] pending_readChar [OF assms] by simp
  with r pending_readChar_le [of l'] show ?thesis
    by (auto simp: readString_def Let_def split: option.splits)
qed

lemma readWord_not_EOF [simp]: "tk_Type (fst (readWord l)) \<noteq> TokenEOF"
  by (simp add: readWord_def split_beta)

lemma readString_not_EOF [simp]: "tk_Type (fst (readString l)) \<noteq> TokenEOF"
  by (simp add: readString_def Let_def split_beta split: option.splits prod.splits)

text \<open>Every token but the last one shortens the input.\<close>

lemma pending_NextToken:
  "tk_Type (fst (NextToken l)) \<noteq> TokenEOF \<Longrightarrow> pending (snd (NextToken l)) < pending l"
proof (induction l rule: NextToken.induct)
  case (1 l0)
  define l where "l = skipWhitespace l0"
  have le: "pending l \<le> pending l0" unfolding l_def by (rule pending_skipWhitespace)
  show ?case
  proof (cases "\<not> lx_eof l \<and> lx_ch l = CHR ''#''")
    case True
    then have "pending (skipLine l) < pending l" by (intro pending_skipLine) auto
    moreover have "NextToken l0 = NextToken (skipLine l)"
      using True by (simp add: NextToken.simps [of l0] l_def Let_def)
    ultimately show ?thesis
      using "1.IH" [OF l_def] "1.prems" True le by simp
  next
    case False
    then show ?thesis
      using "1.prems" le pending_readChar [of l] pending_readWord [of l] pending_readString [of l]
      by (auto simp: NextToken.simps [of l0] l_def [symmetric] Let_def split: if_splits)
  qed
qed

lemma pending_NextToken_le: "pending (snd (NextToken l)) \<le> pending l"
proof (induction l rule: NextToken.induct)
  case (1 l0)
  define l where "l = skipWhitespace l0"
  have le: "pending l \<le> pending l0" unfolding l_def by (rule pending_skipWhitespace)
  show ?case
  proof (cases "tk_Type (fst (NextToken l0)) = TokenEOF")
    case False
    then show ?thesis using pending_NextToken [of l0] by simp
  next
    case eof: True
    show ?thesis
    proof (cases "\<not> lx_eof l \<and> lx_ch l = CHR ''#''")
      case True
      then have "pending (skipLine l) < pending l" by (intro pending_skipLine) auto
      with True "1.IH" [OF l_def] le show ?thesis
        by (simp add: NextToken.simps [of l0] l_def [symmetric] Let_def)
    next
      case False
      then show ?thesis
        using eof le by (auto simp: NextToken.simps [of l0] l_def [symmetric] Let_def split: if_splits)
    qed
  qed
qed

text \<open>The tokens that \<open>n\<close> calls of \<open>NextToken\<close> return.\<close>

fun tokens :: "nat \<Rightarrow> Lexer \<Rightarrow> Token list" where
  "tokens 0 l = []"
| "tokens (Suc n) l = (case NextToken l of (t, l') \<Rightarrow> t # tokens n l')"

lemma tokens_reach_EOF: "pending l < n \<Longrightarrow> \<exists>t \<in> set (tokens n l). tk_Type t = TokenEOF"
proof (induction n arbitrary: l)
  case 0
  then show ?case by simp
next
  case (Suc n)
  show ?case
  proof (cases "tk_Type (fst (NextToken l)) = TokenEOF")
    case True
    then show ?thesis by (simp add: split_beta)
  next
    case False
    then have "pending (snd (NextToken l)) < n"
      using pending_NextToken [of l] Suc.prems by simp
    with Suc.IH show ?thesis by (simp add: split_beta)
  qed
qed

section \<open>From text to tokens\<close>

text \<open>
  A token without its position, the text a lexer state has still to read, and the statement
  that a lexer yields exactly the tokens of a list before the end of the input.
\<close>

type_synonym atok = "TokenType \<times> string"

definition tk :: "Token \<Rightarrow> atok" where
  "tk t = (tk_Type t, tk_Value t)"

definition remaining :: "Lexer \<Rightarrow> string" where
  "remaining l = (if lx_eof l then [] else lx_ch l # lx_reader l)"

fun lex_at :: "Lexer \<Rightarrow> atok list \<Rightarrow> bool" where
  "lex_at l [] = (tk_Type (fst (NextToken l)) = TokenEOF)"
| "lex_at l (a # as) = (tk (fst (NextToken l)) = a \<and> fst a \<noteq> TokenEOF \<and> lex_at (snd (NextToken l)) as)"

definition lexes :: "string \<Rightarrow> atok list \<Rightarrow> bool" where
  "lexes s as \<longleftrightarrow> (\<forall>l. remaining l = s \<longrightarrow> lex_at l as)"

lemma remaining_Cons:
  "remaining l = c # cs \<longleftrightarrow> \<not> lx_eof l \<and> lx_ch l = c \<and> lx_reader l = cs"
  by (auto simp: remaining_def)

lemma remaining_Nil [simp]: "remaining l = [] \<longleftrightarrow> lx_eof l"
  by (simp add: remaining_def)

lemma remaining_readChar [simp]: "\<not> lx_eof l \<Longrightarrow> remaining (readChar l) = lx_reader l"
  by (auto simp: remaining_def readChar_def split: list.splits)

lemma remaining_NewLexer [simp]: "remaining (NewLexer s) = s"
  by (simp add: NewLexer_def)

lemma pending_NewLexer [simp]: "pending (NewLexer s) = length s"
  by (auto simp: NewLexer_def pending_def readChar_def split: list.splits)

lemma tk_simps [simp]:
  "fst (tk t) = tk_Type t" "snd (tk t) = tk_Value t"
  by (simp_all add: tk_def)

definition blank :: "rune \<Rightarrow> bool" where
  "blank c \<longleftrightarrow> isSpace c \<and> c \<noteq> newline"

lemma NextToken_skip: "NextToken l = NextToken (skipWhitespace l)"
proof -
  have idem: "skipWhitespace (skipWhitespace l) = skipWhitespace l"
  proof (induction l rule: skipWhitespace.induct)
    case (1 l)
    then show ?case
      by (cases "\<not> lx_eof l \<and> isSpace (lx_ch l) \<and> lx_ch l \<noteq> newline")
        (auto simp: skipWhitespace.simps [of l])
  qed
  show ?thesis
    by (simp add: NextToken.simps [of l] NextToken.simps [of "skipWhitespace l"] idem)
qed

lemma lex_at_skip: "lex_at (skipWhitespace l) as = lex_at l as"
  using NextToken_skip [of l] by (cases as) simp_all

lemma lexes_blank [lexing]: "blank c \<Longrightarrow> lexes s as \<Longrightarrow> lexes (c # s) as"
  unfolding lexes_def
proof (intro allI impI)
  fix l
  assume c: "blank c" and s: "\<forall>l. remaining l = s \<longrightarrow> lex_at l as" and l: "remaining l = c # s"
  then have "skipWhitespace l = skipWhitespace (readChar l)"
    by (simp add: skipWhitespace.simps [of l] blank_def remaining_Cons)
  moreover have "lex_at (readChar l) as"
    using s l by (simp add: remaining_Cons)
  ultimately show "lex_at l as"
    using lex_at_skip by metis
qed

lemma skipWhitespace_id: "remaining l = c # s \<Longrightarrow> \<not> blank c \<Longrightarrow> skipWhitespace l = l"
  by (auto simp: skipWhitespace.simps [of l] blank_def remaining_Cons)

lemma lexes_Nil [lexing]: "lexes [] []"
  unfolding lexes_def
  by (auto simp: NextToken.simps Let_def skipWhitespace.simps)

lemma lexes_EOL [lexing]: "lexes s as \<Longrightarrow> lexes (newline # s) ((TokenEOL, []) # as)"
  unfolding lexes_def
  by (auto simp: remaining_Cons NextToken.simps Let_def skipWhitespace.simps tk_def)

definition wordType :: "string \<Rightarrow> TokenType" where
  "wordType w = (if w = ''set'' then TokenSet else if isNumber w then TokenNumber else TokenWord)"

lemma wordType_not_EOF [simp]: "wordType w \<noteq> TokenEOF"
  by (simp add: wordType_def)

definition boundary :: "string \<Rightarrow> bool" where
  "boundary s \<longleftrightarrow> s = [] \<or> \<not> isWordChar (hd s)"

lemma boundary_simps [simp]:
  "boundary []" "boundary (newline # s)" "boundary (CHR '' '' # s)"
  by (simp_all add: boundary_def isWordChar_def rune_class_defs)

lemma readWordLoop_word:
  "remaining l = w @ s \<Longrightarrow> list_all isWordChar w \<Longrightarrow> boundary s \<Longrightarrow>
     \<exists>l'. readWordLoop l sb = (sb @ w, l') \<and> remaining l' = s"
proof (induction w arbitrary: l sb)
  case Nil
  then have "\<not> (\<not> lx_eof l \<and> isWordChar (lx_ch l))"
    by (auto simp: boundary_def remaining_def split: if_splits)
  with Nil show ?case by (auto simp: readWordLoop.simps [of l])
next
  case (Cons c w)
  then have "remaining (readChar l) = w @ s"
    by (simp add: remaining_Cons)
  with Cons.IH [of "readChar l" "sb @ [c]"] Cons.prems show ?case
    by (auto simp: readWordLoop.simps [of l] remaining_Cons)
qed

definition isWord :: "string \<Rightarrow> bool" where
  "isWord w \<longleftrightarrow> w \<noteq> [] \<and> list_all isWordChar w"

lemma wordChar_facts:
  assumes "isWordChar c"
  shows "\<not> blank c" "c \<noteq> newline" "c \<noteq> CHR ''#''" "c \<noteq> quote"
  using assms by (auto simp: isWordChar_def blank_def rune_class_defs)

lemma lexes_word [lexing]:
  assumes w: "isWord w" and s: "boundary s" "lexes s as"
  shows "lexes (w @ s) ((wordType w, w) # as)"
  unfolding lexes_def
proof (intro allI impI)
  fix l
  assume l: "remaining l = w @ s"
  obtain c w' where cw: "w = c # w'" "isWordChar c"
    using w by (cases w) (auto simp: isWord_def)
  obtain l' where l': "readWordLoop l [] = (w, l')" "remaining l' = s"
    using readWordLoop_word [OF l, of "[]"] w s(1) by (auto simp: isWord_def)
  have "skipWhitespace l = l"
    using l cw wordChar_facts by (intro skipWhitespace_id) auto
  then have "NextToken l = readWord l"
    using l cw wordChar_facts [OF cw(2)] by (simp add: NextToken.simps [of l] Let_def remaining_Cons)
  then show "lex_at l ((wordType w, w) # as)"
    using l' s(2) by (simp add: readWord_def tk_def wordType_def lexes_def)
qed

lemma skipToEOL_comment:
  "remaining l = w @ newline # s \<Longrightarrow> newline \<notin> set w \<Longrightarrow> remaining (skipToEOL l) = newline # s"
proof (induction w arbitrary: l)
  case Nil
  then show ?case by (simp add: skipToEOL.simps [of l] remaining_Cons)
next
  case (Cons c w)
  then have "remaining (readChar l) = w @ newline # s" "\<not> lx_eof l" "lx_ch l \<noteq> newline"
    by (auto simp: remaining_Cons)
  with Cons show ?case by (simp add: skipToEOL.simps [of l])
qed

text \<open>A comment is skipped together with the end of its line.\<close>

lemma lexes_comment:
  assumes "newline \<notin> set w" and "lexes s as"
  shows "lexes (CHR ''#'' # w @ newline # s) as"
  unfolding lexes_def
proof (intro allI impI)
  fix l
  assume l: "remaining l = CHR ''#'' # w @ newline # s"
  then have skip: "skipWhitespace l = l" by (rule skipWhitespace_id) (simp add: blank_def rune_class_defs)
  have "remaining (skipToEOL l) = newline # s"
    using skipToEOL_comment [of l "CHR ''#'' # w" s] l assms(1) by simp
  then have "remaining (skipLine l) = s" by (simp add: skipLine_def remaining_Cons Let_def)
  then have "lex_at (skipLine l) as" using assms(2) by (simp add: lexes_def)
  moreover have "NextToken l = NextToken (skipLine l)"
    using l by (simp add: NextToken.simps [of l] skip remaining_Cons Let_def)
  ultimately show "lex_at l as" by (cases as) simp_all
qed

end
