(* ===== verification/Escape.thy ===== *)
theory Escape
  imports Lexer
begin

text \<open>
  Escaping of scalar values in pkg/config/serializer.go, and what the lexer makes of an escaped
  value. \<open>EscapeValue\<close> quotes the empty string and every string with a character that is not
  part of a word; the lexer then returns the value itself, as a string token. A value left
  unquoted comes back with the type of the word it is, which is a number token for a string of
  digits and the keyword token for \<open>set\<close>.
\<close>

definition needsQuotedValue :: "string \<Rightarrow> bool" where
  "needsQuotedValue s \<longleftrightarrow>
     list_ex (\<lambda>c. isSpace c \<or> c = quote \<or> c = CHR 0x27 \<or> c = backslash \<or> \<not> isWordChar c) s"

definition EscapeValue :: "string \<Rightarrow> string" where
  "EscapeValue s =
     (if s = [] \<or> needsQuotedValue s then
        (let s = ReplaceAll backslash [backslash, backslash] s;
             s = ReplaceAll newline [backslash, CHR ''n''] s;
             s = ReplaceAll tab [backslash, CHR ''t''] s;
             s = ReplaceAll quote [backslash, quote] s
         in [quote] @ s @ [quote])
      else s)"

text \<open>The four replacements, character by character.\<close>

definition escapeRune :: "rune \<Rightarrow> string" where
  "escapeRune c =
     (if c = backslash then [backslash, backslash] else if c = newline then [backslash, CHR ''n'']
      else if c = tab then [backslash, CHR ''t''] else if c = quote then [backslash, quote] else [c])"

lemma ReplaceAll_append [simp]: "ReplaceAll old new (s @ t) = ReplaceAll old new s @ ReplaceAll old new t"
  by (simp add: ReplaceAll_def)

lemma ReplaceAll_Nil [simp]: "ReplaceAll old new [] = []"
  by (simp add: ReplaceAll_def)

lemma ReplaceAll_Cons [simp]:
  "ReplaceAll old new (c # s) = (if c = old then new else [c]) @ ReplaceAll old new s"
  by (simp add: ReplaceAll_def)

lemma replacements:
  "ReplaceAll quote [backslash, quote] (ReplaceAll tab [backslash, CHR ''t'']
     (ReplaceAll newline [backslash, CHR ''n''] (ReplaceAll backslash [backslash, backslash] s))) =
   concat (map escapeRune s)"
  by (induction s) (simp_all add: escapeRune_def)

definition quoted :: "string \<Rightarrow> string" where
  "quoted s = quote # concat (map escapeRune s) @ [quote]"

lemma EscapeValue_eq: "EscapeValue s = (if s = [] \<or> needsQuotedValue s then quoted s else s)"
  by (simp add: EscapeValue_def Let_def replacements quoted_def)

lemma readStringLoop_escaped:
  "remaining l = concat (map escapeRune v) @ quote # s \<Longrightarrow>
     \<exists>l'. readStringLoop l sb = (Some (sb @ v), l') \<and> remaining l' = quote # s"
proof (induction v arbitrary: l sb)
  case Nil
  then show ?case by (simp add: readStringLoop.simps [of l] remaining_Cons)
next
  case (Cons c v)
  show ?case
  proof (cases "escapeRune c = [c]")
    case True
    with Cons.prems have l: "remaining l = c # concat (map escapeRune v) @ quote # s" by simp
    from True have "c \<noteq> quote" "c \<noteq> backslash" by (auto simp: escapeRune_def split: if_splits)
    moreover obtain l' where "readStringLoop (readChar l) (sb @ [c]) = (Some ((sb @ [c]) @ v), l')"
      "remaining l' = quote # s"
      using Cons.IH [of "readChar l" "sb @ [c]"] l by (auto simp: remaining_Cons)
    ultimately show ?thesis
      using l by (simp add: readStringLoop.simps [of l] remaining_Cons)
  next
    case False
    then obtain d where d: "escapeRune c = [backslash, d]" "unescape d = c"
      by (auto simp: escapeRune_def unescape_def split: if_splits)
    with Cons.prems have l: "remaining l = backslash # d # concat (map escapeRune v) @ quote # s"
      by simp
    then have l1: "remaining (readChar l) = d # concat (map escapeRune v) @ quote # s"
      by (simp add: remaining_Cons)
    moreover obtain l' where
      "readStringLoop (readChar (readChar l)) (sb @ [c]) = (Some ((sb @ [c]) @ v), l')"
      "remaining l' = quote # s"
      using Cons.IH [of "readChar (readChar l)" "sb @ [c]"] l1 by (auto simp: remaining_Cons)
    ultimately show ?thesis
      using l d(2) by (simp add: readStringLoop.simps [of l] remaining_Cons)
  qed
qed

lemma lexes_quoted [lexing]:
  assumes "lexes s as"
  shows "lexes (quoted v @ s) ((TokenString, v) # as)"
  unfolding lexes_def
proof (intro allI impI)
  fix l
  assume "remaining l = quoted v @ s"
  then have l: "remaining l = quote # concat (map escapeRune v) @ quote # s"
    by (simp add: quoted_def)
  then have "remaining (readChar l) = concat (map escapeRune v) @ quote # s"
    by (simp add: remaining_Cons)
  then obtain l' where l': "readStringLoop (readChar l) [] = (Some v, l')" "remaining l' = quote # s"
    using readStringLoop_escaped [of "readChar l" v s "[]"] by auto
  have "skipWhitespace l = l"
    using l by (intro skipWhitespace_id) (auto simp: blank_def rune_class_defs)
  then have "NextToken l = readString l"
    using l by (simp add: NextToken.simps [of l] Let_def remaining_Cons)
  then show "lex_at l ((TokenString, v) # as)"
    using l' assms by (simp add: readString_def tk_def lexes_def remaining_Cons)
qed

lemma not_needsQuoted_word: "\<not> needsQuotedValue v \<Longrightarrow> list_all isWordChar v"
  by (induction v) (auto simp: needsQuotedValue_def)

definition escType :: "string \<Rightarrow> TokenType" where
  "escType v = (if v = [] \<or> needsQuotedValue v then TokenString else wordType v)"

lemma escType_not_EOF [simp]: "escType v \<noteq> TokenEOF"
  by (simp add: escType_def)

lemma lexes_EscapeValue [lexing]:
  assumes "boundary s" and "lexes s as"
  shows "lexes (EscapeValue v @ s) ((escType v, v) # as)"
proof (cases "v = [] \<or> needsQuotedValue v")
  case True
  then show ?thesis using lexes_quoted [OF assms(2)] by (simp add: EscapeValue_eq escType_def)
next
  case False
  then have "isWord v" by (simp add: isWord_def not_needsQuoted_word)
  with False show ?thesis
    using lexes_word [OF _ assms] by (simp add: EscapeValue_eq escType_def)
qed

text \<open>A value that the parser accepts where it wants a word or a string.\<close>

definition scalar :: "string \<Rightarrow> bool" where
  "scalar v \<longleftrightarrow> v \<noteq> ''set'' \<and> \<not> isNumber v"

lemma isDigit_wordChar: "isDigit c \<Longrightarrow> isWordChar c"
  by (simp add: isWordChar_def)

lemma escType_scalar: "scalar v \<longleftrightarrow> escType v = TokenString \<or> escType v = TokenWord"
proof (cases "v = [] \<or> needsQuotedValue v")
  case True
  moreover have "\<not> isNumber v"
  proof
    assume n: "isNumber v"
    then have "\<not> needsQuotedValue v"
      by (auto simp: isNumber_def needsQuotedValue_def list_ex_iff list_all_iff isDigit_wordChar)
        (auto simp: rune_class_defs)
    with True n show False by (simp add: isNumber_def)
  qed
  moreover have "\<not> needsQuotedValue ''set''"
    by (simp add: needsQuotedValue_def isWordChar_def rune_class_defs)
  ultimately show ?thesis by (auto simp: scalar_def escType_def)
next
  case False
  then show ?thesis by (auto simp: scalar_def escType_def wordType_def)
qed

lemma isNumber_token: "isNumber v \<Longrightarrow> escType v = TokenNumber"
  using escType_scalar [of v] by (auto simp: scalar_def escType_def wordType_def isNumber_def rune_class_defs split: if_splits)

end
