(* ===== verification/Password.thy ===== *)
theory Password
  imports GoLib
begin

text \<open>
  Stored passwords: pkg/auth/password.go. The key derivation \<open>argon2.IDKey\<close> of
  golang.org/x/crypto and the random salt are parameters: what the code relies on is that the
  key has the requested length and consists of bytes. Base64 is \<open>base64.RawStdEncoding\<close> of the
  standard library: no padding, line breaks in the input are skipped.
\<close>

section \<open>Base64 without padding\<close>

definition b64char :: "nat \<Rightarrow> rune" where
  "b64char n = (if n < 26 then char_of (65 + n) else if n < 52 then char_of (71 + n)
     else if n < 62 then char_of (n - 4) else if n = 62 then CHR ''+'' else CHR ''/'')"

definition b64val :: "rune \<Rightarrow> nat option" where
  "b64val c =
     (let v = runeval c in
      if 65 \<le> v \<and> v \<le> 90 then Some (v - 65) else if 97 \<le> v \<and> v \<le> 122 then Some (v - 71)
      else if 48 \<le> v \<and> v \<le> 57 then Some (v + 4) else if c = CHR ''+'' then Some 62
      else if c = CHR ''/'' then Some 63 else None)"

fun sextets :: "nat list \<Rightarrow> nat list" where
  "sextets [] = []"
| "sextets [a] = [a div 4, (a mod 4) * 16]"
| "sextets [a, b] = [a div 4, (a mod 4) * 16 + b div 16, (b mod 16) * 4]"
| "sextets (a # b # c # r) =
     a div 4 # ((a mod 4) * 16 + b div 16) # ((b mod 16) * 4 + c div 64) # c mod 64 # sextets r"

fun octets :: "nat list \<Rightarrow> nat list option" where
  "octets [] = Some []"
| "octets [x] = None"
| "octets [x, y] = Some [x * 4 + y div 16]"
| "octets [x, y, z] = Some [x * 4 + y div 16, (y mod 16) * 16 + z div 4]"
| "octets (x # y # z # w # r) =
     map_option (\<lambda>t. (x * 4 + y div 16) # ((y mod 16) * 16 + z div 4) # ((z mod 4) * 64 + w) # t) (octets r)"

definition EncodeToString :: "nat list \<Rightarrow> string" where
  "EncodeToString bs = map b64char (sextets bs)"

definition DecodeString :: "string \<Rightarrow> nat list option" where
  "DecodeString s =
     (let cs = filter (\<lambda>c. c \<noteq> CHR 0x0D \<and> c \<noteq> newline) s in
      if list_all (\<lambda>c. b64val c \<noteq> None) cs then octets (map (\<lambda>c. the (b64val c)) cs) else None)"

abbreviation bytes :: "nat list \<Rightarrow> bool" where
  "bytes bs \<equiv> list_all (\<lambda>b. b < 256) bs"

lemma sextets_small: "bytes bs \<Longrightarrow> list_all (\<lambda>x. x < 64) (sextets bs)"
  by (induction bs rule: sextets.induct) auto

lemma octets_sextets: "bytes bs \<Longrightarrow> octets (sextets bs) = Some bs"
  by (induction bs rule: sextets.induct) auto

lemma b64val_b64char: "n < 64 \<Longrightarrow> b64val (b64char n) = Some n"
  by (auto simp: b64val_def b64char_def runeval_def Let_def)

lemma b64char_text: "n < 64 \<Longrightarrow> b64char n \<noteq> CHR 0x0D \<and> b64char n \<noteq> newline \<and> b64char n \<noteq> CHR ''$''"
proof -
  assume n: "n < 64"
  then have "b64val (b64char n) \<noteq> None" by (simp add: b64val_b64char)
  then show ?thesis by (auto simp: b64val_def runeval_def Let_def)
qed

lemma Decode_Encode: "bytes bs \<Longrightarrow> DecodeString (EncodeToString bs) = Some bs"
proof -
  assume b: "bytes bs"
  have small: "\<forall>x \<in> set (sextets bs). x < 64"
    using sextets_small [OF b] by (simp add: list_all_iff)
  have f: "filter (\<lambda>c. c \<noteq> CHR 0x0D \<and> c \<noteq> newline) (EncodeToString bs) = EncodeToString bs"
    using small b64char_text by (auto simp: EncodeToString_def filter_id_conv)
  have m: "map (\<lambda>c. the (b64val c)) (EncodeToString bs) = sextets bs"
    using small by (auto simp: EncodeToString_def b64val_b64char intro!: map_idI)
  have g: "list_all (\<lambda>c. b64val c \<noteq> None) (EncodeToString bs)"
    using small by (auto simp: EncodeToString_def list_all_iff b64val_b64char)
  show ?thesis
    unfolding DecodeString_def Let_def f m using g octets_sextets [OF b] by simp
qed

lemma Encode_no_dollar: "bytes bs \<Longrightarrow> CHR ''$'' \<notin> set (EncodeToString bs)"
  using sextets_small [of bs] b64char_text by (force simp: EncodeToString_def list_all_iff)

section \<open>Argon2id hashes (password.go)\<close>

definition argon2Time :: nat where "argon2Time = 3"
definition argon2Memory :: nat where "argon2Memory = 64 * 1024"
definition argon2Threads :: nat where "argon2Threads = 4"
definition argon2KeyLength :: nat where "argon2KeyLength = 32"
definition argon2SaltLength :: nat where "argon2SaltLength = 16"

lemmas argon2_consts = argon2Time_def argon2Memory_def argon2Threads_def argon2KeyLength_def
  argon2SaltLength_def

record encodedPasswordHash =
  eh_memory :: nat
  eh_time :: nat
  eh_threads :: nat
  eh_salt :: "nat list"
  eh_hash :: "nat list"

datatype hashError =
    SaltGeneration | HashFormat | Algorithm string | Version string | ParamCount
  | ParamMissing string | ParamInvalid string | MemoryRange | TimeRange | ParallelismRange
  | SaltEncoding | SaltLength nat | HashEncoding | HashLength nat | UnsupportedParams

text \<open>\<open>argon2.IDKey(password, salt, time, memory, threads, keyLen)\<close>\<close>

type_synonym idkey = "string \<Rightarrow> nat list \<Rightarrow> nat \<Rightarrow> nat \<Rightarrow> nat \<Rightarrow> nat \<Rightarrow> nat list"

definition HashPassword :: "idkey \<Rightarrow> nat list option \<Rightarrow> string \<Rightarrow> hashError + string" where
  "HashPassword IDKey rand password =
     (case rand of
        None \<Rightarrow> Inl SaltGeneration
      | Some salt \<Rightarrow>
          (let hash = IDKey password salt argon2Time argon2Memory argon2Threads argon2KeyLength in
           Inr (''$argon2id$v=19$m='' @ formatNat argon2Memory @ '',t='' @ formatNat argon2Time @
                '',p='' @ formatNat argon2Threads @ ''$'' @ EncodeToString salt @ ''$'' @ EncodeToString hash)))"

definition parseArgon2Param :: "string \<Rightarrow> string \<Rightarrow> nat \<Rightarrow> hashError + nat" where
  "parseArgon2Param field name bitSize =
     (let key = takeWhile (\<lambda>c. c \<noteq> CHR ''='') field; rest = dropWhile (\<lambda>c. c \<noteq> CHR ''='') field;
          val = tl rest in
      if rest = [] \<or> key \<noteq> name \<or> val = [] then Inl (ParamMissing name)
      else case ParseUint val bitSize of None \<Rightarrow> Inl (ParamInvalid name) | Some n \<Rightarrow> Inr n)"

definition parseArgon2Params :: "string \<Rightarrow> hashError + nat \<times> nat \<times> nat" where
  "parseArgon2Params encoded =
     (case SplitOn (CHR '','') encoded of
        [f0, f1, f2] \<Rightarrow>
          (case parseArgon2Param f0 ''m'' 32 of Inl e \<Rightarrow> Inl e | Inr memory \<Rightarrow>
           case parseArgon2Param f1 ''t'' 32 of Inl e \<Rightarrow> Inl e | Inr timeCost \<Rightarrow>
           case parseArgon2Param f2 ''p'' 8 of Inl e \<Rightarrow> Inl e | Inr threads \<Rightarrow>
             if memory = 0 \<or> memory > argon2Memory then Inl MemoryRange
             else if timeCost = 0 \<or> timeCost > argon2Time then Inl TimeRange
             else if threads = 0 \<or> threads > argon2Threads then Inl ParallelismRange
             else Inr (memory, timeCost, threads))
      | _ \<Rightarrow> Inl ParamCount)"

definition parseEncodedPasswordHash :: "string \<Rightarrow> hashError + encodedPasswordHash" where
  "parseEncodedPasswordHash encodedHash =
     (case SplitOn (CHR ''$'') encodedHash of
        [p0, p1, p2, p3, p4, p5] \<Rightarrow>
          (if p0 \<noteq> [] then Inl HashFormat
           else if p1 \<noteq> ''argon2id'' then Inl (Algorithm p1)
           else if p2 \<noteq> ''v=19'' then Inl (Version p2)
           else case parseArgon2Params p3 of Inl e \<Rightarrow> Inl e | Inr (memory, timeCost, threads) \<Rightarrow>
             case DecodeString p4 of None \<Rightarrow> Inl SaltEncoding | Some salt \<Rightarrow>
               if length salt \<noteq> argon2SaltLength then Inl (SaltLength (length salt))
               else case DecodeString p5 of None \<Rightarrow> Inl HashEncoding | Some hash \<Rightarrow>
                 if length hash \<noteq> argon2KeyLength then Inl (HashLength (length hash))
                 else Inr \<lparr>eh_memory = memory, eh_time = timeCost, eh_threads = threads,
                           eh_salt = salt, eh_hash = hash\<rparr>)
      | _ \<Rightarrow> Inl HashFormat)"

definition ValidatePasswordHash :: "string \<Rightarrow> hashError + unit" where
  "ValidatePasswordHash encodedHash =
     (case parseEncodedPasswordHash encodedHash of Inl e \<Rightarrow> Inl e | Inr h \<Rightarrow>
        if eh_memory h \<noteq> argon2Memory \<or> eh_time h \<noteq> argon2Time \<or> eh_threads h \<noteq> argon2Threads
        then Inl UnsupportedParams else Inr ())"

definition VerifyPassword :: "idkey \<Rightarrow> string \<Rightarrow> string \<Rightarrow> hashError + bool" where
  "VerifyPassword IDKey password encodedHash =
     (case parseEncodedPasswordHash encodedHash of Inl e \<Rightarrow> Inl e | Inr h \<Rightarrow>
        Inr (eh_hash h = IDKey password (eh_salt h) (eh_time h) (eh_memory h) (eh_threads h)
               (length (eh_hash h))))"

text \<open>What \<open>HashPassword\<close> writes, \<open>parseEncodedPasswordHash\<close> reads back.\<close>

lemma param_text: "formatNat argon2Memory = ''65536''" "formatNat argon2Time = ''3''"
  "formatNat argon2Threads = ''4''"
  by (simp_all add: argon2_consts formatNat.simps digitChar_def)

lemma params_ok: "parseArgon2Params ''m=65536,t=3,p=4'' = Inr (65536, 3, 4)"
  by (simp add: parseArgon2Params_def parseArgon2Param_def ParseUint_def digitsVal_def digitVal_def
      isDigit_def runeval_def argon2_consts)

lemma split_hash:
  assumes "bytes salt" and "bytes hash"
  shows "SplitOn (CHR ''$'') (''$argon2id$v=19$m=65536,t=3,p=4$'' @ EncodeToString salt @ ''$'' @
           EncodeToString hash) =
         [[], ''argon2id'', ''v=19'', ''m=65536,t=3,p=4'', EncodeToString salt, EncodeToString hash]"
  using SplitOn_append_sep [OF Encode_no_dollar [OF assms(1)], of "EncodeToString hash"]
    SplitOn_no_sep [OF Encode_no_dollar [OF assms(2)]] by simp

lemma parse_HashPassword:
  assumes salt: "bytes salt" "length salt = argon2SaltLength"
    and key: "bytes (IDKey pw salt argon2Time argon2Memory argon2Threads argon2KeyLength)"
      "length (IDKey pw salt argon2Time argon2Memory argon2Threads argon2KeyLength) = argon2KeyLength"
    and hash: "HashPassword IDKey (Some salt) pw = Inr h"
  shows "parseEncodedPasswordHash h =
    Inr \<lparr>eh_memory = argon2Memory, eh_time = argon2Time, eh_threads = argon2Threads, eh_salt = salt,
         eh_hash = IDKey pw salt argon2Time argon2Memory argon2Threads argon2KeyLength\<rparr>"
proof -
  let ?k = "IDKey pw salt argon2Time argon2Memory argon2Threads argon2KeyLength"
  have h: "h = ''$argon2id$v=19$m=65536,t=3,p=4$'' @ EncodeToString salt @ ''$'' @ EncodeToString ?k"
    using hash by (simp add: HashPassword_def param_text)
  show ?thesis
    using salt key unfolding h parseEncodedPasswordHash_def split_hash [OF salt(1) key(1)]
    by (simp add: params_ok Decode_Encode) (simp add: argon2_consts)
qed

end
