(* ===== verification/Secrets.thy ===== *)
theory Secrets
  imports Escape Password
begin

text \<open>
  Protection of passwords in configuration text: pkg/config/security.go, and the recognition of
  redacted lines in pkg/config/serializer.go. Hashing is a parameter \<open>hash\<close> that stands for one
  call of \<open>auth.HashPassword\<close>, whose salt is random.
\<close>

datatype secretError =
    MustUseArgon2id | InvalidPasswordHash hashError | HashPasswordFailed hashError
  | ExpectedUsername | ExpectedUserParameter | ExpectedPasswordValue
  | InvalidQuotedPassword string | ExpectedQuotedPassword | TrailingContent | WhitespaceUnquoted

type_synonym hasher = "string \<Rightarrow> hashError + string"

definition encodedPasswordHashPrefix :: string where
  "encodedPasswordHashPrefix = ''$argon2id$''"

definition ValidateStoredHash :: "string \<Rightarrow> secretError + unit" where
  "ValidateStoredHash passwordHash =
     (if \<not> HasPrefix passwordHash encodedPasswordHashPrefix then Inl MustUseArgon2id
      else case ValidatePasswordHash passwordHash of
             Inl e \<Rightarrow> Inl (InvalidPasswordHash e)
           | Inr _ \<Rightarrow> Inr ())"

definition IsEncodedPasswordHash :: "string \<Rightarrow> bool" where
  "IsEncodedPasswordHash password \<longleftrightarrow> ValidateStoredHash password = Inr ()"

definition NormalizePasswordForStorage :: "hasher \<Rightarrow> string \<Rightarrow> secretError + string" where
  "NormalizePasswordForStorage hash password =
     (if password = [] then Inr password
      else if HasPrefix password encodedPasswordHashPrefix then
        (case ValidateStoredHash password of Inl e \<Rightarrow> Inl e | Inr _ \<Rightarrow> Inr password)
      else case hash password of Inl e \<Rightarrow> Inl (HashPasswordFailed e) | Inr h \<Rightarrow> Inr h)"

text \<open>\<open>cutConfigField\<close>: the first field of a text and what follows it.\<close>

definition cutConfigField :: "string \<Rightarrow> (string \<times> string) option" where
  "cutConfigField s =
     (let t = TrimLeftSpace s in
      if t = [] then None
      else Some (takeWhile (\<lambda>c. \<not> isSpace c) t, dropWhile (\<lambda>c. \<not> isSpace c) t))"

definition parseConfigScalar :: "string \<Rightarrow> secretError + string" where
  "parseConfigScalar s =
     (if HasPrefix s [quote] then
        (case NextToken (NewLexer s) of (t, l) \<Rightarrow>
           if tk_Type t = TokenError then Inl (InvalidQuotedPassword (tk_Value t))
           else if tk_Type t \<noteq> TokenString then Inl ExpectedQuotedPassword
           else if tk_Type (fst (NextToken l)) \<noteq> TokenEOF then Inl TrailingContent
           else Inr (tk_Value t))
      else if list_ex isSpace s then Inl WhitespaceUnquoted
      else Inr s)"

text \<open>
  \<open>parseSecurityPasswordSetCommand\<close>: \<open>Inr None\<close> when the line is no password command.
\<close>

definition parseSecurityPasswordSetCommand :: "string \<Rightarrow> secretError + (string \<times> string) option" where
  "parseSecurityPasswordSetCommand line =
     (let prefix = ''set security users user '' in
      if \<not> HasPrefix line prefix then Inr None
      else case cutConfigField (TrimLeftSpace (TrimPrefix line prefix)) of
        None \<Rightarrow> Inl ExpectedUsername
      | Some (username, rest) \<Rightarrow>
          (case cutConfigField (TrimLeftSpace rest) of
             None \<Rightarrow> Inl ExpectedUserParameter
           | Some (param, rest') \<Rightarrow>
               (if param \<noteq> ''password'' then Inr None
                else let valueText = TrimSpace rest' in
                  if valueText = [] then Inl ExpectedPasswordValue
                  else case parseConfigScalar valueText of
                         Inl e \<Rightarrow> Inl e
                       | Inr password \<Rightarrow> Inr (Some (username, password)))))"

definition ProtectSecretsInSetCommand :: "hasher \<Rightarrow> string \<Rightarrow> secretError + string" where
  "ProtectSecretsInSetCommand hash line =
     (let trimmed = TrimSpace line in
      if trimmed = [] \<or> HasPrefix trimmed ''#'' then Inr line
      else case parseSecurityPasswordSetCommand trimmed of
        Inl e \<Rightarrow> Inl e
      | Inr None \<Rightarrow> Inr line
      | Inr (Some (username, password)) \<Rightarrow>
          (case NormalizePasswordForStorage hash password of
             Inl e \<Rightarrow> Inl e
           | Inr stored \<Rightarrow>
               Inr (''set security users user '' @ username @ '' password '' @ EscapeValue stored)))"

fun protectLines :: "hasher \<Rightarrow> string list \<Rightarrow> secretError + string list" where
  "protectLines hash [] = Inr []"
| "protectLines hash (l # ls) =
     (case ProtectSecretsInSetCommand hash l of
        Inl e \<Rightarrow> Inl e
      | Inr l' \<Rightarrow> (case protectLines hash ls of Inl e \<Rightarrow> Inl e | Inr ls' \<Rightarrow> Inr (l' # ls')))"

definition ProtectSecretsInSetCommands :: "hasher \<Rightarrow> string \<Rightarrow> secretError + string" where
  "ProtectSecretsInSetCommands hash s =
     (if s = [] then Inr s
      else let lines = SplitOn newline s in
        case protectLines hash lines of
          Inl e \<Rightarrow> Inl e
        | Inr lines' \<Rightarrow> (if lines' = lines then Inr s else Inr (JoinWith [newline] lines')))"

section \<open>Redaction marker (serializer.go)\<close>

definition redactedSecretValue :: string where
  "redactedSecretValue = ''<redacted>''"

text \<open>\<open>strings.Fields\<close>: the maximal runs of characters that are not space.\<close>

function Fields :: "string \<Rightarrow> string list" where
  "Fields s =
     (let t = dropWhile isSpace s in
      if t = [] then []
      else takeWhile (\<lambda>c. \<not> isSpace c) t # Fields (dropWhile (\<lambda>c. \<not> isSpace c) t))"
  by pat_completeness auto
termination
proof (relation "measure length", goal_cases)
  case (2 s t)
  then have "\<not> isSpace (hd t)"
    using hd_dropWhile by metis
  moreover obtain c u where "t = c # u" using 2(2) by (cases t) auto
  moreover have "length t \<le> length s" using 2(1) by (simp add: length_dropWhile_le)
  moreover have "length (dropWhile (\<lambda>c. \<not> isSpace c) u) \<le> length u" by (rule length_dropWhile_le)
  ultimately show ?case by simp
qed simp

declare Fields.simps [simp del]

text \<open>\<open>strings.Trim(token, quotes)\<close>\<close>

definition trimQuotes :: "string \<Rightarrow> string" where
  "trimQuotes s =
     (let q = (\<lambda>c. c = quote \<or> c = CHR 0x27) in rev (dropWhile q (rev (dropWhile q s))))"

definition isRedactedSecretToken :: "string \<Rightarrow> bool" where
  "isRedactedSecretToken token \<longleftrightarrow> trimQuotes token = redactedSecretValue"

definition IsRedactedSecretLine :: "string \<Rightarrow> bool" where
  "IsRedactedSecretLine line =
     (let s = (if line \<noteq> [] \<and> last line = CHR 0x0D then butlast line else line);
          fields = Fields (TrimSpace s) in
      if fields = [] \<or> \<not> isRedactedSecretToken (last fields) then False
      else if length fields = 6 \<and> take 5 fields = [''set'', ''system'', ''services'', ''snmp'', ''community''] then True
      else if length fields = 7 \<and> take 4 fields = [''set'', ''security'', ''users'', ''user''] \<and> fields ! 5 = ''password''
      then True else False)"

definition ContainsRedactedSecretValue :: "string \<Rightarrow> bool" where
  "ContainsRedactedSecretValue s = list_ex IsRedactedSecretLine (SplitOn newline s)"

section \<open>Facts\<close>

lemma Normalize_stored:
  "ValidateStoredHash h = Inr () \<Longrightarrow> NormalizePasswordForStorage hash h = Inr h"
  by (auto simp: NormalizePasswordForStorage_def ValidateStoredHash_def split: if_splits sum.splits)

lemma Normalize_cases:
  assumes "NormalizePasswordForStorage hash pw = Inr s" and "pw \<noteq> []"
  shows "ValidateStoredHash s = Inr () \<and> s = pw \<or> hash pw = Inr s"
  using assms by (auto simp: NormalizePasswordForStorage_def split: if_splits sum.splits)

end
