(* ===== verification/ParserBase.thy ===== *)
theory ParserBase
  imports ConfigTypes Secrets
begin

text \<open>
  The token buffer of pkg/config/parser.go: the lexer, the current token and one token of
  look-ahead. A parser function takes the object it fills in and the parser, and returns the
  updated object and parser, or the error that stops the parse; what the Go code had written
  into the tree before an error is dropped with the tree. The measure \<open>todo\<close> counts the tokens
  ahead: \<open>nextToken\<close> lowers it unless the input has ended, which is why the parser's loops end.
  The relation \<open>at\<close> says which tokens a parser will deliver.
\<close>

record Parser =
  pr_lexer :: Lexer
  pr_current :: Token
  pr_peek :: Token

datatype ParseError =
    ParseErr nat nat string   \<comment> \<open>Parse error at line, column: message\<close>
  | LexerErr nat nat string   \<comment> \<open>Lexer error at line, column: message\<close>
  | SecretErr nat nat secretError  \<comment> \<open>Parse error at line, column: failed to protect password value, and why\<close>

type_synonym 'a presult = "ParseError + 'a \<times> Parser"

definition zeroToken :: Token where
  "zeroToken = \<lparr>tk_Type = TokenEOF, tk_Value = [], tk_Line = 0, tk_Column = 0\<rparr>"

definition nextToken :: "Parser \<Rightarrow> Parser" where
  "nextToken p =
     (case NextToken (pr_lexer p) of
        (t, l) \<Rightarrow> \<lparr>pr_lexer = l, pr_current = pr_peek p, pr_peek = t\<rparr>)"

definition NewParser :: "string \<Rightarrow> Parser" where
  "NewParser r =
     nextToken (nextToken \<lparr>pr_lexer = NewLexer r, pr_current = zeroToken, pr_peek = zeroToken\<rparr>)"

abbreviation cty :: "Parser \<Rightarrow> TokenType" where "cty p \<equiv> tk_Type (pr_current p)"
abbreviation cval :: "Parser \<Rightarrow> string" where "cval p \<equiv> tk_Value (pr_current p)"

definition perror :: "Parser \<Rightarrow> string \<Rightarrow> 'a presult" where
  "perror p msg = Inl (ParseErr (tk_Line (pr_current p)) (tk_Column (pr_current p)) msg)"

definition lexerError :: "Parser \<Rightarrow> string \<Rightarrow> 'a presult" where
  "lexerError p msg = Inl (LexerErr (tk_Line (pr_current p)) (tk_Column (pr_current p)) msg)"

section \<open>Progress\<close>

definition todo :: "Parser \<Rightarrow> nat" where
  "todo p = (if cty p = TokenEOF then 0 else 1) +
     (if tk_Type (pr_peek p) = TokenEOF then 0 else 1) + pending (pr_lexer p)"

lemma nextToken_simps [simp]:
  "pr_current (nextToken p) = pr_peek p"
  "pr_peek (nextToken p) = fst (NextToken (pr_lexer p))"
  "pr_lexer (nextToken p) = snd (NextToken (pr_lexer p))"
  by (simp_all add: nextToken_def split_beta)

lemma todo_nextToken: "cty p \<noteq> TokenEOF \<Longrightarrow> todo (nextToken p) < todo p"
  using pending_NextToken [of "pr_lexer p"] pending_NextToken_le [of "pr_lexer p"]
  by (auto simp: todo_def)

lemma todo_nextToken_le: "todo (nextToken p) \<le> todo p"
  using pending_NextToken [of "pr_lexer p"] pending_NextToken_le [of "pr_lexer p"]
  by (auto simp: todo_def)

lemma todo_le [advance]: "todo q \<le> todo p \<Longrightarrow> todo (nextToken q) \<le> todo p"
  using todo_nextToken_le [of q] by simp

lemma todo_less: "todo q < todo p \<Longrightarrow> todo (nextToken q) < todo p"
  using todo_nextToken_le [of q] by simp

lemma perror_not_Inr [simp]: "perror p msg \<noteq> Inr r" "lexerError p msg \<noteq> Inr r"
  by (simp_all add: perror_def lexerError_def)

declare nextToken_simps [simp del]

section \<open>The tokens a parser delivers\<close>

primrec at :: "Parser \<Rightarrow> atok list \<Rightarrow> bool" where
  "at p [] = (cty p = TokenEOF)"
| "at p (a # as) = (cty p = fst a \<and> cval p = snd a \<and> fst a \<noteq> TokenEOF \<and> at (nextToken p) as)"

lemma at_lexer:
  assumes "lex_at l as" and "pr_current p = fst (NextToken l)"
    and "pr_peek p = fst (NextToken (snd (NextToken l)))"
    and "pr_lexer p = snd (NextToken (snd (NextToken l)))"
  shows "at p as"
  using assms
proof (induction as arbitrary: l p)
  case Nil
  then show ?case by simp
next
  case (Cons a as)
  then have "at (nextToken p) as"
    by (intro Cons.IH [of "snd (NextToken l)"]) (simp_all add: nextToken_simps)
  with Cons.prems show ?case by (auto simp: tk_def)
qed

lemma at_NewParser: "lexes s as \<Longrightarrow> at (NewParser s) as"
  unfolding lexes_def NewParser_def
  by (rule at_lexer [of "NewLexer s"]) (simp_all add: nextToken_simps)

section \<open>Scalars\<close>

definition parseBool :: "Parser \<Rightarrow> bool presult" where
  "parseBool p =
     (if cty p \<noteq> TokenWord then perror p ''expected boolean value''
      else if cval p \<in> {''true'', ''yes'', ''on'', ''enable'', ''enabled''} then Inr (True, nextToken p)
      else if cval p \<in> {''false'', ''no'', ''off'', ''disable'', ''disabled''} then Inr (False, nextToken p)
      else perror p (''invalid boolean value: '' @ cval p))"

lemma parseBool_advance [advance]: "parseBool q = Inr (b, p') \<Longrightarrow> todo q \<le> todo p \<Longrightarrow> todo p' \<le> todo p"
  by (auto simp: parseBool_def split: if_splits intro: todo_le)

end
