(* ===== verification/ParserSystem.thy ===== *)
theory ParserSystem
  imports ParserBase
begin

text \<open>
  The statements of pkg/config/parser.go below the keywords \<open>system\<close>, \<open>chassis\<close>,
  \<open>interfaces\<close>, \<open>routing-options\<close> and \<open>routing-instances\<close>, one definition per Go function
  with its branches in source order, and for each the fact that it only consumes tokens.
\<close>

section \<open>System services\<close>

definition parseServiceEnabled :: "(bool \<Rightarrow> 'a) \<Rightarrow> Parser \<Rightarrow> 'a presult" where
  "parseServiceEnabled setv p =
     (case parseBool p of Inl e \<Rightarrow> Inl e | Inr (enabled, p') \<Rightarrow> Inr (setv enabled, p'))"

definition parseServiceListenAddress :: "string \<Rightarrow> (string \<Rightarrow> 'a) \<Rightarrow> Parser \<Rightarrow> 'a presult" where
  "parseServiceListenAddress serviceName setv p =
     (if cty p \<noteq> TokenWord \<and> cty p \<noteq> TokenString
      then perror p (''expected '' @ serviceName @ '' listen address'')
      else Inr (setv (cval p), nextToken p))"

definition parseServicePort :: "string \<Rightarrow> (int \<Rightarrow> 'a) \<Rightarrow> Parser \<Rightarrow> 'a presult" where
  "parseServicePort serviceName setv p =
     (if cty p \<noteq> TokenNumber then perror p (''expected '' @ serviceName @ '' port'')
      else case Atoi (cval p) of
             None \<Rightarrow> perror p (''invalid '' @ serviceName @ '' port: '' @ cval p)
           | Some port \<Rightarrow> Inr (setv port, nextToken p))"

definition parseWebUIService :: "SystemServicesConfig \<Rightarrow> Parser \<Rightarrow> SystemServicesConfig presult" where
  "parseWebUIService services p =
     (let web = getOr newWebUIConfig (svc_WebUI services) in
      if cty p \<noteq> TokenWord then perror p ''expected web-ui parameter''
      else let param = cval p; p = nextToken p in
        if param = ''enabled'' then
          parseServiceEnabled (\<lambda>enabled. services\<lparr>svc_WebUI := Some (web\<lparr>web_Enabled := enabled\<rparr>)\<rparr>) p
        else if param = ''listen-address'' then
          parseServiceListenAddress ''web-ui''
            (\<lambda>a. services\<lparr>svc_WebUI := Some (web\<lparr>web_ListenAddress := a\<rparr>)\<rparr>) p
        else if param = ''port'' then
          parseServicePort ''web-ui'' (\<lambda>n. services\<lparr>svc_WebUI := Some (web\<lparr>web_Port := n\<rparr>)\<rparr>) p
        else perror p (''unsupported web-ui parameter: '' @ param))"

definition parsePrometheusService :: "SystemServicesConfig \<Rightarrow> Parser \<Rightarrow> SystemServicesConfig presult" where
  "parsePrometheusService services p =
     (let prometheus = getOr newPrometheusConfig (svc_Prometheus services) in
      if cty p \<noteq> TokenWord then perror p ''expected prometheus parameter''
      else let param = cval p; p = nextToken p in
        if param = ''enabled'' then
          parseServiceEnabled
            (\<lambda>enabled. services\<lparr>svc_Prometheus := Some (prometheus\<lparr>prom_Enabled := enabled\<rparr>)\<rparr>) p
        else if param = ''listen-address'' then
          parseServiceListenAddress ''prometheus''
            (\<lambda>a. services\<lparr>svc_Prometheus := Some (prometheus\<lparr>prom_ListenAddress := a\<rparr>)\<rparr>) p
        else if param = ''port'' then
          parseServicePort ''prometheus''
            (\<lambda>n. services\<lparr>svc_Prometheus := Some (prometheus\<lparr>prom_Port := n\<rparr>)\<rparr>) p
        else perror p (''unsupported prometheus parameter: '' @ param))"

definition parseSNMPService :: "SystemServicesConfig \<Rightarrow> Parser \<Rightarrow> SystemServicesConfig presult" where
  "parseSNMPService services p =
     (let snmp = getOr newSNMPConfig (svc_SNMP services) in
      if cty p \<noteq> TokenWord then perror p ''expected snmp parameter''
      else let param = cval p; p = nextToken p in
        if param = ''enabled'' then
          parseServiceEnabled (\<lambda>enabled. services\<lparr>svc_SNMP := Some (snmp\<lparr>snmp_Enabled := enabled\<rparr>)\<rparr>) p
        else if param = ''listen-address'' then
          parseServiceListenAddress ''snmp''
            (\<lambda>a. services\<lparr>svc_SNMP := Some (snmp\<lparr>snmp_ListenAddress := a\<rparr>)\<rparr>) p
        else if param = ''port'' then
          parseServicePort ''snmp'' (\<lambda>n. services\<lparr>svc_SNMP := Some (snmp\<lparr>snmp_Port := n\<rparr>)\<rparr>) p
        else if param = ''community'' then
          (if cty p \<noteq> TokenWord \<and> cty p \<noteq> TokenString then perror p ''expected snmp community''
           else Inr (services\<lparr>svc_SNMP := Some (snmp\<lparr>snmp_Community := cval p\<rparr>)\<rparr>, nextToken p))
        else perror p (''unsupported snmp parameter: '' @ param))"

definition parseSystemServices :: "Config \<Rightarrow> Parser \<Rightarrow> Config presult" where
  "parseSystemServices config p =
     (if cty p \<noteq> TokenWord then perror p ''expected system service name''
      else let service = cval p; p = nextToken p;
               system = getOr newSystemConfig (cfg_System config);
               services = getOr newSystemServicesConfig (sys_Services system);
               store = (\<lambda>r. case r of Inl e \<Rightarrow> Inl e
                          | Inr (s, p') \<Rightarrow> Inr (config\<lparr>cfg_System := Some (system\<lparr>sys_Services := Some s\<rparr>)\<rparr>, p'))
        in if service = ''web-ui'' then store (parseWebUIService services p)
           else if service = ''prometheus'' then store (parsePrometheusService services p)
           else if service = ''snmp'' then store (parseSNMPService services p)
           else perror p (''unsupported system service: '' @ service))"

definition parseSystem :: "Config \<Rightarrow> Parser \<Rightarrow> Config presult" where
  "parseSystem config p =
     (if cty p \<noteq> TokenWord then perror p ''expected system parameter''
      else let param = cval p; p = nextToken p in
        if param = ''host-name'' then
          (if cty p \<noteq> TokenWord \<and> cty p \<noteq> TokenString then perror p ''expected hostname value''
           else Inr (config\<lparr>cfg_System :=
                       Some ((getOr newSystemConfig (cfg_System config))\<lparr>sys_HostName := cval p\<rparr>)\<rparr>,
                     nextToken p))
        else if param = ''services'' then parseSystemServices config p
        else perror p (''unsupported system parameter: '' @ param))"

lemmas system_defs [parsing] =
  parseServiceEnabled_def parseServiceListenAddress_def parseServicePort_def parseWebUIService_def
  parsePrometheusService_def parseSNMPService_def parseSystemServices_def parseSystem_def

lemma parseService_advance [advance]:
  "parseServiceEnabled f q = Inr (r, p') \<Longrightarrow> todo q \<le> todo p \<Longrightarrow> todo p' \<le> todo p"
  "parseServiceListenAddress n g q = Inr (r, p') \<Longrightarrow> todo q \<le> todo p \<Longrightarrow> todo p' \<le> todo p"
  "parseServicePort n h q = Inr (r, p') \<Longrightarrow> todo q \<le> todo p \<Longrightarrow> todo p' \<le> todo p"
  by (auto simp: parseServiceEnabled_def parseServiceListenAddress_def parseServicePort_def
      split: if_splits sum.splits option.splits intro!: todo_le intro: advance)

lemma parseServices_advance [advance]:
  "parseWebUIService s q = Inr (r, p') \<Longrightarrow> todo q \<le> todo p \<Longrightarrow> todo p' \<le> todo p"
  "parsePrometheusService s q = Inr (r, p') \<Longrightarrow> todo q \<le> todo p \<Longrightarrow> todo p' \<le> todo p"
  "parseSNMPService s q = Inr (r, p') \<Longrightarrow> todo q \<le> todo p \<Longrightarrow> todo p' \<le> todo p"
  by (auto simp: parseWebUIService_def parsePrometheusService_def parseSNMPService_def Let_def
      split: if_splits intro!: todo_le intro: advance)

lemma parseSystem_advance [advance]: "parseSystem c q = Inr (r, p') \<Longrightarrow> todo q \<le> todo p \<Longrightarrow> todo p' \<le> todo p"
  by (auto simp: parseSystem_def parseSystemServices_def Let_def
      split: if_splits sum.splits intro!: todo_le intro: advance)

section \<open>Chassis\<close>

definition parseClusterNode :: "ClusterConfig \<Rightarrow> Parser \<Rightarrow> ClusterConfig presult" where
  "parseClusterNode cluster p =
     (if cty p \<noteq> TokenWord then perror p ''expected cluster node name''
      else let name = cval p; p = nextToken p;
               node = getOr (newClusterNode name) (mget (cl_Nodes cluster) name);
               store = (\<lambda>n. cluster\<lparr>cl_Nodes := mput name n (cl_Nodes cluster)\<rparr>)
        in if cty p \<noteq> TokenWord then perror p ''expected cluster node parameter''
           else let param = cval p; p = nextToken p in
             if param = ''address'' then
               (if cty p \<noteq> TokenWord then perror p ''expected cluster node address''
                else Inr (store (node\<lparr>cn_Address := cval p\<rparr>), nextToken p))
             else if param = ''priority'' then
               (if cty p \<noteq> TokenNumber then perror p ''expected cluster node priority''
                else case Atoi (cval p) of
                       None \<Rightarrow> perror p (''invalid cluster node priority: '' @ cval p)
                     | Some priority \<Rightarrow> Inr (store (node\<lparr>cn_Priority := priority\<rparr>), nextToken p))
             else perror p (''unsupported cluster node parameter: '' @ param))"

definition parseClusterSync :: "ClusterConfig \<Rightarrow> Parser \<Rightarrow> ClusterConfig presult" where
  "parseClusterSync cluster p =
     (if cty p \<noteq> TokenWord \<or> cval p \<noteq> ''etcd'' then perror p ''expected 'etcd' after cluster sync''
      else let p = nextToken p in
        if cty p \<noteq> TokenWord \<or> cval p \<noteq> ''endpoint'' then perror p ''expected 'endpoint' after cluster sync etcd''
        else let p = nextToken p in
          if cty p \<noteq> TokenWord \<and> cty p \<noteq> TokenString then perror p ''expected etcd endpoint''
          else let sync = getOr newClusterSyncConfig (cl_Sync cluster);
                   etcd = getOr newEtcdSyncConfig (cs_Etcd sync)
            in Inr (cluster\<lparr>cl_Sync := Some (sync\<lparr>cs_Etcd :=
                       Some (etcd\<lparr>es_Endpoints := appendUniqueString (es_Endpoints etcd) (cval p)\<rparr>)\<rparr>)\<rparr>,
                    nextToken p))"

definition parseChassis :: "Config \<Rightarrow> Parser \<Rightarrow> Config presult" where
  "parseChassis config p =
     (if cty p \<noteq> TokenWord \<or> cval p \<noteq> ''cluster'' then perror p ''expected 'cluster' after chassis''
      else let p = nextToken p;
               chassis = getOr newChassisConfig (cfg_Chassis config);
               cluster = getOr newClusterConfig (ch_Cluster chassis);
               store = (\<lambda>cl. config\<lparr>cfg_Chassis := Some (chassis\<lparr>ch_Cluster := Some cl\<rparr>)\<rparr>)
        in if cty p \<noteq> TokenWord then perror p ''expected cluster parameter''
           else let param = cval p; p = nextToken p in
             if param = ''enabled'' then
               (case parseBool p of Inl e \<Rightarrow> Inl e
                  | Inr (enabled, p') \<Rightarrow> Inr (store (cluster\<lparr>cl_Enabled := enabled\<rparr>), p'))
             else if param = ''node'' then
               (case parseClusterNode cluster p of Inl e \<Rightarrow> Inl e | Inr (cl, p') \<Rightarrow> Inr (store cl, p'))
             else if param = ''sync'' then
               (case parseClusterSync cluster p of Inl e \<Rightarrow> Inl e | Inr (cl, p') \<Rightarrow> Inr (store cl, p'))
             else perror p (''unsupported cluster parameter: '' @ param))"

lemmas chassis_defs [parsing] = parseClusterNode_def parseClusterSync_def parseChassis_def

lemma parseCluster_advance [advance]:
  "parseClusterNode c q = Inr (r, p') \<Longrightarrow> todo q \<le> todo p \<Longrightarrow> todo p' \<le> todo p"
  "parseClusterSync c q = Inr (r, p') \<Longrightarrow> todo q \<le> todo p \<Longrightarrow> todo p' \<le> todo p"
  by (auto simp: parseClusterNode_def parseClusterSync_def Let_def
      split: if_splits option.splits intro!: todo_le intro: advance)

lemma parseChassis_advance [advance]: "parseChassis c q = Inr (r, p') \<Longrightarrow> todo q \<le> todo p \<Longrightarrow> todo p' \<le> todo p"
  by (auto simp: parseChassis_def Let_def split: if_splits sum.splits intro!: todo_le intro: advance)

section \<open>Interfaces\<close>

definition parseInterfaceDescription :: "Interface \<Rightarrow> Parser \<Rightarrow> Interface presult" where
  "parseInterfaceDescription iface p =
     (if cty p \<noteq> TokenString \<and> cty p \<noteq> TokenWord then perror p ''expected description text''
      else Inr (iface\<lparr>if_Description := cval p\<rparr>, nextToken p))"

definition parseInterfaceUnit :: "Interface \<Rightarrow> Parser \<Rightarrow> Interface presult" where
  "parseInterfaceUnit iface p =
     (if cty p \<noteq> TokenNumber then perror p ''expected unit number''
      else case Atoi (cval p) of
        None \<Rightarrow> perror p (''invalid unit number: '' @ cval p)
      | Some unitNum \<Rightarrow>
          (let p = nextToken p; u = GetOrCreateUnit iface unitNum in
           if cty p \<noteq> TokenWord \<or> cval p \<noteq> ''family'' then perror p ''expected 'family' keyword''
           else let p = nextToken p in
             if cty p \<noteq> TokenWord then perror p ''expected family name''
             else let familyName = cval p; p = nextToken p; family = GetOrCreateFamily u familyName in
               if cty p \<noteq> TokenWord \<or> cval p \<noteq> ''address'' then perror p ''expected 'address' keyword''
               else let p = nextToken p in
                 if cty p \<noteq> TokenWord then perror p ''expected IP address in CIDR format''
                 else let family' = family\<lparr>fam_Addresses := appendUniqueString (fam_Addresses family) (cval p)\<rparr>;
                          u' = u\<lparr>unit_Family := mput familyName family' (unit_Family u)\<rparr>
                   in Inr (iface\<lparr>if_Units := mput unitNum u' (if_Units iface)\<rparr>, nextToken p)))"

definition parseInterfaces :: "Config \<Rightarrow> Parser \<Rightarrow> Config presult" where
  "parseInterfaces config p =
     (if cty p \<noteq> TokenWord then perror p ''expected interface name''
      else let ifName = cval p; p = nextToken p; iface = GetOrCreateInterface config ifName;
               store = (\<lambda>r. case r of Inl e \<Rightarrow> Inl e
                  | Inr (i, p') \<Rightarrow> Inr (config\<lparr>cfg_Interfaces := mput ifName i (cfg_Interfaces config)\<rparr>, p'))
        in if cty p \<noteq> TokenWord then perror p ''expected interface parameter''
           else let param = cval p; p = nextToken p in
             if param = ''description'' then store (parseInterfaceDescription iface p)
             else if param = ''unit'' then store (parseInterfaceUnit iface p)
             else perror p (''unsupported interface parameter: '' @ param))"

lemmas interface_defs [parsing] =
  parseInterfaceDescription_def parseInterfaceUnit_def parseInterfaces_def

lemma parseInterface_advance [advance]:
  "parseInterfaceDescription i q = Inr (r, p') \<Longrightarrow> todo q \<le> todo p \<Longrightarrow> todo p' \<le> todo p"
  "parseInterfaceUnit i q = Inr (r, p') \<Longrightarrow> todo q \<le> todo p \<Longrightarrow> todo p' \<le> todo p"
  by (auto simp: parseInterfaceDescription_def parseInterfaceUnit_def Let_def
      split: if_splits option.splits intro!: todo_le intro: advance)

lemma parseInterfaces_advance [advance]: "parseInterfaces c q = Inr (r, p') \<Longrightarrow> todo q \<le> todo p \<Longrightarrow> todo p' \<le> todo p"
  by (auto simp: parseInterfaces_def Let_def split: if_splits sum.splits intro!: todo_le intro: advance)

section \<open>Routing options\<close>

definition parseAutonomousSystem :: "RoutingOptions \<Rightarrow> Parser \<Rightarrow> RoutingOptions presult" where
  "parseAutonomousSystem ro p =
     (if cty p \<noteq> TokenNumber then perror p ''expected AS number''
      else case ParseUint (cval p) 32 of
        None \<Rightarrow> perror p (''invalid AS number: '' @ cval p)
      | Some asn \<Rightarrow>
          (if asn < 1 \<or> asn > 4294967295
           then perror p (''AS number out of range (1-4294967295): '' @ formatNat asn)
           else Inr (ro\<lparr>ro_AutonomousSystem := of_nat asn\<rparr>, nextToken p)))"

definition parseRouterID :: "RoutingOptions \<Rightarrow> Parser \<Rightarrow> RoutingOptions presult" where
  "parseRouterID ro p =
     (if cty p \<noteq> TokenWord then perror p ''expected router-id value''
      else Inr (ro\<lparr>ro_RouterID := cval p\<rparr>, nextToken p))"

text \<open>The loop over the optional parameters of a static route.\<close>

function parseStaticRouteParams :: "StaticRoute \<Rightarrow> Parser \<Rightarrow> StaticRoute presult" where
  "parseStaticRouteParams r p =
     (if cty p = TokenWord then
        (if cval p = ''distance'' then
           (let p' = nextToken p in
            if cty p' \<noteq> TokenNumber then perror p' ''expected distance value''
            else case Atoi (cval p') of
                   None \<Rightarrow> perror p' (''invalid distance value: '' @ cval p')
                 | Some d \<Rightarrow> parseStaticRouteParams (r\<lparr>sr_Distance := d\<rparr>) (nextToken p'))
         else if cval p = ''bfd'' then parseStaticRouteParams (r\<lparr>sr_BFD := True\<rparr>) (nextToken p)
         else if cval p = ''profile'' then
           (if \<not> sr_BFD r then perror p ''expected 'bfd' before static route BFD profile''
            else let p' = nextToken p in
              if cty p' \<noteq> TokenWord \<and> cty p' \<noteq> TokenString then perror p' ''expected BFD profile name''
              else parseStaticRouteParams (r\<lparr>sr_BFDProfile := cval p'\<rparr>) (nextToken p'))
         else if cval p = ''source'' then
           (if \<not> sr_BFD r then perror p ''expected 'bfd' before static route BFD source''
            else let p' = nextToken p in
              if cty p' \<noteq> TokenWord then perror p' ''expected BFD source address''
              else parseStaticRouteParams (r\<lparr>sr_BFDSource := cval p'\<rparr>) (nextToken p'))
         else if cval p = ''multi-hop'' \<or> cval p = ''multihop'' then
           (if \<not> sr_BFD r then perror p ''expected 'bfd' before static route BFD multi-hop''
            else parseStaticRouteParams (r\<lparr>sr_BFDMultihop := True\<rparr>) (nextToken p))
         else perror p (''unsupported static route parameter: '' @ cval p))
      else Inr (r, p))"
  by pat_completeness auto
termination
  by (relation "measure (todo \<circ> snd)") (auto intro!: todo_less todo_nextToken)

declare parseStaticRouteParams.simps [simp del]

definition parseStaticRoute :: "RoutingOptions \<Rightarrow> Parser \<Rightarrow> RoutingOptions presult" where
  "parseStaticRoute ro p =
     (if cty p \<noteq> TokenWord \<or> cval p \<noteq> ''route'' then perror p ''expected 'route' keyword''
      else let p = nextToken p in
        if cty p \<noteq> TokenWord then perror p ''expected route prefix in CIDR format''
        else let prefix = cval p; p = nextToken p in
          if cty p \<noteq> TokenWord \<or> cval p \<noteq> ''next-hop'' then perror p ''expected 'next-hop' keyword''
          else let p = nextToken p in
            if cty p \<noteq> TokenWord then perror p ''expected next-hop IP address''
            else let nextHop = cval p; p = nextToken p in
              case parseStaticRouteParams (newStaticRoute prefix nextHop) p of
                Inl e \<Rightarrow> Inl e
              | Inr (staticRoute, p') \<Rightarrow>
                  (if list_ex (\<lambda>sr. case sr of None \<Rightarrow> False | Some r \<Rightarrow> sr_Prefix r = prefix) (ro_StaticRoutes ro)
                   then perror p' (''duplicate static route prefix: '' @ prefix)
                   else Inr (ro\<lparr>ro_StaticRoutes := ro_StaticRoutes ro @ [Some staticRoute]\<rparr>, p')))"

definition parseRoutingOptions :: "Config \<Rightarrow> Parser \<Rightarrow> Config presult" where
  "parseRoutingOptions config p =
     (if cty p \<noteq> TokenWord then perror p ''expected routing-options parameter''
      else let param = cval p; p = nextToken p;
               ro = getOr newRoutingOptions (cfg_RoutingOptions config);
               store = (\<lambda>r. case r of Inl e \<Rightarrow> Inl e
                  | Inr (ro', p') \<Rightarrow> Inr (config\<lparr>cfg_RoutingOptions := Some ro'\<rparr>, p'))
        in if param = ''autonomous-system'' then store (parseAutonomousSystem ro p)
           else if param = ''router-id'' then store (parseRouterID ro p)
           else if param = ''static'' then store (parseStaticRoute ro p)
           else perror p (''unsupported routing-options parameter: '' @ param))"

lemmas routing_options_defs [parsing] =
  parseAutonomousSystem_def parseRouterID_def parseStaticRoute_def parseRoutingOptions_def

lemma parseStaticRouteParams_advance [advance]:
  "parseStaticRouteParams r q = Inr (r', p') \<Longrightarrow> todo q \<le> todo p \<Longrightarrow> todo p' \<le> todo p"
proof (induction r q rule: parseStaticRouteParams.induct)
  case (1 r q)
  have le: "todo (nextToken q) \<le> todo p" "todo (nextToken (nextToken q)) \<le> todo p"
    using "1.prems"(2) by (auto intro: todo_le)
  from "1.prems" show ?case
    by (subst (asm) parseStaticRouteParams.simps)
      (auto simp: Let_def split: if_splits option.splits intro: "1.IH" le)
qed

lemma parseRoutingOption_advance [advance]:
  "parseAutonomousSystem ro q = Inr (r, p') \<Longrightarrow> todo q \<le> todo p \<Longrightarrow> todo p' \<le> todo p"
  "parseRouterID ro q = Inr (r, p') \<Longrightarrow> todo q \<le> todo p \<Longrightarrow> todo p' \<le> todo p"
  "parseStaticRoute ro q = Inr (r, p') \<Longrightarrow> todo q \<le> todo p \<Longrightarrow> todo p' \<le> todo p"
  by (auto simp: parseAutonomousSystem_def parseRouterID_def parseStaticRoute_def Let_def
      split: if_splits option.splits sum.splits intro!: todo_le intro: advance)

lemma parseRoutingOptions_advance [advance]:
  "parseRoutingOptions c q = Inr (r, p') \<Longrightarrow> todo q \<le> todo p \<Longrightarrow> todo p' \<le> todo p"
  by (auto simp: parseRoutingOptions_def Let_def split: if_splits sum.splits intro!: todo_le intro: advance)

section \<open>Routing instances\<close>

definition parseRoutingInstances :: "Config \<Rightarrow> Parser \<Rightarrow> Config presult" where
  "parseRoutingInstances config p =
     (if cty p \<noteq> TokenWord then perror p ''expected routing-instance name''
      else let name = cval p; p = nextToken p;
               inst = getOr (newRoutingInstance name) (mget (cfg_RoutingInstances config) name);
               store = (\<lambda>i. config\<lparr>cfg_RoutingInstances := mput name i (cfg_RoutingInstances config)\<rparr>)
        in if cty p \<noteq> TokenWord then perror p ''expected routing-instance parameter''
           else let param = cval p; p = nextToken p in
             if param = ''instance-type'' then
               (if cty p \<noteq> TokenWord then perror p ''expected routing-instance type''
                else Inr (store (inst\<lparr>ri_InstanceType := cval p\<rparr>), nextToken p))
             else if param = ''route-distinguisher'' then
               (if cty p \<noteq> TokenWord then perror p ''expected route distinguisher''
                else Inr (store (inst\<lparr>ri_RouteDistinguisher := cval p\<rparr>), nextToken p))
             else if param = ''vrf-target'' then
               (if cty p \<noteq> TokenWord then perror p ''expected vrf-target''
                else if cval p = ''import'' \<or> cval p = ''export'' then
                  (let direction = cval p; p = nextToken p in
                   if cty p \<noteq> TokenWord then perror p (''expected vrf-target '' @ direction @ '' value'')
                   else if direction = ''import''
                   then Inr (store (inst\<lparr>ri_VRFTargetImport := appendUniqueString (ri_VRFTargetImport inst) (cval p)\<rparr>), nextToken p)
                   else Inr (store (inst\<lparr>ri_VRFTargetExport := appendUniqueString (ri_VRFTargetExport inst) (cval p)\<rparr>), nextToken p))
                else Inr (store (inst\<lparr>ri_VRFTarget := cval p\<rparr>), nextToken p))
             else if param = ''vrf-import'' then
               (if cty p \<noteq> TokenWord \<and> cty p \<noteq> TokenString then perror p ''expected vrf-import policy''
                else Inr (store (inst\<lparr>ri_VRFImport := appendUniqueString (ri_VRFImport inst) (cval p)\<rparr>), nextToken p))
             else if param = ''vrf-export'' then
               (if cty p \<noteq> TokenWord \<and> cty p \<noteq> TokenString then perror p ''expected vrf-export policy''
                else Inr (store (inst\<lparr>ri_VRFExport := appendUniqueString (ri_VRFExport inst) (cval p)\<rparr>), nextToken p))
             else if param = ''interface'' then
               (if cty p \<noteq> TokenWord then perror p ''expected routing-instance interface''
                else Inr (store (inst\<lparr>ri_Interfaces := appendUniqueString (ri_Interfaces inst) (cval p)\<rparr>), nextToken p))
             else perror p (''unsupported routing-instance parameter: '' @ param))"

declare parseRoutingInstances_def [parsing]

lemma parseRoutingInstances_advance [advance]:
  "parseRoutingInstances c q = Inr (r, p') \<Longrightarrow> todo q \<le> todo p \<Longrightarrow> todo p' \<le> todo p"
  by (auto simp: parseRoutingInstances_def Let_def split: if_splits intro!: todo_le intro: advance)

end
