(* ===== verification/ParserProtocols.thy ===== *)
theory ParserProtocols
  imports ParserBase
begin

text \<open>
  The statements below \<open>protocols\<close>: pkg/config/parser\_protocols.go, one definition per Go
  function with its branches in source order.
\<close>

section \<open>EVPN\<close>

definition parseEVPN :: "ProtocolConfig \<Rightarrow> Parser \<Rightarrow> ProtocolConfig presult" where
  "parseEVPN pc p =
     (let evpn = getOr newEVPNConfig (pc_EVPN pc) in
      if cty p \<noteq> TokenWord \<or> cval p \<noteq> ''vni'' then perror p ''expected 'vni' after protocols evpn''
      else let p = nextToken p in
      if cty p \<noteq> TokenNumber then perror p ''expected EVPN VNI''
      else case Atoi (cval p) of
        None \<Rightarrow> perror p (''invalid EVPN VNI: '' @ cval p)
      | Some vni \<Rightarrow>
        (let p = nextToken p;
             v = getOr (newEVPNVNI vni) (mget (evpn_VNIs evpn) vni);
             store = (\<lambda>v'. pc\<lparr>pc_EVPN := Some (evpn\<lparr>evpn_VNIs := mput vni v' (evpn_VNIs evpn)\<rparr>)\<rparr>)
         in if cty p \<noteq> TokenWord then perror p ''expected EVPN VNI parameter''
            else let param = cval p; p = nextToken p in
              if param = ''type'' then
                (if cty p \<noteq> TokenWord then perror p ''expected EVPN VNI type''
                 else Inr (store (v\<lparr>ev_Type := cval p\<rparr>), nextToken p))
              else if param = ''bridge-domain'' then
                (if cty p \<noteq> TokenWord \<and> cty p \<noteq> TokenString then perror p ''expected EVPN bridge-domain''
                 else Inr (store (v\<lparr>ev_BridgeDomain := cval p\<rparr>), nextToken p))
              else if param = ''vlan-id'' then
                (if cty p \<noteq> TokenNumber then perror p ''expected EVPN VLAN ID''
                 else case Atoi (cval p) of
                        None \<Rightarrow> perror p (''invalid EVPN VLAN ID: '' @ cval p)
                      | Some vlanID \<Rightarrow> Inr (store (v\<lparr>ev_VLANID := vlanID\<rparr>), nextToken p))
              else if param = ''routing-instance'' then
                (if cty p \<noteq> TokenWord \<and> cty p \<noteq> TokenString then perror p ''expected EVPN routing-instance''
                 else Inr (store (v\<lparr>ev_RoutingInstance := cval p\<rparr>), nextToken p))
              else if param = ''route-distinguisher'' then
                (if cty p \<noteq> TokenWord then perror p ''expected EVPN route distinguisher''
                 else Inr (store (v\<lparr>ev_RouteDistinguisher := cval p\<rparr>), nextToken p))
              else if param = ''vrf-target'' then
                (if cty p \<noteq> TokenWord then perror p ''expected EVPN vrf-target''
                 else if cval p = ''import'' \<or> cval p = ''export'' then
                   (let direction = cval p; p = nextToken p in
                    if cty p \<noteq> TokenWord then perror p (''expected EVPN vrf-target '' @ direction @ '' value'')
                    else if direction = ''import''
                    then Inr (store (v\<lparr>ev_VRFTargetImport := appendUniqueString (ev_VRFTargetImport v) (cval p)\<rparr>), nextToken p)
                    else Inr (store (v\<lparr>ev_VRFTargetExport := appendUniqueString (ev_VRFTargetExport v) (cval p)\<rparr>), nextToken p))
                 else Inr (store (v\<lparr>ev_VRFTarget := cval p\<rparr>), nextToken p))
              else if param = ''source-interface'' then
                (if cty p \<noteq> TokenWord then perror p ''expected EVPN source interface''
                 else Inr (store (v\<lparr>ev_SourceInterface := cval p\<rparr>), nextToken p))
              else if param = ''source-address'' then
                (if cty p \<noteq> TokenWord then perror p ''expected EVPN source address''
                 else Inr (store (v\<lparr>ev_SourceAddress := cval p\<rparr>), nextToken p))
              else if param = ''multicast-group'' then
                (if cty p \<noteq> TokenWord then perror p ''expected EVPN multicast group''
                 else Inr (store (v\<lparr>ev_MulticastGroup := cval p\<rparr>), nextToken p))
              else if param = ''remote-vtep'' then
                (if cty p \<noteq> TokenWord then perror p ''expected EVPN remote VTEP''
                 else Inr (store (v\<lparr>ev_RemoteVTEP := cval p\<rparr>), nextToken p))
              else perror p (''unsupported EVPN VNI parameter: '' @ param)))"

section \<open>BFD\<close>

definition parseBFDNumber :: "string \<Rightarrow> Parser \<Rightarrow> int presult" where
  "parseBFDNumber name p =
     (if cty p \<noteq> TokenNumber then perror p (''expected BFD '' @ name @ '' value'')
      else case Atoi (cval p) of
             None \<Rightarrow> perror p (''invalid BFD '' @ name @ '': '' @ cval p)
           | Some v \<Rightarrow> Inr (v, nextToken p))"

definition parseBFDProfile :: "BFDConfig \<Rightarrow> Parser \<Rightarrow> BFDConfig presult" where
  "parseBFDProfile bfd p =
     (if cty p \<noteq> TokenWord \<and> cty p \<noteq> TokenString then perror p ''expected BFD profile name''
      else let name = cval p; p = nextToken p;
               profile = getOr (newBFDProfile name) (mget (bfd_Profiles bfd) name);
               store = (\<lambda>v. bfd\<lparr>bfd_Profiles := mput name v (bfd_Profiles bfd)\<rparr>)
        in if cty p \<noteq> TokenWord then perror p ''expected BFD profile parameter''
           else let param = cval p; p = nextToken p in
             if param = ''detect-multiplier'' then
               (case parseBFDNumber ''detect-multiplier'' p of Inl e \<Rightarrow> Inl e
                  | Inr (v, p') \<Rightarrow> Inr (store (profile\<lparr>bp_DetectMultiplier := v\<rparr>), p'))
             else if param = ''receive-interval'' then
               (case parseBFDNumber ''receive-interval'' p of Inl e \<Rightarrow> Inl e
                  | Inr (v, p') \<Rightarrow> Inr (store (profile\<lparr>bp_ReceiveInterval := v\<rparr>), p'))
             else if param = ''transmit-interval'' then
               (case parseBFDNumber ''transmit-interval'' p of Inl e \<Rightarrow> Inl e
                  | Inr (v, p') \<Rightarrow> Inr (store (profile\<lparr>bp_TransmitInterval := v\<rparr>), p'))
             else if param = ''echo-mode'' then Inr (store (profile\<lparr>bp_EchoMode := True\<rparr>), p)
             else if param = ''passive-mode'' then Inr (store (profile\<lparr>bp_PassiveMode := True\<rparr>), p)
             else perror p (''unsupported BFD profile parameter: '' @ param))"

definition parseBFDPeer :: "BFDConfig \<Rightarrow> Parser \<Rightarrow> BFDConfig presult" where
  "parseBFDPeer bfd p =
     (if cty p \<noteq> TokenWord \<and> cty p \<noteq> TokenString then perror p ''expected BFD peer address''
      else let address = cval p; p = nextToken p;
               peer = getOr (newBFDPeer address) (mget (bfd_Peers bfd) address);
               store = (\<lambda>v. bfd\<lparr>bfd_Peers := mput address v (bfd_Peers bfd)\<rparr>)
        in if cty p \<noteq> TokenWord then perror p ''expected BFD peer parameter''
           else let param = cval p; p = nextToken p in
             if param = ''local-address'' then
               (if cty p \<noteq> TokenWord \<and> cty p \<noteq> TokenString then perror p ''expected BFD peer local-address''
                else Inr (store (peer\<lparr>be_LocalAddress := cval p\<rparr>), nextToken p))
             else if param = ''interface'' then
               (if cty p \<noteq> TokenWord then perror p ''expected BFD peer interface name''
                else Inr (store (peer\<lparr>be_Interface := cval p\<rparr>), nextToken p))
             else if param = ''vrf'' then
               (if cty p \<noteq> TokenWord \<and> cty p \<noteq> TokenString then perror p ''expected BFD peer VRF name''
                else Inr (store (peer\<lparr>be_VRF := cval p\<rparr>), nextToken p))
             else if param = ''multihop'' then Inr (store (peer\<lparr>be_Multihop := True\<rparr>), p)
             else if param = ''profile'' then
               (if cty p \<noteq> TokenWord \<and> cty p \<noteq> TokenString then perror p ''expected BFD peer profile name''
                else Inr (store (peer\<lparr>be_Profile := cval p\<rparr>), nextToken p))
             else if param = ''detect-multiplier'' then
               (case parseBFDNumber ''detect-multiplier'' p of Inl e \<Rightarrow> Inl e
                  | Inr (v, p') \<Rightarrow> Inr (store (peer\<lparr>be_DetectMultiplier := v\<rparr>), p'))
             else if param = ''receive-interval'' then
               (case parseBFDNumber ''receive-interval'' p of Inl e \<Rightarrow> Inl e
                  | Inr (v, p') \<Rightarrow> Inr (store (peer\<lparr>be_ReceiveInterval := v\<rparr>), p'))
             else if param = ''transmit-interval'' then
               (case parseBFDNumber ''transmit-interval'' p of Inl e \<Rightarrow> Inl e
                  | Inr (v, p') \<Rightarrow> Inr (store (peer\<lparr>be_TransmitInterval := v\<rparr>), p'))
             else if param = ''echo-mode'' then Inr (store (peer\<lparr>be_EchoMode := True\<rparr>), p)
             else if param = ''passive-mode'' then Inr (store (peer\<lparr>be_PassiveMode := True\<rparr>), p)
             else if param = ''shutdown'' then Inr (store (peer\<lparr>be_Shutdown := True\<rparr>), p)
             else perror p (''unsupported BFD peer parameter: '' @ param))"

definition parseBFD :: "ProtocolConfig \<Rightarrow> Parser \<Rightarrow> ProtocolConfig presult" where
  "parseBFD pc p =
     (let bfd = getOr newBFDConfig (pc_BFD pc);
          store = (\<lambda>r. case r of Inl e \<Rightarrow> Inl e | Inr (b, p') \<Rightarrow> Inr (pc\<lparr>pc_BFD := Some b\<rparr>, p'))
      in if cty p \<noteq> TokenWord then perror p ''expected BFD parameter''
         else let param = cval p; p = nextToken p in
           if param = ''profile'' then store (parseBFDProfile bfd p)
           else if param = ''peer'' then store (parseBFDPeer bfd p)
           else perror p (''unsupported BFD parameter: '' @ param))"

section \<open>MPLS and VRRP\<close>

definition parseMPLS :: "ProtocolConfig \<Rightarrow> Parser \<Rightarrow> ProtocolConfig presult" where
  "parseMPLS pc p =
     (let mpls = getOr newMPLSConfig (pc_MPLS pc) in
      if cty p \<noteq> TokenWord \<or> cval p \<noteq> ''interface'' then perror p ''expected 'interface' after protocols mpls''
      else let p = nextToken p in
        if cty p \<noteq> TokenWord then perror p ''expected MPLS interface name''
        else Inr (pc\<lparr>pc_MPLS := Some (mpls\<lparr>mpls_Interfaces := appendUniqueString (mpls_Interfaces mpls) (cval p)\<rparr>)\<rparr>,
                  nextToken p))"

definition parseVRRP :: "ProtocolConfig \<Rightarrow> Parser \<Rightarrow> ProtocolConfig presult" where
  "parseVRRP pc p =
     (let vrrp = getOr newVRRPConfig (pc_VRRP pc) in
      if cty p \<noteq> TokenWord \<or> cval p \<noteq> ''group'' then perror p ''expected 'group' after protocols vrrp''
      else let p = nextToken p in
      if cty p \<noteq> TokenWord \<and> cty p \<noteq> TokenNumber then perror p ''expected VRRP group name''
      else let groupName = cval p; p = nextToken p;
               group = getOr (newVRRPGroup groupName) (mget (vrrp_Groups vrrp) groupName);
               store = (\<lambda>g. pc\<lparr>pc_VRRP := Some (vrrp\<lparr>vrrp_Groups := mput groupName g (vrrp_Groups vrrp)\<rparr>)\<rparr>)
        in if cty p \<noteq> TokenWord then perror p ''expected VRRP group parameter''
           else let param = cval p; p = nextToken p in
             if param = ''interface'' then
               (if cty p \<noteq> TokenWord then perror p ''expected VRRP interface name''
                else Inr (store (group\<lparr>vg_Interface := cval p\<rparr>), nextToken p))
             else if param = ''virtual-address'' then
               (if cty p \<noteq> TokenWord then perror p ''expected VRRP virtual address''
                else Inr (store (group\<lparr>vg_VirtualAddress := cval p\<rparr>), nextToken p))
             else if param = ''priority'' then
               (if cty p \<noteq> TokenNumber then perror p ''expected VRRP priority''
                else case Atoi (cval p) of
                       None \<Rightarrow> perror p (''invalid VRRP priority: '' @ cval p)
                     | Some priority \<Rightarrow> Inr (store (group\<lparr>vg_Priority := priority\<rparr>), nextToken p))
             else if param = ''preempt'' then Inr (store (group\<lparr>vg_Preempt := True\<rparr>), p)
             else perror p (''unsupported VRRP group parameter: '' @ param))"

section \<open>BGP\<close>

definition parseBGPGroupType :: "BGPGroup \<Rightarrow> Parser \<Rightarrow> BGPGroup presult" where
  "parseBGPGroupType grp p =
     (if cty p \<noteq> TokenWord then perror p ''expected group type (internal or external)''
      else let groupType = cval p in
        if groupType \<noteq> ''internal'' \<and> groupType \<noteq> ''external''
        then perror p (''invalid group type: '' @ groupType @ '' (must be 'internal' or 'external')'')
        else Inr (grp\<lparr>bg_Type := groupType\<rparr>, nextToken p))"

definition parseBGPNeighbor :: "BGPGroup \<Rightarrow> Parser \<Rightarrow> BGPGroup presult" where
  "parseBGPNeighbor grp p =
     (if cty p \<noteq> TokenWord then perror p ''expected neighbor IP address''
      else let neighborIP = cval p; p = nextToken p;
               neighbor = getOr (newBGPNeighbor neighborIP) (mget (bg_Neighbors grp) neighborIP);
               store = (\<lambda>n. grp\<lparr>bg_Neighbors := mput neighborIP n (bg_Neighbors grp)\<rparr>)
        in if cty p \<noteq> TokenWord then perror p ''expected neighbor parameter''
           else let param = cval p; p = nextToken p in
             if param = ''peer-as'' then
               (if cty p \<noteq> TokenNumber then perror p ''expected peer AS number''
                else case ParseUint (cval p) 32 of
                  None \<Rightarrow> perror p (''invalid peer AS number: '' @ cval p)
                | Some peerAS \<Rightarrow>
                    (if peerAS < 1 \<or> peerAS > 4294967295
                     then perror p (''peer AS number out of range (1-4294967295): '' @ formatNat peerAS)
                     else Inr (store (neighbor\<lparr>bn_PeerAS := of_nat peerAS\<rparr>), nextToken p)))
             else if param = ''description'' then
               (if cty p \<noteq> TokenString \<and> cty p \<noteq> TokenWord then perror p ''expected description text''
                else Inr (store (neighbor\<lparr>bn_Description := cval p\<rparr>), nextToken p))
             else if param = ''local-address'' then
               (if cty p \<noteq> TokenWord then perror p ''expected local address''
                else Inr (store (neighbor\<lparr>bn_LocalAddress := cval p\<rparr>), nextToken p))
             else if param = ''bfd'' then
               (if cty p = TokenWord \<and> cval p = ''profile'' then
                  (let p = nextToken p in
                   if cty p \<noteq> TokenWord \<and> cty p \<noteq> TokenString then perror p ''expected BFD profile name''
                   else Inr (store (neighbor\<lparr>bn_BFD := True, bn_BFDProfile := cval p\<rparr>), nextToken p))
                else Inr (store (neighbor\<lparr>bn_BFD := True\<rparr>), p))
             else perror p (''unsupported neighbor parameter: '' @ param))"

definition parseBGPGroupImport :: "BGPGroup \<Rightarrow> Parser \<Rightarrow> BGPGroup presult" where
  "parseBGPGroupImport grp p =
     (if cty p \<noteq> TokenWord then perror p ''expected import policy name''
      else Inr (grp\<lparr>bg_Import := cval p\<rparr>, nextToken p))"

definition parseBGPGroupExport :: "BGPGroup \<Rightarrow> Parser \<Rightarrow> BGPGroup presult" where
  "parseBGPGroupExport grp p =
     (if cty p \<noteq> TokenWord then perror p ''expected export policy name''
      else Inr (grp\<lparr>bg_Export := cval p\<rparr>, nextToken p))"

definition parseBGPGroup :: "BGPConfig \<Rightarrow> Parser \<Rightarrow> BGPConfig presult" where
  "parseBGPGroup bgp p =
     (if cty p \<noteq> TokenWord then perror p ''expected BGP group name''
      else let groupName = cval p; p = nextToken p;
               grp = getOr newBGPGroup (mget (bgp_Groups bgp) groupName);
               store = (\<lambda>r. case r of Inl e \<Rightarrow> Inl e
                  | Inr (g, p') \<Rightarrow> Inr (bgp\<lparr>bgp_Groups := mput groupName g (bgp_Groups bgp)\<rparr>, p'))
        in if cty p \<noteq> TokenWord then perror p ''expected BGP group parameter''
           else let param = cval p; p = nextToken p in
             if param = ''type'' then store (parseBGPGroupType grp p)
             else if param = ''neighbor'' then store (parseBGPNeighbor grp p)
             else if param = ''import'' then store (parseBGPGroupImport grp p)
             else if param = ''export'' then store (parseBGPGroupExport grp p)
             else perror p (''unsupported BGP group parameter: '' @ param))"

definition parseBGP :: "ProtocolConfig \<Rightarrow> Parser \<Rightarrow> ProtocolConfig presult" where
  "parseBGP pc p =
     (let bgp = getOr newBGPConfig (pc_BGP pc) in
      if cty p \<noteq> TokenWord then perror p ''expected BGP parameter''
      else let param = cval p; p = nextToken p in
        if param = ''group'' then
          (case parseBGPGroup bgp p of Inl e \<Rightarrow> Inl e | Inr (b, p') \<Rightarrow> Inr (pc\<lparr>pc_BGP := Some b\<rparr>, p'))
        else perror p (''unsupported BGP parameter: '' @ param))"

section \<open>OSPF\<close>

definition parseOSPFRouterID :: "OSPFConfig \<Rightarrow> Parser \<Rightarrow> OSPFConfig presult" where
  "parseOSPFRouterID ospf p =
     (if cty p \<noteq> TokenWord then perror p ''expected router-id value''
      else Inr (ospf\<lparr>ospf_RouterID := cval p\<rparr>, nextToken p))"

text \<open>The loop over the optional parameters of an OSPF interface.\<close>

function parseOSPFInterfaceParams :: "OSPFInterface \<Rightarrow> Parser \<Rightarrow> OSPFInterface presult" where
  "parseOSPFInterfaceParams i p0 =
     (if cty p0 = TokenWord then
        (let param = cval p0; p = nextToken p0 in
         if param = ''passive'' then parseOSPFInterfaceParams (i\<lparr>oi_Passive := True\<rparr>) p
         else if param = ''metric'' then
           (if cty p \<noteq> TokenNumber then perror p ''expected metric value''
            else case Atoi (cval p) of
                   None \<Rightarrow> perror p (''invalid metric value: '' @ cval p)
                 | Some metric \<Rightarrow> parseOSPFInterfaceParams (i\<lparr>oi_Metric := metric\<rparr>) (nextToken p))
         else if param = ''priority'' then
           (if cty p \<noteq> TokenNumber then perror p ''expected priority value''
            else case Atoi (cval p) of
                   None \<Rightarrow> perror p (''invalid priority value: '' @ cval p)
                 | Some priority \<Rightarrow>
                     parseOSPFInterfaceParams (i\<lparr>oi_Priority := priority, oi_PrioritySet := True\<rparr>) (nextToken p))
         else if param = ''bfd'' then
           (if cty p = TokenWord \<and> cval p = ''profile'' then
              (let p = nextToken p in
               if cty p \<noteq> TokenWord \<and> cty p \<noteq> TokenString then perror p ''expected BFD profile name''
               else parseOSPFInterfaceParams (i\<lparr>oi_BFD := True, oi_BFDProfile := cval p\<rparr>) (nextToken p))
            else parseOSPFInterfaceParams (i\<lparr>oi_BFD := True\<rparr>) p)
         else perror p (''unsupported OSPF interface parameter: '' @ param))
      else Inr (i, p0))"
  by pat_completeness auto
termination
  by (relation "measure (todo \<circ> snd)") (auto intro!: todo_less todo_nextToken)

declare parseOSPFInterfaceParams.simps [simp del]

definition parseOSPFArea :: "OSPFConfig \<Rightarrow> Parser \<Rightarrow> OSPFConfig presult" where
  "parseOSPFArea ospf p =
     (if cty p \<noteq> TokenWord \<and> cty p \<noteq> TokenNumber then perror p ''expected area ID''
      else let areaID = cval p; p = nextToken p;
               area = getOr (newOSPFArea areaID) (mget (ospf_Areas ospf) areaID)
        in if cty p \<noteq> TokenWord \<or> cval p \<noteq> ''interface'' then perror p ''expected 'interface' keyword''
           else let p = nextToken p in
             if cty p \<noteq> TokenWord then perror p ''expected interface name''
             else let ifName = cval p; p = nextToken p;
                      ospfIf = getOr (newOSPFInterface ifName) (mget (oa_Interfaces area) ifName)
               in case parseOSPFInterfaceParams ospfIf p of
                    Inl e \<Rightarrow> Inl e
                  | Inr (i, p') \<Rightarrow>
                      Inr (ospf\<lparr>ospf_Areas := mput areaID
                             (area\<lparr>oa_Interfaces := mput ifName i (oa_Interfaces area)\<rparr>) (ospf_Areas ospf)\<rparr>, p'))"

definition parseOSPFConfig :: "OSPFConfig \<Rightarrow> string \<Rightarrow> Parser \<Rightarrow> OSPFConfig presult" where
  "parseOSPFConfig ospf protocolName p =
     (if cty p \<noteq> TokenWord then perror p (''expected '' @ protocolName @ '' parameter'')
      else let param = cval p; p = nextToken p in
        if param = ''area'' then parseOSPFArea ospf p
        else if param = ''router-id'' then parseOSPFRouterID ospf p
        else perror p (''unsupported '' @ protocolName @ '' parameter: '' @ param))"

definition parseOSPF :: "ProtocolConfig \<Rightarrow> Parser \<Rightarrow> ProtocolConfig presult" where
  "parseOSPF pc p =
     (case parseOSPFConfig (getOr newOSPFConfig (pc_OSPF pc)) ''OSPF'' p of
        Inl e \<Rightarrow> Inl e | Inr (o', p') \<Rightarrow> Inr (pc\<lparr>pc_OSPF := Some o'\<rparr>, p'))"

definition parseOSPF3 :: "ProtocolConfig \<Rightarrow> Parser \<Rightarrow> ProtocolConfig presult" where
  "parseOSPF3 pc p =
     (case parseOSPFConfig (getOr newOSPFConfig (pc_OSPF3 pc)) ''OSPF3'' p of
        Inl e \<Rightarrow> Inl e | Inr (o', p') \<Rightarrow> Inr (pc\<lparr>pc_OSPF3 := Some o'\<rparr>, p'))"

section \<open>Dispatch\<close>

definition parseProtocols :: "Config \<Rightarrow> Parser \<Rightarrow> Config presult" where
  "parseProtocols config p =
     (if cty p \<noteq> TokenWord then perror p ''expected protocol name''
      else let protocol = cval p; p = nextToken p;
               pc = getOr newProtocolConfig (cfg_Protocols config);
               store = (\<lambda>r. case r of Inl e \<Rightarrow> Inl e
                  | Inr (pc', p') \<Rightarrow> Inr (config\<lparr>cfg_Protocols := Some pc'\<rparr>, p'))
        in if protocol = ''bfd'' then store (parseBFD pc p)
           else if protocol = ''bgp'' then store (parseBGP pc p)
           else if protocol = ''evpn'' then store (parseEVPN pc p)
           else if protocol = ''ospf'' then store (parseOSPF pc p)
           else if protocol = ''ospf3'' then store (parseOSPF3 pc p)
           else if protocol = ''mpls'' then store (parseMPLS pc p)
           else if protocol = ''vrrp'' then store (parseVRRP pc p)
           else perror p (''unsupported protocol: '' @ protocol))"

lemmas protocol_defs [parsing] =
  parseEVPN_def parseBFDNumber_def parseBFDProfile_def parseBFDPeer_def parseBFD_def parseMPLS_def
  parseVRRP_def parseBGPGroupType_def parseBGPNeighbor_def parseBGPGroupImport_def
  parseBGPGroupExport_def parseBGPGroup_def parseBGP_def parseOSPFRouterID_def parseOSPFArea_def
  parseOSPFConfig_def parseOSPF_def parseOSPF3_def parseProtocols_def

section \<open>Progress\<close>

lemma parseEVPN_advance [advance]:
  "parseEVPN pc q = Inr (r, p') \<Longrightarrow> todo q \<le> todo p \<Longrightarrow> todo p' \<le> todo p"
  by (auto simp: parseEVPN_def Let_def split: if_splits option.splits intro!: todo_le)

lemma parseBFDNumber_advance [advance]:
  "parseBFDNumber n q = Inr (r, p') \<Longrightarrow> todo q \<le> todo p \<Longrightarrow> todo p' \<le> todo p"
  by (auto simp: parseBFDNumber_def split: if_splits option.splits intro!: todo_le)

lemma parseBFD_parts_advance [advance]:
  "parseBFDProfile b q = Inr (r, p') \<Longrightarrow> todo q \<le> todo p \<Longrightarrow> todo p' \<le> todo p"
  "parseBFDPeer b q = Inr (r, p') \<Longrightarrow> todo q \<le> todo p \<Longrightarrow> todo p' \<le> todo p"
  by (auto simp: parseBFDProfile_def parseBFDPeer_def Let_def split: if_splits sum.splits
      intro!: todo_le intro: parseBFDNumber_advance)

lemma parseBFD_advance [advance]:
  "parseBFD pc q = Inr (r, p') \<Longrightarrow> todo q \<le> todo p \<Longrightarrow> todo p' \<le> todo p"
  by (auto simp: parseBFD_def Let_def split: if_splits sum.splits
      intro!: todo_le intro: parseBFD_parts_advance)

lemma parseMPLS_VRRP_advance [advance]:
  "parseMPLS pc q = Inr (r, p') \<Longrightarrow> todo q \<le> todo p \<Longrightarrow> todo p' \<le> todo p"
  "parseVRRP pc q = Inr (r, p') \<Longrightarrow> todo q \<le> todo p \<Longrightarrow> todo p' \<le> todo p"
  by (auto simp: parseMPLS_def parseVRRP_def Let_def split: if_splits option.splits intro!: todo_le)

lemma parseBGP_parts_advance [advance]:
  "parseBGPGroupType g q = Inr (r, p') \<Longrightarrow> todo q \<le> todo p \<Longrightarrow> todo p' \<le> todo p"
  "parseBGPNeighbor g q = Inr (r, p') \<Longrightarrow> todo q \<le> todo p \<Longrightarrow> todo p' \<le> todo p"
  "parseBGPGroupImport g q = Inr (r, p') \<Longrightarrow> todo q \<le> todo p \<Longrightarrow> todo p' \<le> todo p"
  "parseBGPGroupExport g q = Inr (r, p') \<Longrightarrow> todo q \<le> todo p \<Longrightarrow> todo p' \<le> todo p"
  by (auto simp: parseBGPGroupType_def parseBGPNeighbor_def parseBGPGroupImport_def
      parseBGPGroupExport_def Let_def split: if_splits option.splits intro!: todo_le)

lemma parseBGP_advance [advance]:
  "parseBGP pc q = Inr (r, p') \<Longrightarrow> todo q \<le> todo p \<Longrightarrow> todo p' \<le> todo p"
  by (auto simp: parseBGP_def parseBGPGroup_def Let_def split: if_splits sum.splits
      intro!: todo_le intro: parseBGP_parts_advance)

lemma parseOSPFInterfaceParams_advance [advance]:
  "parseOSPFInterfaceParams i q = Inr (r, p') \<Longrightarrow> todo q \<le> todo p \<Longrightarrow> todo p' \<le> todo p"
proof (induction i q rule: parseOSPFInterfaceParams.induct)
  case (1 i q)
  have le: "todo (nextToken q) \<le> todo p" "todo (nextToken (nextToken q)) \<le> todo p"
    "todo (nextToken (nextToken (nextToken q))) \<le> todo p"
    using "1.prems"(2) by (auto intro!: todo_le)
  note IH = "1.IH" [OF _ refl refl]
  from "1.prems" show ?case
    by (subst (asm) parseOSPFInterfaceParams.simps)
      (auto simp: Let_def split: if_splits option.splits intro: IH(1-3,5) IH(4) [OF _ _ _ _ _ _ refl] le)
qed

lemma parseOSPFConfig_advance [advance]:
  "parseOSPFConfig o' n q = Inr (r, p') \<Longrightarrow> todo q \<le> todo p \<Longrightarrow> todo p' \<le> todo p"
  by (auto simp: parseOSPFConfig_def parseOSPFArea_def parseOSPFRouterID_def Let_def
      split: if_splits sum.splits intro!: todo_le intro: parseOSPFInterfaceParams_advance)

lemma parseProtocols_advance [advance]:
  "parseProtocols c q = Inr (r, p') \<Longrightarrow> todo q \<le> todo p \<Longrightarrow> todo p' \<le> todo p"
  by (auto simp: parseProtocols_def parseOSPF_def parseOSPF3_def Let_def
      split: if_splits sum.splits intro!: todo_le
      intro: parseBFD_advance parseBGP_advance parseEVPN_advance parseMPLS_VRRP_advance
        parseOSPFConfig_advance)

end
