(* ===== verification/GoNet.thy ===== *)
theory GoNet
  imports GoLib
begin

text \<open>
  \<open>net.ParseIP\<close> and \<open>net.ParseCIDR\<close> of the Go standard library, which both reject addresses
  with a zone: the dotted-decimal and the colon-hexadecimal parser of package \<open>net/netip\<close>.
  An address is its list of bytes.
\<close>

datatype addr = V4 "nat list" | V6 "nat list"

fun bitLen :: "addr \<Rightarrow> nat" where
  "bitLen (V4 _) = 32"
| "bitLen (V6 _) = 128"

fun parseIPv4Fields :: "string \<Rightarrow> nat \<Rightarrow> nat \<Rightarrow> nat list \<Rightarrow> nat list option" where
  "parseIPv4Fields [] v digLen fs = (if length fs < 3 then None else Some (fs @ [v]))"
| "parseIPv4Fields (c # cs) v digLen fs =
     (if isDigit c then
        (if digLen = 1 \<and> v = 0 then None
         else let v' = v * 10 + digitVal c in
           if v' > 255 then None else parseIPv4Fields cs v' (digLen + 1) fs)
      else if c = CHR ''.'' then
        (if digLen = 0 \<or> cs = [] then None
         else if length fs = 3 then None
         else parseIPv4Fields cs 0 0 (fs @ [v]))
      else None)"

definition isHex :: "rune \<Rightarrow> bool" where
  "isHex c \<longleftrightarrow> isDigit c \<or> 97 \<le> runeval c \<and> runeval c \<le> 102 \<or> 65 \<le> runeval c \<and> runeval c \<le> 70"

definition hexVal :: "rune \<Rightarrow> nat" where
  "hexVal c = (if isDigit c then runeval c - 48
     else if 97 \<le> runeval c then runeval c - 87 else runeval c - 55)"

definition hexNum :: "string \<Rightarrow> nat" where
  "hexNum s = foldl (\<lambda>a c. a * 16 + hexVal c) 0 s"

text \<open>
  The loop over the 16-bit groups: the text left, the bytes read so far, and where the
  ellipsis was. The result is the state when the loop stops.
\<close>

function parseIPv6Groups ::
  "string \<Rightarrow> nat list \<Rightarrow> nat option \<Rightarrow> (string \<times> nat list \<times> nat option) option" where
  "parseIPv6Groups s ip ellipsis =
     (if length ip \<ge> 16 then Some (s, ip, ellipsis)
      else let hs = takeWhile isHex s; rest = dropWhile isHex s in
        if hs = [] \<or> length hs > 4 then None
        else if rest \<noteq> [] \<and> hd rest = CHR ''.'' then
          (if ellipsis = None \<and> length ip \<noteq> 12 then None
           else if length ip + 4 > 16 then None
           else case parseIPv4Fields s 0 0 [] of
                  None \<Rightarrow> None
                | Some fs \<Rightarrow> Some ([], ip @ fs, ellipsis))
        else let ip' = ip @ [hexNum hs div 256, hexNum hs mod 256] in
          if rest = [] then Some ([], ip', ellipsis)
          else if hd rest \<noteq> CHR '':'' \<or> tl rest = [] then None
          else let s' = tl rest in
            if hd s' = CHR '':'' then
              (if ellipsis \<noteq> None then None
               else if tl s' = [] then Some ([], ip', Some (length ip'))
               else parseIPv6Groups (tl s') ip' (Some (length ip')))
            else parseIPv6Groups s' ip' ellipsis)"
  by pat_completeness auto
termination
proof (relation "measure (\<lambda>(s, ip, e). 16 - length ip)", goal_cases)
qed (auto simp: Let_def)

declare parseIPv6Groups.simps [simp del]

definition parseIPv6 :: "string \<Rightarrow> addr option" where
  "parseIPv6 s0 =
     (if CHR ''%'' \<in> set s0 then None
      else let lead = (take 2 s0 = ''::''); s = (if lead then drop 2 s0 else s0) in
        if lead \<and> s = [] then Some (V6 (replicate 16 0))
        else case parseIPv6Groups s [] (if lead then Some 0 else None) of
          None \<Rightarrow> None
        | Some (rest, ip, ellipsis) \<Rightarrow>
            (if rest \<noteq> [] then None
             else if length ip < 16 then
               (case ellipsis of
                  None \<Rightarrow> None
                | Some e \<Rightarrow> Some (V6 (take e ip @ replicate (16 - length ip) 0 @ drop e ip)))
             else if ellipsis \<noteq> None then None
             else Some (V6 ip)))"

definition ParseAddr :: "string \<Rightarrow> addr option" where
  "ParseAddr s =
     (case filter (\<lambda>c. c = CHR ''.'' \<or> c = CHR '':'' \<or> c = CHR ''%'') s of
        [] \<Rightarrow> None
      | c # _ \<Rightarrow>
          (if c = CHR ''.'' then map_option V4 (parseIPv4Fields s 0 0 [])
           else if c = CHR '':'' then parseIPv6 s
           else None))"

definition ParseIP :: "string \<Rightarrow> addr option" where
  "ParseIP s = ParseAddr s"

text \<open>\<open>net.ParseCIDR\<close>: the address and the length of the prefix.\<close>

definition ParseCIDR :: "string \<Rightarrow> (addr \<times> nat) option" where
  "ParseCIDR s =
     (if CHR ''/'' \<notin> set s then None
      else let a = takeWhile (\<lambda>c. c \<noteq> CHR ''/'') s; mask = tl (dropWhile (\<lambda>c. c \<noteq> CHR ''/'') s) in
        case ParseAddr a of
          None \<Rightarrow> None
        | Some ip \<Rightarrow>
            (if mask = [] \<or> \<not> list_all isDigit mask \<or> digitsVal mask > bitLen ip then None
             else Some (ip, digitsVal mask)))"

lemma parseIPv4Fields_length:
  "parseIPv4Fields s v d fs = Some r \<Longrightarrow> length fs \<le> 3 \<Longrightarrow> length r = 4"
  by (induction s v d fs rule: parseIPv4Fields.induct) (auto simp: Let_def split: if_splits)

lemma parseIPv4Fields_bytes:
  "parseIPv4Fields s v d fs = Some r \<Longrightarrow> v < 256 \<Longrightarrow> list_all (\<lambda>b. b < 256) fs \<Longrightarrow>
     list_all (\<lambda>b. b < 256) r"
  by (induction s v d fs rule: parseIPv4Fields.induct) (auto simp: Let_def split: if_splits)

lemma ParseCIDR_prefix_bound: "ParseCIDR s = Some (ip, n) \<Longrightarrow> n \<le> bitLen ip"
  by (auto simp: ParseCIDR_def Let_def split: if_splits option.splits)

end
