(* ===== verification/ParserPolicy.thy ===== *)
theory ParserPolicy
  imports ParserBase GoNet
begin

text \<open>
  The statements below \<open>policy-options\<close>: pkg/config/parser\_policy.go with its validators, one
  definition per Go function. A policy statement keeps its terms in the order of their first
  mention.
\<close>

section \<open>Validators\<close>

definition validateCIDR :: "string \<Rightarrow> string + unit" where
  "validateCIDR prefix =
     (case ParseCIDR prefix of
        None \<Rightarrow> Inl (''invalid CIDR format: invalid CIDR address: '' @ prefix)
      | Some _ \<Rightarrow> Inr ())"

definition validProtocols :: "string list" where
  "validProtocols = [''bgp'', ''ospf'', ''ospf3'', ''static'', ''connected'', ''direct'', ''kernel'', ''rip'']"

definition validateProtocol :: "string \<Rightarrow> string + unit" where
  "validateProtocol protocol =
     (if protocol \<notin> set validProtocols
      then Inl (''unknown protocol '' @ Quote protocol @
                '', valid values: bgp, ospf, ospf3, static, connected, direct, kernel, rip'')
      else Inr ())"

definition validateIPAddress :: "string \<Rightarrow> string + unit" where
  "validateIPAddress ip = (if ParseIP ip = None then Inl ''invalid IP address format'' else Inr ())"

definition wellKnownCommunities :: "string list" where
  "wellKnownCommunities = [''no-export'', ''no-advertise'', ''local-AS'', ''no-peer'']"

definition validateCommunity :: "string \<Rightarrow> string + unit" where
  "validateCommunity community =
     (let bad = Inl (''invalid community format '' @ Quote community @
                '', expected ASN:value or well-known community (no-export, no-advertise, local-AS, no-peer)'') in
      if community \<in> set wellKnownCommunities then Inr ()
      else let parts = SplitOn (CHR '':'') community in
        if length parts \<noteq> 2 \<or> parts ! 0 = [] \<or> parts ! 1 = [] then bad
        else case ParseUint (parts ! 0) 32 of
          None \<Rightarrow> bad
        | Some asn \<Rightarrow>
            (if asn > 65535 then bad
             else case ParseUint (parts ! 1) 32 of
                    None \<Rightarrow> bad
                  | Some v \<Rightarrow> (if v > 65535 then bad else Inr ())))"

section \<open>Prefix lists\<close>

definition parsePrefixList :: "Config \<Rightarrow> Parser \<Rightarrow> Config presult" where
  "parsePrefixList config p =
     (if cty p \<noteq> TokenWord then perror p ''expected prefix-list name''
      else let listName = cval p; p = nextToken p in
        if cty p \<noteq> TokenWord then perror p ''expected prefix value''
        else let prefix = cval p in
          case validateCIDR prefix of
            Inl err \<Rightarrow> perror p (''invalid prefix '' @ Quote prefix @ '': '' @ err)
          | Inr _ \<Rightarrow>
              (let p = nextToken p;
                   po = getOr newPolicyOptions (cfg_PolicyOptions config);
                   lst = getOr (newPrefixList listName) (mget (po_PrefixLists po) listName);
                   lst' = lst\<lparr>pl_Prefixes := appendUniqueString (pl_Prefixes lst) prefix\<rparr>
               in Inr (config\<lparr>cfg_PolicyOptions :=
                         Some (po\<lparr>po_PrefixLists := mput listName lst' (po_PrefixLists po)\<rparr>)\<rparr>, p)))"

section \<open>Policy terms\<close>

definition parsePolicyMatchConditions :: "PolicyTerm \<Rightarrow> Parser \<Rightarrow> PolicyTerm presult" where
  "parsePolicyMatchConditions trm p =
     (let from = getOr newPolicyMatchConditions (pt_From trm) in
      if cty p \<noteq> TokenWord then perror p ''expected match condition''
      else let condition = cval p; p = nextToken p in
        if condition = ''prefix-list'' then
          (if cty p \<noteq> TokenWord then perror p ''expected prefix-list name''
           else Inr (trm\<lparr>pt_From := Some (from\<lparr>pm_PrefixLists := pm_PrefixLists from @ [cval p]\<rparr>)\<rparr>, nextToken p))
        else if condition = ''protocol'' then
          (if cty p \<noteq> TokenWord then perror p ''expected protocol name''
           else case validateProtocol (cval p) of
                  Inl err \<Rightarrow> perror p (''invalid protocol: '' @ err)
                | Inr _ \<Rightarrow> Inr (trm\<lparr>pt_From := Some (from\<lparr>pm_Protocol := cval p\<rparr>)\<rparr>, nextToken p))
        else if condition = ''neighbor'' then
          (if cty p \<noteq> TokenWord then perror p ''expected neighbor IP''
           else case validateIPAddress (cval p) of
                  Inl err \<Rightarrow> perror p (''invalid neighbor IP '' @ Quote (cval p) @ '': '' @ err)
                | Inr _ \<Rightarrow> Inr (trm\<lparr>pt_From := Some (from\<lparr>pm_Neighbor := cval p\<rparr>)\<rparr>, nextToken p))
        else if condition = ''as-path'' then
          (if cty p \<noteq> TokenWord \<and> cty p \<noteq> TokenString then perror p ''expected AS path pattern''
           else Inr (trm\<lparr>pt_From := Some (from\<lparr>pm_ASPath := cval p\<rparr>)\<rparr>, nextToken p))
        else perror p (''unsupported match condition: '' @ condition))"

definition parsePolicyActions :: "PolicyTerm \<Rightarrow> Parser \<Rightarrow> PolicyTerm presult" where
  "parsePolicyActions trm p =
     (let thn = getOr newPolicyActions (pt_Then trm) in
      if cty p \<noteq> TokenWord then perror p ''expected action''
      else let action = cval p; p = nextToken p in
        if action = ''accept'' then Inr (trm\<lparr>pt_Then := Some (thn\<lparr>pa_Accept := Some True\<rparr>)\<rparr>, p)
        else if action = ''reject'' then Inr (trm\<lparr>pt_Then := Some (thn\<lparr>pa_Accept := Some False\<rparr>)\<rparr>, p)
        else if action = ''local-preference'' then
          (if cty p \<noteq> TokenNumber then perror p ''expected local-preference value''
           else case ParseUint (cval p) 32 of
                  None \<Rightarrow> perror p (''invalid local-preference value: '' @ cval p)
                | Some localPref \<Rightarrow>
                    Inr (trm\<lparr>pt_Then := Some (thn\<lparr>pa_LocalPreference := Some (of_nat localPref)\<rparr>)\<rparr>, nextToken p))
        else if action = ''community'' then
          (if cty p \<noteq> TokenWord \<and> cty p \<noteq> TokenString then perror p ''expected community value''
           else case validateCommunity (cval p) of
                  Inl err \<Rightarrow> perror p (''invalid community: '' @ err)
                | Inr _ \<Rightarrow> Inr (trm\<lparr>pt_Then := Some (thn\<lparr>pa_Community := cval p\<rparr>)\<rparr>, nextToken p))
        else perror p (''unsupported action: '' @ action))"

text \<open>
  The term of that name, or a new one at the end: the first match, and the list with the term
  replaced by its update.
\<close>

definition isTerm :: "string \<Rightarrow> PolicyTerm option \<Rightarrow> bool" where
  "isTerm name t = (case t of None \<Rightarrow> False | Some t' \<Rightarrow> pt_Name t' = name)"

definition findTerm :: "string \<Rightarrow> PolicyTerm option list \<Rightarrow> PolicyTerm" where
  "findTerm name terms =
     (case filter (isTerm name) terms of Some t # _ \<Rightarrow> t | _ \<Rightarrow> newPolicyTerm name)"

fun putTerm :: "string \<Rightarrow> PolicyTerm \<Rightarrow> PolicyTerm option list \<Rightarrow> PolicyTerm option list" where
  "putTerm name t' [] = [Some t']"
| "putTerm name t' (t # ts) = (if isTerm name t then Some t' # ts else t # putTerm name t' ts)"

definition parsePolicyStatement :: "Config \<Rightarrow> Parser \<Rightarrow> Config presult" where
  "parsePolicyStatement config p =
     (if cty p \<noteq> TokenWord then perror p ''expected policy-statement name''
      else let policyName = cval p; p = nextToken p in
        if cty p \<noteq> TokenWord \<or> cval p \<noteq> ''term'' then perror p ''expected 'term' keyword''
        else let p = nextToken p in
          if cty p \<noteq> TokenWord then perror p ''expected term name''
          else let termName = cval p; p = nextToken p;
                   po = getOr newPolicyOptions (cfg_PolicyOptions config);
                   ps = getOr (newPolicyStatement policyName) (mget (po_PolicyStatements po) policyName);
                   trm = findTerm termName (ps_Terms ps);
                   store = (\<lambda>r. case r of Inl e \<Rightarrow> Inl e
                     | Inr (t', p') \<Rightarrow>
                         Inr (config\<lparr>cfg_PolicyOptions := Some (po\<lparr>po_PolicyStatements :=
                                mput policyName (ps\<lparr>ps_Terms := putTerm termName t' (ps_Terms ps)\<rparr>)
                                  (po_PolicyStatements po)\<rparr>)\<rparr>, p'))
            in if cty p \<noteq> TokenWord then perror p ''expected 'from' or 'then' keyword''
               else let keyword = cval p; p = nextToken p in
                 if keyword = ''from'' then store (parsePolicyMatchConditions trm p)
                 else if keyword = ''then'' then store (parsePolicyActions trm p)
                 else perror p (''expected 'from' or 'then', got '' @ [CHR 0x27] @ keyword @ [CHR 0x27]))"

definition parsePolicyOptions :: "Config \<Rightarrow> Parser \<Rightarrow> Config presult" where
  "parsePolicyOptions config p =
     (if cty p \<noteq> TokenWord then perror p ''expected policy-options parameter''
      else let param = cval p; p = nextToken p in
        if param = ''prefix-list'' then parsePrefixList config p
        else if param = ''policy-statement'' then parsePolicyStatement config p
        else perror p (''unsupported policy-options parameter: '' @ param))"

lemmas policy_defs [parsing] =
  parsePrefixList_def parsePolicyMatchConditions_def parsePolicyActions_def
  parsePolicyStatement_def parsePolicyOptions_def

lemma parsePolicy_parts_advance [advance]:
  "parsePrefixList c q = Inr (r, p') \<Longrightarrow> todo q \<le> todo p \<Longrightarrow> todo p' \<le> todo p"
  "parsePolicyMatchConditions t q = Inr (r', p') \<Longrightarrow> todo q \<le> todo p \<Longrightarrow> todo p' \<le> todo p"
  "parsePolicyActions t q = Inr (r', p') \<Longrightarrow> todo q \<le> todo p \<Longrightarrow> todo p' \<le> todo p"
  by (auto simp: parsePrefixList_def parsePolicyMatchConditions_def parsePolicyActions_def Let_def
      split: if_splits sum.splits option.splits intro!: todo_le)

lemma parsePolicyOptions_advance [advance]:
  "parsePolicyOptions c q = Inr (r, p') \<Longrightarrow> todo q \<le> todo p \<Longrightarrow> todo p' \<le> todo p"
  by (auto simp: parsePolicyOptions_def parsePolicyStatement_def Let_def
      split: if_splits sum.splits intro!: todo_le intro: parsePolicy_parts_advance)

end
