(* ===== verification/ParserSecurity.thy ===== *)
theory ParserSecurity
  imports ParserBase
begin

text \<open>
  The statements below \<open>class-of-service\<close> and \<open>security\<close>: pkg/config/parser\_cos\_security.go,
  one definition per Go function.
\<close>

section \<open>Class of service\<close>

definition parseForwardingClass :: "ClassOfServiceConfig \<Rightarrow> Parser \<Rightarrow> ClassOfServiceConfig presult" where
  "parseForwardingClass cos p =
     (if cty p \<noteq> TokenWord then perror p ''expected forwarding-class name''
      else let name = cval p; p = nextToken p in
        if cty p \<noteq> TokenWord \<or> cval p \<noteq> ''queue'' then perror p ''expected 'queue' after forwarding-class name''
        else let p = nextToken p in
          if cty p \<noteq> TokenNumber then perror p ''expected queue number''
          else case Atoi (cval p) of
                 None \<Rightarrow> perror p (''invalid queue number: '' @ cval p)
               | Some queue \<Rightarrow>
                   Inr (cos\<lparr>cos_ForwardingClasses :=
                          mput name \<lparr>fc_Name = name, fc_Queue = queue\<rparr> (cos_ForwardingClasses cos)\<rparr>, nextToken p))"

definition parseTrafficControlProfile :: "ClassOfServiceConfig \<Rightarrow> Parser \<Rightarrow> ClassOfServiceConfig presult" where
  "parseTrafficControlProfile cos p =
     (if cty p \<noteq> TokenWord then perror p ''expected traffic-control-profile name''
      else let name = cval p; p = nextToken p;
               profile = getOr (newTrafficControlProfile name) (mget (cos_TrafficControlProfiles cos) name);
               store = (\<lambda>v. cos\<lparr>cos_TrafficControlProfiles := mput name v (cos_TrafficControlProfiles cos)\<rparr>)
        in if cty p \<noteq> TokenWord then perror p ''expected traffic-control-profile parameter''
           else let param = cval p; p = nextToken p in
             if param = ''shaping-rate'' then
               (if cty p \<noteq> TokenNumber then perror p ''expected shaping-rate value''
                else case ParseUint (cval p) 64 of
                       None \<Rightarrow> perror p (''invalid shaping-rate: '' @ cval p)
                     | Some rate \<Rightarrow> Inr (store (profile\<lparr>tcp_ShapingRate := of_nat rate\<rparr>), nextToken p))
             else if param = ''scheduler-map'' then
               (if cty p \<noteq> TokenWord then perror p ''expected scheduler-map name''
                else Inr (store (profile\<lparr>tcp_SchedulerMap := cval p\<rparr>), nextToken p))
             else perror p (''unsupported traffic-control-profile parameter: '' @ param))"

definition parseCoSInterface :: "ClassOfServiceConfig \<Rightarrow> Parser \<Rightarrow> ClassOfServiceConfig presult" where
  "parseCoSInterface cos p =
     (if cty p \<noteq> TokenWord then perror p ''expected class-of-service interface name''
      else let name = cval p; p = nextToken p in
        if cty p \<noteq> TokenWord \<or> cval p \<noteq> ''output-traffic-control-profile''
        then perror p ''expected output-traffic-control-profile''
        else let p = nextToken p in
          if cty p \<noteq> TokenWord then perror p ''expected traffic-control-profile name''
          else Inr (cos\<lparr>cos_Interfaces :=
                      mput name \<lparr>ci_Name = name, ci_OutputTrafficControlProfile = cval p\<rparr> (cos_Interfaces cos)\<rparr>,
                    nextToken p))"

definition parseClassOfService :: "Config \<Rightarrow> Parser \<Rightarrow> Config presult" where
  "parseClassOfService config p =
     (let cos = getOr newClassOfServiceConfig (cfg_ClassOfService config);
          store = (\<lambda>r. case r of Inl e \<Rightarrow> Inl e
             | Inr (c', p') \<Rightarrow> Inr (config\<lparr>cfg_ClassOfService := Some c'\<rparr>, p'))
      in if cty p \<noteq> TokenWord then perror p ''expected class-of-service parameter''
         else let param = cval p; p = nextToken p in
           if param = ''forwarding-class'' then store (parseForwardingClass cos p)
           else if param = ''traffic-control-profile'' then store (parseTrafficControlProfile cos p)
           else if param = ''interfaces'' then store (parseCoSInterface cos p)
           else perror p (''unsupported class-of-service parameter: '' @ param))"

section \<open>Security\<close>

definition parseSecurityNETCONF :: "Config \<Rightarrow> Parser \<Rightarrow> Config presult" where
  "parseSecurityNETCONF config p =
     (let sec = getOr newSecurityConfig (cfg_Security config) in
      if cty p \<noteq> TokenWord \<or> cval p \<noteq> ''ssh'' then perror p (''expected 'ssh' after 'netconf'' @ [CHR 0x27])
      else let p = nextToken p in
        if cty p \<noteq> TokenWord then perror p ''expected netconf ssh parameter''
        else let param = cval p; p = nextToken p;
                 nc = getOr newNETCONFConfig (sec_NETCONF sec);
                 ssh = getOr newNETCONFSSHConfig (nc_SSH nc);
                 store = (\<lambda>v. config\<lparr>cfg_Security := Some (sec\<lparr>sec_NETCONF := Some (nc\<lparr>nc_SSH := Some v\<rparr>)\<rparr>)\<rparr>)
          in if param = ''enabled'' then
               (case parseBool p of Inl e \<Rightarrow> Inl e
                  | Inr (enabled, p') \<Rightarrow> Inr (store (ssh\<lparr>ssh_Enabled := enabled, ssh_EnabledSet := True\<rparr>), p'))
             else if param = ''listen-address'' then
               (if cty p \<noteq> TokenWord \<and> cty p \<noteq> TokenString then perror p ''expected netconf ssh listen address''
                else Inr (store (ssh\<lparr>ssh_ListenAddress := cval p\<rparr>), nextToken p))
             else if param = ''port'' then
               (if cty p \<noteq> TokenWord \<and> cty p \<noteq> TokenNumber then perror p ''expected port number''
                else case Atoi (cval p) of
                       None \<Rightarrow> perror p (''invalid port number: '' @ cval p)
                     | Some port \<Rightarrow>
                         (if port < 0 \<or> port > 65535 then perror p (''port number out of range: '' @ formatInt port)
                          else Inr (store (ssh\<lparr>ssh_Port := port\<rparr>), nextToken p)))
             else perror p (''unsupported netconf ssh parameter: '' @ param))"

definition parseSecurityUsers :: "hasher \<Rightarrow> Config \<Rightarrow> Parser \<Rightarrow> Config presult" where
  "parseSecurityUsers hash config p =
     (let sec = getOr newSecurityConfig (cfg_Security config) in
      if cty p \<noteq> TokenWord \<or> cval p \<noteq> ''user'' then perror p (''expected 'user' after 'users'' @ [CHR 0x27])
      else let p = nextToken p in
        if cty p \<noteq> TokenWord then perror p ''expected username''
        else let username = cval p; p = nextToken p;
                 user = getOr (newUserConfig username) (mget (sec_Users sec) username);
                 store = (\<lambda>u. config\<lparr>cfg_Security := Some (sec\<lparr>sec_Users := mput username u (sec_Users sec)\<rparr>)\<rparr>)
          in if cty p \<noteq> TokenWord then perror p ''expected user parameter (password, role, ssh-key)''
             else let param = cval p; p = nextToken p in
               if param = ''password'' then
                 (if cty p \<noteq> TokenWord \<and> cty p \<noteq> TokenString then perror p ''expected password value''
                  else case NormalizePasswordForStorage hash (cval p) of
                         Inl e \<Rightarrow> Inl (SecretErr (tk_Line (pr_current p)) (tk_Column (pr_current p)) e)
                       | Inr password \<Rightarrow> Inr (store (user\<lparr>us_Password := password\<rparr>), nextToken p))
               else if param = ''role'' then
                 (if cty p \<noteq> TokenWord then perror p ''expected role value''
                  else let role = cval p in
                    if role \<noteq> ''admin'' \<and> role \<noteq> ''operator'' \<and> role \<noteq> ''read-only''
                    then perror p (''invalid role: '' @ role @ '' (must be admin, operator, or read-only)'')
                    else Inr (store (user\<lparr>us_Role := role\<rparr>), nextToken p))
               else if param = ''ssh-key'' then
                 (if cty p \<noteq> TokenString then perror p ''expected SSH key string''
                  else Inr (store (user\<lparr>us_SSHKey := cval p\<rparr>), nextToken p))
               else perror p (''unsupported user parameter: '' @ param))"

definition parseSecurityRateLimit :: "Config \<Rightarrow> Parser \<Rightarrow> Config presult" where
  "parseSecurityRateLimit config p =
     (let sec = getOr newSecurityConfig (cfg_Security config);
          rl = getOr newRateLimitConfig (sec_RateLimit sec);
          store = (\<lambda>v. config\<lparr>cfg_Security := Some (sec\<lparr>sec_RateLimit := Some v\<rparr>)\<rparr>)
      in if cty p \<noteq> TokenWord then perror p ''expected rate-limit parameter''
         else let param = cval p; p = nextToken p in
           if cty p \<noteq> TokenWord \<and> cty p \<noteq> TokenNumber then perror p ''expected rate limit value''
           else case Atoi (cval p) of
             None \<Rightarrow> perror p (''invalid rate limit: '' @ cval p)
           | Some limit \<Rightarrow>
               (if limit < 1 \<or> limit > 1000
                then perror p (''rate limit out of range: '' @ formatInt limit @ '' (must be 1-1000)'')
                else if param = ''per-ip'' then Inr (store (rl\<lparr>rl_PerIP := limit\<rparr>), nextToken p)
                else if param = ''per-user'' then Inr (store (rl\<lparr>rl_PerUser := limit\<rparr>), nextToken p)
                else perror p (''unsupported rate-limit parameter: '' @ param)))"

definition parseSecurity :: "hasher \<Rightarrow> Config \<Rightarrow> Parser \<Rightarrow> Config presult" where
  "parseSecurity hash config p =
     (if cty p \<noteq> TokenWord then perror p ''expected security parameter''
      else let param = cval p; p = nextToken p in
        if param = ''netconf'' then parseSecurityNETCONF config p
        else if param = ''users'' then parseSecurityUsers hash config p
        else if param = ''rate-limit'' then parseSecurityRateLimit config p
        else perror p (''unsupported security parameter: '' @ param))"

lemmas security_defs [parsing] =
  parseForwardingClass_def parseTrafficControlProfile_def parseCoSInterface_def
  parseClassOfService_def parseSecurityNETCONF_def parseSecurityUsers_def
  parseSecurityRateLimit_def parseSecurity_def

lemma parseCoS_parts_advance [advance]:
  "parseForwardingClass c q = Inr (r, p') \<Longrightarrow> todo q \<le> todo p \<Longrightarrow> todo p' \<le> todo p"
  "parseTrafficControlProfile c q = Inr (r, p') \<Longrightarrow> todo q \<le> todo p \<Longrightarrow> todo p' \<le> todo p"
  "parseCoSInterface c q = Inr (r, p') \<Longrightarrow> todo q \<le> todo p \<Longrightarrow> todo p' \<le> todo p"
  by (auto simp: parseForwardingClass_def parseTrafficControlProfile_def parseCoSInterface_def Let_def
      split: if_splits option.splits intro!: todo_le)

lemma parseClassOfService_advance [advance]:
  "parseClassOfService c q = Inr (r, p') \<Longrightarrow> todo q \<le> todo p \<Longrightarrow> todo p' \<le> todo p"
  by (auto simp: parseClassOfService_def Let_def split: if_splits sum.splits
      intro!: todo_le intro: parseCoS_parts_advance)

lemma parseSecurity_parts_advance [advance]:
  "parseSecurityNETCONF c q = Inr (r, p') \<Longrightarrow> todo q \<le> todo p \<Longrightarrow> todo p' \<le> todo p"
  "parseSecurityUsers h c q = Inr (r, p') \<Longrightarrow> todo q \<le> todo p \<Longrightarrow> todo p' \<le> todo p"
  "parseSecurityRateLimit c q = Inr (r, p') \<Longrightarrow> todo q \<le> todo p \<Longrightarrow> todo p' \<le> todo p"
  by (auto simp: parseSecurityNETCONF_def parseSecurityUsers_def parseSecurityRateLimit_def Let_def
      split: if_splits sum.splits option.splits intro!: todo_le intro: parseBool_advance)

lemma parseSecurity_advance [advance]:
  "parseSecurity h c q = Inr (r, p') \<Longrightarrow> todo q \<le> todo p \<Longrightarrow> todo p' \<le> todo p"
  by (auto simp: parseSecurity_def Let_def split: if_splits
      intro!: todo_le intro: parseSecurity_parts_advance)

end
