(* ===== verification/Parser.thy ===== *)
theory Parser
  imports ParserSystem ParserProtocols ParserPolicy ParserSecurity
begin

text \<open>
  The top level of pkg/config/parser.go: one \<open>set\<close> statement, and the loop over the
  statements of a file. The loop is a total function because every statement consumes the
  token \<open>set\<close>.
\<close>

definition parseStatement :: "hasher \<Rightarrow> Config \<Rightarrow> Parser \<Rightarrow> Config presult" where
  "parseStatement hash config p =
     (if cty p = TokenError then lexerError p (cval p)
      else if cty p \<noteq> TokenSet then perror p (''expected 'set', got '' @ TokenTypeString (cty p))
      else let p = nextToken p in
        if cty p = TokenError then lexerError p (cval p)
        else if cty p \<noteq> TokenWord
        then perror p (''expected keyword after 'set', got '' @ TokenTypeString (cty p))
        else let keyword = cval p; p = nextToken p in
          if keyword = ''system'' then parseSystem config p
          else if keyword = ''chassis'' then parseChassis config p
          else if keyword = ''interfaces'' then parseInterfaces config p
          else if keyword = ''routing-options'' then parseRoutingOptions config p
          else if keyword = ''routing-instances'' then parseRoutingInstances config p
          else if keyword = ''protocols'' then parseProtocols config p
          else if keyword = ''policy-options'' then parsePolicyOptions config p
          else if keyword = ''class-of-service'' then parseClassOfService config p
          else if keyword = ''security'' then parseSecurity hash config p
          else perror p (''unsupported keyword: '' @ keyword))"

lemma parseStatement_advance:
  "parseStatement h c p = Inr (r, p') \<Longrightarrow> todo p' < todo p"
proof -
  assume r: "parseStatement h c p = Inr (r, p')"
  then have "cty p = TokenSet"
    by (auto simp: parseStatement_def split: if_splits)
  then have "todo (nextToken p) < todo p"
    by (intro todo_nextToken) simp
  moreover have "todo p' \<le> todo (nextToken p)"
    using r by (auto simp: parseStatement_def Let_def split: if_splits intro!: todo_le intro: advance)
  ultimately show ?thesis by simp
qed

function ParseLoop :: "hasher \<Rightarrow> Config \<Rightarrow> Parser \<Rightarrow> ParseError + Config" where
  "ParseLoop hash config p =
     (if cty p = TokenEOF then Inr config
      else if cty p = TokenEOL then ParseLoop hash config (nextToken p)
      else case parseStatement hash config p of
             Inl e \<Rightarrow> Inl e
           | Inr (config', q) \<Rightarrow>
               (if cty q \<noteq> TokenEOL \<and> cty q \<noteq> TokenEOF
                then Inl (ParseErr (tk_Line (pr_current q)) (tk_Column (pr_current q)) ''expected end of line after statement'')
                else ParseLoop hash config' (if cty q = TokenEOL then nextToken q else q)))"
  by pat_completeness auto
termination
  by (relation "measure (\<lambda>(_, _, p). todo p)")
    (auto dest: parseStatement_advance intro: todo_nextToken le_less_trans [OF todo_nextToken_le])

declare ParseLoop.simps [simp del]

definition Parse :: "hasher \<Rightarrow> string \<Rightarrow> ParseError + Config" where
  "Parse hash r = ParseLoop hash NewConfig (NewParser r)"

lemma Parse_first_error:
  assumes "at (NewParser s) as" and "as \<noteq> []" and "fst (hd as) = TokenSet"
    and "\<And>p. at p as \<Longrightarrow> \<exists>line col. parseStatement hash NewConfig p = Inl (ParseErr line col msg)"
  shows "\<exists>line col. Parse hash s = Inl (ParseErr line col msg)"
proof -
  obtain line col where e: "parseStatement hash NewConfig (NewParser s) = Inl (ParseErr line col msg)"
    using assms(4) [OF assms(1)] by blast
  have "cty (NewParser s) = TokenSet" using assms(1-3) by (cases as) auto
  then have "Parse hash s = Inl (ParseErr line col msg)"
    by (simp add: Parse_def ParseLoop.simps [of hash NewConfig "NewParser s"] e)
  then show ?thesis by blast
qed

lemma Parse_unterminated:
  assumes "at (NewParser s) as" and "as \<noteq> []" and "fst (hd as) = TokenSet"
    and "\<And>p. at p as \<Longrightarrow> \<exists>c q. parseStatement hash NewConfig p = Inr (c, q) \<and> cty q \<noteq> TokenEOL \<and> cty q \<noteq> TokenEOF"
  shows "\<exists>line col. Parse hash s = Inl (ParseErr line col ''expected end of line after statement'')"
proof -
  obtain c q where e: "parseStatement hash NewConfig (NewParser s) = Inr (c, q)" "cty q \<noteq> TokenEOL" "cty q \<noteq> TokenEOF"
    using assms(4) [OF assms(1)] by blast
  have "cty (NewParser s) = TokenSet" using assms(1-3) by (cases as) auto
  then show ?thesis
    by (simp add: Parse_def ParseLoop.simps [of hash NewConfig "NewParser s"] e)
qed

end
