(* ===== verification/Serializer.thy ===== *)
theory Serializer
  imports Secrets ConfigTypes "HOL-Library.Product_Lexorder"
begin

text \<open>
  The serializer of pkg/config/serializer.go: one definition per \<open>write\<dots>\<close> function. A function
  that appends to the \<open>strings.Builder\<close> returns the text it appends. A call
  \<open>writeLine(b, "set a %s b %d", x, n)\<close> is \<open>writeLine [''set'', ''a'', x, ''b'', formatInt n]\<close>: the words of
  the format and the printed arguments, joined by single blanks and ended by a newline. A loop
  over the sorted keys of a map that skips nil entries is \<open>eachKey\<close>, a block guarded by a nil
  check \<open>ifSet\<close>, a guarded line \<open>onlyIf\<close>. The body of a loop has a definition of its own.
\<close>

section \<open>Output\<close>

definition writeLine :: "string list \<Rightarrow> string" where
  "writeLine ws = JoinWith '' '' ws @ [newline]"

definition onlyIf :: "bool \<Rightarrow> 'a list \<Rightarrow> 'a list" where
  "onlyIf b s = (if b then s else [])"

lemma onlyIf_simps: "onlyIf True s = s" "onlyIf False s = []"
  by (simp_all add: onlyIf_def)

definition ifSet :: "('v \<Rightarrow> 'a list) \<Rightarrow> 'v option \<Rightarrow> 'a list" where
  "ifSet f x = (case x of None \<Rightarrow> [] | Some v \<Rightarrow> f v)"

lemma ifSet_simps [simp]: "ifSet f None = []" "ifSet f (Some v) = f v"
  by (simp_all add: ifSet_def)

definition eachLine :: "('a \<Rightarrow> string) \<Rightarrow> 'a list \<Rightarrow> string" where
  "eachLine f xs = concat (map f xs)"

definition sortedKeys :: "(string, 'v) gomap \<Rightarrow> string list" where
  "sortedKeys m = sort (map fst m)"

definition sortedInts :: "(int, 'v) gomap \<Rightarrow> int list" where
  "sortedInts m = sort (map fst m)"

definition sortedStrings :: "string list \<Rightarrow> string list" where
  "sortedStrings values = sort values"

definition forKeys :: "('k \<Rightarrow> 'v \<Rightarrow> 'a list) \<Rightarrow> ('k, 'v) gomap \<Rightarrow> 'k list \<Rightarrow> 'a list" where
  "forKeys f m ks = concat (map (\<lambda>k. case mget m k of None \<Rightarrow> [] | Some v \<Rightarrow> f k v) ks)"

definition eachKey :: "(string \<Rightarrow> 'v \<Rightarrow> 'a list) \<Rightarrow> (string, 'v) gomap \<Rightarrow> 'a list" where
  "eachKey f m = forKeys f m (sortedKeys m)"

definition eachInt :: "(int \<Rightarrow> 'v \<Rightarrow> 'a list) \<Rightarrow> (int, 'v) gomap \<Rightarrow> 'a list" where
  "eachInt f m = forKeys f m (sortedInts m)"

record serializeOptions =
  opt_RedactSecrets :: bool

section \<open>System, chassis, interfaces\<close>

definition writeHostName :: "SystemConfig option \<Rightarrow> string" where
  "writeHostName system =
     ifSet (\<lambda>s. onlyIf (sys_HostName s \<noteq> [])
         (writeLine [''set'', ''system'', ''host-name'', EscapeValue (sys_HostName s)])) system"

text \<open>The bodies of the three conditionals of \<open>writeSystemServices\<close>.\<close>

definition writeWebUI :: "WebUIConfig \<Rightarrow> string" where
  "writeWebUI web =
     onlyIf (web_Enabled web) (writeLine [''set'', ''system'', ''services'', ''web-ui'', ''enabled'', ''true'']) @
     onlyIf (web_ListenAddress web \<noteq> [])
       (writeLine [''set'', ''system'', ''services'', ''web-ui'', ''listen-address'', EscapeValue (web_ListenAddress web)]) @
     onlyIf (web_Port web \<noteq> 0)
       (writeLine [''set'', ''system'', ''services'', ''web-ui'', ''port'', formatInt (web_Port web)])"

definition writePrometheus :: "PrometheusConfig \<Rightarrow> string" where
  "writePrometheus prometheus =
     onlyIf (prom_Enabled prometheus) (writeLine [''set'', ''system'', ''services'', ''prometheus'', ''enabled'', ''true'']) @
     onlyIf (prom_ListenAddress prometheus \<noteq> [])
       (writeLine [''set'', ''system'', ''services'', ''prometheus'', ''listen-address'', EscapeValue (prom_ListenAddress prometheus)]) @
     onlyIf (prom_Port prometheus \<noteq> 0)
       (writeLine [''set'', ''system'', ''services'', ''prometheus'', ''port'', formatInt (prom_Port prometheus)])"

definition writeSNMP :: "serializeOptions \<Rightarrow> SNMPConfig \<Rightarrow> string" where
  "writeSNMP opts snmp =
     onlyIf (snmp_Enabled snmp) (writeLine [''set'', ''system'', ''services'', ''snmp'', ''enabled'', ''true'']) @
     onlyIf (snmp_ListenAddress snmp \<noteq> [])
       (writeLine [''set'', ''system'', ''services'', ''snmp'', ''listen-address'', EscapeValue (snmp_ListenAddress snmp)]) @
     onlyIf (snmp_Port snmp \<noteq> 0)
       (writeLine [''set'', ''system'', ''services'', ''snmp'', ''port'', formatInt (snmp_Port snmp)]) @
     onlyIf (snmp_Community snmp \<noteq> [])
       (let community = (if opt_RedactSecrets opts then redactedSecretValue else snmp_Community snmp)
        in writeLine [''set'', ''system'', ''services'', ''snmp'', ''community'', EscapeValue community])"

definition writeServices :: "serializeOptions \<Rightarrow> SystemServicesConfig \<Rightarrow> string" where
  "writeServices opts services =
     ifSet writeWebUI (svc_WebUI services) @ ifSet writePrometheus (svc_Prometheus services) @
     ifSet (writeSNMP opts) (svc_SNMP services)"

definition writeSystemServices :: "SystemConfig option \<Rightarrow> serializeOptions \<Rightarrow> string" where
  "writeSystemServices system opts = ifSet (\<lambda>s. ifSet (writeServices opts) (sys_Services s)) system"

definition writeClusterNode :: "string \<Rightarrow> ClusterNode \<Rightarrow> string" where
  "writeClusterNode name node =
     onlyIf (cn_Address node \<noteq> [])
       (writeLine [''set'', ''chassis'', ''cluster'', ''node'', name, ''address'', cn_Address node]) @
     onlyIf (cn_Priority node \<noteq> 0)
       (writeLine [''set'', ''chassis'', ''cluster'', ''node'', name, ''priority'', formatInt (cn_Priority node)])"

definition writeEtcd :: "EtcdSyncConfig \<Rightarrow> string" where
  "writeEtcd etcd =
     eachLine (\<lambda>endpoint.
         writeLine [''set'', ''chassis'', ''cluster'', ''sync'', ''etcd'', ''endpoint'', EscapeValue endpoint])
       (sort (es_Endpoints etcd))"

definition writeCluster :: "ClusterConfig \<Rightarrow> string" where
  "writeCluster cluster =
     onlyIf (cl_Enabled cluster) (writeLine [''set'', ''chassis'', ''cluster'', ''enabled'', ''true'']) @
     eachKey writeClusterNode (cl_Nodes cluster) @
     ifSet (\<lambda>sync. ifSet writeEtcd (cs_Etcd sync)) (cl_Sync cluster)"

definition writeChassis :: "ChassisConfig option \<Rightarrow> string" where
  "writeChassis chassis = ifSet (\<lambda>ch. ifSet writeCluster (ch_Cluster ch)) chassis"

definition writeFamily :: "string \<Rightarrow> int \<Rightarrow> string \<Rightarrow> Family \<Rightarrow> string" where
  "writeFamily name unitNum familyName family =
     eachLine (\<lambda>addr. writeLine [''set'', ''interfaces'', name, ''unit'', formatInt unitNum, ''family'', familyName,
         ''address'', addr])
       (sort (fam_Addresses family))"

definition writeUnit :: "string \<Rightarrow> int \<Rightarrow> Unit \<Rightarrow> string" where
  "writeUnit name unitNum u = eachKey (writeFamily name unitNum) (unit_Family u)"

definition writeInterface :: "string \<Rightarrow> Interface \<Rightarrow> string" where
  "writeInterface name iface =
     onlyIf (if_Description iface \<noteq> [])
       (writeLine [''set'', ''interfaces'', name, ''description'', EscapeValue (if_Description iface)]) @
     eachInt (writeUnit name) (if_Units iface)"

definition writeInterfaces :: "(string, Interface) gomap \<Rightarrow> string" where
  "writeInterfaces interfaces = eachKey writeInterface interfaces"

section \<open>Routing options and instances\<close>

text \<open>
  The comparison of the sort: nil routes first, then prefix, next hop and distance. Two routes
  that agree on all three are left in their order.
\<close>

definition routeKey :: "StaticRoute option \<Rightarrow> bool \<times> string \<times> string \<times> int" where
  "routeKey route =
     (case route of None \<Rightarrow> (False, [], [], 0)
      | Some r \<Rightarrow> (True, sr_Prefix r, sr_NextHop r, sr_Distance r))"

definition routeParams :: "StaticRoute \<Rightarrow> string list" where
  "routeParams route =
     onlyIf (sr_Distance route > 0) [''distance'', formatInt (sr_Distance route)] @
     onlyIf (sr_BFD route \<or> sr_BFDProfile route \<noteq> [] \<or> sr_BFDSource route \<noteq> [] \<or> sr_BFDMultihop route)
       ([''bfd''] @
        onlyIf (sr_BFDMultihop route) [''multi-hop''] @
        onlyIf (sr_BFDSource route \<noteq> []) [''source'', sr_BFDSource route] @
        onlyIf (sr_BFDProfile route \<noteq> []) [''profile'', EscapeValue (sr_BFDProfile route)])"

definition writeRoute :: "StaticRoute \<Rightarrow> string" where
  "writeRoute route =
     writeLine ([''set'', ''routing-options'', ''static'', ''route'', sr_Prefix route, ''next-hop'', sr_NextHop route] @
       routeParams route)"

definition writeRoutingOptions :: "RoutingOptions option \<Rightarrow> string" where
  "writeRoutingOptions ro =
     ifSet (\<lambda>ro.
        onlyIf (ro_RouterID ro \<noteq> []) (writeLine [''set'', ''routing-options'', ''router-id'', ro_RouterID ro]) @
        onlyIf (ro_AutonomousSystem ro \<noteq> 0)
          (writeLine [''set'', ''routing-options'', ''autonomous-system'', formatNat (unat (ro_AutonomousSystem ro))]) @
        eachLine (ifSet writeRoute) (sort_key routeKey (ro_StaticRoutes ro))) ro"

definition writeRoutingInstance :: "string \<Rightarrow> RoutingInstance \<Rightarrow> string" where
  "writeRoutingInstance name inst =
     onlyIf (ri_InstanceType inst \<noteq> [])
       (writeLine [''set'', ''routing-instances'', name, ''instance-type'', ri_InstanceType inst]) @
     onlyIf (ri_RouteDistinguisher inst \<noteq> [])
       (writeLine [''set'', ''routing-instances'', name, ''route-distinguisher'', ri_RouteDistinguisher inst]) @
     onlyIf (ri_VRFTarget inst \<noteq> [])
       (writeLine [''set'', ''routing-instances'', name, ''vrf-target'', ri_VRFTarget inst]) @
     eachLine (\<lambda>target. writeLine [''set'', ''routing-instances'', name, ''vrf-target'', ''import'', target])
       (ri_VRFTargetImport inst) @
     eachLine (\<lambda>target. writeLine [''set'', ''routing-instances'', name, ''vrf-target'', ''export'', target])
       (ri_VRFTargetExport inst) @
     eachLine (\<lambda>policy. writeLine [''set'', ''routing-instances'', name, ''vrf-import'', EscapeValue policy])
       (ri_VRFImport inst) @
     eachLine (\<lambda>policy. writeLine [''set'', ''routing-instances'', name, ''vrf-export'', EscapeValue policy])
       (ri_VRFExport inst) @
     eachLine (\<lambda>iface. writeLine [''set'', ''routing-instances'', name, ''interface'', iface])
       (sort (ri_Interfaces inst))"

definition writeRoutingInstances :: "(string, RoutingInstance) gomap \<Rightarrow> string" where
  "writeRoutingInstances instances = eachKey writeRoutingInstance instances"

section \<open>Protocols\<close>

definition writeBFDProfile :: "string \<Rightarrow> BFDProfile \<Rightarrow> string" where
  "writeBFDProfile name profile =
     (let base = [''set'', ''protocols'', ''bfd'', ''profile'', EscapeValue name] in
      onlyIf (bp_ReceiveInterval profile \<noteq> 0)
        (writeLine (base @ [''receive-interval'', formatInt (bp_ReceiveInterval profile)])) @
      onlyIf (bp_TransmitInterval profile \<noteq> 0)
        (writeLine (base @ [''transmit-interval'', formatInt (bp_TransmitInterval profile)])) @
      onlyIf (bp_DetectMultiplier profile \<noteq> 0)
        (writeLine (base @ [''detect-multiplier'', formatInt (bp_DetectMultiplier profile)])) @
      onlyIf (bp_EchoMode profile) (writeLine (base @ [''echo-mode''])) @
      onlyIf (bp_PassiveMode profile) (writeLine (base @ [''passive-mode''])))"

definition writeBFDPeer :: "string \<Rightarrow> BFDPeer \<Rightarrow> string" where
  "writeBFDPeer address peer =
     (let base = [''set'', ''protocols'', ''bfd'', ''peer'', EscapeValue address] in
      onlyIf (be_LocalAddress peer \<noteq> []) (writeLine (base @ [''local-address'', EscapeValue (be_LocalAddress peer)])) @
      onlyIf (be_Interface peer \<noteq> []) (writeLine (base @ [''interface'', be_Interface peer])) @
      onlyIf (be_VRF peer \<noteq> []) (writeLine (base @ [''vrf'', EscapeValue (be_VRF peer)])) @
      onlyIf (be_Multihop peer) (writeLine (base @ [''multihop''])) @
      onlyIf (be_Profile peer \<noteq> []) (writeLine (base @ [''profile'', EscapeValue (be_Profile peer)])) @
      onlyIf (be_ReceiveInterval peer \<noteq> 0)
        (writeLine (base @ [''receive-interval'', formatInt (be_ReceiveInterval peer)])) @
      onlyIf (be_TransmitInterval peer \<noteq> 0)
        (writeLine (base @ [''transmit-interval'', formatInt (be_TransmitInterval peer)])) @
      onlyIf (be_DetectMultiplier peer \<noteq> 0)
        (writeLine (base @ [''detect-multiplier'', formatInt (be_DetectMultiplier peer)])) @
      onlyIf (be_EchoMode peer) (writeLine (base @ [''echo-mode''])) @
      onlyIf (be_PassiveMode peer) (writeLine (base @ [''passive-mode''])) @
      onlyIf (be_Shutdown peer) (writeLine (base @ [''shutdown''])))"

definition writeBFD :: "BFDConfig option \<Rightarrow> string" where
  "writeBFD bfd =
     ifSet (\<lambda>bfd. eachKey writeBFDProfile (bfd_Profiles bfd) @ eachKey writeBFDPeer (bfd_Peers bfd)) bfd"

definition writeVNI :: "int \<Rightarrow> EVPNVNI \<Rightarrow> string" where
  "writeVNI vni entry =
     (let base = [''set'', ''protocols'', ''evpn'', ''vni'', formatInt vni] in
      onlyIf (ev_Type entry \<noteq> []) (writeLine (base @ [''type'', ev_Type entry])) @
      onlyIf (ev_BridgeDomain entry \<noteq> [])
        (writeLine (base @ [''bridge-domain'', EscapeValue (ev_BridgeDomain entry)])) @
      onlyIf (ev_VLANID entry \<noteq> 0) (writeLine (base @ [''vlan-id'', formatInt (ev_VLANID entry)])) @
      onlyIf (ev_RoutingInstance entry \<noteq> [])
        (writeLine (base @ [''routing-instance'', EscapeValue (ev_RoutingInstance entry)])) @
      onlyIf (ev_RouteDistinguisher entry \<noteq> [])
        (writeLine (base @ [''route-distinguisher'', ev_RouteDistinguisher entry])) @
      onlyIf (ev_VRFTarget entry \<noteq> []) (writeLine (base @ [''vrf-target'', ev_VRFTarget entry])) @
      eachLine (\<lambda>target. writeLine (base @ [''vrf-target'', ''import'', target]))
        (sortedStrings (ev_VRFTargetImport entry)) @
      eachLine (\<lambda>target. writeLine (base @ [''vrf-target'', ''export'', target]))
        (sortedStrings (ev_VRFTargetExport entry)) @
      onlyIf (ev_SourceInterface entry \<noteq> []) (writeLine (base @ [''source-interface'', ev_SourceInterface entry])) @
      onlyIf (ev_SourceAddress entry \<noteq> []) (writeLine (base @ [''source-address'', ev_SourceAddress entry])) @
      onlyIf (ev_MulticastGroup entry \<noteq> []) (writeLine (base @ [''multicast-group'', ev_MulticastGroup entry])) @
      onlyIf (ev_RemoteVTEP entry \<noteq> []) (writeLine (base @ [''remote-vtep'', ev_RemoteVTEP entry])))"

definition writeEVPN :: "EVPNConfig option \<Rightarrow> string" where
  "writeEVPN evpn = ifSet (\<lambda>evpn. eachInt writeVNI (evpn_VNIs evpn)) evpn"

definition writeMPLS :: "MPLSConfig option \<Rightarrow> string" where
  "writeMPLS mpls =
     ifSet (\<lambda>mpls. eachLine (\<lambda>iface. writeLine [''set'', ''protocols'', ''mpls'', ''interface'', iface])
         (sort (mpls_Interfaces mpls))) mpls"

definition writeVRRPGroup :: "string \<Rightarrow> VRRPGroup \<Rightarrow> string" where
  "writeVRRPGroup groupName grp =
     onlyIf (vg_Interface grp \<noteq> [])
       (writeLine [''set'', ''protocols'', ''vrrp'', ''group'', groupName, ''interface'', vg_Interface grp]) @
     onlyIf (vg_VirtualAddress grp \<noteq> [])
       (writeLine [''set'', ''protocols'', ''vrrp'', ''group'', groupName, ''virtual-address'', vg_VirtualAddress grp]) @
     onlyIf (vg_Priority grp \<noteq> 0)
       (writeLine [''set'', ''protocols'', ''vrrp'', ''group'', groupName, ''priority'', formatInt (vg_Priority grp)]) @
     onlyIf (vg_Preempt grp)
       (writeLine [''set'', ''protocols'', ''vrrp'', ''group'', groupName, ''preempt''])"

definition writeVRRP :: "VRRPConfig option \<Rightarrow> string" where
  "writeVRRP vrrp = ifSet (\<lambda>vrrp. eachKey writeVRRPGroup (vrrp_Groups vrrp)) vrrp"

definition writeBGPNeighbor :: "string \<Rightarrow> string \<Rightarrow> BGPNeighbor \<Rightarrow> string" where
  "writeBGPNeighbor groupName neighborIP neighbor =
     (let base = [''set'', ''protocols'', ''bgp'', ''group'', groupName, ''neighbor'', neighborIP] in
      onlyIf (bn_PeerAS neighbor \<noteq> 0)
        (writeLine (base @ [''peer-as'', formatNat (unat (bn_PeerAS neighbor))])) @
      onlyIf (bn_Description neighbor \<noteq> [])
        (writeLine (base @ [''description'', EscapeValue (bn_Description neighbor)])) @
      onlyIf (bn_LocalAddress neighbor \<noteq> [])
        (writeLine (base @ [''local-address'', bn_LocalAddress neighbor])) @
      (if bn_BFDProfile neighbor \<noteq> []
       then writeLine (base @ [''bfd'', ''profile'', EscapeValue (bn_BFDProfile neighbor)])
       else onlyIf (bn_BFD neighbor) (writeLine (base @ [''bfd'']))))"

definition writeBGPGroup :: "string \<Rightarrow> BGPGroup \<Rightarrow> string" where
  "writeBGPGroup groupName grp =
     (let base = [''set'', ''protocols'', ''bgp'', ''group'', groupName] in
      onlyIf (bg_Type grp \<noteq> []) (writeLine (base @ [''type'', bg_Type grp])) @
      onlyIf (bg_Import grp \<noteq> []) (writeLine (base @ [''import'', bg_Import grp])) @
      onlyIf (bg_Export grp \<noteq> []) (writeLine (base @ [''export'', bg_Export grp])) @
      eachKey (writeBGPNeighbor groupName) (bg_Neighbors grp))"

definition writeBGP :: "BGPConfig option \<Rightarrow> string" where
  "writeBGP bgp = ifSet (\<lambda>bgp. eachKey writeBGPGroup (bgp_Groups bgp)) bgp"

definition writeOSPFInterface :: "string \<Rightarrow> string \<Rightarrow> string \<Rightarrow> OSPFInterface \<Rightarrow> string" where
  "writeOSPFInterface protocol areaName ifaceName i =
     (let base = [''set'', ''protocols'', protocol, ''area'', areaName, ''interface'', ifaceName];
          body =
            onlyIf (oi_Passive i) (writeLine (base @ [''passive''])) @
            onlyIf (oi_Metric i > 0) (writeLine (base @ [''metric'', formatInt (oi_Metric i)])) @
            onlyIf (oi_PrioritySet i \<or> oi_Priority i > 0)
              (writeLine (base @ [''priority'', formatInt (oi_Priority i)])) @
            (if oi_BFDProfile i \<noteq> []
             then writeLine (base @ [''bfd'', ''profile'', EscapeValue (oi_BFDProfile i)])
             else onlyIf (oi_BFD i) (writeLine (base @ [''bfd''])));
          wrote = (oi_Passive i \<or> oi_Metric i > 0 \<or> oi_PrioritySet i \<or> oi_Priority i > 0 \<or>
            oi_BFDProfile i \<noteq> [] \<or> oi_BFD i)
      in body @ onlyIf (\<not> wrote) (writeLine base))"

definition writeOSPFArea :: "string \<Rightarrow> string \<Rightarrow> OSPFArea \<Rightarrow> string" where
  "writeOSPFArea protocol areaName area = eachKey (writeOSPFInterface protocol areaName) (oa_Interfaces area)"

definition writeOSPF :: "string \<Rightarrow> OSPFConfig option \<Rightarrow> string" where
  "writeOSPF protocol ospf =
     ifSet (\<lambda>ospf.
        onlyIf (ospf_RouterID ospf \<noteq> []) (writeLine [''set'', ''protocols'', protocol, ''router-id'', ospf_RouterID ospf]) @
        eachKey (writeOSPFArea protocol) (ospf_Areas ospf)) ospf"

definition writeProtocols :: "ProtocolConfig option \<Rightarrow> string" where
  "writeProtocols pc =
     ifSet (\<lambda>pc.
        writeBFD (pc_BFD pc) @ writeBGP (pc_BGP pc) @ writeEVPN (pc_EVPN pc) @
        writeOSPF ''ospf'' (pc_OSPF pc) @ writeOSPF ''ospf3'' (pc_OSPF3 pc) @
        writeMPLS (pc_MPLS pc) @ writeVRRP (pc_VRRP pc)) pc"

section \<open>Policy options and class of service\<close>

definition writePolicyMatch :: "string list \<Rightarrow> PolicyMatchConditions \<Rightarrow> string" where
  "writePolicyMatch base from =
     eachLine (\<lambda>listName. writeLine (base @ [''from'', ''prefix-list'', listName])) (sort (pm_PrefixLists from)) @
     onlyIf (pm_Protocol from \<noteq> []) (writeLine (base @ [''from'', ''protocol'', pm_Protocol from])) @
     onlyIf (pm_Neighbor from \<noteq> []) (writeLine (base @ [''from'', ''neighbor'', pm_Neighbor from])) @
     onlyIf (pm_ASPath from \<noteq> []) (writeLine (base @ [''from'', ''as-path'', EscapeValue (pm_ASPath from)]))"

definition writePolicyThen :: "string list \<Rightarrow> PolicyActions \<Rightarrow> string" where
  "writePolicyThen base thn =
     ifSet (\<lambda>accept. if accept then writeLine (base @ [''then'', ''accept''])
         else writeLine (base @ [''then'', ''reject''])) (pa_Accept thn) @
     ifSet (\<lambda>localPref. writeLine (base @ [''then'', ''local-preference'', formatNat (unat localPref)]))
       (pa_LocalPreference thn) @
     onlyIf (pa_Community thn \<noteq> []) (writeLine (base @ [''then'', ''community'', EscapeValue (pa_Community thn)]))"

definition writePolicyTerm :: "string \<Rightarrow> PolicyTerm \<Rightarrow> string" where
  "writePolicyTerm policyName trm =
     (let base = [''set'', ''policy-options'', ''policy-statement'', policyName, ''term'', pt_Name trm]
      in ifSet (writePolicyMatch base) (pt_From trm) @ ifSet (writePolicyThen base) (pt_Then trm))"

definition writePrefixList :: "string \<Rightarrow> PrefixList \<Rightarrow> string" where
  "writePrefixList listName lst =
     eachLine (\<lambda>prefix. writeLine [''set'', ''policy-options'', ''prefix-list'', listName, prefix])
       (sort (pl_Prefixes lst))"

definition writePolicyStatement :: "string \<Rightarrow> PolicyStatement \<Rightarrow> string" where
  "writePolicyStatement policyName policy =
     eachLine (ifSet (\<lambda>trm. onlyIf (pt_Name trm \<noteq> []) (writePolicyTerm policyName trm))) (ps_Terms policy)"

definition writePolicyOptions :: "PolicyOptions option \<Rightarrow> string" where
  "writePolicyOptions po =
     ifSet (\<lambda>po. eachKey writePrefixList (po_PrefixLists po) @
       eachKey writePolicyStatement (po_PolicyStatements po)) po"

definition writeForwardingClass :: "string \<Rightarrow> ForwardingClass \<Rightarrow> string" where
  "writeForwardingClass name fc =
     writeLine [''set'', ''class-of-service'', ''forwarding-class'', name, ''queue'', formatInt (fc_Queue fc)]"

definition writeTrafficControlProfile :: "string \<Rightarrow> TrafficControlProfile \<Rightarrow> string" where
  "writeTrafficControlProfile name profile =
     onlyIf (tcp_ShapingRate profile \<noteq> 0)
       (writeLine [''set'', ''class-of-service'', ''traffic-control-profile'', name, ''shaping-rate'',
          formatNat (unat (tcp_ShapingRate profile))]) @
     onlyIf (tcp_SchedulerMap profile \<noteq> [])
       (writeLine [''set'', ''class-of-service'', ''traffic-control-profile'', name, ''scheduler-map'',
          tcp_SchedulerMap profile])"

definition writeCoSInterface :: "string \<Rightarrow> CoSInterface \<Rightarrow> string" where
  "writeCoSInterface name iface =
     onlyIf (ci_OutputTrafficControlProfile iface \<noteq> [])
       (writeLine [''set'', ''class-of-service'', ''interfaces'', name, ''output-traffic-control-profile'',
          ci_OutputTrafficControlProfile iface])"

definition writeClassOfService :: "ClassOfServiceConfig option \<Rightarrow> string" where
  "writeClassOfService cos =
     ifSet (\<lambda>cos. eachKey writeForwardingClass (cos_ForwardingClasses cos) @
       eachKey writeTrafficControlProfile (cos_TrafficControlProfiles cos) @
       eachKey writeCoSInterface (cos_Interfaces cos)) cos"

section \<open>Security\<close>

text \<open>The error names the user whose password could not be protected.\<close>

type_synonym serializeError = "string \<times> secretError"

definition writeSSH :: "NETCONFSSHConfig \<Rightarrow> string" where
  "writeSSH ssh =
        (if ssh_Enabled ssh then writeLine [''set'', ''security'', ''netconf'', ''ssh'', ''enabled'', ''true'']
         else onlyIf (ssh_EnabledSet ssh) (writeLine [''set'', ''security'', ''netconf'', ''ssh'', ''enabled'', ''false''])) @
        onlyIf (ssh_ListenAddress ssh \<noteq> [])
          (writeLine [''set'', ''security'', ''netconf'', ''ssh'', ''listen-address'', EscapeValue (ssh_ListenAddress ssh)]) @
        onlyIf (ssh_Port ssh \<noteq> 0)
          (writeLine [''set'', ''security'', ''netconf'', ''ssh'', ''port'', formatInt (ssh_Port ssh)])"

definition writeNETCONF :: "NETCONFConfig option \<Rightarrow> string" where
  "writeNETCONF netconf = ifSet (\<lambda>nc. ifSet writeSSH (nc_SSH nc)) netconf"

text \<open>The lines of one user below the password line, and the password that is printed.\<close>

definition writeUser :: "string \<Rightarrow> UserConfig \<Rightarrow> string \<Rightarrow> string" where
  "writeUser username user password =
     onlyIf (us_Password user \<noteq> [])
       (writeLine [''set'', ''security'', ''users'', ''user'', username, ''password'', EscapeValue password]) @
     onlyIf (us_Role user \<noteq> []) (writeLine [''set'', ''security'', ''users'', ''user'', username, ''role'', us_Role user]) @
     onlyIf (us_SSHKey user \<noteq> [])
       (writeLine [''set'', ''security'', ''users'', ''user'', username, ''ssh-key'', EscapeValue (us_SSHKey user)])"

definition printedPassword :: "hasher \<Rightarrow> serializeOptions \<Rightarrow> string \<Rightarrow> secretError + string" where
  "printedPassword hash opts password =
     (if password = [] then Inr [] else if opt_RedactSecrets opts then Inr redactedSecretValue
      else NormalizePasswordForStorage hash password)"

fun writeUsers :: "hasher \<Rightarrow> serializeOptions \<Rightarrow> (string, UserConfig) gomap \<Rightarrow> string list \<Rightarrow> serializeError + string" where
  "writeUsers hash opts users [] = Inr []"
| "writeUsers hash opts users (username # rest) =
     (case mget users username of
        None \<Rightarrow> writeUsers hash opts users rest
      | Some user \<Rightarrow>
          (case printedPassword hash opts (us_Password user) of
             Inl e \<Rightarrow> Inl (username, e)
           | Inr password \<Rightarrow>
               (case writeUsers hash opts users rest of
                  Inl e \<Rightarrow> Inl e | Inr s \<Rightarrow> Inr (writeUser username user password @ s))))"

definition writeRateLimit :: "RateLimitConfig option \<Rightarrow> string" where
  "writeRateLimit rateLimit =
     ifSet (\<lambda>rl.
        onlyIf (rl_PerIP rl \<noteq> 0) (writeLine [''set'', ''security'', ''rate-limit'', ''per-ip'', formatInt (rl_PerIP rl)]) @
        onlyIf (rl_PerUser rl \<noteq> 0) (writeLine [''set'', ''security'', ''rate-limit'', ''per-user'', formatInt (rl_PerUser rl)])) rateLimit"

definition writeSecurity :: "hasher \<Rightarrow> SecurityConfig option \<Rightarrow> serializeOptions \<Rightarrow> serializeError + string" where
  "writeSecurity hash sec opts =
     (case sec of None \<Rightarrow> Inr [] | Some sec \<Rightarrow>
        (case writeUsers hash opts (sec_Users sec) (sortedKeys (sec_Users sec)) of
           Inl e \<Rightarrow> Inl e
         | Inr users \<Rightarrow> Inr (writeNETCONF (sec_NETCONF sec) @ users @ writeRateLimit (sec_RateLimit sec))))"

section \<open>The whole configuration\<close>

definition toSetCommandsWithError :: "hasher \<Rightarrow> Config option \<Rightarrow> serializeOptions \<Rightarrow> serializeError + string" where
  "toSetCommandsWithError hash cfg opts =
     (case cfg of None \<Rightarrow> Inr [] | Some cfg \<Rightarrow>
        (case writeSecurity hash (cfg_Security cfg) opts of
           Inl e \<Rightarrow> Inl e
         | Inr security \<Rightarrow>
             Inr (writeHostName (cfg_System cfg) @ writeSystemServices (cfg_System cfg) opts @
                  writeChassis (cfg_Chassis cfg) @ writeInterfaces (cfg_Interfaces cfg) @
                  writeRoutingOptions (cfg_RoutingOptions cfg) @ writeRoutingInstances (cfg_RoutingInstances cfg) @
                  writeProtocols (cfg_Protocols cfg) @ writePolicyOptions (cfg_PolicyOptions cfg) @
                  writeClassOfService (cfg_ClassOfService cfg) @ security)))"

definition ToSetCommandsWithError :: "hasher \<Rightarrow> Config option \<Rightarrow> serializeError + string" where
  "ToSetCommandsWithError hash cfg = toSetCommandsWithError hash cfg \<lparr>opt_RedactSecrets = False\<rparr>"

definition ToSetCommandsRedactedWithError :: "hasher \<Rightarrow> Config option \<Rightarrow> serializeError + string" where
  "ToSetCommandsRedactedWithError hash cfg = toSetCommandsWithError hash cfg \<lparr>opt_RedactSecrets = True\<rparr>"

end
