(* ===== verification/Reading.thy ===== *)
theory Reading
  imports Parser Serializer
begin

text \<open>
  How printed text is read back. \<open>runs h c s c'\<close> says that the parser, with the tree \<open>c\<close> built so
  far and the text \<open>s\<close> ahead, consumes \<open>s\<close> and goes on with the tree \<open>c'\<close>. Such runs compose; the
  locale \<open>reading\<close> holds what follows from that alone for the serializer's conditional lines,
  its loops over lists and its loops over the sorted keys of a map.
\<close>

section \<open>Fields of a line\<close>

definition tokOf :: "string \<Rightarrow> atok" where
  "tokOf w = tk (fst (NextToken (NewLexer w)))"

definition fieldok :: "string \<Rightarrow> bool" where
  "fieldok w \<longleftrightarrow> (\<forall>s as. boundary s \<longrightarrow> lexes s as \<longrightarrow> lexes (w @ s) (tokOf w # as))"

lemma fieldI:
  assumes "\<And>s as. boundary s \<Longrightarrow> lexes s as \<Longrightarrow> lexes (w @ s) (t # as)"
  shows "fieldok w" "tokOf w = t"
proof -
  have "lexes (w @ []) [t]"
    by (rule assms) (simp_all add: lexing)
  then have "lex_at (NewLexer w) [t]"
    unfolding lexes_def by (metis append_Nil2 remaining_NewLexer)
  then show t: "tokOf w = t" by (simp add: tokOf_def)
  show "fieldok w" using assms by (simp add: fieldok_def t)
qed

definition plain :: "string \<Rightarrow> bool" where
  "plain w \<longleftrightarrow> isWord w \<and> w \<noteq> ''set'' \<and> \<not> isNumber w"

lemma field_word: "isWord w \<Longrightarrow> fieldok w" "isWord w \<Longrightarrow> tokOf w = (wordType w, w)"
  using fieldI [of w "(wordType w, w)"] by (simp_all add: lexing)

lemma field_plain [running]: "plain w \<Longrightarrow> fieldok w" "plain w \<Longrightarrow> tokOf w = (TokenWord, w)"
  using field_word [of w] by (simp_all add: plain_def wordType_def)

lemma field_EscapeValue [running]:
  "fieldok (EscapeValue v)" "tokOf (EscapeValue v) = (escType v, v)"
  using fieldI [of "EscapeValue v" "(escType v, v)"] by (simp_all add: lexing)

lemma escType_decide [running]:
  "scalar v \<Longrightarrow> (escType v \<noteq> TokenWord \<and> escType v \<noteq> TokenString) = False"
  "scalar v \<Longrightarrow> (escType v \<noteq> TokenString \<and> escType v \<noteq> TokenWord) = False"
  by (auto simp: escType_scalar)

lemma field_number [running]: "isNumber w \<Longrightarrow> fieldok w" "isNumber w \<Longrightarrow> tokOf w = (TokenNumber, w)"
proof -
  have "isNumber w \<Longrightarrow> isWord w"
    by (auto simp: isNumber_def isWord_def list_all_iff isDigit_wordChar)
  moreover have "isNumber w \<Longrightarrow> w \<noteq> ''set''"
    by (auto simp: isNumber_def rune_class_defs)
  ultimately show "isNumber w \<Longrightarrow> fieldok w" "isNumber w \<Longrightarrow> tokOf w = (TokenNumber, w)"
    using field_word [of w] by (simp_all add: wordType_def)
qed

lemma isNumber_formatNat [running]: "isNumber (formatNat n)"
  by (simp add: isNumber_def)

lemma isNumber_formatInt: "0 \<le> n \<Longrightarrow> isNumber (formatInt n)"
  by (simp add: formatInt_nonneg isNumber_formatNat)

lemma field_set [running]: "fieldok ''set''" "tokOf ''set'' = (TokenSet, ''set'')"
proof -
  have "isWord ''set''" by (simp add: isWord_def isWordChar_def rune_class_defs)
  then show "fieldok ''set''" "tokOf ''set'' = (TokenSet, ''set'')"
    using field_word [of "''set''"] by (simp_all add: wordType_def)
qed

lemma lexes_fields:
  assumes "list_all fieldok ws" and "lexes s as" and "ws \<noteq> []" and "boundary s"
  shows "lexes (JoinWith '' '' ws @ s) (map tokOf ws @ as)"
  using assms
proof (induction ws)
  case Nil
  then show ?case by simp
next
  case (Cons w ws)
  show ?case
  proof (cases ws)
    case Nil
    with Cons.prems show ?thesis by (simp add: fieldok_def)
  next
    case (Cons w' ws')
    with Cons.IH Cons.prems have "lexes (JoinWith '' '' ws @ s) (map tokOf ws @ as)" by simp
    then have "lexes (CHR '' '' # JoinWith '' '' ws @ s) (map tokOf ws @ as)"
      by (intro lexes_blank) (simp_all add: blank_def rune_class_defs)
    with Cons Cons.prems show ?thesis by (simp add: fieldok_def)
  qed
qed

lemma lexes_writeLine:
  assumes "list_all fieldok ws" and "ws \<noteq> []" and "lexes s as"
  shows "lexes (writeLine ws @ s) (map tokOf ws @ (TokenEOL, []) # as)"
  using lexes_fields [OF assms(1) lexes_EOL [OF assms(3)] assms(2)] by (simp add: writeLine_def)

section \<open>Keywords\<close>

lemma plain_keywords [running]:
  "plain ''accept''" "plain ''address''" "plain ''area''" "plain ''as-path''" "plain ''autonomous-system''"
  "plain ''bfd''" "plain ''bgp''" "plain ''bridge-domain''" "plain ''chassis''" "plain ''class-of-service''"
  "plain ''cluster''" "plain ''community''" "plain ''description''" "plain ''detect-multiplier''"
  "plain ''distance''" "plain ''echo-mode''" "plain ''enabled''" "plain ''endpoint''" "plain ''etcd''"
  "plain ''evpn''" "plain ''export''" "plain ''false''" "plain ''family''" "plain ''forwarding-class''"
  "plain ''from''" "plain ''group''" "plain ''host-name''" "plain ''import''" "plain ''instance-type''"
  "plain ''internal''" "plain ''external''" "plain ''interface''" "plain ''interfaces''" "plain ''listen-address''" "plain ''local-address''"
  "plain ''local-preference''" "plain ''metric''" "plain ''mpls''" "plain ''multi-hop''"
  "plain ''multicast-group''" "plain ''multihop''" "plain ''neighbor''" "plain ''netconf''"
  "plain ''next-hop''" "plain ''node''" "plain ''ospf''" "plain ''ospf3''"
  "plain ''output-traffic-control-profile''" "plain ''passive''" "plain ''passive-mode''"
  "plain ''password''" "plain ''peer''" "plain ''peer-as''" "plain ''per-ip''" "plain ''per-user''"
  "plain ''policy-options''" "plain ''policy-statement''" "plain ''port''" "plain ''preempt''"
  "plain ''prefix-list''" "plain ''priority''" "plain ''profile''" "plain ''prometheus''"
  "plain ''protocol''" "plain ''protocols''" "plain ''queue''" "plain ''rate-limit''"
  "plain ''receive-interval''" "plain ''reject''" "plain ''remote-vtep''" "plain ''role''" "plain ''route''"
  "plain ''route-distinguisher''" "plain ''router-id''" "plain ''routing-instance''"
  "plain ''routing-instances''" "plain ''routing-options''" "plain ''scheduler-map''" "plain ''security''"
  "plain ''services''" "plain ''shaping-rate''" "plain ''shutdown''" "plain ''snmp''" "plain ''source''"
  "plain ''source-address''" "plain ''source-interface''" "plain ''ssh''" "plain ''ssh-key''"
  "plain ''static''" "plain ''sync''" "plain ''system''" "plain ''term''" "plain ''then''"
  "plain ''traffic-control-profile''" "plain ''transmit-interval''" "plain ''true''" "plain ''type''"
  "plain ''unit''" "plain ''user''" "plain ''users''" "plain ''virtual-address''" "plain ''vlan-id''"
  "plain ''vni''" "plain ''vrf''" "plain ''vrf-export''" "plain ''vrf-import''" "plain ''vrf-target''"
  "plain ''vrrp''" "plain ''web-ui''"
  by (simp_all add: plain_def isWord_def isNumber_def isWordChar_def rune_class_defs)

section \<open>Runs of the parser\<close>

definition runs :: "hasher \<Rightarrow> Config \<Rightarrow> string \<Rightarrow> Config \<Rightarrow> bool" where
  "runs h c s c' \<longleftrightarrow>
     (\<exists>as. (\<forall>s' bs. lexes s' bs \<longrightarrow> lexes (s @ s') (as @ bs)) \<and>
        (\<forall>p rest. at p (as @ rest) \<longrightarrow> (\<exists>p'. at p' rest \<and> ParseLoop h c p = ParseLoop h c' p')))"

lemma parseStatement_set: "parseStatement h c p = Inr r \<Longrightarrow> cty p = TokenSet"
  by (auto simp: parseStatement_def split: if_splits)

lemma runs_line:
  assumes ws: "list_all fieldok ws" and ne: "ws \<noteq> []"
    and st: "\<And>p rest. at p (map tokOf ws @ (TokenEOL, []) # rest) \<Longrightarrow>
      \<exists>p'. parseStatement h c p = Inr (c', p') \<and> at p' ((TokenEOL, []) # rest)"
  shows "runs h c (writeLine ws) c'"
  unfolding runs_def
proof (intro exI [of _ "map tokOf ws @ [(TokenEOL, [])]"] conjI allI impI)
  fix s' bs
  assume "lexes s' bs"
  then show "lexes (writeLine ws @ s') ((map tokOf ws @ [(TokenEOL, [])]) @ bs)"
    using lexes_writeLine [OF ws ne] by simp
next
  fix p rest
  assume "at p ((map tokOf ws @ [(TokenEOL, [])]) @ rest)"
  then obtain q where q: "parseStatement h c p = Inr (c', q)" "at q ((TokenEOL, []) # rest)"
    using st [of p rest] by auto
  then have "ParseLoop h c p = ParseLoop h c' (nextToken q)"
    using parseStatement_set [OF q(1)] by (simp add: ParseLoop.simps [of h c p])
  with q(2) show "\<exists>p'. at p' rest \<and> ParseLoop h c p = ParseLoop h c' p'" by auto
qed

lemma runs_Parse: "runs h NewConfig s c \<Longrightarrow> Parse h s = Inr c"
proof -
  assume "runs h NewConfig s c"
  then obtain as where as: "lexes (s @ []) (as @ [])"
    "\<And>p. at p (as @ []) \<Longrightarrow> \<exists>p'. at p' [] \<and> ParseLoop h NewConfig p = ParseLoop h c p'"
    unfolding runs_def using lexes_Nil by blast
  obtain p' where "at p' []" "ParseLoop h NewConfig (NewParser s) = ParseLoop h c p'"
    using as(2) [of "NewParser s"] at_NewParser as(1) by auto
  then show ?thesis by (simp add: Parse_def ParseLoop.simps [of h c p'])
qed

section \<open>Reading back what loops print\<close>

text \<open>
  The state of a map while its entries are read: the finished entries and one that is being
  filled. An object that still equals its freshly allocated value has not been created.
\<close>

definition nz :: "'v \<Rightarrow> 'v \<Rightarrow> 'v option" where
  "nz d v = (if v = d then None else Some v)"

definition entry :: "('k \<Rightarrow> 'v) \<Rightarrow> 'k \<Rightarrow> 'v \<Rightarrow> ('k, 'v) gomap" where
  "entry d k v = (if v = d k then [] else [(k, Some v)])"

lemma nz_simps [simp, running]:
  "nz d d = None" "v \<noteq> d \<Longrightarrow> nz d v = Some v" "getOr d (nz d v) = v" "nz d v = None \<longleftrightarrow> v = d"
  by (simp_all add: nz_def)

lemma entry_simps [simp, running]:
  "v = d k \<Longrightarrow> entry d k v = []" "v \<noteq> d k \<Longrightarrow> entry d k v = [(k, Some v)]"
  by (simp_all add: entry_def)

lemma entry_Nil [simp, running]: "entry d k v = [] \<longleftrightarrow> v = d k"
  by (simp add: entry_def)

lemma mget_entry [simp, running]:
  "k \<notin> fst ` set acc \<Longrightarrow> mget (acc @ entry d k v) k = nz (d k) v"
  by (simp add: entry_def nz_def mget_last mget_fresh)

lemma mput_entry [simp, running]:
  "k \<notin> fst ` set acc \<Longrightarrow> mput k u (acc @ entry d k v) = acc @ [(k, Some u)]"
  by (simp add: entry_def mput_last mput_fresh)

lemma fst_set_entry [simp]: "fst ` set (entry d k v) \<subseteq> {k}"
  by (simp add: entry_def)

text \<open>An object with a field that has been set is not the freshly allocated one.\<close>

lemma set_neq_new [fresh]:
  "sys_HostName s \<noteq> [] \<Longrightarrow> s \<noteq> newSystemConfig" "sys_Services s \<noteq> None \<Longrightarrow> s \<noteq> newSystemConfig"
  "svc_WebUI v \<noteq> None \<Longrightarrow> v \<noteq> newSystemServicesConfig"
  "svc_Prometheus v \<noteq> None \<Longrightarrow> v \<noteq> newSystemServicesConfig"
  "svc_SNMP v \<noteq> None \<Longrightarrow> v \<noteq> newSystemServicesConfig"
  "ch_Cluster ch \<noteq> None \<Longrightarrow> ch \<noteq> newChassisConfig"
  "cl_Enabled cl \<Longrightarrow> cl \<noteq> newClusterConfig" "cl_Nodes cl \<noteq> [] \<Longrightarrow> cl \<noteq> newClusterConfig"
  "cl_Sync cl \<noteq> None \<Longrightarrow> cl \<noteq> newClusterConfig"
  "cs_Etcd cs \<noteq> None \<Longrightarrow> cs \<noteq> newClusterSyncConfig" "es_Endpoints es \<noteq> [] \<Longrightarrow> es \<noteq> newEtcdSyncConfig"
  "if_Description i \<noteq> [] \<Longrightarrow> i \<noteq> newInterface" "if_Units i \<noteq> [] \<Longrightarrow> i \<noteq> newInterface"
  "unit_Family u \<noteq> [] \<Longrightarrow> u \<noteq> newUnit" "fam_Addresses f \<noteq> [] \<Longrightarrow> f \<noteq> newFamily"
  "ro_StaticRoutes ro \<noteq> [] \<Longrightarrow> ro \<noteq> newRoutingOptions"
  "bfd_Profiles b \<noteq> [] \<Longrightarrow> b \<noteq> newBFDConfig" "bfd_Peers b \<noteq> [] \<Longrightarrow> b \<noteq> newBFDConfig"
  "evpn_VNIs e \<noteq> [] \<Longrightarrow> e \<noteq> newEVPNConfig" "mpls_Interfaces m \<noteq> [] \<Longrightarrow> m \<noteq> newMPLSConfig"
  "vrrp_Groups vr \<noteq> [] \<Longrightarrow> vr \<noteq> newVRRPConfig"
  "bg_Neighbors bg \<noteq> [] \<Longrightarrow> bg \<noteq> newBGPGroup" "bgp_Groups bgp \<noteq> [] \<Longrightarrow> bgp \<noteq> newBGPConfig"
  "oa_Interfaces oa \<noteq> [] \<Longrightarrow> oa \<noteq> newOSPFArea k" "ospf_Areas os \<noteq> [] \<Longrightarrow> os \<noteq> newOSPFConfig"
  "ospf_RouterID os \<noteq> [] \<Longrightarrow> os \<noteq> newOSPFConfig"
  "pc_BFD pc \<noteq> None \<Longrightarrow> pc \<noteq> newProtocolConfig" "pc_BGP pc \<noteq> None \<Longrightarrow> pc \<noteq> newProtocolConfig"
  "pc_EVPN pc \<noteq> None \<Longrightarrow> pc \<noteq> newProtocolConfig" "pc_OSPF pc \<noteq> None \<Longrightarrow> pc \<noteq> newProtocolConfig"
  "pc_OSPF3 pc \<noteq> None \<Longrightarrow> pc \<noteq> newProtocolConfig" "pc_MPLS pc \<noteq> None \<Longrightarrow> pc \<noteq> newProtocolConfig"
  "pc_VRRP pc \<noteq> None \<Longrightarrow> pc \<noteq> newProtocolConfig"
  "po_PrefixLists po \<noteq> [] \<Longrightarrow> po \<noteq> newPolicyOptions" "po_PolicyStatements po \<noteq> [] \<Longrightarrow> po \<noteq> newPolicyOptions"
  "pl_Prefixes pl \<noteq> [] \<Longrightarrow> pl \<noteq> newPrefixList k" "ps_Terms ps \<noteq> [] \<Longrightarrow> ps \<noteq> newPolicyStatement k"
  "nc_SSH nc \<noteq> None \<Longrightarrow> nc \<noteq> newNETCONFConfig" "sec_NETCONF se \<noteq> None \<Longrightarrow> se \<noteq> newSecurityConfig"
  "sec_Users se \<noteq> [] \<Longrightarrow> se \<noteq> newSecurityConfig" "sec_RateLimit se \<noteq> None \<Longrightarrow> se \<noteq> newSecurityConfig"
  "cos_ForwardingClasses co \<noteq> [] \<Longrightarrow> co \<noteq> newClassOfServiceConfig"
  "cos_TrafficControlProfiles co \<noteq> [] \<Longrightarrow> co \<noteq> newClassOfServiceConfig"
  "cos_Interfaces co \<noteq> [] \<Longrightarrow> co \<noteq> newClassOfServiceConfig"
  by (auto simp: new_defs)

text \<open>The list that a loop of \<open>appendUniqueString\<close> builds.\<close>

definition uniq :: "'a list \<Rightarrow> 'a list" where
  "uniq xs = foldl appendUniqueString [] xs"

locale reading =
  fixes runs :: "'c \<Rightarrow> string \<Rightarrow> 'c \<Rightarrow> bool"
  assumes runs_Nil: "runs c [] c"
    and runs_append: "runs c s c' \<Longrightarrow> runs c' t c'' \<Longrightarrow> runs c (s @ t) c''"
begin

lemma runs_eq: "runs c s c' \<Longrightarrow> c' = c'' \<Longrightarrow> runs c s c''"
  by simp

lemma runs_onlyIf: "(b \<Longrightarrow> runs c s c') \<Longrightarrow> (\<not> b \<Longrightarrow> c' = c) \<Longrightarrow> runs c (onlyIf b s) c'"
  by (simp add: onlyIf_def runs_Nil)

lemma runs_ifSet:
  "(\<And>v. x = Some v \<Longrightarrow> runs c (f v) c') \<Longrightarrow> (x = None \<Longrightarrow> c' = c) \<Longrightarrow>
     runs c (ifSet f x) c'"
  by (cases x) (simp_all add: ifSet_def runs_Nil)

lemma runs_prefixes:
  assumes "\<And>ys x zs. xs = ys @ x # zs \<Longrightarrow> runs (C ys) (f x) (C (ys @ [x]))"
  shows "runs (C []) (eachLine f xs) (C xs)"
proof -
  have "runs (C ys) (eachLine f zs) (C (ys @ zs))" if "xs = ys @ zs" for ys zs
    using that
  proof (induction zs arbitrary: ys)
    case Nil
    show ?case by (simp add: eachLine_def runs_Nil)
  next
    case (Cons z zs)
    have "runs (C ys) (f z) (C (ys @ [z]))"
      by (rule assms) (rule Cons.prems)
    moreover have "runs (C (ys @ [z])) (eachLine f zs) (C ((ys @ [z]) @ zs))"
      by (rule Cons.IH) (simp add: Cons.prems)
    ultimately show ?case by (simp add: eachLine_def runs_append)
  qed
  from this [of "[]" xs] show ?thesis by simp
qed

lemma runs_eachLine:
  assumes "\<And>acc x. x \<in> set xs \<Longrightarrow> runs (C acc) (f x) (C (g acc x))"
  shows "runs (C acc) (eachLine f xs) (C (foldl g acc xs))"
  using runs_prefixes [of xs "\<lambda>ys. C (foldl g acc ys)" f] assms by simp

lemma runs_uniqueLines:
  "(\<And>acc x. x \<in> set xs \<Longrightarrow> runs (C acc) (f x) (C (appendUniqueString acc x))) \<Longrightarrow>
     runs (C []) (eachLine f xs) (C (uniq xs))"
  unfolding uniq_def by (rule runs_eachLine)

lemma runs_listField:
  "(\<And>acc x. x \<in> set xs \<Longrightarrow> runs (C acc) (f x) (C (appendUniqueString acc x))) \<Longrightarrow> C [] = c \<Longrightarrow>
     runs c (eachLine f xs) (C (uniq xs))"
  using runs_uniqueLines by blast

lemma runs_forKeys:
  assumes "\<And>acc k v. k \<notin> fst ` set acc \<Longrightarrow> mget m k = Some v \<Longrightarrow> runs (C acc) (f k v) (C (acc @ N k v))"
    and "\<And>k v. fst ` set (N k v) \<subseteq> {k}"
    and "distinct ks" and "fst ` set acc \<inter> set ks = {}"
  shows "runs (C acc) (forKeys f m ks) (C (acc @ forKeys N m ks))"
  using assms(3,4)
proof (induction ks arbitrary: acc)
  case Nil
  show ?case by (simp add: forKeys_def runs_Nil)
next
  case (Cons k ks)
  let ?t = "\<lambda>f. case mget m k of None \<Rightarrow> [] | Some v \<Rightarrow> f k v"
  have "runs (C acc) (?t f) (C (acc @ ?t N))"
    using Cons.prems assms(1) by (auto intro: runs_Nil split: option.splits)
  moreover have "runs (C (acc @ ?t N)) (forKeys f m ks) (C ((acc @ ?t N) @ forKeys N m ks))"
    by (rule Cons.IH) (use Cons.prems assms(2) in \<open>force split: option.splits\<close>)+
  ultimately show ?case by (simp add: forKeys_def runs_append)
qed

lemma runs_eachKey:
  assumes "keys_ok m"
    and "\<And>acc k v. k \<notin> fst ` set acc \<Longrightarrow> mget m k = Some v \<Longrightarrow> runs (C acc) (f k v) (C (acc @ N k v))"
    and "\<And>k v. fst ` set (N k v) \<subseteq> {k}"
  shows "runs (C []) (eachKey f m) (C (eachKey N m))"
  using runs_forKeys [of m C f N "sortedKeys m" "[]"] assms
  by (simp add: eachKey_def sortedKeys_def keys_ok_def)

lemma runs_eachInt:
  assumes "keys_ok m"
    and "\<And>acc k v. k \<notin> fst ` set acc \<Longrightarrow> mget m k = Some v \<Longrightarrow> runs (C acc) (f k v) (C (acc @ N k v))"
    and "\<And>k v. fst ` set (N k v) \<subseteq> {k}"
  shows "runs (C []) (eachInt f m) (C (eachInt N m))"
  using runs_forKeys [of m C f N "sortedInts m" "[]"] assms
  by (simp add: eachInt_def sortedInts_def keys_ok_def)

end

interpretation rd: reading "runs h"
proof
  show "runs h c [] c" for c
    unfolding runs_def by (intro exI [of _ "[]"]) auto
next
  fix c s c' t c''
  assume "runs h c s c'" "runs h c' t c''"
  then obtain as bs where
    as: "\<forall>s' bs. lexes s' bs \<longrightarrow> lexes (s @ s') (as @ bs)"
      "\<forall>p rest. at p (as @ rest) \<longrightarrow> (\<exists>p'. at p' rest \<and> ParseLoop h c p = ParseLoop h c' p')"
    and bs: "\<forall>s' cs. lexes s' cs \<longrightarrow> lexes (t @ s') (bs @ cs)"
      "\<forall>p rest. at p (bs @ rest) \<longrightarrow> (\<exists>p'. at p' rest \<and> ParseLoop h c' p = ParseLoop h c'' p')"
    unfolding runs_def by blast
  have "\<exists>p'. at p' rest \<and> ParseLoop h c p = ParseLoop h c'' p'" if "at p ((as @ bs) @ rest)" for p rest
    using that as(2) bs(2) by (metis append.assoc)
  with as(1) bs(1) show "runs h c (s @ t) c''"
    unfolding runs_def by (intro exI [of _ "as @ bs"]) simp
qed

text \<open>Maps whose entries are all printable.\<close>

definition wfMap :: "('k \<Rightarrow> 'v \<Rightarrow> bool) \<Rightarrow> ('k, 'v) gomap \<Rightarrow> bool" where
  "wfMap P m \<longleftrightarrow> keys_ok m \<and> list_all (\<lambda>(k, x). pred_option (P k) x) m"

lemma wfMapD: "wfMap P m \<Longrightarrow> mget m k = Some v \<Longrightarrow> P k v"
  by (force simp: wfMap_def list_all_iff dest: mget_SomeD)

lemma wfMap_keys: "wfMap P m \<Longrightarrow> keys_ok m"
  by (simp add: wfMap_def)

lemma cfg_unset [simp]:
  "cfg_System c = None \<Longrightarrow> c\<lparr>cfg_System := None\<rparr> = c"
  "cfg_Chassis c = None \<Longrightarrow> c\<lparr>cfg_Chassis := None\<rparr> = c"
  "cfg_Interfaces c = [] \<Longrightarrow> c\<lparr>cfg_Interfaces := []\<rparr> = c"
  "cfg_Protocols c = None \<Longrightarrow> c\<lparr>cfg_Protocols := None\<rparr> = c"
  "cfg_RoutingOptions c = None \<Longrightarrow> c\<lparr>cfg_RoutingOptions := None\<rparr> = c"
  "cfg_RoutingInstances c = [] \<Longrightarrow> c\<lparr>cfg_RoutingInstances := []\<rparr> = c"
  "cfg_PolicyOptions c = None \<Longrightarrow> c\<lparr>cfg_PolicyOptions := None\<rparr> = c"
  "cfg_ClassOfService c = None \<Longrightarrow> c\<lparr>cfg_ClassOfService := None\<rparr> = c"
  "cfg_Security c = None \<Longrightarrow> c\<lparr>cfg_Security := None\<rparr> = c"
  by (cases c; simp)+

text \<open>Values that a line can carry: a word or nothing, and a number of the 64-bit range.\<close>

definition plainOpt :: "string \<Rightarrow> bool" where
  "plainOpt w \<longleftrightarrow> w = [] \<or> plain w"

definition intOk :: "int \<Rightarrow> bool" where
  "intOk n \<longleftrightarrow> 0 \<le> n \<and> n < 2 ^ 63"

lemma intOk_field [running]: "intOk n \<Longrightarrow> Atoi (formatInt n) = Some n" "intOk n \<Longrightarrow> isNumber (formatInt n)"
  by (simp_all add: intOk_def Atoi_formatInt isNumber_formatInt)

lemma runs_onlyIf_line:
  assumes "b \<Longrightarrow> list_all fieldok ws" and "ws \<noteq> []"
    and "\<And>p rest. b \<Longrightarrow> at p (map tokOf ws @ (TokenEOL, []) # rest) \<Longrightarrow>
      \<exists>p'. parseStatement h c p = Inr (c', p') \<and> at p' ((TokenEOL, []) # rest)"
    and "\<not> b \<Longrightarrow> c' = c"
  shows "runs h c (onlyIf b (writeLine ws)) c'"
  by (rule rd.runs_onlyIf) (use assms in \<open>auto intro: runs_line\<close>)

lemmas line_rules = runs_onlyIf_line runs_line

lemmas line_simps [running] =
  plainOpt_def
  parseStatement_def Let_def parseBool_def

end
