(* ===== verification/RoundTripSystem.thy ===== *)
theory RoundTripSystem
  imports Reading
begin

text \<open>
  Reading back the lines of the sections \<open>system\<close>, \<open>chassis\<close> and \<open>interfaces\<close>. For each section:
  the state of the tree while its lines are read, the effect of each line on that state, the
  printable values (\<open>wf\<dots>\<close>) and the tree that comes back (\<open>norm\<dots>\<close>), in which the objects that print
  no line are gone and maps and lists are sorted.
\<close>

section \<open>System\<close>

abbreviation sysState :: "Config \<Rightarrow> SystemConfig \<Rightarrow> Config" where
  "sysState c s \<equiv> c\<lparr>cfg_System := nz newSystemConfig s\<rparr>"

abbreviation svcState :: "Config \<Rightarrow> SystemConfig \<Rightarrow> SystemServicesConfig \<Rightarrow> Config" where
  "svcState c s v \<equiv> sysState c (s\<lparr>sys_Services := nz newSystemServicesConfig v\<rparr>)"

lemma hostName_line:
  "sys_HostName s = [] \<Longrightarrow> scalar a \<Longrightarrow>
   runs h (sysState c s) (onlyIf (a \<noteq> []) (writeLine [''set'', ''system'', ''host-name'', EscapeValue a]))
     (sysState c (s\<lparr>sys_HostName := a\<rparr>))"
  by (cases s; rule line_rules; (simp add: running parsing)?; (simp add: fresh newSystemConfig_def)?)

lemma web_lines:
  "\<not> web_Enabled w \<Longrightarrow>
   runs h (svcState c s (v\<lparr>svc_WebUI := nz newWebUIConfig w\<rparr>))
     (onlyIf b (writeLine [''set'', ''system'', ''services'', ''web-ui'', ''enabled'', ''true'']))
     (svcState c s (v\<lparr>svc_WebUI := nz newWebUIConfig (w\<lparr>web_Enabled := b\<rparr>)\<rparr>))"
  "web_ListenAddress w = [] \<Longrightarrow> scalar a \<Longrightarrow>
   runs h (svcState c s (v\<lparr>svc_WebUI := nz newWebUIConfig w\<rparr>))
     (onlyIf (a \<noteq> []) (writeLine [''set'', ''system'', ''services'', ''web-ui'', ''listen-address'', EscapeValue a]))
     (svcState c s (v\<lparr>svc_WebUI := nz newWebUIConfig (w\<lparr>web_ListenAddress := a\<rparr>)\<rparr>))"
  "web_Port w = 0 \<Longrightarrow> intOk n \<Longrightarrow>
   runs h (svcState c s (v\<lparr>svc_WebUI := nz newWebUIConfig w\<rparr>))
     (onlyIf (n \<noteq> 0) (writeLine [''set'', ''system'', ''services'', ''web-ui'', ''port'', formatInt n]))
     (svcState c s (v\<lparr>svc_WebUI := nz newWebUIConfig (w\<lparr>web_Port := n\<rparr>)\<rparr>))"
  by (cases w; rule line_rules; (simp add: running parsing)?; (simp add: fresh newWebUIConfig_def)?)+

lemma prometheus_lines:
  "\<not> prom_Enabled w \<Longrightarrow>
   runs h (svcState c s (v\<lparr>svc_Prometheus := nz newPrometheusConfig w\<rparr>))
     (onlyIf b (writeLine [''set'', ''system'', ''services'', ''prometheus'', ''enabled'', ''true'']))
     (svcState c s (v\<lparr>svc_Prometheus := nz newPrometheusConfig (w\<lparr>prom_Enabled := b\<rparr>)\<rparr>))"
  "prom_ListenAddress w = [] \<Longrightarrow> scalar a \<Longrightarrow>
   runs h (svcState c s (v\<lparr>svc_Prometheus := nz newPrometheusConfig w\<rparr>))
     (onlyIf (a \<noteq> []) (writeLine [''set'', ''system'', ''services'', ''prometheus'', ''listen-address'', EscapeValue a]))
     (svcState c s (v\<lparr>svc_Prometheus := nz newPrometheusConfig (w\<lparr>prom_ListenAddress := a\<rparr>)\<rparr>))"
  "prom_Port w = 0 \<Longrightarrow> intOk n \<Longrightarrow>
   runs h (svcState c s (v\<lparr>svc_Prometheus := nz newPrometheusConfig w\<rparr>))
     (onlyIf (n \<noteq> 0) (writeLine [''set'', ''system'', ''services'', ''prometheus'', ''port'', formatInt n]))
     (svcState c s (v\<lparr>svc_Prometheus := nz newPrometheusConfig (w\<lparr>prom_Port := n\<rparr>)\<rparr>))"
  by (cases w; rule line_rules; (simp add: running parsing)?; (simp add: fresh newPrometheusConfig_def)?)+

lemma snmp_lines:
  "\<not> snmp_Enabled w \<Longrightarrow>
   runs h (svcState c s (v\<lparr>svc_SNMP := nz newSNMPConfig w\<rparr>))
     (onlyIf b (writeLine [''set'', ''system'', ''services'', ''snmp'', ''enabled'', ''true'']))
     (svcState c s (v\<lparr>svc_SNMP := nz newSNMPConfig (w\<lparr>snmp_Enabled := b\<rparr>)\<rparr>))"
  "snmp_ListenAddress w = [] \<Longrightarrow> scalar a \<Longrightarrow>
   runs h (svcState c s (v\<lparr>svc_SNMP := nz newSNMPConfig w\<rparr>))
     (onlyIf (a \<noteq> []) (writeLine [''set'', ''system'', ''services'', ''snmp'', ''listen-address'', EscapeValue a]))
     (svcState c s (v\<lparr>svc_SNMP := nz newSNMPConfig (w\<lparr>snmp_ListenAddress := a\<rparr>)\<rparr>))"
  "snmp_Port w = 0 \<Longrightarrow> intOk n \<Longrightarrow>
   runs h (svcState c s (v\<lparr>svc_SNMP := nz newSNMPConfig w\<rparr>))
     (onlyIf (n \<noteq> 0) (writeLine [''set'', ''system'', ''services'', ''snmp'', ''port'', formatInt n]))
     (svcState c s (v\<lparr>svc_SNMP := nz newSNMPConfig (w\<lparr>snmp_Port := n\<rparr>)\<rparr>))"
  "snmp_Community w = [] \<Longrightarrow> scalar a \<Longrightarrow>
   runs h (svcState c s (v\<lparr>svc_SNMP := nz newSNMPConfig w\<rparr>))
     (onlyIf (a \<noteq> []) (writeLine [''set'', ''system'', ''services'', ''snmp'', ''community'', EscapeValue a]))
     (svcState c s (v\<lparr>svc_SNMP := nz newSNMPConfig (w\<lparr>snmp_Community := a\<rparr>)\<rparr>))"
  by (cases w; rule line_rules; (simp add: running parsing)?; (simp add: fresh newSNMPConfig_def)?)+

definition wfWebUI :: "WebUIConfig \<Rightarrow> bool" where
  "wfWebUI w \<longleftrightarrow> scalar (web_ListenAddress w) \<and> intOk (web_Port w)"

definition wfPrometheus :: "PrometheusConfig \<Rightarrow> bool" where
  "wfPrometheus w \<longleftrightarrow> scalar (prom_ListenAddress w) \<and> intOk (prom_Port w)"

definition wfSNMP :: "SNMPConfig \<Rightarrow> bool" where
  "wfSNMP w \<longleftrightarrow> scalar (snmp_ListenAddress w) \<and> intOk (snmp_Port w) \<and> scalar (snmp_Community w)"

definition wfServices :: "SystemServicesConfig \<Rightarrow> bool" where
  "wfServices v \<longleftrightarrow> pred_option wfWebUI (svc_WebUI v) \<and> pred_option wfPrometheus (svc_Prometheus v) \<and>
     pred_option wfSNMP (svc_SNMP v)"

definition wfSystem :: "SystemConfig option \<Rightarrow> bool" where
  "wfSystem = pred_option (\<lambda>s. scalar (sys_HostName s) \<and> pred_option wfServices (sys_Services s))"

definition normServices :: "SystemServicesConfig \<Rightarrow> SystemServicesConfig" where
  "normServices v =
     \<lparr>svc_WebUI = Option.bind (svc_WebUI v) (nz newWebUIConfig),
      svc_Prometheus = Option.bind (svc_Prometheus v) (nz newPrometheusConfig),
      svc_SNMP = Option.bind (svc_SNMP v) (nz newSNMPConfig)\<rparr>"

definition normSystem :: "SystemConfig option \<Rightarrow> SystemConfig option" where
  "normSystem system = Option.bind system (\<lambda>s. nz newSystemConfig
     \<lparr>sys_HostName = sys_HostName s,
      sys_Services = Option.bind (sys_Services s) (\<lambda>v. nz newSystemServicesConfig (normServices v))\<rparr>)"

lemma runs_writeWebUI:
  "wfWebUI w \<Longrightarrow>
   runs h (svcState c s (v\<lparr>svc_WebUI := nz newWebUIConfig newWebUIConfig\<rparr>)) (writeWebUI w)
     (svcState c s (v\<lparr>svc_WebUI := nz newWebUIConfig w\<rparr>))"
  unfolding writeWebUI_def
  by (cases w, rule rd.runs_eq)
    ((rule rd.runs_append web_lines | simp add: wfWebUI_def newWebUIConfig_def)+)

lemma runs_writePrometheus:
  "wfPrometheus w \<Longrightarrow>
   runs h (svcState c s (v\<lparr>svc_Prometheus := nz newPrometheusConfig newPrometheusConfig\<rparr>)) (writePrometheus w)
     (svcState c s (v\<lparr>svc_Prometheus := nz newPrometheusConfig w\<rparr>))"
  unfolding writePrometheus_def
  by (cases w, rule rd.runs_eq)
    ((rule rd.runs_append prometheus_lines | simp add: wfPrometheus_def newPrometheusConfig_def)+)

lemma runs_writeSNMP:
  "wfSNMP w \<Longrightarrow>
   runs h (svcState c s (v\<lparr>svc_SNMP := nz newSNMPConfig newSNMPConfig\<rparr>))
     (writeSNMP \<lparr>opt_RedactSecrets = False\<rparr> w) (svcState c s (v\<lparr>svc_SNMP := nz newSNMPConfig w\<rparr>))"
  unfolding writeSNMP_def Let_def serializeOptions.simps if_False
  by (cases w, rule rd.runs_eq)
    ((rule rd.runs_append snmp_lines | simp add: wfSNMP_def newSNMPConfig_def)+)

lemma runs_writeServices:
  assumes "wfServices v"
  shows "runs h (svcState c s newSystemServicesConfig) (writeServices \<lparr>opt_RedactSecrets = False\<rparr> v)
    (svcState c s (normServices v))"
proof -
  let ?d = newSystemServicesConfig and ?n = "normServices v"
  let ?w = "?d\<lparr>svc_WebUI := svc_WebUI ?n\<rparr>"
  let ?p = "?w\<lparr>svc_Prometheus := svc_Prometheus ?n\<rparr>"
  have "runs h (svcState c s ?d) (ifSet writeWebUI (svc_WebUI v)) (svcState c s ?w)"
    using assms runs_writeWebUI [where v = ?d]
    by (intro rd.runs_ifSet) (auto simp: wfServices_def normServices_def newSystemServicesConfig_def)
  moreover have "runs h (svcState c s ?w) (ifSet writePrometheus (svc_Prometheus v)) (svcState c s ?p)"
    using assms runs_writePrometheus [where v = ?w]
    by (intro rd.runs_ifSet) (auto simp: wfServices_def normServices_def newSystemServicesConfig_def)
  moreover have "runs h (svcState c s ?p) (ifSet (writeSNMP \<lparr>opt_RedactSecrets = False\<rparr>) (svc_SNMP v))
      (svcState c s ?n)"
    using assms runs_writeSNMP [where v = ?p]
    by (intro rd.runs_ifSet) (auto simp: wfServices_def normServices_def newSystemServicesConfig_def)
  ultimately show ?thesis unfolding writeServices_def by (intro rd.runs_append)
qed

lemma runs_system:
  assumes "wfSystem system" and "cfg_System c = None"
  shows "runs h c (writeHostName system @ writeSystemServices system \<lparr>opt_RedactSecrets = False\<rparr>)
    (c\<lparr>cfg_System := normSystem system\<rparr>)"
proof (cases system)
  case None
  with assms show ?thesis
    by (simp add: writeHostName_def writeSystemServices_def normSystem_def rd.runs_Nil)
next
  case (Some s)
  let ?d = newSystemConfig
  let ?h = "?d\<lparr>sys_HostName := sys_HostName s\<rparr>"
  have "runs h (sysState c ?d) (writeHostName system) (sysState c ?h)"
    using Some assms hostName_line [of ?d "sys_HostName s" h c]
    by (simp add: writeHostName_def wfSystem_def newSystemConfig_def)
  moreover have "runs h (sysState c ?h) (writeSystemServices system \<lparr>opt_RedactSecrets = False\<rparr>)
      (c\<lparr>cfg_System := normSystem system\<rparr>)"
    using Some assms runs_writeServices [where s = ?h and c = c]
    by (cases "sys_Services s")
      (auto simp: writeSystemServices_def wfSystem_def normSystem_def newSystemConfig_def rd.runs_Nil)
  ultimately show ?thesis using assms(2) by (simp add: rd.runs_append)
qed

section \<open>Chassis\<close>

abbreviation clusterState :: "Config \<Rightarrow> ClusterConfig \<Rightarrow> Config" where
  "clusterState c cl \<equiv> c\<lparr>cfg_Chassis := nz newChassisConfig \<lparr>ch_Cluster = nz newClusterConfig cl\<rparr>\<rparr>"

abbreviation syncState :: "Config \<Rightarrow> ClusterConfig \<Rightarrow> string list \<Rightarrow> Config" where
  "syncState c cl es \<equiv> clusterState c (cl\<lparr>cl_Sync :=
     nz newClusterSyncConfig \<lparr>cs_Etcd = nz newEtcdSyncConfig \<lparr>es_Endpoints = es\<rparr>\<rparr>\<rparr>)"

lemma cluster_enabled_line:
  "\<not> cl_Enabled cl \<Longrightarrow>
   runs h (clusterState c cl) (onlyIf b (writeLine [''set'', ''chassis'', ''cluster'', ''enabled'', ''true'']))
     (clusterState c (cl\<lparr>cl_Enabled := b\<rparr>))"
  by (cases cl; rule line_rules; (simp add: running parsing)?; (simp add: fresh newClusterConfig_def)?)

lemma cluster_node_lines:
  "k \<notin> fst ` set acc \<Longrightarrow> plain k \<Longrightarrow> cn_Address n = [] \<Longrightarrow> plainOpt a \<Longrightarrow>
   runs h (clusterState c (cl\<lparr>cl_Nodes := acc @ entry newClusterNode k n\<rparr>))
     (onlyIf (a \<noteq> []) (writeLine [''set'', ''chassis'', ''cluster'', ''node'', k, ''address'', a]))
     (clusterState c (cl\<lparr>cl_Nodes := acc @ entry newClusterNode k (n\<lparr>cn_Address := a\<rparr>)\<rparr>))"
  "k \<notin> fst ` set acc \<Longrightarrow> plain k \<Longrightarrow> cn_Priority n = 0 \<Longrightarrow> intOk i \<Longrightarrow>
   runs h (clusterState c (cl\<lparr>cl_Nodes := acc @ entry newClusterNode k n\<rparr>))
     (onlyIf (i \<noteq> 0) (writeLine [''set'', ''chassis'', ''cluster'', ''node'', k, ''priority'', formatInt i]))
     (clusterState c (cl\<lparr>cl_Nodes := acc @ entry newClusterNode k (n\<lparr>cn_Priority := i\<rparr>)\<rparr>))"
  by (cases n; rule line_rules; (simp add: running parsing)?; (simp add: fresh newClusterNode_def)?)+

lemma cluster_endpoint_line:
  "scalar x \<Longrightarrow>
   runs h (syncState c cl es)
     (writeLine [''set'', ''chassis'', ''cluster'', ''sync'', ''etcd'', ''endpoint'', EscapeValue x])
     (syncState c cl (appendUniqueString es x))"
  by (rule line_rules; (simp add: running parsing)?; (simp add: fresh)?)

definition wfClusterNode :: "string \<Rightarrow> ClusterNode \<Rightarrow> bool" where
  "wfClusterNode k n \<longleftrightarrow> plain k \<and> plainOpt (cn_Address n) \<and> intOk (cn_Priority n)"

definition wfCluster :: "ClusterConfig \<Rightarrow> bool" where
  "wfCluster cl \<longleftrightarrow> wfMap wfClusterNode (cl_Nodes cl) \<and>
     pred_option (\<lambda>s. pred_option (\<lambda>e. list_all scalar (es_Endpoints e)) (cs_Etcd s)) (cl_Sync cl)"

definition wfChassis :: "ChassisConfig option \<Rightarrow> bool" where
  "wfChassis = pred_option (\<lambda>ch. pred_option wfCluster (ch_Cluster ch))"

definition normClusterNode :: "string \<Rightarrow> ClusterNode \<Rightarrow> (string, ClusterNode) gomap" where
  "normClusterNode k n = entry newClusterNode k (n\<lparr>cn_Name := k\<rparr>)"

definition normSync :: "ClusterSyncConfig option \<Rightarrow> ClusterSyncConfig option" where
  "normSync sync = Option.bind sync (\<lambda>s. nz newClusterSyncConfig \<lparr>cs_Etcd =
     Option.bind (cs_Etcd s) (\<lambda>e. nz newEtcdSyncConfig \<lparr>es_Endpoints = uniq (sort (es_Endpoints e))\<rparr>)\<rparr>)"

definition normCluster :: "ClusterConfig \<Rightarrow> ClusterConfig" where
  "normCluster cl =
     \<lparr>cl_Enabled = cl_Enabled cl, cl_Nodes = eachKey normClusterNode (cl_Nodes cl), cl_Sync = normSync (cl_Sync cl)\<rparr>"

definition normChassis :: "ChassisConfig option \<Rightarrow> ChassisConfig option" where
  "normChassis chassis = Option.bind chassis (\<lambda>ch. nz newChassisConfig
     \<lparr>ch_Cluster = Option.bind (ch_Cluster ch) (\<lambda>cl. nz newClusterConfig (normCluster cl))\<rparr>)"

lemma runs_writeClusterNode:
  "k \<notin> fst ` set acc \<Longrightarrow> wfClusterNode k n \<Longrightarrow>
   runs h (clusterState c (cl\<lparr>cl_Nodes := acc @ entry newClusterNode k (newClusterNode k)\<rparr>)) (writeClusterNode k n)
     (clusterState c (cl\<lparr>cl_Nodes := acc @ normClusterNode k n\<rparr>))"
  unfolding writeClusterNode_def normClusterNode_def
  by (cases n, rule rd.runs_eq)
    ((rule rd.runs_append cluster_node_lines | simp add: wfClusterNode_def newClusterNode_def)+)

lemma runs_writeEtcd:
  "list_all scalar (es_Endpoints e) \<Longrightarrow>
   runs h (syncState c cl []) (writeEtcd e) (syncState c cl (uniq (sort (es_Endpoints e))))"
  unfolding writeEtcd_def by (rule rd.runs_uniqueLines) (simp add: list_all_iff cluster_endpoint_line)

lemma runs_writeCluster:
  assumes "wfCluster cl"
  shows "runs h (clusterState c newClusterConfig) (writeCluster cl) (clusterState c (normCluster cl))"
proof -
  let ?d = newClusterConfig and ?n = "normCluster cl"
  let ?e = "?d\<lparr>cl_Enabled := cl_Enabled ?n\<rparr>"
  let ?m = "?e\<lparr>cl_Nodes := cl_Nodes ?n\<rparr>"
  note defs = newClusterConfig_def normCluster_def
  have "runs h (clusterState c ?d)
      (onlyIf (cl_Enabled cl) (writeLine [''set'', ''chassis'', ''cluster'', ''enabled'', ''true''])) (clusterState c ?e)"
    using cluster_enabled_line [of ?d] by (simp add: defs)
  moreover have "runs h (clusterState c (?e\<lparr>cl_Nodes := []\<rparr>)) (eachKey writeClusterNode (cl_Nodes cl))
      (clusterState c (?e\<lparr>cl_Nodes := eachKey normClusterNode (cl_Nodes cl)\<rparr>))"
    using assms runs_writeClusterNode [where cl = ?e]
    by (intro rd.runs_eachKey) (auto simp: wfCluster_def normClusterNode_def dest: wfMap_keys wfMapD)
  moreover have "runs h (clusterState c ?m) (ifSet (\<lambda>sync. ifSet writeEtcd (cs_Etcd sync)) (cl_Sync cl))
      (clusterState c ?n)"
    using assms runs_writeEtcd [where cl = ?m and c = c]
    by (intro rd.runs_ifSet) (auto simp: wfCluster_def defs normSync_def new_defs)
  ultimately show ?thesis unfolding writeCluster_def by (intro rd.runs_append) (simp_all add: defs)
qed

lemma runs_chassis:
  assumes "wfChassis chassis" and "cfg_Chassis c = None"
  shows "runs h c (writeChassis chassis) (c\<lparr>cfg_Chassis := normChassis chassis\<rparr>)"
  using assms runs_writeCluster [where c = c]
  unfolding writeChassis_def
  by (intro rd.runs_ifSet) (auto simp: wfChassis_def normChassis_def newChassisConfig_def)

section \<open>Interfaces\<close>

abbreviation ifaceState :: "Config \<Rightarrow> (string, Interface) gomap \<Rightarrow> string \<Rightarrow> Interface \<Rightarrow> Config" where
  "ifaceState c acc k i \<equiv> c\<lparr>cfg_Interfaces := acc @ entry (\<lambda>_. newInterface) k i\<rparr>"

abbreviation unitState ::
    "Config \<Rightarrow> (string, Interface) gomap \<Rightarrow> string \<Rightarrow> Interface \<Rightarrow> (int, Unit) gomap \<Rightarrow> int \<Rightarrow> Unit \<Rightarrow> Config" where
  "unitState c acc k i us n u \<equiv> ifaceState c acc k (i\<lparr>if_Units := us @ entry (\<lambda>_. newUnit) n u\<rparr>)"

lemma description_line:
  "k \<notin> fst ` set acc \<Longrightarrow> plain k \<Longrightarrow> if_Description i = [] \<Longrightarrow> scalar a \<Longrightarrow>
   runs h (ifaceState c acc k i)
     (onlyIf (a \<noteq> []) (writeLine [''set'', ''interfaces'', k, ''description'', EscapeValue a]))
     (ifaceState c acc k (i\<lparr>if_Description := a\<rparr>))"
  by (cases i; rule line_rules; (simp add: running parsing GetOrCreateInterface_def)?; (simp add: fresh newInterface_def)?)

lemma address_line:
  "k \<notin> fst ` set acc \<Longrightarrow> n \<notin> fst ` set us \<Longrightarrow> f \<notin> fst ` set fs \<Longrightarrow> plain k \<Longrightarrow> intOk n \<Longrightarrow> plain f \<Longrightarrow> plain a \<Longrightarrow>
   runs h (unitState c acc k i us n \<lparr>unit_Family = fs @ entry (\<lambda>_. newFamily) f \<lparr>fam_Addresses = as\<rparr>\<rparr>)
     (writeLine [''set'', ''interfaces'', k, ''unit'', formatInt n, ''family'', f, ''address'', a])
     (unitState c acc k i us n
        \<lparr>unit_Family = fs @ entry (\<lambda>_. newFamily) f \<lparr>fam_Addresses = appendUniqueString as a\<rparr>\<rparr>)"
  by (rule line_rules; (simp add: running parsing GetOrCreateInterface_def GetOrCreateUnit_def GetOrCreateFamily_def)?; (simp add: fresh)?)

definition wfFamily :: "string \<Rightarrow> Family \<Rightarrow> bool" where
  "wfFamily k f \<longleftrightarrow> plain k \<and> list_all plain (fam_Addresses f)"

definition wfUnit :: "int \<Rightarrow> Unit \<Rightarrow> bool" where
  "wfUnit n u \<longleftrightarrow> intOk n \<and> wfMap wfFamily (unit_Family u)"

definition wfInterface :: "string \<Rightarrow> Interface \<Rightarrow> bool" where
  "wfInterface k i \<longleftrightarrow> plain k \<and> scalar (if_Description i) \<and> wfMap wfUnit (if_Units i)"

definition normFamily :: "string \<Rightarrow> Family \<Rightarrow> (string, Family) gomap" where
  "normFamily k f = entry (\<lambda>_. newFamily) k \<lparr>fam_Addresses = uniq (sort (fam_Addresses f))\<rparr>"

definition normUnit :: "int \<Rightarrow> Unit \<Rightarrow> (int, Unit) gomap" where
  "normUnit n u = entry (\<lambda>_. newUnit) n \<lparr>unit_Family = eachKey normFamily (unit_Family u)\<rparr>"

definition normInterface :: "string \<Rightarrow> Interface \<Rightarrow> (string, Interface) gomap" where
  "normInterface k i = entry (\<lambda>_. newInterface) k
     \<lparr>if_Description = if_Description i, if_Units = eachInt normUnit (if_Units i)\<rparr>"

lemma runs_writeFamily:
  assumes "k \<notin> fst ` set acc" "n \<notin> fst ` set us" "f \<notin> fst ` set fs" "plain k" "intOk n" "wfFamily f fam"
  shows "runs h (unitState c acc k i us n \<lparr>unit_Family = fs\<rparr>) (writeFamily k n f fam)
    (unitState c acc k i us n \<lparr>unit_Family = fs @ normFamily f fam\<rparr>)"
proof -
  let ?C = "\<lambda>as. unitState c acc k i us n \<lparr>unit_Family = fs @ entry (\<lambda>_. newFamily) f \<lparr>fam_Addresses = as\<rparr>\<rparr>"
  have "runs h (?C []) (writeFamily k n f fam) (?C (uniq (sort (fam_Addresses fam))))"
    unfolding writeFamily_def using assms
    by (intro rd.runs_uniqueLines address_line) (auto simp: wfFamily_def list_all_iff)
  then show ?thesis by (simp add: normFamily_def newFamily_def)
qed

lemma runs_writeUnit:
  assumes "k \<notin> fst ` set acc" "n \<notin> fst ` set us" "plain k" "wfUnit n u"
  shows "runs h (ifaceState c acc k (i\<lparr>if_Units := us\<rparr>)) (writeUnit k n u)
    (ifaceState c acc k (i\<lparr>if_Units := us @ normUnit n u\<rparr>))"
proof -
  let ?C = "\<lambda>fs. unitState c acc k i us n \<lparr>unit_Family = fs\<rparr>"
  have "runs h (?C []) (writeUnit k n u) (?C (eachKey normFamily (unit_Family u)))"
    unfolding writeUnit_def using assms
    by (intro rd.runs_eachKey runs_writeFamily) (auto simp: wfUnit_def normFamily_def dest: wfMap_keys wfMapD)
  then show ?thesis by (simp add: normUnit_def newUnit_def)
qed

lemma runs_writeInterface:
  assumes "k \<notin> fst ` set acc" "wfInterface k i"
  shows "runs h (c\<lparr>cfg_Interfaces := acc\<rparr>) (writeInterface k i) (c\<lparr>cfg_Interfaces := acc @ normInterface k i\<rparr>)"
proof -
  let ?d = "newInterface\<lparr>if_Description := if_Description i\<rparr>"
  let ?C = "\<lambda>us. ifaceState c acc k (?d\<lparr>if_Units := us\<rparr>)"
  have "runs h (?C []) (eachInt (writeUnit k) (if_Units i)) (?C (eachInt normUnit (if_Units i)))"
    using assms by (intro rd.runs_eachInt runs_writeUnit)
      (auto simp: wfInterface_def normUnit_def dest: wfMap_keys wfMapD)
  moreover have "runs h (ifaceState c acc k newInterface) (onlyIf (if_Description i \<noteq> [])
      (writeLine [''set'', ''interfaces'', k, ''description'', EscapeValue (if_Description i)])) (?C [])"
    using assms description_line [of k acc newInterface "if_Description i"]
    by (simp add: wfInterface_def newInterface_def)
  ultimately show ?thesis
    unfolding writeInterface_def using rd.runs_append
    by (fastforce simp: normInterface_def newInterface_def)
qed

definition wfInterfaces :: "(string, Interface) gomap \<Rightarrow> bool" where
  "wfInterfaces = wfMap wfInterface"

lemma runs_interfaces:
  assumes "wfInterfaces m" and "cfg_Interfaces c = []"
  shows "runs h c (writeInterfaces m) (c\<lparr>cfg_Interfaces := eachKey normInterface m\<rparr>)"
proof -
  have "runs h (c\<lparr>cfg_Interfaces := []\<rparr>) (eachKey writeInterface m)
      (c\<lparr>cfg_Interfaces := eachKey normInterface m\<rparr>)"
    using assms(1) by (intro rd.runs_eachKey runs_writeInterface)
      (auto simp: wfInterfaces_def normInterface_def dest: wfMap_keys wfMapD)
  with assms(2) show ?thesis by (simp add: writeInterfaces_def)
qed

end
