(* ===== verification/RoundTripRouting.thy ===== *)
theory RoundTripRouting
  imports Reading "HOL-Library.Multiset"
begin

text \<open>
  Reading back the sections \<open>routing-options\<close> and \<open>routing-instances\<close>. A static route is one line
  with optional parameters, read by a loop; the parser refuses a second route with the same
  prefix.
\<close>

section \<open>Words\<close>

lemma unat_word_less: "unat (w :: 32 word) < 2 ^ 32" "unat (v :: 64 word) < 2 ^ 64"
  using unsigned_less [where 'a = nat and w = w] unsigned_less [where 'a = nat and w = v] by simp_all

lemma ParseUint_word [running]:
  "ParseUint (formatNat (unat (w :: 32 word))) 32 = Some (unat w)"
  "ParseUint (formatNat (unat (v :: 64 word))) 64 = Some (unat v)"
  by (rule ParseUint_formatNat, rule unat_word_less)+

lemma word_range [running]:
  "unat (w :: 32 word) = 0 \<longleftrightarrow> w = 0" "\<not> 4294967295 < unat (w :: 32 word)"
  "word_of_nat (unat (u :: 'n::len word)) = u"
  using unat_word_less(1) [of w] by (simp_all add: unat_eq_0)

section \<open>Static routes\<close>

definition paramsRun :: "StaticRoute \<Rightarrow> atok list \<Rightarrow> StaticRoute \<Rightarrow> bool" where
  "paramsRun r ts r' \<longleftrightarrow>
     (\<forall>p rest. at p (ts @ (TokenEOL, []) # rest) \<longrightarrow>
        (\<exists>p'. parseStaticRouteParams r p = Inr (r', p') \<and> at p' ((TokenEOL, []) # rest)))"

lemma paramsRun_steps:
  "r = r' \<Longrightarrow> paramsRun r [] r'"
  "intOk d \<Longrightarrow> paramsRun (r\<lparr>sr_Distance := d\<rparr>) ts r' \<Longrightarrow>
     paramsRun r (tokOf ''distance'' # tokOf (formatInt d) # ts) r'"
  "paramsRun (r\<lparr>sr_BFD := True\<rparr>) ts r' \<Longrightarrow> paramsRun r (tokOf ''bfd'' # ts) r'"
  "sr_BFD r \<Longrightarrow> paramsRun (r\<lparr>sr_BFDMultihop := True\<rparr>) ts r' \<Longrightarrow> paramsRun r (tokOf ''multi-hop'' # ts) r'"
  "sr_BFD r \<Longrightarrow> plain a \<Longrightarrow> paramsRun (r\<lparr>sr_BFDSource := a\<rparr>) ts r' \<Longrightarrow>
     paramsRun r (tokOf ''source'' # tokOf a # ts) r'"
  "sr_BFD r \<Longrightarrow> scalar v \<Longrightarrow> paramsRun (r\<lparr>sr_BFDProfile := v\<rparr>) ts r' \<Longrightarrow>
     paramsRun r (tokOf ''profile'' # tokOf (EscapeValue v) # ts) r'"
  by (auto simp: paramsRun_def running parseStaticRouteParams.simps [of r] parseStaticRouteParams.simps [of r'])

definition wfRoute :: "StaticRoute \<Rightarrow> bool" where
  "wfRoute r \<longleftrightarrow> plain (sr_Prefix r) \<and> plain (sr_NextHop r) \<and> intOk (sr_Distance r) \<and>
     plainOpt (sr_BFDSource r) \<and> scalar (sr_BFDProfile r)"

definition normRoute :: "StaticRoute \<Rightarrow> StaticRoute" where
  "normRoute r = r\<lparr>sr_BFD := sr_BFD r \<or> sr_BFDProfile r \<noteq> [] \<or> sr_BFDSource r \<noteq> [] \<or> sr_BFDMultihop r\<rparr>"

lemma paramsRun_route:
  "wfRoute r \<Longrightarrow> paramsRun (newStaticRoute (sr_Prefix r) (sr_NextHop r)) (map tokOf (routeParams r)) (normRoute r)"
  by (cases "sr_Distance r > 0"; cases "sr_BFDSource r = []"; cases "sr_BFDProfile r = []"; cases "sr_BFDMultihop r";
      cases "sr_BFD r"; cases r; simp add: routeParams_def wfRoute_def normRoute_def newStaticRoute_def onlyIf_def
      plainOpt_def intOk_def paramsRun_steps)

lemma routeParams_fields: "wfRoute r \<Longrightarrow> list_all fieldok (routeParams r)"
  by (auto simp: routeParams_def wfRoute_def onlyIf_def running)

abbreviation roState :: "Config \<Rightarrow> RoutingOptions \<Rightarrow> Config" where
  "roState c ro \<equiv> c\<lparr>cfg_RoutingOptions := nz newRoutingOptions ro\<rparr>"

lemma routing_lines:
  "ro_RouterID ro = [] \<Longrightarrow> plainOpt a \<Longrightarrow>
   runs h (roState c ro) (onlyIf (a \<noteq> []) (writeLine [''set'', ''routing-options'', ''router-id'', a]))
     (roState c (ro\<lparr>ro_RouterID := a\<rparr>))"
  "ro_AutonomousSystem ro = 0 \<Longrightarrow>
   runs h (roState c ro)
     (onlyIf (w \<noteq> 0) (writeLine [''set'', ''routing-options'', ''autonomous-system'', formatNat (unat w)]))
     (roState c (ro\<lparr>ro_AutonomousSystem := w\<rparr>))"
  by (cases ro; rule line_rules; (simp add: running parsing)?; (simp add: fresh newRoutingOptions_def)?)+

lemma route_line:
  assumes "wfRoute r" and "\<forall>x \<in> set acc. sr_Prefix x \<noteq> sr_Prefix r"
  shows "runs h (roState c (ro\<lparr>ro_StaticRoutes := map Some acc\<rparr>)) (writeRoute r)
    (roState c (ro\<lparr>ro_StaticRoutes := map Some (acc @ [normRoute r])\<rparr>))"
  unfolding writeRoute_def
proof (rule runs_line)
  show "list_all fieldok ([''set'', ''routing-options'', ''static'', ''route'', sr_Prefix r, ''next-hop'', sr_NextHop r] @
      routeParams r)"
    using assms(1) routeParams_fields by (auto simp: running wfRoute_def)
next
  fix p rest
  assume "at p (map tokOf ([''set'', ''routing-options'', ''static'', ''route'', sr_Prefix r, ''next-hop'',
    sr_NextHop r] @ routeParams r) @ (TokenEOL, []) # rest)"
  then have p: "at p ((TokenSet, ''set'') # (TokenWord, ''routing-options'') # (TokenWord, ''static'') #
      (TokenWord, ''route'') # (TokenWord, sr_Prefix r) # (TokenWord, ''next-hop'') # (TokenWord, sr_NextHop r) #
      map tokOf (routeParams r) @ (TokenEOL, []) # rest)"
    using assms(1) by (simp add: running wfRoute_def)
  then obtain p' where "parseStaticRouteParams (newStaticRoute (sr_Prefix r) (sr_NextHop r))
      (nextToken (nextToken (nextToken (nextToken (nextToken (nextToken (nextToken p))))))) = Inr (normRoute r, p')"
    "at p' ((TokenEOL, []) # rest)"
    using paramsRun_route [OF assms(1)] by (auto simp: paramsRun_def)
  moreover have "\<not> list_ex (\<lambda>sr. case sr of None \<Rightarrow> False | Some x \<Rightarrow> sr_Prefix x = sr_Prefix r) (map Some acc)"
    using assms(2) by (auto simp: list_ex_iff)
  ultimately show "\<exists>p'. parseStatement h (roState c (ro\<lparr>ro_StaticRoutes := map Some acc\<rparr>)) p =
      Inr (roState c (ro\<lparr>ro_StaticRoutes := map Some (acc @ [normRoute r])\<rparr>), p') \<and> at p' ((TokenEOL, []) # rest)"
    using p by (simp add: running parsing) (simp add: fresh)
qed simp

section \<open>Routing options\<close>

definition somes :: "'a option list \<Rightarrow> 'a list" where
  "somes xs = concat (map (\<lambda>x. case x of None \<Rightarrow> [] | Some v \<Rightarrow> [v]) xs)"

lemma somes_simps [simp]:
  "somes [] = []" "somes (None # xs) = somes xs" "somes (Some v # xs) = v # somes xs"
  "somes (xs @ ys) = somes xs @ somes ys"
  by (simp_all add: somes_def)

lemma set_somes [simp]: "v \<in> set (somes xs) \<longleftrightarrow> Some v \<in> set xs"
  by (induction xs) (auto simp: somes_def split: option.splits)

definition wfRoutingOptions :: "RoutingOptions option \<Rightarrow> bool" where
  "wfRoutingOptions = pred_option (\<lambda>ro. plainOpt (ro_RouterID ro) \<and> list_all (pred_option wfRoute) (ro_StaticRoutes ro) \<and>
     distinct (map sr_Prefix (somes (ro_StaticRoutes ro))))"

definition normRoutingOptions :: "RoutingOptions option \<Rightarrow> RoutingOptions option" where
  "normRoutingOptions x = Option.bind x (\<lambda>ro. nz newRoutingOptions
     (ro\<lparr>ro_StaticRoutes := map (Some \<circ> normRoute) (somes (sort_key routeKey (ro_StaticRoutes ro)))\<rparr>))"

lemma somes_eq: "somes xs = map the (filter (\<lambda>x. x \<noteq> None) xs)"
  by (induction xs) (auto simp: somes_def)

lemma distinct_sorted_prefixes:
  assumes "distinct (map sr_Prefix (somes rs))"
  shows "distinct (map sr_Prefix (somes (sort_key routeKey rs)))"
proof -
  have "mset (map sr_Prefix (somes (sort_key routeKey rs))) = mset (map sr_Prefix (somes rs))"
    by (simp add: somes_eq mset_filter)
  with assms show ?thesis by (rule mset_eq_imp_distinct_iff [THEN iffD2, rotated])
qed

lemma runs_routes:
  assumes "list_all (pred_option wfRoute) rs" and "distinct (map sr_Prefix (somes rs))"
  shows "runs h (roState c (ro\<lparr>ro_StaticRoutes := []\<rparr>)) (eachLine (ifSet writeRoute) rs)
    (roState c (ro\<lparr>ro_StaticRoutes := map (Some \<circ> normRoute) (somes rs)\<rparr>))"
proof -
  let ?C = "\<lambda>ys. roState c (ro\<lparr>ro_StaticRoutes := map Some (map normRoute (somes ys))\<rparr>)"
  have "runs h (?C []) (eachLine (ifSet writeRoute) rs) (?C rs)"
  proof (rule rd.runs_prefixes)
    fix ys x zs
    assume rs: "rs = ys @ x # zs"
    show "runs h (?C ys) (ifSet writeRoute x) (?C (ys @ [x]))"
    proof (cases x)
      case None
      then show ?thesis by (simp add: rd.runs_Nil)
    next
      case (Some r)
      then have "sr_Prefix r \<notin> set (map sr_Prefix (somes ys))"
        using assms(2) unfolding rs by simp
      then have "\<forall>x \<in> set (map normRoute (somes ys)). sr_Prefix x \<noteq> sr_Prefix r"
        by (auto simp: normRoute_def image_iff)
      moreover have "wfRoute r" using assms(1) Some rs by simp
      ultimately show ?thesis using Some route_line [of r "map normRoute (somes ys)"] by simp
    qed
  qed
  then show ?thesis by simp
qed

lemma runs_routingOptions:
  assumes "wfRoutingOptions x" and "cfg_RoutingOptions c = None"
  shows "runs h c (writeRoutingOptions x) (c\<lparr>cfg_RoutingOptions := normRoutingOptions x\<rparr>)"
proof (cases x)
  case None
  with assms show ?thesis by (simp add: writeRoutingOptions_def normRoutingOptions_def rd.runs_Nil)
next
  case (Some ro)
  let ?d = newRoutingOptions
  let ?a = "?d\<lparr>ro_RouterID := ro_RouterID ro\<rparr>"
  let ?b = "?a\<lparr>ro_AutonomousSystem := ro_AutonomousSystem ro\<rparr>"
  have wf: "list_all (pred_option wfRoute) (sort_key routeKey (ro_StaticRoutes ro))"
    using assms(1) Some by (simp add: wfRoutingOptions_def list_all_iff)
  have "distinct (map sr_Prefix (somes (sort_key routeKey (ro_StaticRoutes ro))))"
    using assms(1) Some by (simp add: wfRoutingOptions_def distinct_sorted_prefixes)
  note routes = runs_routes [OF wf this, where ro = ?b and h = h and c = c]
  have "runs h (roState c ?d) (writeRoutingOptions x)
      (roState c (?b\<lparr>ro_StaticRoutes := map (Some \<circ> normRoute) (somes (sort_key routeKey (ro_StaticRoutes ro)))\<rparr>))"
    unfolding writeRoutingOptions_def Some ifSet_simps
  proof (intro rd.runs_append)
    show "runs h (roState c ?d) (onlyIf (ro_RouterID ro \<noteq> [])
        (writeLine [''set'', ''routing-options'', ''router-id'', ro_RouterID ro])) (roState c ?a)"
      using assms(1) Some by (intro routing_lines) (simp_all add: wfRoutingOptions_def newRoutingOptions_def)
    show "runs h (roState c ?a) (onlyIf (ro_AutonomousSystem ro \<noteq> 0) (writeLine [''set'', ''routing-options'',
        ''autonomous-system'', formatNat (unat (ro_AutonomousSystem ro))])) (roState c (?b\<lparr>ro_StaticRoutes := []\<rparr>))"
      using routing_lines(2) [of ?a] by (simp add: newRoutingOptions_def)
  qed (rule routes)
  with assms(2) Some show ?thesis
    by (cases ro) (simp add: normRoutingOptions_def newRoutingOptions_def)
qed

section \<open>Routing instances\<close>

abbreviation riState :: "Config \<Rightarrow> (string, RoutingInstance) gomap \<Rightarrow> string \<Rightarrow> RoutingInstance \<Rightarrow> Config" where
  "riState c acc k i \<equiv> c\<lparr>cfg_RoutingInstances := acc @ entry newRoutingInstance k i\<rparr>"

lemma instance_lines:
  assumes "k \<notin> fst ` set acc" "plain k"
  shows
  "ri_InstanceType i = [] \<Longrightarrow> plainOpt a \<Longrightarrow>
   runs h (riState c acc k i)
     (onlyIf (a \<noteq> []) (writeLine [''set'', ''routing-instances'', k, ''instance-type'', a]))
     (riState c acc k (i\<lparr>ri_InstanceType := a\<rparr>))"
  "ri_RouteDistinguisher i = [] \<Longrightarrow> plainOpt a \<Longrightarrow>
   runs h (riState c acc k i)
     (onlyIf (a \<noteq> []) (writeLine [''set'', ''routing-instances'', k, ''route-distinguisher'', a]))
     (riState c acc k (i\<lparr>ri_RouteDistinguisher := a\<rparr>))"
  "ri_VRFTarget i = [] \<Longrightarrow> plainOpt a \<Longrightarrow> a \<noteq> ''import'' \<Longrightarrow> a \<noteq> ''export'' \<Longrightarrow>
   runs h (riState c acc k i)
     (onlyIf (a \<noteq> []) (writeLine [''set'', ''routing-instances'', k, ''vrf-target'', a]))
     (riState c acc k (i\<lparr>ri_VRFTarget := a\<rparr>))"
  by (cases i; rule line_rules; (simp add: assms running parsing)?; (simp add: fresh newRoutingInstance_def)?)+

lemma instance_list_lines:
  assumes "k \<notin> fst ` set acc" "plain k"
  shows
  "plain x \<Longrightarrow>
   runs h (riState c acc k (i\<lparr>ri_VRFTargetImport := xs\<rparr>))
     (writeLine [''set'', ''routing-instances'', k, ''vrf-target'', ''import'', x])
     (riState c acc k (i\<lparr>ri_VRFTargetImport := appendUniqueString xs x\<rparr>))"
  "plain x \<Longrightarrow>
   runs h (riState c acc k (i\<lparr>ri_VRFTargetExport := xs\<rparr>))
     (writeLine [''set'', ''routing-instances'', k, ''vrf-target'', ''export'', x])
     (riState c acc k (i\<lparr>ri_VRFTargetExport := appendUniqueString xs x\<rparr>))"
  "scalar x \<Longrightarrow>
   runs h (riState c acc k (i\<lparr>ri_VRFImport := xs\<rparr>))
     (writeLine [''set'', ''routing-instances'', k, ''vrf-import'', EscapeValue x])
     (riState c acc k (i\<lparr>ri_VRFImport := appendUniqueString xs x\<rparr>))"
  "scalar x \<Longrightarrow>
   runs h (riState c acc k (i\<lparr>ri_VRFExport := xs\<rparr>))
     (writeLine [''set'', ''routing-instances'', k, ''vrf-export'', EscapeValue x])
     (riState c acc k (i\<lparr>ri_VRFExport := appendUniqueString xs x\<rparr>))"
  "plain x \<Longrightarrow>
   runs h (riState c acc k (i\<lparr>ri_Interfaces := xs\<rparr>))
     (writeLine [''set'', ''routing-instances'', k, ''interface'', x])
     (riState c acc k (i\<lparr>ri_Interfaces := appendUniqueString xs x\<rparr>))"
  by (cases i; rule line_rules; (simp add: assms running parsing)?; (simp add: fresh newRoutingInstance_def)?)+

lemma instance_lists:
  assumes "k \<notin> fst ` set acc" "plain k"
  shows
  "ri_VRFTargetImport i = [] \<Longrightarrow> list_all plain xs \<Longrightarrow>
   runs h (riState c acc k i)
     (eachLine (\<lambda>x. writeLine [''set'', ''routing-instances'', k, ''vrf-target'', ''import'', x]) xs)
     (riState c acc k (i\<lparr>ri_VRFTargetImport := uniq xs\<rparr>))"
  "ri_VRFTargetExport i = [] \<Longrightarrow> list_all plain xs \<Longrightarrow>
   runs h (riState c acc k i)
     (eachLine (\<lambda>x. writeLine [''set'', ''routing-instances'', k, ''vrf-target'', ''export'', x]) xs)
     (riState c acc k (i\<lparr>ri_VRFTargetExport := uniq xs\<rparr>))"
  "ri_VRFImport i = [] \<Longrightarrow> list_all scalar xs \<Longrightarrow>
   runs h (riState c acc k i)
     (eachLine (\<lambda>x. writeLine [''set'', ''routing-instances'', k, ''vrf-import'', EscapeValue x]) xs)
     (riState c acc k (i\<lparr>ri_VRFImport := uniq xs\<rparr>))"
  "ri_VRFExport i = [] \<Longrightarrow> list_all scalar xs \<Longrightarrow>
   runs h (riState c acc k i)
     (eachLine (\<lambda>x. writeLine [''set'', ''routing-instances'', k, ''vrf-export'', EscapeValue x]) xs)
     (riState c acc k (i\<lparr>ri_VRFExport := uniq xs\<rparr>))"
  "ri_Interfaces i = [] \<Longrightarrow> list_all plain xs \<Longrightarrow>
   runs h (riState c acc k i)
     (eachLine (\<lambda>x. writeLine [''set'', ''routing-instances'', k, ''interface'', x]) xs)
     (riState c acc k (i\<lparr>ri_Interfaces := uniq xs\<rparr>))"
  by ((rule rd.runs_listField, rule instance_list_lines [OF assms], simp add: list_all_iff, cases i, simp)+)

definition wfRoutingInstance :: "string \<Rightarrow> RoutingInstance \<Rightarrow> bool" where
  "wfRoutingInstance k i \<longleftrightarrow> plain k \<and> plainOpt (ri_InstanceType i) \<and> plainOpt (ri_RouteDistinguisher i) \<and>
     plainOpt (ri_VRFTarget i) \<and> ri_VRFTarget i \<noteq> ''import'' \<and> ri_VRFTarget i \<noteq> ''export'' \<and>
     list_all plain (ri_VRFTargetImport i) \<and> list_all plain (ri_VRFTargetExport i) \<and>
     list_all scalar (ri_VRFImport i) \<and> list_all scalar (ri_VRFExport i) \<and> list_all plain (ri_Interfaces i)"

definition normRoutingInstance :: "string \<Rightarrow> RoutingInstance \<Rightarrow> (string, RoutingInstance) gomap" where
  "normRoutingInstance k i = entry newRoutingInstance k
     (i\<lparr>ri_Name := k, ri_VRFTargetImport := uniq (ri_VRFTargetImport i), ri_VRFTargetExport := uniq (ri_VRFTargetExport i),
        ri_VRFImport := uniq (ri_VRFImport i), ri_VRFExport := uniq (ri_VRFExport i),
        ri_Interfaces := uniq (sort (ri_Interfaces i))\<rparr>)"

definition wfRoutingInstances :: "(string, RoutingInstance) gomap \<Rightarrow> bool" where
  "wfRoutingInstances = wfMap wfRoutingInstance"

lemma list_all_sort [simp]: "list_all P (sort xs) = list_all P xs"
  by (simp add: list_all_iff)

lemma runs_writeRoutingInstance:
  "k \<notin> fst ` set acc \<Longrightarrow> wfRoutingInstance k i \<Longrightarrow>
   runs h (riState c acc k (newRoutingInstance k)) (writeRoutingInstance k i)
     (c\<lparr>cfg_RoutingInstances := acc @ normRoutingInstance k i\<rparr>)"
  unfolding writeRoutingInstance_def normRoutingInstance_def
  by (cases i, rule rd.runs_eq)
    ((rule rd.runs_append instance_lines instance_lists | simp add: wfRoutingInstance_def newRoutingInstance_def)+)

lemma runs_routingInstances:
  assumes "wfRoutingInstances m" and "cfg_RoutingInstances c = []"
  shows "runs h c (writeRoutingInstances m) (c\<lparr>cfg_RoutingInstances := eachKey normRoutingInstance m\<rparr>)"
proof -
  have "runs h (c\<lparr>cfg_RoutingInstances := []\<rparr>) (eachKey writeRoutingInstance m)
      (c\<lparr>cfg_RoutingInstances := eachKey normRoutingInstance m\<rparr>)"
    using assms(1) runs_writeRoutingInstance by (intro rd.runs_eachKey)
      (auto simp: wfRoutingInstances_def normRoutingInstance_def dest: wfMap_keys wfMapD)
  with assms(2) show ?thesis by (simp add: writeRoutingInstances_def)
qed

end
