(* ===== verification/RoundTripProtocols.thy ===== *)
theory RoundTripProtocols
  imports RoundTripRouting
begin

text \<open>
  Reading back the section \<open>protocols\<close>: BFD profiles and peers, BGP groups and neighbours, EVPN
  VNIs, OSPF areas and interfaces, MPLS and VRRP.
\<close>

abbreviation pcState :: "Config \<Rightarrow> ProtocolConfig \<Rightarrow> Config" where
  "pcState c pc \<equiv> c\<lparr>cfg_Protocols := nz newProtocolConfig pc\<rparr>"

text \<open>Names that may also be numbers: VRRP groups and OSPF areas.\<close>

definition nameOrNumber :: "string \<Rightarrow> bool" where
  "nameOrNumber w \<longleftrightarrow> plain w \<or> isNumber w"

lemma field_nameOrNumber [running]:
  "nameOrNumber w \<Longrightarrow> fieldok w" "nameOrNumber w \<Longrightarrow> tokOf w = (wordType w, w)"
  "nameOrNumber w \<Longrightarrow> (wordType w \<noteq> TokenWord \<and> wordType w \<noteq> TokenNumber) = False"
  using field_plain [of w] field_number [of w] by (auto simp: nameOrNumber_def wordType_def plain_def isNumber_def rune_class_defs)

section \<open>BFD\<close>

abbreviation bfdState :: "Config \<Rightarrow> ProtocolConfig \<Rightarrow> BFDConfig \<Rightarrow> Config" where
  "bfdState c pc b \<equiv> pcState c (pc\<lparr>pc_BFD := nz newBFDConfig b\<rparr>)"

abbreviation profileState ::
    "Config \<Rightarrow> ProtocolConfig \<Rightarrow> BFDConfig \<Rightarrow> (string, BFDProfile) gomap \<Rightarrow> string \<Rightarrow> BFDProfile \<Rightarrow> Config" where
  "profileState c pc b acc k u \<equiv> bfdState c pc (b\<lparr>bfd_Profiles := acc @ entry newBFDProfile k u\<rparr>)"

abbreviation peerState ::
    "Config \<Rightarrow> ProtocolConfig \<Rightarrow> BFDConfig \<Rightarrow> (string, BFDPeer) gomap \<Rightarrow> string \<Rightarrow> BFDPeer \<Rightarrow> Config" where
  "peerState c pc b acc k u \<equiv> bfdState c pc (b\<lparr>bfd_Peers := acc @ entry newBFDPeer k u\<rparr>)"

lemma profile_lines:
  assumes "k \<notin> fst ` set acc" "scalar k"
  shows
  "bp_ReceiveInterval u = 0 \<Longrightarrow> intOk n \<Longrightarrow>
   runs h (profileState c pc b acc k u)
     (onlyIf (n \<noteq> 0) (writeLine [''set'', ''protocols'', ''bfd'', ''profile'', EscapeValue k, ''receive-interval'', formatInt n]))
     (profileState c pc b acc k (u\<lparr>bp_ReceiveInterval := n\<rparr>))"
  "bp_TransmitInterval u = 0 \<Longrightarrow> intOk n \<Longrightarrow>
   runs h (profileState c pc b acc k u)
     (onlyIf (n \<noteq> 0) (writeLine [''set'', ''protocols'', ''bfd'', ''profile'', EscapeValue k, ''transmit-interval'', formatInt n]))
     (profileState c pc b acc k (u\<lparr>bp_TransmitInterval := n\<rparr>))"
  "bp_DetectMultiplier u = 0 \<Longrightarrow> intOk n \<Longrightarrow>
   runs h (profileState c pc b acc k u)
     (onlyIf (n \<noteq> 0) (writeLine [''set'', ''protocols'', ''bfd'', ''profile'', EscapeValue k, ''detect-multiplier'', formatInt n]))
     (profileState c pc b acc k (u\<lparr>bp_DetectMultiplier := n\<rparr>))"
  "\<not> bp_EchoMode u \<Longrightarrow>
   runs h (profileState c pc b acc k u)
     (onlyIf x (writeLine [''set'', ''protocols'', ''bfd'', ''profile'', EscapeValue k, ''echo-mode'']))
     (profileState c pc b acc k (u\<lparr>bp_EchoMode := x\<rparr>))"
  "\<not> bp_PassiveMode u \<Longrightarrow>
   runs h (profileState c pc b acc k u)
     (onlyIf x (writeLine [''set'', ''protocols'', ''bfd'', ''profile'', EscapeValue k, ''passive-mode'']))
     (profileState c pc b acc k (u\<lparr>bp_PassiveMode := x\<rparr>))"
  by (cases u; rule line_rules; (simp add: assms running parsing)?; (simp add: fresh newBFDProfile_def)?)+

lemma peer_lines:
  assumes "k \<notin> fst ` set acc" "scalar k"
  shows
  "be_LocalAddress u = [] \<Longrightarrow> scalar a \<Longrightarrow>
   runs h (peerState c pc b acc k u)
     (onlyIf (a \<noteq> []) (writeLine [''set'', ''protocols'', ''bfd'', ''peer'', EscapeValue k, ''local-address'', EscapeValue a]))
     (peerState c pc b acc k (u\<lparr>be_LocalAddress := a\<rparr>))"
  "be_Interface u = [] \<Longrightarrow> plainOpt a \<Longrightarrow>
   runs h (peerState c pc b acc k u)
     (onlyIf (a \<noteq> []) (writeLine [''set'', ''protocols'', ''bfd'', ''peer'', EscapeValue k, ''interface'', a]))
     (peerState c pc b acc k (u\<lparr>be_Interface := a\<rparr>))"
  "be_VRF u = [] \<Longrightarrow> scalar a \<Longrightarrow>
   runs h (peerState c pc b acc k u)
     (onlyIf (a \<noteq> []) (writeLine [''set'', ''protocols'', ''bfd'', ''peer'', EscapeValue k, ''vrf'', EscapeValue a]))
     (peerState c pc b acc k (u\<lparr>be_VRF := a\<rparr>))"
  "\<not> be_Multihop u \<Longrightarrow>
   runs h (peerState c pc b acc k u)
     (onlyIf x (writeLine [''set'', ''protocols'', ''bfd'', ''peer'', EscapeValue k, ''multihop'']))
     (peerState c pc b acc k (u\<lparr>be_Multihop := x\<rparr>))"
  "be_Profile u = [] \<Longrightarrow> scalar a \<Longrightarrow>
   runs h (peerState c pc b acc k u)
     (onlyIf (a \<noteq> []) (writeLine [''set'', ''protocols'', ''bfd'', ''peer'', EscapeValue k, ''profile'', EscapeValue a]))
     (peerState c pc b acc k (u\<lparr>be_Profile := a\<rparr>))"
  "be_ReceiveInterval u = 0 \<Longrightarrow> intOk n \<Longrightarrow>
   runs h (peerState c pc b acc k u)
     (onlyIf (n \<noteq> 0) (writeLine [''set'', ''protocols'', ''bfd'', ''peer'', EscapeValue k, ''receive-interval'', formatInt n]))
     (peerState c pc b acc k (u\<lparr>be_ReceiveInterval := n\<rparr>))"
  "be_TransmitInterval u = 0 \<Longrightarrow> intOk n \<Longrightarrow>
   runs h (peerState c pc b acc k u)
     (onlyIf (n \<noteq> 0) (writeLine [''set'', ''protocols'', ''bfd'', ''peer'', EscapeValue k, ''transmit-interval'', formatInt n]))
     (peerState c pc b acc k (u\<lparr>be_TransmitInterval := n\<rparr>))"
  "be_DetectMultiplier u = 0 \<Longrightarrow> intOk n \<Longrightarrow>
   runs h (peerState c pc b acc k u)
     (onlyIf (n \<noteq> 0) (writeLine [''set'', ''protocols'', ''bfd'', ''peer'', EscapeValue k, ''detect-multiplier'', formatInt n]))
     (peerState c pc b acc k (u\<lparr>be_DetectMultiplier := n\<rparr>))"
  "\<not> be_EchoMode u \<Longrightarrow>
   runs h (peerState c pc b acc k u)
     (onlyIf x (writeLine [''set'', ''protocols'', ''bfd'', ''peer'', EscapeValue k, ''echo-mode'']))
     (peerState c pc b acc k (u\<lparr>be_EchoMode := x\<rparr>))"
  "\<not> be_PassiveMode u \<Longrightarrow>
   runs h (peerState c pc b acc k u)
     (onlyIf x (writeLine [''set'', ''protocols'', ''bfd'', ''peer'', EscapeValue k, ''passive-mode'']))
     (peerState c pc b acc k (u\<lparr>be_PassiveMode := x\<rparr>))"
  "\<not> be_Shutdown u \<Longrightarrow>
   runs h (peerState c pc b acc k u)
     (onlyIf x (writeLine [''set'', ''protocols'', ''bfd'', ''peer'', EscapeValue k, ''shutdown'']))
     (peerState c pc b acc k (u\<lparr>be_Shutdown := x\<rparr>))"
  by (cases u; rule line_rules; (simp add: assms running parsing)?; (simp add: fresh newBFDPeer_def)?)+

definition wfBFDProfile :: "string \<Rightarrow> BFDProfile \<Rightarrow> bool" where
  "wfBFDProfile k u \<longleftrightarrow> scalar k \<and> intOk (bp_ReceiveInterval u) \<and> intOk (bp_TransmitInterval u) \<and>
     intOk (bp_DetectMultiplier u)"

definition wfBFDPeer :: "string \<Rightarrow> BFDPeer \<Rightarrow> bool" where
  "wfBFDPeer k u \<longleftrightarrow> scalar k \<and> scalar (be_LocalAddress u) \<and> plainOpt (be_Interface u) \<and> scalar (be_VRF u) \<and>
     scalar (be_Profile u) \<and> intOk (be_ReceiveInterval u) \<and> intOk (be_TransmitInterval u) \<and>
     intOk (be_DetectMultiplier u)"

definition wfBFD :: "BFDConfig \<Rightarrow> bool" where
  "wfBFD b \<longleftrightarrow> wfMap wfBFDProfile (bfd_Profiles b) \<and> wfMap wfBFDPeer (bfd_Peers b)"

definition normBFDProfile :: "string \<Rightarrow> BFDProfile \<Rightarrow> (string, BFDProfile) gomap" where
  "normBFDProfile k u = entry newBFDProfile k (u\<lparr>bp_Name := k\<rparr>)"

definition normBFDPeer :: "string \<Rightarrow> BFDPeer \<Rightarrow> (string, BFDPeer) gomap" where
  "normBFDPeer k u = entry newBFDPeer k (u\<lparr>be_Address := k\<rparr>)"

definition normBFD :: "BFDConfig \<Rightarrow> BFDConfig" where
  "normBFD b = \<lparr>bfd_Profiles = eachKey normBFDProfile (bfd_Profiles b), bfd_Peers = eachKey normBFDPeer (bfd_Peers b)\<rparr>"

lemma runs_writeBFDProfile:
  "k \<notin> fst ` set acc \<Longrightarrow> wfBFDProfile k u \<Longrightarrow>
   runs h (profileState c pc b acc k (newBFDProfile k)) (writeBFDProfile k u)
     (bfdState c pc (b\<lparr>bfd_Profiles := acc @ normBFDProfile k u\<rparr>))"
  unfolding writeBFDProfile_def normBFDProfile_def Let_def append_Cons append_Nil
  by (cases u, rule rd.runs_eq)
    ((rule rd.runs_append profile_lines | simp add: wfBFDProfile_def newBFDProfile_def)+)

lemma runs_writeBFDPeer:
  "k \<notin> fst ` set acc \<Longrightarrow> wfBFDPeer k u \<Longrightarrow>
   runs h (peerState c pc b acc k (newBFDPeer k)) (writeBFDPeer k u)
     (bfdState c pc (b\<lparr>bfd_Peers := acc @ normBFDPeer k u\<rparr>))"
  unfolding writeBFDPeer_def normBFDPeer_def Let_def append_Cons append_Nil
  by (cases u, rule rd.runs_eq)
    ((rule rd.runs_append peer_lines | simp add: wfBFDPeer_def newBFDPeer_def)+)

lemma runs_writeBFD:
  assumes "pred_option wfBFD x" and "pc_BFD pc = None"
  shows "runs h (pcState c pc) (writeBFD x)
    (pcState c (pc\<lparr>pc_BFD := Option.bind x (\<lambda>b. nz newBFDConfig (normBFD b))\<rparr>))"
proof (cases x)
  case None
  with assms(2) show ?thesis by (cases pc) (simp add: writeBFD_def rd.runs_Nil)
next
  case (Some b)
  let ?p = "newBFDConfig\<lparr>bfd_Profiles := eachKey normBFDProfile (bfd_Profiles b)\<rparr>"
  have "runs h (bfdState c pc (newBFDConfig\<lparr>bfd_Profiles := []\<rparr>)) (eachKey writeBFDProfile (bfd_Profiles b))
      (bfdState c pc ?p)"
    using assms(1) Some runs_writeBFDProfile [where b = newBFDConfig]
    by (intro rd.runs_eachKey) (auto simp: wfBFD_def normBFDProfile_def dest: wfMap_keys wfMapD)
  moreover have "runs h (bfdState c pc (?p\<lparr>bfd_Peers := []\<rparr>)) (eachKey writeBFDPeer (bfd_Peers b))
      (bfdState c pc (?p\<lparr>bfd_Peers := eachKey normBFDPeer (bfd_Peers b)\<rparr>))"
    using assms(1) Some runs_writeBFDPeer [where b = ?p]
    by (intro rd.runs_eachKey) (auto simp: wfBFD_def normBFDPeer_def dest: wfMap_keys wfMapD)
  ultimately show ?thesis
    using Some assms(2) by (cases pc) (simp add: writeBFD_def normBFD_def newBFDConfig_def rd.runs_append)
qed

section \<open>EVPN\<close>

abbreviation vniState ::
    "Config \<Rightarrow> ProtocolConfig \<Rightarrow> (int, EVPNVNI) gomap \<Rightarrow> int \<Rightarrow> EVPNVNI \<Rightarrow> Config" where
  "vniState c pc acc k u \<equiv> pcState c (pc\<lparr>pc_EVPN := nz newEVPNConfig \<lparr>evpn_VNIs = acc @ entry newEVPNVNI k u\<rparr>\<rparr>)"

lemma vni_lines:
  assumes "k \<notin> fst ` set acc" "intOk k"
  shows
  "ev_Type u = [] \<Longrightarrow> plainOpt a \<Longrightarrow>
   runs h (vniState c pc acc k u)
     (onlyIf (a \<noteq> []) (writeLine [''set'', ''protocols'', ''evpn'', ''vni'', formatInt k, ''type'', a]))
     (vniState c pc acc k (u\<lparr>ev_Type := a\<rparr>))"
  "ev_BridgeDomain u = [] \<Longrightarrow> scalar a \<Longrightarrow>
   runs h (vniState c pc acc k u)
     (onlyIf (a \<noteq> []) (writeLine [''set'', ''protocols'', ''evpn'', ''vni'', formatInt k, ''bridge-domain'', EscapeValue a]))
     (vniState c pc acc k (u\<lparr>ev_BridgeDomain := a\<rparr>))"
  "ev_VLANID u = 0 \<Longrightarrow> intOk n \<Longrightarrow>
   runs h (vniState c pc acc k u)
     (onlyIf (n \<noteq> 0) (writeLine [''set'', ''protocols'', ''evpn'', ''vni'', formatInt k, ''vlan-id'', formatInt n]))
     (vniState c pc acc k (u\<lparr>ev_VLANID := n\<rparr>))"
  "ev_RoutingInstance u = [] \<Longrightarrow> scalar a \<Longrightarrow>
   runs h (vniState c pc acc k u)
     (onlyIf (a \<noteq> []) (writeLine [''set'', ''protocols'', ''evpn'', ''vni'', formatInt k, ''routing-instance'', EscapeValue a]))
     (vniState c pc acc k (u\<lparr>ev_RoutingInstance := a\<rparr>))"
  "ev_RouteDistinguisher u = [] \<Longrightarrow> plainOpt a \<Longrightarrow>
   runs h (vniState c pc acc k u)
     (onlyIf (a \<noteq> []) (writeLine [''set'', ''protocols'', ''evpn'', ''vni'', formatInt k, ''route-distinguisher'', a]))
     (vniState c pc acc k (u\<lparr>ev_RouteDistinguisher := a\<rparr>))"
  "ev_VRFTarget u = [] \<Longrightarrow> plainOpt a \<Longrightarrow> a \<noteq> ''import'' \<Longrightarrow> a \<noteq> ''export'' \<Longrightarrow>
   runs h (vniState c pc acc k u)
     (onlyIf (a \<noteq> []) (writeLine [''set'', ''protocols'', ''evpn'', ''vni'', formatInt k, ''vrf-target'', a]))
     (vniState c pc acc k (u\<lparr>ev_VRFTarget := a\<rparr>))"
  "ev_SourceInterface u = [] \<Longrightarrow> plainOpt a \<Longrightarrow>
   runs h (vniState c pc acc k u)
     (onlyIf (a \<noteq> []) (writeLine [''set'', ''protocols'', ''evpn'', ''vni'', formatInt k, ''source-interface'', a]))
     (vniState c pc acc k (u\<lparr>ev_SourceInterface := a\<rparr>))"
  "ev_SourceAddress u = [] \<Longrightarrow> plainOpt a \<Longrightarrow>
   runs h (vniState c pc acc k u)
     (onlyIf (a \<noteq> []) (writeLine [''set'', ''protocols'', ''evpn'', ''vni'', formatInt k, ''source-address'', a]))
     (vniState c pc acc k (u\<lparr>ev_SourceAddress := a\<rparr>))"
  "ev_MulticastGroup u = [] \<Longrightarrow> plainOpt a \<Longrightarrow>
   runs h (vniState c pc acc k u)
     (onlyIf (a \<noteq> []) (writeLine [''set'', ''protocols'', ''evpn'', ''vni'', formatInt k, ''multicast-group'', a]))
     (vniState c pc acc k (u\<lparr>ev_MulticastGroup := a\<rparr>))"
  "ev_RemoteVTEP u = [] \<Longrightarrow> plainOpt a \<Longrightarrow>
   runs h (vniState c pc acc k u)
     (onlyIf (a \<noteq> []) (writeLine [''set'', ''protocols'', ''evpn'', ''vni'', formatInt k, ''remote-vtep'', a]))
     (vniState c pc acc k (u\<lparr>ev_RemoteVTEP := a\<rparr>))"
  by (cases u; rule line_rules; (simp add: assms running parsing)?; (simp add: fresh newEVPNVNI_def)?)+

lemma vni_list_lines:
  assumes "k \<notin> fst ` set acc" "intOk k"
  shows
  "plain x \<Longrightarrow>
   runs h (vniState c pc acc k (u\<lparr>ev_VRFTargetImport := xs\<rparr>))
     (writeLine [''set'', ''protocols'', ''evpn'', ''vni'', formatInt k, ''vrf-target'', ''import'', x])
     (vniState c pc acc k (u\<lparr>ev_VRFTargetImport := appendUniqueString xs x\<rparr>))"
  "plain x \<Longrightarrow>
   runs h (vniState c pc acc k (u\<lparr>ev_VRFTargetExport := xs\<rparr>))
     (writeLine [''set'', ''protocols'', ''evpn'', ''vni'', formatInt k, ''vrf-target'', ''export'', x])
     (vniState c pc acc k (u\<lparr>ev_VRFTargetExport := appendUniqueString xs x\<rparr>))"
  by (cases u; rule line_rules; (simp add: assms running parsing)?; (simp add: fresh newEVPNVNI_def)?)+

lemma vni_lists:
  assumes "k \<notin> fst ` set acc" "intOk k"
  shows
  "ev_VRFTargetImport u = [] \<Longrightarrow> list_all plain xs \<Longrightarrow>
   runs h (vniState c pc acc k u)
     (eachLine (\<lambda>x. writeLine [''set'', ''protocols'', ''evpn'', ''vni'', formatInt k, ''vrf-target'', ''import'', x]) xs)
     (vniState c pc acc k (u\<lparr>ev_VRFTargetImport := uniq xs\<rparr>))"
  "ev_VRFTargetExport u = [] \<Longrightarrow> list_all plain xs \<Longrightarrow>
   runs h (vniState c pc acc k u)
     (eachLine (\<lambda>x. writeLine [''set'', ''protocols'', ''evpn'', ''vni'', formatInt k, ''vrf-target'', ''export'', x]) xs)
     (vniState c pc acc k (u\<lparr>ev_VRFTargetExport := uniq xs\<rparr>))"
  by ((rule rd.runs_listField, rule vni_list_lines [OF assms], simp add: list_all_iff, cases u, simp)+)

definition wfVNI :: "int \<Rightarrow> EVPNVNI \<Rightarrow> bool" where
  "wfVNI k u \<longleftrightarrow> intOk k \<and> plainOpt (ev_Type u) \<and> scalar (ev_BridgeDomain u) \<and> intOk (ev_VLANID u) \<and>
     scalar (ev_RoutingInstance u) \<and> plainOpt (ev_RouteDistinguisher u) \<and> plainOpt (ev_VRFTarget u) \<and>
     ev_VRFTarget u \<noteq> ''import'' \<and> ev_VRFTarget u \<noteq> ''export'' \<and> list_all plain (ev_VRFTargetImport u) \<and>
     list_all plain (ev_VRFTargetExport u) \<and> plainOpt (ev_SourceInterface u) \<and> plainOpt (ev_SourceAddress u) \<and>
     plainOpt (ev_MulticastGroup u) \<and> plainOpt (ev_RemoteVTEP u)"

definition normVNI :: "int \<Rightarrow> EVPNVNI \<Rightarrow> (int, EVPNVNI) gomap" where
  "normVNI k u = entry newEVPNVNI k
     (u\<lparr>ev_VNI := k, ev_VRFTargetImport := uniq (sort (ev_VRFTargetImport u)),
        ev_VRFTargetExport := uniq (sort (ev_VRFTargetExport u))\<rparr>)"

lemma runs_writeVNI:
  "k \<notin> fst ` set acc \<Longrightarrow> wfVNI k u \<Longrightarrow>
   runs h (vniState c pc acc k (newEVPNVNI k)) (writeVNI k u)
     (pcState c (pc\<lparr>pc_EVPN := nz newEVPNConfig \<lparr>evpn_VNIs = acc @ normVNI k u\<rparr>\<rparr>))"
  unfolding writeVNI_def normVNI_def Let_def append_Cons append_Nil sortedStrings_def
  by (cases u, rule rd.runs_eq)
    ((rule rd.runs_append vni_lines vni_lists | simp add: wfVNI_def newEVPNVNI_def)+)

lemma runs_writeEVPN:
  assumes "pred_option (\<lambda>e. wfMap wfVNI (evpn_VNIs e)) x" and "pc_EVPN pc = None"
  shows "runs h (pcState c pc) (writeEVPN x)
    (pcState c (pc\<lparr>pc_EVPN := Option.bind x (\<lambda>e. nz newEVPNConfig \<lparr>evpn_VNIs = eachInt normVNI (evpn_VNIs e)\<rparr>)\<rparr>))"
proof (cases x)
  case None
  with assms(2) show ?thesis by (cases pc) (simp add: writeEVPN_def rd.runs_Nil)
next
  case (Some e)
  let ?C = "\<lambda>m. pcState c (pc\<lparr>pc_EVPN := nz newEVPNConfig \<lparr>evpn_VNIs = m\<rparr>\<rparr>)"
  have "runs h (?C []) (eachInt writeVNI (evpn_VNIs e)) (?C (eachInt normVNI (evpn_VNIs e)))"
    using assms(1) Some runs_writeVNI [where pc = pc]
    by (intro rd.runs_eachInt) (auto simp: normVNI_def dest: wfMap_keys wfMapD)
  then show ?thesis
    using Some assms(2) by (cases pc) (simp add: writeEVPN_def newEVPNConfig_def)
qed

section \<open>MPLS and VRRP\<close>

lemma mpls_line:
  "plain x \<Longrightarrow>
   runs h (pcState c (pc\<lparr>pc_MPLS := nz newMPLSConfig \<lparr>mpls_Interfaces = xs\<rparr>\<rparr>))
     (writeLine [''set'', ''protocols'', ''mpls'', ''interface'', x])
     (pcState c (pc\<lparr>pc_MPLS := nz newMPLSConfig \<lparr>mpls_Interfaces = appendUniqueString xs x\<rparr>\<rparr>))"
  by (rule line_rules; (simp add: running parsing)?; (simp add: fresh)?)

lemma runs_writeMPLS:
  assumes "pred_option (\<lambda>m. list_all plain (mpls_Interfaces m)) x" and "pc_MPLS pc = None"
  shows "runs h (pcState c pc) (writeMPLS x) (pcState c (pc\<lparr>pc_MPLS :=
    Option.bind x (\<lambda>m. nz newMPLSConfig \<lparr>mpls_Interfaces = uniq (sort (mpls_Interfaces m))\<rparr>)\<rparr>))"
proof (cases x)
  case None
  with assms(2) show ?thesis by (cases pc) (simp add: writeMPLS_def rd.runs_Nil)
next
  case (Some m)
  let ?C = "\<lambda>xs. pcState c (pc\<lparr>pc_MPLS := nz newMPLSConfig \<lparr>mpls_Interfaces = xs\<rparr>\<rparr>)"
  have "runs h (?C []) (writeMPLS x) (?C (uniq (sort (mpls_Interfaces m))))"
    unfolding writeMPLS_def Some ifSet_simps
    using assms(1) Some by (intro rd.runs_uniqueLines mpls_line) (auto simp: list_all_iff)
  then show ?thesis using Some assms(2) by (cases pc) (simp add: newMPLSConfig_def)
qed

abbreviation vrrpState ::
    "Config \<Rightarrow> ProtocolConfig \<Rightarrow> (string, VRRPGroup) gomap \<Rightarrow> string \<Rightarrow> VRRPGroup \<Rightarrow> Config" where
  "vrrpState c pc acc k u \<equiv> pcState c (pc\<lparr>pc_VRRP := nz newVRRPConfig \<lparr>vrrp_Groups = acc @ entry newVRRPGroup k u\<rparr>\<rparr>)"

lemma vrrp_lines:
  assumes "k \<notin> fst ` set acc" "nameOrNumber k"
  shows
  "vg_Interface u = [] \<Longrightarrow> plainOpt a \<Longrightarrow>
   runs h (vrrpState c pc acc k u)
     (onlyIf (a \<noteq> []) (writeLine [''set'', ''protocols'', ''vrrp'', ''group'', k, ''interface'', a]))
     (vrrpState c pc acc k (u\<lparr>vg_Interface := a\<rparr>))"
  "vg_VirtualAddress u = [] \<Longrightarrow> plainOpt a \<Longrightarrow>
   runs h (vrrpState c pc acc k u)
     (onlyIf (a \<noteq> []) (writeLine [''set'', ''protocols'', ''vrrp'', ''group'', k, ''virtual-address'', a]))
     (vrrpState c pc acc k (u\<lparr>vg_VirtualAddress := a\<rparr>))"
  "vg_Priority u = 0 \<Longrightarrow> intOk n \<Longrightarrow>
   runs h (vrrpState c pc acc k u)
     (onlyIf (n \<noteq> 0) (writeLine [''set'', ''protocols'', ''vrrp'', ''group'', k, ''priority'', formatInt n]))
     (vrrpState c pc acc k (u\<lparr>vg_Priority := n\<rparr>))"
  "\<not> vg_Preempt u \<Longrightarrow>
   runs h (vrrpState c pc acc k u)
     (onlyIf x (writeLine [''set'', ''protocols'', ''vrrp'', ''group'', k, ''preempt'']))
     (vrrpState c pc acc k (u\<lparr>vg_Preempt := x\<rparr>))"
  by (cases u; rule line_rules; (simp add: assms running parsing)?; (simp add: fresh newVRRPGroup_def)?)+

definition wfVRRPGroup :: "string \<Rightarrow> VRRPGroup \<Rightarrow> bool" where
  "wfVRRPGroup k u \<longleftrightarrow> nameOrNumber k \<and> plainOpt (vg_Interface u) \<and> plainOpt (vg_VirtualAddress u) \<and>
     intOk (vg_Priority u)"

definition normVRRPGroup :: "string \<Rightarrow> VRRPGroup \<Rightarrow> (string, VRRPGroup) gomap" where
  "normVRRPGroup k u = entry newVRRPGroup k (u\<lparr>vg_Name := k\<rparr>)"

lemma runs_writeVRRPGroup:
  "k \<notin> fst ` set acc \<Longrightarrow> wfVRRPGroup k u \<Longrightarrow>
   runs h (vrrpState c pc acc k (newVRRPGroup k)) (writeVRRPGroup k u)
     (pcState c (pc\<lparr>pc_VRRP := nz newVRRPConfig \<lparr>vrrp_Groups = acc @ normVRRPGroup k u\<rparr>\<rparr>))"
  unfolding writeVRRPGroup_def normVRRPGroup_def
  by (cases u, rule rd.runs_eq)
    ((rule rd.runs_append vrrp_lines | simp add: wfVRRPGroup_def newVRRPGroup_def)+)

lemma runs_writeVRRP:
  assumes "pred_option (\<lambda>v. wfMap wfVRRPGroup (vrrp_Groups v)) x" and "pc_VRRP pc = None"
  shows "runs h (pcState c pc) (writeVRRP x) (pcState c (pc\<lparr>pc_VRRP :=
    Option.bind x (\<lambda>v. nz newVRRPConfig \<lparr>vrrp_Groups = eachKey normVRRPGroup (vrrp_Groups v)\<rparr>)\<rparr>))"
proof (cases x)
  case None
  with assms(2) show ?thesis by (cases pc) (simp add: writeVRRP_def rd.runs_Nil)
next
  case (Some v)
  let ?C = "\<lambda>m. pcState c (pc\<lparr>pc_VRRP := nz newVRRPConfig \<lparr>vrrp_Groups = m\<rparr>\<rparr>)"
  have "runs h (?C []) (eachKey writeVRRPGroup (vrrp_Groups v)) (?C (eachKey normVRRPGroup (vrrp_Groups v)))"
    using assms(1) Some runs_writeVRRPGroup [where pc = pc]
    by (intro rd.runs_eachKey) (auto simp: normVRRPGroup_def dest: wfMap_keys wfMapD)
  then show ?thesis
    using Some assms(2) by (cases pc) (simp add: writeVRRP_def newVRRPConfig_def)
qed

section \<open>BGP\<close>

definition groupType :: "string \<Rightarrow> bool" where
  "groupType a \<longleftrightarrow> a = [] \<or> a = ''internal'' \<or> a = ''external''"

lemma groupType_field [running]:
  "groupType a \<Longrightarrow> a \<noteq> [] \<Longrightarrow> plain a"
  "groupType a \<Longrightarrow> a \<noteq> [] \<Longrightarrow> (a \<noteq> ''internal'' \<and> a \<noteq> ''external'') = False"
  by (auto simp: groupType_def plain_keywords)

abbreviation bgpState ::
    "Config \<Rightarrow> ProtocolConfig \<Rightarrow> (string, BGPGroup) gomap \<Rightarrow> string \<Rightarrow> BGPGroup \<Rightarrow> Config" where
  "bgpState c pc acc k u \<equiv> pcState c (pc\<lparr>pc_BGP := nz newBGPConfig \<lparr>bgp_Groups = acc @ entry (\<lambda>_. newBGPGroup) k u\<rparr>\<rparr>)"

abbreviation neighborState ::
    "Config \<Rightarrow> ProtocolConfig \<Rightarrow> (string, BGPGroup) gomap \<Rightarrow> string \<Rightarrow> BGPGroup \<Rightarrow> (string, BGPNeighbor) gomap \<Rightarrow> string \<Rightarrow>
     BGPNeighbor \<Rightarrow> Config" where
  "neighborState c pc acc k g ns ip u \<equiv> bgpState c pc acc k (g\<lparr>bg_Neighbors := ns @ entry newBGPNeighbor ip u\<rparr>)"

lemma group_lines:
  assumes "k \<notin> fst ` set acc" "plain k"
  shows
  "bg_Type u = [] \<Longrightarrow> groupType a \<Longrightarrow>
   runs h (bgpState c pc acc k u)
     (onlyIf (a \<noteq> []) (writeLine [''set'', ''protocols'', ''bgp'', ''group'', k, ''type'', a]))
     (bgpState c pc acc k (u\<lparr>bg_Type := a\<rparr>))"
  "bg_Import u = [] \<Longrightarrow> plainOpt a \<Longrightarrow>
   runs h (bgpState c pc acc k u)
     (onlyIf (a \<noteq> []) (writeLine [''set'', ''protocols'', ''bgp'', ''group'', k, ''import'', a]))
     (bgpState c pc acc k (u\<lparr>bg_Import := a\<rparr>))"
  "bg_Export u = [] \<Longrightarrow> plainOpt a \<Longrightarrow>
   runs h (bgpState c pc acc k u)
     (onlyIf (a \<noteq> []) (writeLine [''set'', ''protocols'', ''bgp'', ''group'', k, ''export'', a]))
     (bgpState c pc acc k (u\<lparr>bg_Export := a\<rparr>))"
  by (cases u; rule line_rules; (simp add: assms running parsing)?; (simp add: fresh newBGPGroup_def)?)+

lemma neighbor_lines:
  assumes "k \<notin> fst ` set acc" "plain k" "ip \<notin> fst ` set ns" "plain ip"
  shows
  "bn_PeerAS u = 0 \<Longrightarrow>
   runs h (neighborState c pc acc k g ns ip u)
     (onlyIf (w \<noteq> 0) (writeLine [''set'', ''protocols'', ''bgp'', ''group'', k, ''neighbor'', ip, ''peer-as'', formatNat (unat w)]))
     (neighborState c pc acc k g ns ip (u\<lparr>bn_PeerAS := w\<rparr>))"
  "bn_Description u = [] \<Longrightarrow> scalar a \<Longrightarrow>
   runs h (neighborState c pc acc k g ns ip u)
     (onlyIf (a \<noteq> []) (writeLine [''set'', ''protocols'', ''bgp'', ''group'', k, ''neighbor'', ip, ''description'', EscapeValue a]))
     (neighborState c pc acc k g ns ip (u\<lparr>bn_Description := a\<rparr>))"
  "bn_LocalAddress u = [] \<Longrightarrow> plainOpt a \<Longrightarrow>
   runs h (neighborState c pc acc k g ns ip u)
     (onlyIf (a \<noteq> []) (writeLine [''set'', ''protocols'', ''bgp'', ''group'', k, ''neighbor'', ip, ''local-address'', a]))
     (neighborState c pc acc k g ns ip (u\<lparr>bn_LocalAddress := a\<rparr>))"
  "\<not> bn_BFD u \<Longrightarrow>
   runs h (neighborState c pc acc k g ns ip u)
     (onlyIf x (writeLine [''set'', ''protocols'', ''bgp'', ''group'', k, ''neighbor'', ip, ''bfd'']))
     (neighborState c pc acc k g ns ip (u\<lparr>bn_BFD := x\<rparr>))"
  "scalar a \<Longrightarrow> a \<noteq> [] \<Longrightarrow>
   runs h (neighborState c pc acc k g ns ip u)
     (writeLine [''set'', ''protocols'', ''bgp'', ''group'', k, ''neighbor'', ip, ''bfd'', ''profile'', EscapeValue a])
     (neighborState c pc acc k g ns ip (u\<lparr>bn_BFD := True, bn_BFDProfile := a\<rparr>))"
  by (cases u; rule line_rules; (simp add: assms running parsing)?; (simp add: fresh newBGPNeighbor_def)?)+

lemma neighbor_bfd:
  assumes "k \<notin> fst ` set acc" "plain k" "ip \<notin> fst ` set ns" "plain ip"
    and "\<not> bn_BFD u" "bn_BFDProfile u = []" "scalar a"
  shows "runs h (neighborState c pc acc k g ns ip u)
    (if a \<noteq> [] then writeLine [''set'', ''protocols'', ''bgp'', ''group'', k, ''neighbor'', ip, ''bfd'', ''profile'', EscapeValue a]
     else onlyIf x (writeLine [''set'', ''protocols'', ''bgp'', ''group'', k, ''neighbor'', ip, ''bfd'']))
    (neighborState c pc acc k g ns ip (u\<lparr>bn_BFD := x \<or> a \<noteq> [], bn_BFDProfile := a\<rparr>))"
proof (cases "a = []")
  case True
  with assms neighbor_lines(4) [of k acc ip ns u] show ?thesis by (cases u) simp
next
  case False
  with assms neighbor_lines(5) [of k acc ip ns a] show ?thesis by simp
qed

definition wfBGPNeighbor :: "string \<Rightarrow> BGPNeighbor \<Rightarrow> bool" where
  "wfBGPNeighbor ip u \<longleftrightarrow> plain ip \<and> scalar (bn_Description u) \<and> plainOpt (bn_LocalAddress u) \<and> scalar (bn_BFDProfile u)"

definition wfBGPGroup :: "string \<Rightarrow> BGPGroup \<Rightarrow> bool" where
  "wfBGPGroup k g \<longleftrightarrow> plain k \<and> groupType (bg_Type g) \<and> plainOpt (bg_Import g) \<and> plainOpt (bg_Export g) \<and>
     wfMap wfBGPNeighbor (bg_Neighbors g)"

definition normBGPNeighbor :: "string \<Rightarrow> BGPNeighbor \<Rightarrow> (string, BGPNeighbor) gomap" where
  "normBGPNeighbor ip u = entry newBGPNeighbor ip (u\<lparr>bn_IP := ip, bn_BFD := bn_BFD u \<or> bn_BFDProfile u \<noteq> []\<rparr>)"

definition normBGPGroup :: "string \<Rightarrow> BGPGroup \<Rightarrow> (string, BGPGroup) gomap" where
  "normBGPGroup k g = entry (\<lambda>_. newBGPGroup) k (g\<lparr>bg_Neighbors := eachKey normBGPNeighbor (bg_Neighbors g)\<rparr>)"

lemma runs_writeBGPNeighbor:
  "k \<notin> fst ` set acc \<Longrightarrow> plain k \<Longrightarrow> ip \<notin> fst ` set ns \<Longrightarrow> wfBGPNeighbor ip u \<Longrightarrow>
   runs h (neighborState c pc acc k g ns ip (newBGPNeighbor ip)) (writeBGPNeighbor k ip u)
     (bgpState c pc acc k (g\<lparr>bg_Neighbors := ns @ normBGPNeighbor ip u\<rparr>))"
  unfolding writeBGPNeighbor_def normBGPNeighbor_def Let_def append_Cons append_Nil
  by (cases u, rule rd.runs_eq)
    ((rule rd.runs_append neighbor_lines(1-3) neighbor_bfd | simp add: wfBGPNeighbor_def newBGPNeighbor_def)+)

lemma runs_writeBGPGroup:
  assumes "k \<notin> fst ` set acc" "wfBGPGroup k g"
  shows "runs h (pcState c (pc\<lparr>pc_BGP := nz newBGPConfig \<lparr>bgp_Groups = acc\<rparr>\<rparr>)) (writeBGPGroup k g)
    (pcState c (pc\<lparr>pc_BGP := nz newBGPConfig \<lparr>bgp_Groups = acc @ normBGPGroup k g\<rparr>\<rparr>))"
proof -
  let ?a = "newBGPGroup\<lparr>bg_Type := bg_Type g\<rparr>"
  let ?b = "?a\<lparr>bg_Import := bg_Import g\<rparr>"
  let ?d = "?b\<lparr>bg_Export := bg_Export g\<rparr>"
  let ?C = "\<lambda>ns. bgpState c pc acc k (?d\<lparr>bg_Neighbors := ns\<rparr>)"
  have nb: "runs h (?C []) (eachKey (writeBGPNeighbor k) (bg_Neighbors g)) (?C (eachKey normBGPNeighbor (bg_Neighbors g)))"
    using assms runs_writeBGPNeighbor [where g = ?d]
    by (intro rd.runs_eachKey) (auto simp: wfBGPGroup_def normBGPNeighbor_def dest: wfMap_keys wfMapD)
  have "runs h (bgpState c pc acc k newBGPGroup) (writeBGPGroup k g) (?C (eachKey normBGPNeighbor (bg_Neighbors g)))"
    unfolding writeBGPGroup_def Let_def append_Cons append_Nil
  proof (intro rd.runs_append)
    show "runs h (bgpState c pc acc k newBGPGroup)
        (onlyIf (bg_Type g \<noteq> []) (writeLine [''set'', ''protocols'', ''bgp'', ''group'', k, ''type'', bg_Type g]))
        (bgpState c pc acc k ?a)"
      using assms by (intro group_lines) (simp_all add: wfBGPGroup_def newBGPGroup_def)
    show "runs h (bgpState c pc acc k ?a)
        (onlyIf (bg_Import g \<noteq> []) (writeLine [''set'', ''protocols'', ''bgp'', ''group'', k, ''import'', bg_Import g]))
        (bgpState c pc acc k ?b)"
      using assms by (intro group_lines) (simp_all add: wfBGPGroup_def newBGPGroup_def)
    show "runs h (bgpState c pc acc k ?b)
        (onlyIf (bg_Export g \<noteq> []) (writeLine [''set'', ''protocols'', ''bgp'', ''group'', k, ''export'', bg_Export g])) (?C [])"
      using assms group_lines(3) [of k acc ?b] by (simp add: wfBGPGroup_def newBGPGroup_def)
  qed (rule nb)
  then show ?thesis by (cases g) (simp add: normBGPGroup_def newBGPGroup_def)
qed

lemma runs_writeBGP:
  assumes "pred_option (\<lambda>b. wfMap wfBGPGroup (bgp_Groups b)) x" and "pc_BGP pc = None"
  shows "runs h (pcState c pc) (writeBGP x) (pcState c (pc\<lparr>pc_BGP :=
    Option.bind x (\<lambda>b. nz newBGPConfig \<lparr>bgp_Groups = eachKey normBGPGroup (bgp_Groups b)\<rparr>)\<rparr>))"
proof (cases x)
  case None
  with assms(2) show ?thesis by (cases pc) (simp add: writeBGP_def rd.runs_Nil)
next
  case (Some b)
  let ?C = "\<lambda>m. pcState c (pc\<lparr>pc_BGP := nz newBGPConfig \<lparr>bgp_Groups = m\<rparr>\<rparr>)"
  have "runs h (?C []) (eachKey writeBGPGroup (bgp_Groups b)) (?C (eachKey normBGPGroup (bgp_Groups b)))"
    using assms(1) Some runs_writeBGPGroup [where pc = pc]
    by (intro rd.runs_eachKey) (auto simp: normBGPGroup_def dest: wfMap_keys wfMapD)
  then show ?thesis
    using Some assms(2) by (cases pc) (simp add: writeBGP_def newBGPConfig_def)
qed

end
