(* ===== verification/RoundTripOspf.thy ===== *)
theory RoundTripOspf
  imports RoundTripProtocols
begin

text \<open>
  Reading back OSPF and OSPFv3, which share their code, and the section \<open>protocols\<close> as a whole.
  An OSPF interface without parameters prints a line of its own, so that it is not lost.
\<close>

section \<open>The parameter loop\<close>

lemma ospf_params [running]:
  "cty p \<noteq> TokenWord \<Longrightarrow> parseOSPFInterfaceParams i p = Inr (i, p)"
  "cty p = TokenWord \<Longrightarrow> cval p = ''passive'' \<Longrightarrow>
     parseOSPFInterfaceParams i p = parseOSPFInterfaceParams (i\<lparr>oi_Passive := True\<rparr>) (nextToken p)"
  "cty p = TokenWord \<Longrightarrow> cval p = ''metric'' \<Longrightarrow> cty (nextToken p) = TokenNumber \<Longrightarrow> Atoi (cval (nextToken p)) = Some n \<Longrightarrow>
     parseOSPFInterfaceParams i p = parseOSPFInterfaceParams (i\<lparr>oi_Metric := n\<rparr>) (nextToken (nextToken p))"
  "cty p = TokenWord \<Longrightarrow> cval p = ''priority'' \<Longrightarrow> cty (nextToken p) = TokenNumber \<Longrightarrow> Atoi (cval (nextToken p)) = Some n \<Longrightarrow>
     parseOSPFInterfaceParams i p =
       parseOSPFInterfaceParams (i\<lparr>oi_Priority := n, oi_PrioritySet := True\<rparr>) (nextToken (nextToken p))"
  "cty p = TokenWord \<Longrightarrow> cval p = ''bfd'' \<Longrightarrow> cty (nextToken p) = TokenEOL \<Longrightarrow>
     parseOSPFInterfaceParams i p = parseOSPFInterfaceParams (i\<lparr>oi_BFD := True\<rparr>) (nextToken p)"
  "cty p = TokenWord \<Longrightarrow> cval p = ''bfd'' \<Longrightarrow> cty (nextToken p) = TokenWord \<Longrightarrow> cval (nextToken p) = ''profile'' \<Longrightarrow>
     cty (nextToken (nextToken p)) = escType v \<Longrightarrow> scalar v \<Longrightarrow>
     parseOSPFInterfaceParams i p =
       parseOSPFInterfaceParams (i\<lparr>oi_BFD := True, oi_BFDProfile := cval (nextToken (nextToken p))\<rparr>)
         (nextToken (nextToken (nextToken p)))"
  by (simp_all add: parseOSPFInterfaceParams.simps [of i p] escType_decide Let_def)

section \<open>Lines\<close>

text \<open>The two protocols differ in their keyword and in the field that holds them.\<close>

definition ospfName :: "bool \<Rightarrow> string" where
  "ospfName six = (if six then ''ospf3'' else ''ospf'')"

definition setOspf :: "bool \<Rightarrow> OSPFConfig option \<Rightarrow> ProtocolConfig \<Rightarrow> ProtocolConfig" where
  "setOspf six x pc = (if six then pc\<lparr>pc_OSPF3 := x\<rparr> else pc\<lparr>pc_OSPF := x\<rparr>)"

abbreviation ospfState :: "bool \<Rightarrow> Config \<Rightarrow> ProtocolConfig \<Rightarrow> OSPFConfig \<Rightarrow> Config" where
  "ospfState six c pc x \<equiv> pcState c (setOspf six (nz newOSPFConfig x) pc)"

abbreviation areaState :: "bool \<Rightarrow> Config \<Rightarrow> ProtocolConfig \<Rightarrow> OSPFConfig \<Rightarrow> (string, OSPFArea) gomap \<Rightarrow> string \<Rightarrow>
    (string, OSPFInterface) gomap \<Rightarrow> Config" where
  "areaState six c pc x acc a is \<equiv> ospfState six c pc (x\<lparr>ospf_Areas :=
     acc @ entry newOSPFArea a \<lparr>oa_AreaID = a, oa_Interfaces = is\<rparr>\<rparr>)"

lemma routerID_line:
  "ospf_RouterID x = [] \<Longrightarrow> plainOpt r \<Longrightarrow>
   runs h (ospfState six c pc x) (onlyIf (r \<noteq> []) (writeLine [''set'', ''protocols'', ospfName six, ''router-id'', r]))
     (ospfState six c pc (x\<lparr>ospf_RouterID := r\<rparr>))"
  by (cases x; cases six; rule line_rules; (simp add: running parsing ospfName_def setOspf_def)?;
      (simp add: fresh newOSPFConfig_def)?)

lemma ospf_lines:
  assumes "a \<notin> fst ` set acc" "nameOrNumber a" "k \<notin> fst ` set is" "plain k"
  shows
  "runs h (areaState six c pc x acc a is)
     (writeLine [''set'', ''protocols'', ospfName six, ''area'', a, ''interface'', k])
     (areaState six c pc x acc a (is @ [(k, Some (newOSPFInterface k))]))"
  "\<not> oi_Passive u \<Longrightarrow>
   runs h (areaState six c pc x acc a (is @ entry newOSPFInterface k u))
     (onlyIf b (writeLine [''set'', ''protocols'', ospfName six, ''area'', a, ''interface'', k, ''passive'']))
     (areaState six c pc x acc a (is @ entry newOSPFInterface k (u\<lparr>oi_Passive := b\<rparr>)))"
  "oi_Metric u = 0 \<Longrightarrow> intOk n \<Longrightarrow>
   runs h (areaState six c pc x acc a (is @ entry newOSPFInterface k u))
     (onlyIf (n > 0) (writeLine [''set'', ''protocols'', ospfName six, ''area'', a, ''interface'', k, ''metric'', formatInt n]))
     (areaState six c pc x acc a (is @ entry newOSPFInterface k (u\<lparr>oi_Metric := n\<rparr>)))"
  "oi_Priority u = 0 \<Longrightarrow> \<not> oi_PrioritySet u \<Longrightarrow> intOk n \<Longrightarrow>
   runs h (areaState six c pc x acc a (is @ entry newOSPFInterface k u))
     (onlyIf (b \<or> n > 0)
        (writeLine [''set'', ''protocols'', ospfName six, ''area'', a, ''interface'', k, ''priority'', formatInt n]))
     (areaState six c pc x acc a (is @ entry newOSPFInterface k (u\<lparr>oi_Priority := n, oi_PrioritySet := b \<or> n > 0\<rparr>)))"
  "\<not> oi_BFD u \<Longrightarrow>
   runs h (areaState six c pc x acc a (is @ entry newOSPFInterface k u))
     (onlyIf b (writeLine [''set'', ''protocols'', ospfName six, ''area'', a, ''interface'', k, ''bfd'']))
     (areaState six c pc x acc a (is @ entry newOSPFInterface k (u\<lparr>oi_BFD := b\<rparr>)))"
  "scalar v \<Longrightarrow> v \<noteq> [] \<Longrightarrow>
   runs h (areaState six c pc x acc a (is @ entry newOSPFInterface k u))
     (writeLine [''set'', ''protocols'', ospfName six, ''area'', a, ''interface'', k, ''bfd'', ''profile'', EscapeValue v])
     (areaState six c pc x acc a (is @ entry newOSPFInterface k (u\<lparr>oi_BFD := True, oi_BFDProfile := v\<rparr>)))"
  by (cases u; cases six; rule line_rules; (simp add: assms running parsing ospfName_def setOspf_def)?;
      (simp add: fresh assms mget_fresh mput_fresh newOSPFInterface_def intOk_def)?)+

lemma ospf_bfd:
  assumes "a \<notin> fst ` set acc" "nameOrNumber a" "k \<notin> fst ` set is" "plain k"
    and "\<not> oi_BFD u" "oi_BFDProfile u = []" "scalar v"
  shows "runs h (areaState six c pc x acc a (is @ entry newOSPFInterface k u))
    (if v \<noteq> [] then writeLine [''set'', ''protocols'', ospfName six, ''area'', a, ''interface'', k, ''bfd'', ''profile'', EscapeValue v]
     else onlyIf b (writeLine [''set'', ''protocols'', ospfName six, ''area'', a, ''interface'', k, ''bfd'']))
    (areaState six c pc x acc a (is @ entry newOSPFInterface k (u\<lparr>oi_BFD := b \<or> v \<noteq> [], oi_BFDProfile := v\<rparr>)))"
proof (cases "v = []")
  case True
  with assms ospf_lines(5) [of a acc k "is" u] show ?thesis by (cases u) simp
next
  case False
  with assms ospf_lines(6) [of a acc k "is" v] show ?thesis by simp
qed

section \<open>Areas\<close>

definition wfOSPFInterface :: "string \<Rightarrow> OSPFInterface \<Rightarrow> bool" where
  "wfOSPFInterface k i \<longleftrightarrow> plain k \<and> intOk (oi_Metric i) \<and> intOk (oi_Priority i) \<and> scalar (oi_BFDProfile i)"

definition wfOSPFArea :: "string \<Rightarrow> OSPFArea \<Rightarrow> bool" where
  "wfOSPFArea a area \<longleftrightarrow> nameOrNumber a \<and> wfMap wfOSPFInterface (oa_Interfaces area)"

definition wfOSPF :: "OSPFConfig \<Rightarrow> bool" where
  "wfOSPF x \<longleftrightarrow> plainOpt (ospf_RouterID x) \<and> wfMap wfOSPFArea (ospf_Areas x)"

definition normOSPFInterface :: "string \<Rightarrow> OSPFInterface \<Rightarrow> OSPFInterface" where
  "normOSPFInterface k i = i\<lparr>oi_Name := k, oi_PrioritySet := oi_PrioritySet i \<or> oi_Priority i > 0,
     oi_BFD := oi_BFD i \<or> oi_BFDProfile i \<noteq> []\<rparr>"

definition normOSPFArea :: "string \<Rightarrow> OSPFArea \<Rightarrow> (string, OSPFArea) gomap" where
  "normOSPFArea a area = entry newOSPFArea a
     \<lparr>oa_AreaID = a, oa_Interfaces = eachKey (\<lambda>k i. [(k, Some (normOSPFInterface k i))]) (oa_Interfaces area)\<rparr>"

definition normOSPF :: "OSPFConfig \<Rightarrow> OSPFConfig" where
  "normOSPF x = \<lparr>ospf_Areas = eachKey normOSPFArea (ospf_Areas x), ospf_RouterID = ospf_RouterID x\<rparr>"

lemma normOSPFInterface_new:
  "intOk (oi_Metric i) \<Longrightarrow> intOk (oi_Priority i) \<Longrightarrow>
   (normOSPFInterface k i = newOSPFInterface k) =
     (\<not> (oi_Passive i \<or> oi_Metric i > 0 \<or> oi_PrioritySet i \<or> oi_Priority i > 0 \<or> oi_BFDProfile i \<noteq> [] \<or> oi_BFD i))"
  by (cases i) (auto simp: normOSPFInterface_def newOSPFInterface_def intOk_def)

lemma runs_ospf_params:
  "a \<notin> fst ` set acc \<Longrightarrow> nameOrNumber a \<Longrightarrow> k \<notin> fst ` set is \<Longrightarrow> wfOSPFInterface k i \<Longrightarrow>
   runs h (areaState six c pc x acc a (is @ entry newOSPFInterface k (newOSPFInterface k)))
     (onlyIf (oi_Passive i)
        (writeLine [''set'', ''protocols'', ospfName six, ''area'', a, ''interface'', k, ''passive'']) @
      onlyIf (oi_Metric i > 0)
        (writeLine [''set'', ''protocols'', ospfName six, ''area'', a, ''interface'', k, ''metric'', formatInt (oi_Metric i)]) @
      onlyIf (oi_PrioritySet i \<or> oi_Priority i > 0)
        (writeLine [''set'', ''protocols'', ospfName six, ''area'', a, ''interface'', k, ''priority'', formatInt (oi_Priority i)]) @
      (if oi_BFDProfile i \<noteq> []
       then writeLine [''set'', ''protocols'', ospfName six, ''area'', a, ''interface'', k, ''bfd'', ''profile'',
              EscapeValue (oi_BFDProfile i)]
       else onlyIf (oi_BFD i) (writeLine [''set'', ''protocols'', ospfName six, ''area'', a, ''interface'', k, ''bfd''])))
     (areaState six c pc x acc a (is @ entry newOSPFInterface k (normOSPFInterface k i)))"
  by (cases i, rule rd.runs_eq)
    ((rule rd.runs_append ospf_lines(2-4) ospf_bfd |
      simp add: wfOSPFInterface_def newOSPFInterface_def normOSPFInterface_def)+)

lemma runs_writeOSPFInterface:
  assumes "a \<notin> fst ` set acc" "nameOrNumber a" "k \<notin> fst ` set is" "wfOSPFInterface k i"
  shows "runs h (areaState six c pc x acc a is) (writeOSPFInterface (ospfName six) a k i)
    (areaState six c pc x acc a (is @ [(k, Some (normOSPFInterface k i))]))"
proof (cases "normOSPFInterface k i = newOSPFInterface k")
  case True
  then have "writeOSPFInterface (ospfName six) a k i =
      writeLine [''set'', ''protocols'', ospfName six, ''area'', a, ''interface'', k]"
    using assms(4) by (simp add: normOSPFInterface_new wfOSPFInterface_def writeOSPFInterface_def onlyIf_def)
  with assms True ospf_lines(1) [of a acc k "is"] show ?thesis by (simp add: wfOSPFInterface_def)
next
  case False
  then have wrote: "(\<not> (oi_Passive i \<or> oi_Metric i > 0 \<or> oi_PrioritySet i \<or> oi_Priority i > 0 \<or>
      oi_BFDProfile i \<noteq> [] \<or> oi_BFD i)) = False"
    using assms(4) by (simp only: normOSPFInterface_new wfOSPFInterface_def)
  have "entry newOSPFInterface k (normOSPFInterface k i) = [(k, Some (normOSPFInterface k i))]"
    using False by simp
  then show ?thesis
    using runs_ospf_params [OF assms, where h = h and six = six and c = c and pc = pc and x = x]
    by (simp only: writeOSPFInterface_def Let_def append_Cons append_Nil wrote onlyIf_simps append_Nil2 entry_simps)
qed

lemma runs_writeOSPFArea:
  assumes "a \<notin> fst ` set acc" "wfOSPFArea a area"
  shows "runs h (ospfState six c pc (x\<lparr>ospf_Areas := acc\<rparr>)) (writeOSPFArea (ospfName six) a area)
    (ospfState six c pc (x\<lparr>ospf_Areas := acc @ normOSPFArea a area\<rparr>))"
proof -
  have "runs h (areaState six c pc x acc a []) (eachKey (writeOSPFInterface (ospfName six) a) (oa_Interfaces area))
      (areaState six c pc x acc a (eachKey (\<lambda>k i. [(k, Some (normOSPFInterface k i))]) (oa_Interfaces area)))"
    using assms by (intro rd.runs_eachKey runs_writeOSPFInterface) (auto simp: wfOSPFArea_def dest: wfMap_keys wfMapD)
  then show ?thesis by (simp add: writeOSPFArea_def normOSPFArea_def newOSPFArea_def)
qed

lemma runs_writeOSPF:
  assumes "pred_option wfOSPF y" and "setOspf six None pc = pc"
  shows "runs h (pcState c pc) (writeOSPF (ospfName six) y)
    (pcState c (setOspf six (Option.bind y (\<lambda>x. nz newOSPFConfig (normOSPF x))) pc))"
proof (cases y)
  case None
  with assms(2) show ?thesis by (simp add: writeOSPF_def rd.runs_Nil)
next
  case (Some x)
  let ?r = "newOSPFConfig\<lparr>ospf_RouterID := ospf_RouterID x\<rparr>"
  have "runs h (ospfState six c pc newOSPFConfig) (onlyIf (ospf_RouterID x \<noteq> [])
      (writeLine [''set'', ''protocols'', ospfName six, ''router-id'', ospf_RouterID x])) (ospfState six c pc (?r\<lparr>ospf_Areas := []\<rparr>))"
    using assms(1) Some routerID_line [of newOSPFConfig "ospf_RouterID x"] by (simp add: wfOSPF_def newOSPFConfig_def)
  moreover have "runs h (ospfState six c pc (?r\<lparr>ospf_Areas := []\<rparr>)) (eachKey (writeOSPFArea (ospfName six)) (ospf_Areas x))
      (ospfState six c pc (?r\<lparr>ospf_Areas := eachKey normOSPFArea (ospf_Areas x)\<rparr>))"
    using assms(1) Some runs_writeOSPFArea [where x = ?r]
    by (intro rd.runs_eachKey) (auto simp: wfOSPF_def normOSPFArea_def dest: wfMap_keys wfMapD)
  ultimately have "runs h (ospfState six c pc newOSPFConfig) (writeOSPF (ospfName six) y)
      (ospfState six c pc (?r\<lparr>ospf_Areas := eachKey normOSPFArea (ospf_Areas x)\<rparr>))"
    unfolding writeOSPF_def Some ifSet_simps by (rule rd.runs_append)
  with assms(2) Some show ?thesis by (simp add: normOSPF_def newOSPFConfig_def)
qed

section \<open>Protocols\<close>

definition wfProtocols :: "ProtocolConfig option \<Rightarrow> bool" where
  "wfProtocols = pred_option (\<lambda>pc. pred_option wfBFD (pc_BFD pc) \<and>
     pred_option (\<lambda>b. wfMap wfBGPGroup (bgp_Groups b)) (pc_BGP pc) \<and>
     pred_option (\<lambda>e. wfMap wfVNI (evpn_VNIs e)) (pc_EVPN pc) \<and>
     pred_option wfOSPF (pc_OSPF pc) \<and> pred_option wfOSPF (pc_OSPF3 pc) \<and>
     pred_option (\<lambda>m. list_all plain (mpls_Interfaces m)) (pc_MPLS pc) \<and>
     pred_option (\<lambda>v. wfMap wfVRRPGroup (vrrp_Groups v)) (pc_VRRP pc))"

definition normProtocols :: "ProtocolConfig option \<Rightarrow> ProtocolConfig option" where
  "normProtocols y = Option.bind y (\<lambda>pc. nz newProtocolConfig
     \<lparr>pc_BFD = Option.bind (pc_BFD pc) (\<lambda>b. nz newBFDConfig (normBFD b)),
      pc_BGP = Option.bind (pc_BGP pc) (\<lambda>b. nz newBGPConfig \<lparr>bgp_Groups = eachKey normBGPGroup (bgp_Groups b)\<rparr>),
      pc_EVPN = Option.bind (pc_EVPN pc) (\<lambda>e. nz newEVPNConfig \<lparr>evpn_VNIs = eachInt normVNI (evpn_VNIs e)\<rparr>),
      pc_OSPF = Option.bind (pc_OSPF pc) (\<lambda>x. nz newOSPFConfig (normOSPF x)),
      pc_OSPF3 = Option.bind (pc_OSPF3 pc) (\<lambda>x. nz newOSPFConfig (normOSPF x)),
      pc_MPLS = Option.bind (pc_MPLS pc) (\<lambda>m. nz newMPLSConfig \<lparr>mpls_Interfaces = uniq (sort (mpls_Interfaces m))\<rparr>),
      pc_VRRP = Option.bind (pc_VRRP pc) (\<lambda>v. nz newVRRPConfig \<lparr>vrrp_Groups = eachKey normVRRPGroup (vrrp_Groups v)\<rparr>)\<rparr>)"

lemma runs_protocols:
  assumes "wfProtocols y" and "cfg_Protocols c = None"
  shows "runs h c (writeProtocols y) (c\<lparr>cfg_Protocols := normProtocols y\<rparr>)"
proof (cases y)
  case None
  with assms show ?thesis by (simp add: writeProtocols_def normProtocols_def rd.runs_Nil)
next
  case (Some pc)
  have ospf: "pred_option wfOSPF z \<Longrightarrow> pc_OSPF q = None \<Longrightarrow> runs h (pcState c q) (writeOSPF ''ospf'' z)
      (pcState c (q\<lparr>pc_OSPF := Option.bind z (\<lambda>x. nz newOSPFConfig (normOSPF x))\<rparr>))"
    "pred_option wfOSPF z \<Longrightarrow> pc_OSPF3 q = None \<Longrightarrow> runs h (pcState c q) (writeOSPF ''ospf3'' z)
      (pcState c (q\<lparr>pc_OSPF3 := Option.bind z (\<lambda>x. nz newOSPFConfig (normOSPF x))\<rparr>))" for z q
    using runs_writeOSPF [of z False q h c] runs_writeOSPF [of z True q h c]
    by (cases q; simp add: ospfName_def setOspf_def)+
  have "runs h (pcState c newProtocolConfig) (writeProtocols y) (c\<lparr>cfg_Protocols := normProtocols y\<rparr>)"
    unfolding writeProtocols_def Some ifSet_simps
    by (rule rd.runs_eq)
      ((rule rd.runs_append runs_writeBFD runs_writeBGP runs_writeEVPN ospf runs_writeMPLS runs_writeVRRP |
        use assms(1) Some in \<open>simp add: wfProtocols_def newProtocolConfig_def normProtocols_def\<close>)+)
  with assms(2) show ?thesis by simp
qed

end
