(* ===== verification/RoundTripPolicy.thy ===== *)
theory RoundTripPolicy
  imports RoundTripRouting
begin

text \<open>
  Reading back the sections \<open>policy-options\<close> and \<open>class-of-service\<close>. The terms of a policy are a
  list, in the order in which they are first mentioned; a term that prints no line does not
  come back.
\<close>

section \<open>Prefix lists\<close>

abbreviation poState :: "Config \<Rightarrow> PolicyOptions \<Rightarrow> Config" where
  "poState c po \<equiv> c\<lparr>cfg_PolicyOptions := nz newPolicyOptions po\<rparr>"

lemma validators [running]:
  "ParseCIDR x \<noteq> None \<Longrightarrow> validateCIDR x = Inr ()"
  "p \<in> set validProtocols \<Longrightarrow> validateProtocol p = Inr ()"
  "ParseIP ip \<noteq> None \<Longrightarrow> validateIPAddress ip = Inr ()"
  by (auto simp: validateCIDR_def validateProtocol_def validateIPAddress_def)

lemma prefix_line:
  "k \<notin> fst ` set acc \<Longrightarrow> plain k \<Longrightarrow> plain x \<Longrightarrow> ParseCIDR x \<noteq> None \<Longrightarrow>
   runs h (poState c (po\<lparr>po_PrefixLists := acc @ entry newPrefixList k \<lparr>pl_Name = k, pl_Prefixes = xs\<rparr>\<rparr>))
     (writeLine [''set'', ''policy-options'', ''prefix-list'', k, x])
     (poState c (po\<lparr>po_PrefixLists :=
        acc @ entry newPrefixList k \<lparr>pl_Name = k, pl_Prefixes = appendUniqueString xs x\<rparr>\<rparr>))"
  by (rule line_rules; (simp add: running parsing)?; (simp add: fresh)?)

definition wfPrefixList :: "string \<Rightarrow> PrefixList \<Rightarrow> bool" where
  "wfPrefixList k l \<longleftrightarrow> plain k \<and> list_all (\<lambda>x. plain x \<and> ParseCIDR x \<noteq> None) (pl_Prefixes l)"

definition normPrefixList :: "string \<Rightarrow> PrefixList \<Rightarrow> (string, PrefixList) gomap" where
  "normPrefixList k l = entry newPrefixList k \<lparr>pl_Name = k, pl_Prefixes = uniq (sort (pl_Prefixes l))\<rparr>"

lemma runs_writePrefixList:
  assumes "k \<notin> fst ` set acc" "wfPrefixList k l"
  shows "runs h (poState c (po\<lparr>po_PrefixLists := acc\<rparr>)) (writePrefixList k l)
    (poState c (po\<lparr>po_PrefixLists := acc @ normPrefixList k l\<rparr>))"
proof -
  let ?C = "\<lambda>xs. poState c (po\<lparr>po_PrefixLists := acc @ entry newPrefixList k \<lparr>pl_Name = k, pl_Prefixes = xs\<rparr>\<rparr>)"
  have "runs h (?C []) (writePrefixList k l) (?C (uniq (sort (pl_Prefixes l))))"
    unfolding writePrefixList_def using assms
    by (intro rd.runs_uniqueLines prefix_line) (auto simp: wfPrefixList_def list_all_iff)
  then show ?thesis by (simp add: normPrefixList_def newPrefixList_def)
qed

section \<open>Policy terms\<close>

definition tentry :: "PolicyTerm \<Rightarrow> PolicyTerm option list" where
  "tentry t = (if t = newPolicyTerm (pt_Name t) then [] else [Some t])"

definition freshTerm :: "string \<Rightarrow> PolicyTerm option list \<Rightarrow> bool" where
  "freshTerm n ts \<longleftrightarrow> \<not> list_ex (isTerm n) ts"

lemma findTerm_tentry [running]: "freshTerm n ts \<Longrightarrow> pt_Name t = n \<Longrightarrow> findTerm n (ts @ tentry t) = t"
  by (auto simp: findTerm_def freshTerm_def tentry_def isTerm_def list_ex_iff filter_empty_conv [THEN iffD2])

lemma putTerm_tentry [running]:
  "freshTerm n ts \<Longrightarrow> pt_Name t = n \<Longrightarrow> putTerm n t' (ts @ tentry t) = ts @ [Some t']"
  by (induction ts) (auto simp: freshTerm_def tentry_def isTerm_def)

definition mkTerm :: "string \<Rightarrow> PolicyMatchConditions \<Rightarrow> PolicyActions \<Rightarrow> PolicyTerm" where
  "mkTerm n f a = \<lparr>pt_Name = n, pt_From = Some f, pt_Then = Some a\<rparr>"

lemma mkTerm_simps [running]:
  "pt_Name (mkTerm n f a) = n" "pt_From (mkTerm n f a) = Some f" "pt_Then (mkTerm n f a) = Some a"
  "(mkTerm n f a)\<lparr>pt_From := Some f'\<rparr> = mkTerm n f' a" "(mkTerm n f a)\<lparr>pt_Then := Some a'\<rparr> = mkTerm n f a'"
  by (simp_all add: mkTerm_def)

lemma tentry_mkTerm [fresh]:
  "tentry (mkTerm n f a) =
     (if f = newPolicyMatchConditions \<and> a = newPolicyActions then [] else [Some (mkTerm n f a)])"
  by (auto simp: tentry_def mkTerm_def newPolicyTerm_def)

abbreviation termState ::
    "Config \<Rightarrow> PolicyOptions \<Rightarrow> (string, PolicyStatement) gomap \<Rightarrow> string \<Rightarrow> PolicyTerm option list \<Rightarrow> Config" where
  "termState c po acc k ts \<equiv> poState c (po\<lparr>po_PolicyStatements :=
     acc @ entry newPolicyStatement k \<lparr>ps_Name = k, ps_Terms = ts\<rparr>\<rparr>)"

lemma from_lines:
  assumes "k \<notin> fst ` set acc" "plain k" "freshTerm n ts" "plain n"
  shows
  "plain x \<Longrightarrow>
   runs h (termState c po acc k (ts @ tentry (mkTerm n (f\<lparr>pm_PrefixLists := xs\<rparr>) a)))
     (writeLine [''set'', ''policy-options'', ''policy-statement'', k, ''term'', n, ''from'', ''prefix-list'', x])
     (termState c po acc k (ts @ tentry (mkTerm n (f\<lparr>pm_PrefixLists := xs @ [x]\<rparr>) a)))"
  "pm_Protocol f = [] \<Longrightarrow> plainOpt v \<Longrightarrow> v = [] \<or> v \<in> set validProtocols \<Longrightarrow>
   runs h (termState c po acc k (ts @ tentry (mkTerm n f a)))
     (onlyIf (v \<noteq> []) (writeLine [''set'', ''policy-options'', ''policy-statement'', k, ''term'', n, ''from'', ''protocol'', v]))
     (termState c po acc k (ts @ tentry (mkTerm n (f\<lparr>pm_Protocol := v\<rparr>) a)))"
  "pm_Neighbor f = [] \<Longrightarrow> plainOpt v \<Longrightarrow> v = [] \<or> ParseIP v \<noteq> None \<Longrightarrow>
   runs h (termState c po acc k (ts @ tentry (mkTerm n f a)))
     (onlyIf (v \<noteq> []) (writeLine [''set'', ''policy-options'', ''policy-statement'', k, ''term'', n, ''from'', ''neighbor'', v]))
     (termState c po acc k (ts @ tentry (mkTerm n (f\<lparr>pm_Neighbor := v\<rparr>) a)))"
  "pm_ASPath f = [] \<Longrightarrow> scalar v \<Longrightarrow>
   runs h (termState c po acc k (ts @ tentry (mkTerm n f a)))
     (onlyIf (v \<noteq> [])
        (writeLine [''set'', ''policy-options'', ''policy-statement'', k, ''term'', n, ''from'', ''as-path'', EscapeValue v]))
     (termState c po acc k (ts @ tentry (mkTerm n (f\<lparr>pm_ASPath := v\<rparr>) a)))"
  by (cases f; rule line_rules; (simp add: assms running parsing)?; (simp add: fresh newPolicyMatchConditions_def)?)+

lemma then_lines:
  assumes "k \<notin> fst ` set acc" "plain k" "freshTerm n ts" "plain n"
  shows
  "runs h (termState c po acc k (ts @ tentry (mkTerm n f a)))
     (writeLine [''set'', ''policy-options'', ''policy-statement'', k, ''term'', n, ''then'', ''accept''])
     (termState c po acc k (ts @ tentry (mkTerm n f (a\<lparr>pa_Accept := Some True\<rparr>))))"
  "runs h (termState c po acc k (ts @ tentry (mkTerm n f a)))
     (writeLine [''set'', ''policy-options'', ''policy-statement'', k, ''term'', n, ''then'', ''reject''])
     (termState c po acc k (ts @ tentry (mkTerm n f (a\<lparr>pa_Accept := Some False\<rparr>))))"
  "runs h (termState c po acc k (ts @ tentry (mkTerm n f a)))
     (writeLine [''set'', ''policy-options'', ''policy-statement'', k, ''term'', n, ''then'', ''local-preference'', formatNat (unat w)])
     (termState c po acc k (ts @ tentry (mkTerm n f (a\<lparr>pa_LocalPreference := Some w\<rparr>))))"
  "pa_Community a = [] \<Longrightarrow> scalar v \<Longrightarrow> v = [] \<or> validateCommunity v = Inr () \<Longrightarrow>
   runs h (termState c po acc k (ts @ tentry (mkTerm n f a)))
     (onlyIf (v \<noteq> [])
        (writeLine [''set'', ''policy-options'', ''policy-statement'', k, ''term'', n, ''then'', ''community'', EscapeValue v]))
     (termState c po acc k (ts @ tentry (mkTerm n f (a\<lparr>pa_Community := v\<rparr>))))"
  by (cases a; rule line_rules; (simp add: assms running parsing)?; (simp add: fresh newPolicyActions_def)?)+

definition wfMatch :: "PolicyMatchConditions \<Rightarrow> bool" where
  "wfMatch f \<longleftrightarrow> list_all plain (pm_PrefixLists f) \<and>
     plainOpt (pm_Protocol f) \<and> (pm_Protocol f = [] \<or> pm_Protocol f \<in> set validProtocols) \<and>
     plainOpt (pm_Neighbor f) \<and> (pm_Neighbor f = [] \<or> ParseIP (pm_Neighbor f) \<noteq> None) \<and> scalar (pm_ASPath f)"

definition wfActions :: "PolicyActions \<Rightarrow> bool" where
  "wfActions a \<longleftrightarrow> scalar (pa_Community a) \<and> (pa_Community a = [] \<or> validateCommunity (pa_Community a) = Inr ())"

definition wfTerm :: "PolicyTerm \<Rightarrow> bool" where
  "wfTerm t \<longleftrightarrow> plain (pt_Name t) \<and> pred_option wfMatch (pt_From t) \<and> pred_option wfActions (pt_Then t)"

definition normMatch :: "PolicyMatchConditions \<Rightarrow> PolicyMatchConditions" where
  "normMatch f = f\<lparr>pm_PrefixLists := sort (pm_PrefixLists f)\<rparr>"

definition normTerm :: "PolicyTerm \<Rightarrow> PolicyTerm option list" where
  "normTerm t = tentry (mkTerm (pt_Name t) (getOr newPolicyMatchConditions (map_option normMatch (pt_From t)))
     (getOr newPolicyActions (pt_Then t)))"

lemma runs_prefixListLines:
  assumes "k \<notin> fst ` set acc" "plain k" "freshTerm n ts" "plain n" "pm_PrefixLists f = []" "list_all plain xs"
  shows "runs h (termState c po acc k (ts @ tentry (mkTerm n f a)))
    (eachLine (\<lambda>x. writeLine [''set'', ''policy-options'', ''policy-statement'', k, ''term'', n, ''from'', ''prefix-list'', x]) xs)
    (termState c po acc k (ts @ tentry (mkTerm n (f\<lparr>pm_PrefixLists := xs\<rparr>) a)))"
proof -
  let ?C = "\<lambda>ys. termState c po acc k (ts @ tentry (mkTerm n (f\<lparr>pm_PrefixLists := ys\<rparr>) a))"
  have "runs h (?C []) (eachLine (\<lambda>x. writeLine [''set'', ''policy-options'', ''policy-statement'', k, ''term'', n, ''from'',
      ''prefix-list'', x]) xs) (?C xs)"
    using assms by (intro rd.runs_prefixes from_lines(1)) auto
  with assms(5) show ?thesis by (cases f) simp
qed

lemma runs_writePolicyMatch:
  "k \<notin> fst ` set acc \<Longrightarrow> plain k \<Longrightarrow> freshTerm n ts \<Longrightarrow> plain n \<Longrightarrow> wfMatch f \<Longrightarrow>
   runs h (termState c po acc k (ts @ tentry (mkTerm n newPolicyMatchConditions a)))
     (writePolicyMatch [''set'', ''policy-options'', ''policy-statement'', k, ''term'', n] f)
     (termState c po acc k (ts @ tentry (mkTerm n (normMatch f) a)))"
  unfolding writePolicyMatch_def append_Cons append_Nil
  by (cases f, rule rd.runs_eq)
    ((rule rd.runs_append runs_prefixListLines from_lines(2-4) |
      simp add: wfMatch_def newPolicyMatchConditions_def normMatch_def)+)

lemma then_options:
  assumes "k \<notin> fst ` set acc" "plain k" "freshTerm n ts" "plain n"
  shows
  "pa_Accept a = None \<Longrightarrow>
   runs h (termState c po acc k (ts @ tentry (mkTerm n f a)))
     (ifSet (\<lambda>b. if b then writeLine [''set'', ''policy-options'', ''policy-statement'', k, ''term'', n, ''then'', ''accept'']
        else writeLine [''set'', ''policy-options'', ''policy-statement'', k, ''term'', n, ''then'', ''reject'']) x)
     (termState c po acc k (ts @ tentry (mkTerm n f (a\<lparr>pa_Accept := x\<rparr>))))"
  "pa_LocalPreference a = None \<Longrightarrow>
   runs h (termState c po acc k (ts @ tentry (mkTerm n f a)))
     (ifSet (\<lambda>w. writeLine [''set'', ''policy-options'', ''policy-statement'', k, ''term'', n, ''then'', ''local-preference'',
        formatNat (unat w)]) y)
     (termState c po acc k (ts @ tentry (mkTerm n f (a\<lparr>pa_LocalPreference := y\<rparr>))))"
proof -
  have eta: "pa_Accept a = None \<Longrightarrow> a\<lparr>pa_Accept := None\<rparr> = a"
    "pa_LocalPreference a = None \<Longrightarrow> a\<lparr>pa_LocalPreference := None\<rparr> = a"
    by (cases a; simp)+
  note step = then_lines(1-3) [OF assms, where h = h and c = c and po = po and f = f and a = a]
  show "pa_Accept a = None \<Longrightarrow> runs h (termState c po acc k (ts @ tentry (mkTerm n f a)))
     (ifSet (\<lambda>b. if b then writeLine [''set'', ''policy-options'', ''policy-statement'', k, ''term'', n, ''then'', ''accept'']
        else writeLine [''set'', ''policy-options'', ''policy-statement'', k, ''term'', n, ''then'', ''reject'']) x)
     (termState c po acc k (ts @ tentry (mkTerm n f (a\<lparr>pa_Accept := x\<rparr>))))"
    by (rule rd.runs_ifSet) (simp_all add: eta step)
  show "pa_LocalPreference a = None \<Longrightarrow> runs h (termState c po acc k (ts @ tentry (mkTerm n f a)))
     (ifSet (\<lambda>w. writeLine [''set'', ''policy-options'', ''policy-statement'', k, ''term'', n, ''then'', ''local-preference'',
        formatNat (unat w)]) y)
     (termState c po acc k (ts @ tentry (mkTerm n f (a\<lparr>pa_LocalPreference := y\<rparr>))))"
    by (rule rd.runs_ifSet) (simp_all add: eta step)
qed

lemma runs_writePolicyThen:
  "k \<notin> fst ` set acc \<Longrightarrow> plain k \<Longrightarrow> freshTerm n ts \<Longrightarrow> plain n \<Longrightarrow> wfActions a \<Longrightarrow>
   runs h (termState c po acc k (ts @ tentry (mkTerm n f newPolicyActions)))
     (writePolicyThen [''set'', ''policy-options'', ''policy-statement'', k, ''term'', n] a)
     (termState c po acc k (ts @ tentry (mkTerm n f a)))"
  unfolding writePolicyThen_def append_Cons append_Nil
  by (cases a, rule rd.runs_eq)
    ((rule rd.runs_append then_options then_lines(4) | simp add: wfActions_def newPolicyActions_def)+)

lemma runs_writePolicyTerm:
  assumes "k \<notin> fst ` set acc" "plain k" "freshTerm (pt_Name t) ts" "wfTerm t"
  shows "runs h (termState c po acc k ts) (writePolicyTerm k t) (termState c po acc k (ts @ normTerm t))"
proof -
  let ?f = "getOr newPolicyMatchConditions (map_option normMatch (pt_From t))"
  let ?b = "[''set'', ''policy-options'', ''policy-statement'', k, ''term'', pt_Name t]"
  let ?S = "\<lambda>f a. termState c po acc k (ts @ tentry (mkTerm (pt_Name t) f a))"
  have "runs h (?S newPolicyMatchConditions newPolicyActions) (ifSet (writePolicyMatch ?b) (pt_From t))
      (?S ?f newPolicyActions)"
    using assms runs_writePolicyMatch [of k acc "pt_Name t" ts]
    by (intro rd.runs_ifSet) (auto simp: wfTerm_def)
  moreover have "runs h (?S ?f newPolicyActions) (ifSet (writePolicyThen ?b) (pt_Then t))
      (?S ?f (getOr newPolicyActions (pt_Then t)))"
    using assms runs_writePolicyThen [of k acc "pt_Name t" ts]
    by (intro rd.runs_ifSet) (auto simp: wfTerm_def)
  ultimately have "runs h (?S newPolicyMatchConditions newPolicyActions) (writePolicyTerm k t)
      (?S ?f (getOr newPolicyActions (pt_Then t)))"
    unfolding writePolicyTerm_def Let_def by (rule rd.runs_append)
  then show ?thesis by (simp add: normTerm_def tentry_mkTerm)
qed

section \<open>Policy statements\<close>

definition named :: "PolicyTerm option list \<Rightarrow> PolicyTerm list" where
  "named ts = filter (\<lambda>t. pt_Name t \<noteq> []) (somes ts)"

definition wfStatement :: "string \<Rightarrow> PolicyStatement \<Rightarrow> bool" where
  "wfStatement k s \<longleftrightarrow> plain k \<and> list_all wfTerm (named (ps_Terms s)) \<and> distinct (map pt_Name (named (ps_Terms s)))"

definition normStatement :: "string \<Rightarrow> PolicyStatement \<Rightarrow> (string, PolicyStatement) gomap" where
  "normStatement k s = entry newPolicyStatement k
     \<lparr>ps_Name = k, ps_Terms = concat (map normTerm (named (ps_Terms s)))\<rparr>"

lemma isTerm_normTerm: "x \<in> set (normTerm t) \<Longrightarrow> isTerm n x \<Longrightarrow> n = pt_Name t"
  by (auto simp: normTerm_def tentry_mkTerm isTerm_def mkTerm_simps split: if_splits)

lemma freshTerm_normTerms:
  "n \<notin> pt_Name ` set ts \<Longrightarrow> freshTerm n (concat (map normTerm ts))"
  using isTerm_normTerm by (fastforce simp: freshTerm_def list_ex_iff)

lemma runs_writePolicyStatement:
  assumes "k \<notin> fst ` set acc" "wfStatement k s"
  shows "runs h (poState c (po\<lparr>po_PolicyStatements := acc\<rparr>)) (writePolicyStatement k s)
    (poState c (po\<lparr>po_PolicyStatements := acc @ normStatement k s\<rparr>))"
proof -
  let ?C = "\<lambda>ys. termState c po acc k (concat (map normTerm (named ys)))"
  have "runs h (?C []) (writePolicyStatement k s) (?C (ps_Terms s))"
    unfolding writePolicyStatement_def
  proof (rule rd.runs_prefixes, intro rd.runs_ifSet rd.runs_onlyIf)
    fix ys x zs t
    assume ts: "ps_Terms s = ys @ x # zs" and x: "x = Some t" and n: "pt_Name t \<noteq> []"
    then have nt: "named (ys @ [x]) = named ys @ [t]"
      "named (ps_Terms s) = named ys @ t # named zs" by (simp_all add: named_def)
    then have "pt_Name t \<notin> pt_Name ` set (named ys)" "wfTerm t"
      using assms(2) by (auto simp: wfStatement_def)
    then show "runs h (?C ys) (writePolicyTerm k t) (?C (ys @ [x]))"
      using assms runs_writePolicyTerm [of k acc t] freshTerm_normTerms
      by (simp add: nt(1) wfStatement_def)
  qed (simp_all add: named_def)
  then show ?thesis by (simp add: named_def normStatement_def newPolicyStatement_def)
qed

definition wfPolicy :: "PolicyOptions option \<Rightarrow> bool" where
  "wfPolicy = pred_option (\<lambda>po. wfMap wfPrefixList (po_PrefixLists po) \<and> wfMap wfStatement (po_PolicyStatements po))"

definition normPolicy :: "PolicyOptions option \<Rightarrow> PolicyOptions option" where
  "normPolicy x = Option.bind x (\<lambda>po. nz newPolicyOptions
     \<lparr>po_PrefixLists = eachKey normPrefixList (po_PrefixLists po),
      po_PolicyStatements = eachKey normStatement (po_PolicyStatements po)\<rparr>)"

lemma runs_policy:
  assumes "wfPolicy x" and "cfg_PolicyOptions c = None"
  shows "runs h c (writePolicyOptions x) (c\<lparr>cfg_PolicyOptions := normPolicy x\<rparr>)"
proof (cases x)
  case None
  with assms show ?thesis by (simp add: writePolicyOptions_def normPolicy_def rd.runs_Nil)
next
  case (Some po)
  let ?d = newPolicyOptions
  let ?l = "?d\<lparr>po_PrefixLists := eachKey normPrefixList (po_PrefixLists po)\<rparr>"
  have "runs h (poState c (?d\<lparr>po_PrefixLists := []\<rparr>)) (eachKey writePrefixList (po_PrefixLists po)) (poState c ?l)"
    using assms(1) Some by (intro rd.runs_eachKey runs_writePrefixList)
      (auto simp: wfPolicy_def normPrefixList_def dest: wfMap_keys wfMapD)
  moreover have "runs h (poState c (?l\<lparr>po_PolicyStatements := []\<rparr>)) (eachKey writePolicyStatement (po_PolicyStatements po))
      (poState c (?l\<lparr>po_PolicyStatements := eachKey normStatement (po_PolicyStatements po)\<rparr>))"
    using assms(1) Some by (intro rd.runs_eachKey runs_writePolicyStatement)
      (auto simp: wfPolicy_def normStatement_def dest: wfMap_keys wfMapD)
  ultimately show ?thesis
    using Some assms(2) by (simp add: writePolicyOptions_def normPolicy_def newPolicyOptions_def rd.runs_append)
qed

section \<open>Class of service\<close>

abbreviation cosState :: "Config \<Rightarrow> ClassOfServiceConfig \<Rightarrow> Config" where
  "cosState c co \<equiv> c\<lparr>cfg_ClassOfService := nz newClassOfServiceConfig co\<rparr>"

lemma cos_lines:
  assumes "k \<notin> fst ` set fcs" "k \<notin> fst ` set acc" "k \<notin> fst ` set ifs" "plain k"
  shows
  "intOk n \<Longrightarrow>
   runs h (cosState c (co\<lparr>cos_ForwardingClasses := fcs\<rparr>))
     (writeLine [''set'', ''class-of-service'', ''forwarding-class'', k, ''queue'', formatInt n])
     (cosState c (co\<lparr>cos_ForwardingClasses := fcs @ [(k, Some \<lparr>fc_Name = k, fc_Queue = n\<rparr>)]\<rparr>))"
  "tcp_ShapingRate u = 0 \<Longrightarrow>
   runs h (cosState c (co\<lparr>cos_TrafficControlProfiles := acc @ entry newTrafficControlProfile k u\<rparr>))
     (onlyIf (w \<noteq> 0) (writeLine [''set'', ''class-of-service'', ''traffic-control-profile'', k, ''shaping-rate'', formatNat (unat w)]))
     (cosState c (co\<lparr>cos_TrafficControlProfiles := acc @ entry newTrafficControlProfile k (u\<lparr>tcp_ShapingRate := w\<rparr>)\<rparr>))"
  "tcp_SchedulerMap u = [] \<Longrightarrow> plainOpt a \<Longrightarrow>
   runs h (cosState c (co\<lparr>cos_TrafficControlProfiles := acc @ entry newTrafficControlProfile k u\<rparr>))
     (onlyIf (a \<noteq> []) (writeLine [''set'', ''class-of-service'', ''traffic-control-profile'', k, ''scheduler-map'', a]))
     (cosState c (co\<lparr>cos_TrafficControlProfiles := acc @ entry newTrafficControlProfile k (u\<lparr>tcp_SchedulerMap := a\<rparr>)\<rparr>))"
  "plainOpt a \<Longrightarrow>
   runs h (cosState c (co\<lparr>cos_Interfaces := ifs\<rparr>))
     (onlyIf (a \<noteq> [])
        (writeLine [''set'', ''class-of-service'', ''interfaces'', k, ''output-traffic-control-profile'', a]))
     (cosState c (co\<lparr>cos_Interfaces :=
        ifs @ onlyIf (a \<noteq> []) [(k, Some \<lparr>ci_Name = k, ci_OutputTrafficControlProfile = a\<rparr>)]\<rparr>))"
  by (cases u; rule line_rules; (simp add: assms running parsing)?;
      (simp add: fresh assms mput_fresh onlyIf_def newTrafficControlProfile_def)?)+

definition wfCoS :: "ClassOfServiceConfig option \<Rightarrow> bool" where
  "wfCoS = pred_option (\<lambda>co. wfMap (\<lambda>k f. plain k \<and> intOk (fc_Queue f)) (cos_ForwardingClasses co) \<and>
     wfMap (\<lambda>k u. plain k \<and> plainOpt (tcp_SchedulerMap u)) (cos_TrafficControlProfiles co) \<and>
     wfMap (\<lambda>k i. plain k \<and> plainOpt (ci_OutputTrafficControlProfile i)) (cos_Interfaces co))"

definition normForwardingClass :: "string \<Rightarrow> ForwardingClass \<Rightarrow> (string, ForwardingClass) gomap" where
  "normForwardingClass k f = [(k, Some \<lparr>fc_Name = k, fc_Queue = fc_Queue f\<rparr>)]"

definition normProfile :: "string \<Rightarrow> TrafficControlProfile \<Rightarrow> (string, TrafficControlProfile) gomap" where
  "normProfile k u = entry newTrafficControlProfile k (u\<lparr>tcp_Name := k\<rparr>)"

definition normCoSInterface :: "string \<Rightarrow> CoSInterface \<Rightarrow> (string, CoSInterface) gomap" where
  "normCoSInterface k i = onlyIf (ci_OutputTrafficControlProfile i \<noteq> [])
     [(k, Some \<lparr>ci_Name = k, ci_OutputTrafficControlProfile = ci_OutputTrafficControlProfile i\<rparr>)]"

definition normCoS :: "ClassOfServiceConfig option \<Rightarrow> ClassOfServiceConfig option" where
  "normCoS x = Option.bind x (\<lambda>co. nz newClassOfServiceConfig
     \<lparr>cos_ForwardingClasses = eachKey normForwardingClass (cos_ForwardingClasses co),
      cos_TrafficControlProfiles = eachKey normProfile (cos_TrafficControlProfiles co),
      cos_Interfaces = eachKey normCoSInterface (cos_Interfaces co)\<rparr>)"

lemma fst_set_onlyIf: "fst ` set (onlyIf b [(k, x)]) \<subseteq> {k}"
  by (auto simp: onlyIf_def)

lemma runs_writeProfile:
  "k \<notin> fst ` set acc \<Longrightarrow> plain k \<Longrightarrow> plainOpt (tcp_SchedulerMap u) \<Longrightarrow>
   runs h (cosState c (co\<lparr>cos_TrafficControlProfiles := acc @ entry newTrafficControlProfile k (newTrafficControlProfile k)\<rparr>))
     (writeTrafficControlProfile k u) (cosState c (co\<lparr>cos_TrafficControlProfiles := acc @ normProfile k u\<rparr>))"
  unfolding writeTrafficControlProfile_def normProfile_def
  by (cases u, rule rd.runs_eq)
    ((rule rd.runs_append cos_lines(2,3) [of k "[]" acc "[]"] | simp add: newTrafficControlProfile_def)+)

lemma runs_cos:
  assumes "wfCoS x" and "cfg_ClassOfService c = None"
  shows "runs h c (writeClassOfService x) (c\<lparr>cfg_ClassOfService := normCoS x\<rparr>)"
proof (cases x)
  case None
  with assms show ?thesis by (simp add: writeClassOfService_def normCoS_def rd.runs_Nil)
next
  case (Some co)
  let ?a = "newClassOfServiceConfig\<lparr>cos_ForwardingClasses := eachKey normForwardingClass (cos_ForwardingClasses co)\<rparr>"
  let ?b = "?a\<lparr>cos_TrafficControlProfiles := eachKey normProfile (cos_TrafficControlProfiles co)\<rparr>"
  have wf: "wfMap (\<lambda>k f. plain k \<and> intOk (fc_Queue f)) (cos_ForwardingClasses co)"
    "wfMap (\<lambda>k u. plain k \<and> plainOpt (tcp_SchedulerMap u)) (cos_TrafficControlProfiles co)"
    "wfMap (\<lambda>k i. plain k \<and> plainOpt (ci_OutputTrafficControlProfile i)) (cos_Interfaces co)"
    using assms(1) Some by (simp_all add: wfCoS_def)
  have "runs h (cosState c (newClassOfServiceConfig\<lparr>cos_ForwardingClasses := []\<rparr>))
      (eachKey writeForwardingClass (cos_ForwardingClasses co)) (cosState c ?a)"
    using wf(1) cos_lines(1) [of _ _ "[]" "[]"] by (intro rd.runs_eachKey)
      (auto simp: writeForwardingClass_def normForwardingClass_def dest: wfMap_keys wfMapD)
  moreover have "runs h (cosState c (?a\<lparr>cos_TrafficControlProfiles := []\<rparr>))
      (eachKey writeTrafficControlProfile (cos_TrafficControlProfiles co)) (cosState c ?b)"
    using wf(2) runs_writeProfile [where co = ?a] by (intro rd.runs_eachKey)
      (auto simp: normProfile_def dest: wfMap_keys wfMapD)
  moreover have "runs h (cosState c (?b\<lparr>cos_Interfaces := []\<rparr>)) (eachKey writeCoSInterface (cos_Interfaces co))
      (cosState c (?b\<lparr>cos_Interfaces := eachKey normCoSInterface (cos_Interfaces co)\<rparr>))"
    using wf(3) cos_lines(4) [of _ "[]" "[]"] by (intro rd.runs_eachKey)
      (auto simp: writeCoSInterface_def normCoSInterface_def fst_set_onlyIf dest: wfMap_keys wfMapD)
  ultimately show ?thesis
    using Some assms(2)
    by (simp add: writeClassOfService_def normCoS_def newClassOfServiceConfig_def rd.runs_append)
qed

end
