(* ===== verification/RoundTripSecurity.thy ===== *)
theory RoundTripSecurity
  imports Reading
begin

text \<open>
  Reading back the section \<open>security\<close>. A password is printed in its protected form, which the
  parser keeps as it is; what comes back is the stored hash.
\<close>

section \<open>NETCONF and rate limits\<close>

abbreviation secState :: "Config \<Rightarrow> SecurityConfig \<Rightarrow> Config" where
  "secState c s \<equiv> c\<lparr>cfg_Security := nz newSecurityConfig s\<rparr>"

abbreviation sshState :: "Config \<Rightarrow> SecurityConfig \<Rightarrow> NETCONFSSHConfig \<Rightarrow> Config" where
  "sshState c s u \<equiv> secState c (s\<lparr>sec_NETCONF := nz newNETCONFConfig \<lparr>nc_SSH = nz newNETCONFSSHConfig u\<rparr>\<rparr>)"

lemma ssh_lines:
  "runs h (sshState c s u) (writeLine [''set'', ''security'', ''netconf'', ''ssh'', ''enabled'', ''true''])
     (sshState c s (u\<lparr>ssh_Enabled := True, ssh_EnabledSet := True\<rparr>))"
  "\<not> ssh_Enabled u \<Longrightarrow> \<not> ssh_EnabledSet u \<Longrightarrow>
   runs h (sshState c s u) (onlyIf b (writeLine [''set'', ''security'', ''netconf'', ''ssh'', ''enabled'', ''false'']))
     (sshState c s (u\<lparr>ssh_Enabled := False, ssh_EnabledSet := b\<rparr>))"
  "ssh_ListenAddress u = [] \<Longrightarrow> scalar a \<Longrightarrow>
   runs h (sshState c s u)
     (onlyIf (a \<noteq> []) (writeLine [''set'', ''security'', ''netconf'', ''ssh'', ''listen-address'', EscapeValue a]))
     (sshState c s (u\<lparr>ssh_ListenAddress := a\<rparr>))"
  "ssh_Port u = 0 \<Longrightarrow> 0 \<le> n \<and> n \<le> 65535 \<Longrightarrow> intOk n \<Longrightarrow>
   runs h (sshState c s u)
     (onlyIf (n \<noteq> 0) (writeLine [''set'', ''security'', ''netconf'', ''ssh'', ''port'', formatInt n]))
     (sshState c s (u\<lparr>ssh_Port := n\<rparr>))"
  by (cases u; rule line_rules; (simp add: running parsing)?; (simp add: fresh newNETCONFSSHConfig_def)?)+

lemma ssh_enabled:
  assumes "\<not> ssh_Enabled u" "\<not> ssh_EnabledSet u"
  shows "runs h (sshState c s u)
    (if e then writeLine [''set'', ''security'', ''netconf'', ''ssh'', ''enabled'', ''true'']
     else onlyIf b (writeLine [''set'', ''security'', ''netconf'', ''ssh'', ''enabled'', ''false'']))
    (sshState c s (u\<lparr>ssh_Enabled := e, ssh_EnabledSet := e \<or> b\<rparr>))"
  using assms ssh_lines(1) [where u = u] ssh_lines(2) [where u = u and b = b] by (cases e) simp_all

definition wfSSH :: "NETCONFSSHConfig \<Rightarrow> bool" where
  "wfSSH u \<longleftrightarrow> scalar (ssh_ListenAddress u) \<and> 0 \<le> ssh_Port u \<and> ssh_Port u \<le> 65535"

definition normSSH :: "NETCONFSSHConfig \<Rightarrow> NETCONFSSHConfig" where
  "normSSH u = u\<lparr>ssh_EnabledSet := ssh_Enabled u \<or> ssh_EnabledSet u\<rparr>"

lemma runs_writeSSH:
  "wfSSH u \<Longrightarrow> runs h (sshState c s newNETCONFSSHConfig) (writeSSH u) (sshState c s (normSSH u))"
  unfolding writeSSH_def
  by (cases u, rule rd.runs_eq)
    ((rule rd.runs_append ssh_enabled ssh_lines(3,4) |
      simp add: wfSSH_def newNETCONFSSHConfig_def normSSH_def intOk_def)+)

lemma rate_lines:
  "rl_PerIP u = 0 \<Longrightarrow> n \<noteq> 0 \<longrightarrow> 1 \<le> n \<and> n \<le> 1000 \<Longrightarrow> intOk n \<Longrightarrow>
   runs h (secState c (s\<lparr>sec_RateLimit := nz newRateLimitConfig u\<rparr>))
     (onlyIf (n \<noteq> 0) (writeLine [''set'', ''security'', ''rate-limit'', ''per-ip'', formatInt n]))
     (secState c (s\<lparr>sec_RateLimit := nz newRateLimitConfig (u\<lparr>rl_PerIP := n\<rparr>)\<rparr>))"
  "rl_PerUser u = 0 \<Longrightarrow> n \<noteq> 0 \<longrightarrow> 1 \<le> n \<and> n \<le> 1000 \<Longrightarrow> intOk n \<Longrightarrow>
   runs h (secState c (s\<lparr>sec_RateLimit := nz newRateLimitConfig u\<rparr>))
     (onlyIf (n \<noteq> 0) (writeLine [''set'', ''security'', ''rate-limit'', ''per-user'', formatInt n]))
     (secState c (s\<lparr>sec_RateLimit := nz newRateLimitConfig (u\<lparr>rl_PerUser := n\<rparr>)\<rparr>))"
  by (cases u; rule line_rules; (simp add: running parsing)?; (simp add: fresh newRateLimitConfig_def)?)+

definition rateOk :: "int \<Rightarrow> bool" where
  "rateOk n \<longleftrightarrow> 0 \<le> n \<and> n \<le> 1000"

lemma runs_writeRateLimit:
  assumes "pred_option (\<lambda>r. rateOk (rl_PerIP r) \<and> rateOk (rl_PerUser r)) x"
  shows "runs h (secState c (s\<lparr>sec_RateLimit := None\<rparr>)) (writeRateLimit x)
    (secState c (s\<lparr>sec_RateLimit := Option.bind x (nz newRateLimitConfig)\<rparr>))"
proof (cases x)
  case None
  then show ?thesis by (simp add: writeRateLimit_def rd.runs_Nil)
next
  case (Some r)
  let ?S = "\<lambda>u. secState c (s\<lparr>sec_RateLimit := nz newRateLimitConfig u\<rparr>)"
  let ?p = "newRateLimitConfig\<lparr>rl_PerIP := rl_PerIP r\<rparr>"
  have "runs h (?S newRateLimitConfig) (onlyIf (rl_PerIP r \<noteq> 0) (writeLine [''set'', ''security'', ''rate-limit'', ''per-ip'', formatInt (rl_PerIP r)])) (?S ?p)"
    using assms Some by (intro rate_lines) (auto simp: rateOk_def intOk_def newRateLimitConfig_def)
  moreover have "runs h (?S ?p) (onlyIf (rl_PerUser r \<noteq> 0) (writeLine [''set'', ''security'', ''rate-limit'', ''per-user'', formatInt (rl_PerUser r)])) (?S (?p\<lparr>rl_PerUser := rl_PerUser r\<rparr>))"
    using assms Some by (intro rate_lines) (auto simp: rateOk_def intOk_def newRateLimitConfig_def)
  ultimately have "runs h (?S newRateLimitConfig) (writeRateLimit x) (?S (?p\<lparr>rl_PerUser := rl_PerUser r\<rparr>))"
    unfolding writeRateLimit_def Some ifSet_simps by (rule rd.runs_append)
  then show ?thesis using Some by (cases r) (simp add: newRateLimitConfig_def)
qed

section \<open>Users\<close>

abbreviation userState :: "Config \<Rightarrow> SecurityConfig \<Rightarrow> (string, UserConfig) gomap \<Rightarrow> string \<Rightarrow> UserConfig \<Rightarrow> Config" where
  "userState c s acc k u \<equiv> secState c (s\<lparr>sec_Users := acc @ entry newUserConfig k u\<rparr>)"

definition roleOk :: "string \<Rightarrow> bool" where
  "roleOk r \<longleftrightarrow> r = [] \<or> r = ''admin'' \<or> r = ''operator'' \<or> r = ''read-only''"

definition keyOk :: "string \<Rightarrow> bool" where
  "keyOk v \<longleftrightarrow> v = [] \<or> needsQuotedValue v"

lemma role_field [running]:
  "roleOk r \<Longrightarrow> r \<noteq> [] \<Longrightarrow> plain r"
  "roleOk r \<Longrightarrow> r \<noteq> [] \<Longrightarrow> (r \<noteq> ''admin'' \<and> r \<noteq> ''operator'' \<and> r \<noteq> ''read-only'') = False"
  by (auto simp: roleOk_def plain_def isWord_def isNumber_def isWordChar_def rune_class_defs)

lemma key_field [running]: "keyOk v \<Longrightarrow> v \<noteq> [] \<Longrightarrow> escType v = TokenString"
  by (auto simp: keyOk_def escType_def)

lemma stored_scalar: "ValidateStoredHash p = Inr () \<Longrightarrow> scalar p"
  by (cases p) (auto simp: ValidateStoredHash_def HasPrefix_def encodedPasswordHashPrefix_def scalar_def
      isNumber_def rune_class_defs split: if_splits)

lemma user_lines:
  assumes "k \<notin> fst ` set acc" "plain k"
  shows
  "us_Password u = [] \<Longrightarrow> pw \<noteq> [] \<longrightarrow> ValidateStoredHash pw = Inr () \<Longrightarrow> scalar pw \<Longrightarrow>
   runs h (userState c s acc k u)
     (onlyIf (pw \<noteq> []) (writeLine [''set'', ''security'', ''users'', ''user'', k, ''password'', EscapeValue pw]))
     (userState c s acc k (u\<lparr>us_Password := pw\<rparr>))"
  "us_Role u = [] \<Longrightarrow> roleOk r \<Longrightarrow>
   runs h (userState c s acc k u)
     (onlyIf (r \<noteq> []) (writeLine [''set'', ''security'', ''users'', ''user'', k, ''role'', r]))
     (userState c s acc k (u\<lparr>us_Role := r\<rparr>))"
  "us_SSHKey u = [] \<Longrightarrow> keyOk v \<Longrightarrow>
   runs h (userState c s acc k u)
     (onlyIf (v \<noteq> []) (writeLine [''set'', ''security'', ''users'', ''user'', k, ''ssh-key'', EscapeValue v]))
     (userState c s acc k (u\<lparr>us_SSHKey := v\<rparr>))"
  by (cases u; rule line_rules; (simp add: assms running parsing Normalize_stored)?;
      (simp add: fresh newUserConfig_def)?)+

text \<open>A hasher is good when what it returns is a protected password.\<close>

definition goodHasher :: "hasher \<Rightarrow> bool" where
  "goodHasher hash \<longleftrightarrow> (\<forall>p q. hash p = Inr q \<longrightarrow> ValidateStoredHash q = Inr ())"

definition storedPassword :: "hasher \<Rightarrow> string \<Rightarrow> string" where
  "storedPassword hash pw = (case NormalizePasswordForStorage hash pw of Inl _ \<Rightarrow> [] | Inr p \<Rightarrow> p)"

lemma storedPassword_ok:
  assumes "goodHasher hash" and "NormalizePasswordForStorage hash pw = Inr p"
  shows "storedPassword hash pw = p" and "p = [] \<longleftrightarrow> pw = []"
    and "p \<noteq> [] \<longrightarrow> ValidateStoredHash p = Inr ()" and "scalar p"
proof -
  have stored: "pw \<noteq> [] \<Longrightarrow> ValidateStoredHash p = Inr ()"
    using assms(1) Normalize_cases [OF assms(2)] by (auto simp: goodHasher_def)
  have "ValidateStoredHash [] \<noteq> Inr ()"
    by (simp add: ValidateStoredHash_def HasPrefix_def encodedPasswordHashPrefix_def)
  with stored show empty: "p = [] \<longleftrightarrow> pw = []"
    using assms(2) by (auto simp: NormalizePasswordForStorage_def)
  show "storedPassword hash pw = p" using assms(2) by (simp add: storedPassword_def)
  show "p \<noteq> [] \<longrightarrow> ValidateStoredHash p = Inr ()" using stored empty by simp
  then show "scalar p" using stored_scalar by (cases "p = []") (auto simp: scalar_def isNumber_def)
qed

definition wfUser :: "string \<Rightarrow> UserConfig \<Rightarrow> bool" where
  "wfUser k u \<longleftrightarrow> plain k \<and> roleOk (us_Role u) \<and> keyOk (us_SSHKey u)"

definition normUser :: "hasher \<Rightarrow> string \<Rightarrow> UserConfig \<Rightarrow> (string, UserConfig) gomap" where
  "normUser hash k u = entry newUserConfig k (u\<lparr>us_Username := k, us_Password := storedPassword hash (us_Password u)\<rparr>)"

lemma runs_writeUser:
  assumes "k \<notin> fst ` set acc" "wfUser k u" "goodHasher hash"
    and "NormalizePasswordForStorage hash (us_Password u) = Inr p"
  shows "runs h (secState c (s\<lparr>sec_Users := acc\<rparr>)) (writeUser k u p) (secState c (s\<lparr>sec_Users := acc @ normUser hash k u\<rparr>))"
proof -
  have wf: "plain k" "roleOk (us_Role u)" "keyOk (us_SSHKey u)" using assms(2) by (simp_all add: wfUser_def)
  have p: "us_Password u \<noteq> [] \<longleftrightarrow> p \<noteq> []" using storedPassword_ok(2) [OF assms(3,4)] by simp
  have "runs h (userState c s acc k (newUserConfig k)) (writeUser k u p) (userState c s acc k
      (newUserConfig k\<lparr>us_Password := p, us_Role := us_Role u, us_SSHKey := us_SSHKey u\<rparr>))"
    unfolding writeUser_def p
    by (rule rd.runs_append user_lines [OF assms(1) wf(1)] wf storedPassword_ok(3,4) [OF assms(3,4)] |
        simp add: newUserConfig_def)+
  then show ?thesis
    using storedPassword_ok(1) [OF assms(3,4)] by (cases u) (simp add: normUser_def newUserConfig_def)
qed

lemma printedPassword_plain:
  "printedPassword hash \<lparr>opt_RedactSecrets = False\<rparr> pw = NormalizePasswordForStorage hash pw"
  by (cases pw) (simp_all add: printedPassword_def NormalizePasswordForStorage_def)

lemma writeUsers_forKeys:
  "writeUsers hash \<lparr>opt_RedactSecrets = False\<rparr> users ks = Inr s \<Longrightarrow>
   s = forKeys (\<lambda>k u. writeUser k u (storedPassword hash (us_Password u))) users ks \<and>
   (\<forall>k\<in>set ks. \<forall>u. mget users k = Some u \<longrightarrow>
      NormalizePasswordForStorage hash (us_Password u) = Inr (storedPassword hash (us_Password u)))"
proof (induction ks arbitrary: s)
  case Nil
  then show ?case by (simp add: forKeys_def)
next
  case (Cons k ks)
  then show ?case
    by (cases "mget users k")
      (auto simp: forKeys_def printedPassword_plain storedPassword_def split: sum.splits)
qed

lemma runs_writeUsers:
  assumes "writeUsers hash \<lparr>opt_RedactSecrets = False\<rparr> users (sortedKeys users) = Inr t"
    and "wfMap wfUser users" and "goodHasher hash"
  shows "runs h (secState c (s\<lparr>sec_Users := []\<rparr>)) t (secState c (s\<lparr>sec_Users := eachKey (normUser hash) users\<rparr>))"
proof -
  let ?stored = "\<lambda>u. storedPassword hash (us_Password u)"
  have t: "t = eachKey (\<lambda>k u. writeUser k u (?stored u)) users"
    using writeUsers_forKeys [OF assms(1)] by (simp add: eachKey_def)
  show ?thesis unfolding t
  proof (rule rd.runs_eachKey)
    show "keys_ok users" using assms(2) by (rule wfMap_keys)
    show "fst ` set (normUser hash k u) \<subseteq> {k}" for k u by (simp add: normUser_def)
    fix acc :: "(string, UserConfig) gomap" and k u
    assume k: "k \<notin> fst ` set acc" "mget users k = Some u"
    have "k \<in> set (sortedKeys users)" using mget_key [OF k(2)] by (simp add: sortedKeys_def)
    with k(2) have "NormalizePasswordForStorage hash (us_Password u) = Inr (?stored u)"
      using writeUsers_forKeys [OF assms(1)] by blast
    with k assms(2,3) show "runs h (secState c (s\<lparr>sec_Users := acc\<rparr>)) (writeUser k u (?stored u))
        (secState c (s\<lparr>sec_Users := acc @ normUser hash k u\<rparr>))"
      by (blast intro: runs_writeUser wfMapD)
  qed
qed

section \<open>The section\<close>

definition wfSecurity :: "SecurityConfig option \<Rightarrow> bool" where
  "wfSecurity = pred_option (\<lambda>s. pred_option (\<lambda>n. pred_option wfSSH (nc_SSH n)) (sec_NETCONF s) \<and>
     wfMap wfUser (sec_Users s) \<and>
     pred_option (\<lambda>r. rateOk (rl_PerIP r) \<and> rateOk (rl_PerUser r)) (sec_RateLimit s))"

definition normNETCONF :: "NETCONFConfig option \<Rightarrow> NETCONFConfig option" where
  "normNETCONF x = Option.bind x (\<lambda>n. nz newNETCONFConfig
     \<lparr>nc_SSH = Option.bind (nc_SSH n) (\<lambda>u. nz newNETCONFSSHConfig (normSSH u))\<rparr>)"

definition normSecurity :: "hasher \<Rightarrow> SecurityConfig option \<Rightarrow> SecurityConfig option" where
  "normSecurity hash x = Option.bind x (\<lambda>s. nz newSecurityConfig
     \<lparr>sec_NETCONF = normNETCONF (sec_NETCONF s), sec_Users = eachKey (normUser hash) (sec_Users s),
      sec_RateLimit = Option.bind (sec_RateLimit s) (nz newRateLimitConfig)\<rparr>)"

lemma runs_writeNETCONF:
  assumes "pred_option (\<lambda>n. pred_option wfSSH (nc_SSH n)) x"
  shows "runs h (secState c (s\<lparr>sec_NETCONF := None\<rparr>)) (writeNETCONF x) (secState c (s\<lparr>sec_NETCONF := normNETCONF x\<rparr>))"
proof (cases "Option.bind x nc_SSH")
  case None
  then show ?thesis
    by (cases x) (simp_all add: writeNETCONF_def normNETCONF_def rd.runs_Nil newNETCONFConfig_def)
next
  case (Some u)
  then obtain n where x: "x = Some n" "nc_SSH n = Some u" by (cases x) auto
  with assms runs_writeSSH [where u = u and h = h and c = c and s = s] show ?thesis
    by (simp add: writeNETCONF_def normNETCONF_def newNETCONFConfig_def)
qed

lemma runs_security:
  assumes "writeSecurity hash x \<lparr>opt_RedactSecrets = False\<rparr> = Inr t" "wfSecurity x" "goodHasher hash"
    and "cfg_Security c = None"
  shows "runs h c t (c\<lparr>cfg_Security := normSecurity hash x\<rparr>)"
proof (cases x)
  case None
  with assms show ?thesis by (auto simp: writeSecurity_def normSecurity_def rd.runs_Nil)
next
  case (Some s)
  then obtain us where us: "writeUsers hash \<lparr>opt_RedactSecrets = False\<rparr> (sec_Users s) (sortedKeys (sec_Users s)) = Inr us"
    and t: "t = writeNETCONF (sec_NETCONF s) @ us @ writeRateLimit (sec_RateLimit s)"
    using assms(1) by (auto simp: writeSecurity_def split: sum.splits)
  have wf: "pred_option (\<lambda>n. pred_option wfSSH (nc_SSH n)) (sec_NETCONF s)" "wfMap wfUser (sec_Users s)"
    "pred_option (\<lambda>r. rateOk (rl_PerIP r) \<and> rateOk (rl_PerUser r)) (sec_RateLimit s)"
    using assms(2) Some by (simp_all add: wfSecurity_def)
  let ?n = "newSecurityConfig\<lparr>sec_NETCONF := normNETCONF (sec_NETCONF s)\<rparr>"
  let ?u = "?n\<lparr>sec_Users := eachKey (normUser hash) (sec_Users s)\<rparr>"
  have "runs h (secState c (newSecurityConfig\<lparr>sec_NETCONF := None\<rparr>)) (writeNETCONF (sec_NETCONF s)) (secState c (?n\<lparr>sec_Users := []\<rparr>))"
    using runs_writeNETCONF [OF wf(1), where s = newSecurityConfig and c = c and h = h] by (simp add: newSecurityConfig_def)
  moreover have "runs h (secState c (?n\<lparr>sec_Users := []\<rparr>)) us (secState c (?u\<lparr>sec_RateLimit := None\<rparr>))"
    using runs_writeUsers [OF us wf(2) assms(3), where s = ?n and c = c and h = h] by (simp add: newSecurityConfig_def)
  ultimately have "runs h (secState c newSecurityConfig) t
      (secState c (?u\<lparr>sec_RateLimit := Option.bind (sec_RateLimit s) (nz newRateLimitConfig)\<rparr>))"
    using runs_writeRateLimit [OF wf(3), where s = ?u and c = c and h = h] unfolding t
    by (simp add: newSecurityConfig_def rd.runs_append)
  with assms(4) Some show ?thesis by (simp add: normSecurity_def newSecurityConfig_def)
qed

end
