(* ===== verification/RoundTrip.thy ===== *)
theory RoundTrip
  imports RoundTripSystem RoundTripRouting RoundTripOspf RoundTripPolicy RoundTripSecurity
begin

text \<open>
  The whole configuration: the text that \<open>ToSetCommandsWithError\<close> prints is read back by
  \<open>Parser.Parse\<close> as the normalised tree, section after section in the order of the serializer.
\<close>

definition wfConfig :: "Config \<Rightarrow> bool" where
  "wfConfig cfg \<longleftrightarrow> wfSystem (cfg_System cfg) \<and> wfChassis (cfg_Chassis cfg) \<and>
     wfInterfaces (cfg_Interfaces cfg) \<and> wfRoutingOptions (cfg_RoutingOptions cfg) \<and>
     wfRoutingInstances (cfg_RoutingInstances cfg) \<and> wfProtocols (cfg_Protocols cfg) \<and>
     wfPolicy (cfg_PolicyOptions cfg) \<and> wfCoS (cfg_ClassOfService cfg) \<and> wfSecurity (cfg_Security cfg)"

text \<open>
  What comes back: map entries in the order of their keys, unset entries and empty sections dropped,
  list fields in print order, passwords in their stored form.
\<close>

definition normConfig :: "hasher \<Rightarrow> Config \<Rightarrow> Config" where
  "normConfig hash cfg =
     \<lparr>cfg_System = normSystem (cfg_System cfg), cfg_Chassis = normChassis (cfg_Chassis cfg),
      cfg_Interfaces = eachKey normInterface (cfg_Interfaces cfg), cfg_Protocols = normProtocols (cfg_Protocols cfg),
      cfg_RoutingOptions = normRoutingOptions (cfg_RoutingOptions cfg),
      cfg_RoutingInstances = eachKey normRoutingInstance (cfg_RoutingInstances cfg),
      cfg_PolicyOptions = normPolicy (cfg_PolicyOptions cfg), cfg_ClassOfService = normCoS (cfg_ClassOfService cfg),
      cfg_Security = normSecurity hash (cfg_Security cfg)\<rparr>"

lemmas runs_sections = runs_system runs_chassis runs_interfaces runs_routingOptions runs_routingInstances
  runs_protocols runs_policy runs_cos

lemma runs_config:
  assumes "wfConfig cfg" and "goodHasher hash" and "ToSetCommandsWithError hash (Some cfg) = Inr s"
  shows "runs h NewConfig s (normConfig hash cfg)"
proof -
  let ?o = "\<lparr>opt_RedactSecrets = False\<rparr>"
  obtain sec where sec: "writeSecurity hash (cfg_Security cfg) ?o = Inr sec"
    and s: "s = (writeHostName (cfg_System cfg) @ writeSystemServices (cfg_System cfg) ?o) @
      writeChassis (cfg_Chassis cfg) @ writeInterfaces (cfg_Interfaces cfg) @
      writeRoutingOptions (cfg_RoutingOptions cfg) @ writeRoutingInstances (cfg_RoutingInstances cfg) @
      writeProtocols (cfg_Protocols cfg) @ writePolicyOptions (cfg_PolicyOptions cfg) @
      writeClassOfService (cfg_ClassOfService cfg) @ sec"
    using assms(3) by (auto simp: ToSetCommandsWithError_def toSetCommandsWithError_def split: sum.splits)
  note wf = assms(1) [unfolded wfConfig_def]
  show ?thesis unfolding s
    by (rule rd.runs_eq)
      ((rule rd.runs_append runs_sections runs_security [OF sec _ assms(2)] |
        simp add: wf NewConfig_def normConfig_def)+)
qed

lemma Parse_print:
  assumes "wfConfig cfg" and "goodHasher hash" and "ToSetCommandsWithError hash (Some cfg) = Inr s"
  shows "Parse h s = Inr (normConfig hash cfg)"
  using runs_config [OF assms] by (rule runs_Parse)

end
