(* ===== verification/Redaction.thy ===== *)
theory Redaction
  imports Serializer
begin

text \<open>
  Redacted output (\<open>ToSetCommandsRedactedWithError\<close>): the text shows of a credential only that
  it is set. \<open>maskConfig\<close> forgets the SNMP community and the user passwords of a tree;
  the redacted text of a tree is the redacted text of its mask. Printing is also independent of
  the order in which a Go map is enumerated.
\<close>

definition maskSNMP :: "SNMPConfig \<Rightarrow> SNMPConfig" where
  "maskSNMP s = (if snmp_Community s = [] then s else s\<lparr>snmp_Community := redactedSecretValue\<rparr>)"

definition maskUser :: "UserConfig \<Rightarrow> UserConfig" where
  "maskUser u = (if us_Password u = [] then u else u\<lparr>us_Password := redactedSecretValue\<rparr>)"

definition maskMap :: "('v \<Rightarrow> 'v) \<Rightarrow> ('k, 'v) gomap \<Rightarrow> ('k, 'v) gomap" where
  "maskMap f m = map (\<lambda>(k, p). (k, map_option f p)) m"

definition maskSystem :: "SystemConfig \<Rightarrow> SystemConfig" where
  "maskSystem s = s\<lparr>sys_Services := map_option (\<lambda>v. v\<lparr>svc_SNMP := map_option maskSNMP (svc_SNMP v)\<rparr>) (sys_Services s)\<rparr>"

definition maskSecurity :: "SecurityConfig \<Rightarrow> SecurityConfig" where
  "maskSecurity s = s\<lparr>sec_Users := maskMap maskUser (sec_Users s)\<rparr>"

definition maskConfig :: "Config \<Rightarrow> Config" where
  "maskConfig c = c\<lparr>cfg_System := map_option maskSystem (cfg_System c),
     cfg_Security := map_option maskSecurity (cfg_Security c)\<rparr>"

abbreviation redact :: serializeOptions where
  "redact \<equiv> \<lparr>opt_RedactSecrets = True\<rparr>"

lemma redacted_ne: "redactedSecretValue \<noteq> []"
  by (simp add: redactedSecretValue_def)

lemma keys_maskMap [simp]: "map fst (maskMap f m) = map fst m"
  by (simp add: maskMap_def comp_def case_prod_unfold)

lemma mget_maskMap [simp]: "mget (maskMap f m) k = map_option f (mget m k)"
  unfolding mget_def maskMap_def map_of_map by (simp split: option.splits)

lemma sortedKeys_maskMap [simp]: "sortedKeys (maskMap f m) = sortedKeys m"
  by (simp add: sortedKeys_def)

lemma writeSNMP_mask: "writeSNMP redact (maskSNMP s) = writeSNMP redact s"
  by (simp add: writeSNMP_def maskSNMP_def redacted_ne)

lemma writeSystem_mask:
  "writeHostName (map_option maskSystem x) = writeHostName x"
  "writeSystemServices (map_option maskSystem x) redact = writeSystemServices x redact"
  by (cases x; cases "Option.bind x sys_Services";
      auto simp: writeHostName_def writeSystemServices_def maskSystem_def writeServices_def writeSNMP_mask
        ifSet_def split: option.splits)+

lemma printedPassword_redact: "printedPassword hash redact pw = Inr (if pw = [] then [] else redactedSecretValue)"
  by (simp add: printedPassword_def)

lemma writeUser_mask:
  "writeUser k (maskUser u) (if us_Password (maskUser u) = [] then [] else redactedSecretValue) =
   writeUser k u (if us_Password u = [] then [] else redactedSecretValue)"
  by (simp add: writeUser_def maskUser_def redacted_ne)

lemma writeUsers_mask:
  "writeUsers hash redact (maskMap maskUser users) ks = writeUsers hash' redact users ks"
proof (induction ks)
  case (Cons k ks)
  then show ?case
    by (cases "mget users k")
      (simp_all only: writeUsers.simps mget_maskMap printedPassword_redact writeUser_mask option.map option.case sum.case)
qed simp

lemma writeUsers_redact_total: "\<exists>s. writeUsers hash redact users ks = Inr s"
  by (induction ks) (auto simp: printedPassword_redact split: option.splits sum.splits)

lemma writeSecurity_mask:
  "writeSecurity hash (map_option maskSecurity x) redact = writeSecurity hash' x redact"
  by (cases x) (simp_all add: writeSecurity_def maskSecurity_def writeUsers_mask [of hash _ _ hash'] split: sum.split)

lemma writeSecurity_redact_total: "\<exists>s. writeSecurity hash x redact = Inr s"
proof (cases x)
  case None
  then show ?thesis by (simp add: writeSecurity_def)
next
  case (Some s)
  obtain t where "writeUsers hash redact (sec_Users s) (sortedKeys (sec_Users s)) = Inr t"
    using writeUsers_redact_total by blast
  with Some show ?thesis by (simp add: writeSecurity_def)
qed

lemma redacted_mask:
  "ToSetCommandsRedactedWithError hash (Some (maskConfig c)) = ToSetCommandsRedactedWithError hash' (Some c)"
  by (simp add: ToSetCommandsRedactedWithError_def toSetCommandsWithError_def maskConfig_def writeSystem_mask
      writeSecurity_mask [of hash _ hash'] split: sum.split)

lemma redacted_total: "\<exists>s. ToSetCommandsRedactedWithError hash c = Inr s"
proof (cases c)
  case None
  then show ?thesis by (simp add: ToSetCommandsRedactedWithError_def toSetCommandsWithError_def)
next
  case (Some d)
  obtain t where "writeSecurity hash (cfg_Security d) redact = Inr t" using writeSecurity_redact_total by blast
  with Some show ?thesis by (simp add: ToSetCommandsRedactedWithError_def toSetCommandsWithError_def)
qed

section \<open>Map order\<close>

lemma map_of_set: "keys_ok m \<Longrightarrow> keys_ok m' \<Longrightarrow> set m = set m' \<Longrightarrow> mget m = mget m'"
  unfolding keys_ok_def mget_def by (rule ext) (metis map_of_eq_dom map_of_inject_set)

lemma eachKey_order: "keys_ok m \<Longrightarrow> keys_ok m' \<Longrightarrow> set m = set m' \<Longrightarrow> eachKey f m = eachKey f m'"
  using map_of_set [of m m'] sort_distinct_set [of "map fst m" "map fst m'"]
  by (simp add: eachKey_def forKeys_def sortedKeys_def keys_ok_def)

lemma eachInt_order: "keys_ok m \<Longrightarrow> keys_ok m' \<Longrightarrow> set m = set m' \<Longrightarrow> eachInt f m = eachInt f m'"
  using map_of_set [of m m'] sort_distinct_set [of "map fst m" "map fst m'"]
  by (simp add: eachInt_def forKeys_def sortedInts_def keys_ok_def)

end
