(* ===== verification/ModelTypes.thy ===== *)
theory ModelTypes
  imports GoLib
begin

text \<open>
  The canonical configuration tree of internal/model/config.go. The conventions are those of
  ConfigTypes; the prefix \<open>M\<close> tells a struct from the one of the same name in pkg/config.
\<close>

record MWebUIConfig =
  mweb_Enabled :: bool
  mweb_ListenAddress :: string
  mweb_Port :: int

record MPrometheusConfig =
  mprom_Enabled :: bool
  mprom_ListenAddress :: string
  mprom_Port :: int

record MSNMPConfig =
  msnmp_Enabled :: bool
  msnmp_ListenAddress :: string
  msnmp_Port :: int
  msnmp_Community :: string

record MSystemServicesConfig =
  msvc_WebUI :: "MWebUIConfig option"
  msvc_Prometheus :: "MPrometheusConfig option"
  msvc_SNMP :: "MSNMPConfig option"

record MSystemConfig =
  msys_HostName :: string
  msys_Services :: "MSystemServicesConfig option"

record MClusterNode =
  mcn_Address :: string
  mcn_Priority :: int

record MEtcdSyncConfig =
  mes_Endpoints :: "string list"

record MClusterSyncConfig =
  mcs_Etcd :: "MEtcdSyncConfig option"

record MClusterConfig =
  mcl_Enabled :: bool
  mcl_Nodes :: "(string, MClusterNode) gomap"
  mcl_Sync :: "MClusterSyncConfig option"

record MChassisConfig =
  mch_Cluster :: "MClusterConfig option"

record AddressFamily =
  af_Addresses :: "string list"

record MUnit =
  mu_Family :: "(string, AddressFamily) gomap"

record InterfaceConfig =
  ic_Description :: string
  ic_Units :: "(int, MUnit) gomap"

record MBFDProfile =
  mbp_DetectMultiplier :: int
  mbp_ReceiveInterval :: int
  mbp_TransmitInterval :: int
  mbp_EchoMode :: bool
  mbp_PassiveMode :: bool

record MBFDPeer =
  mbe_LocalAddress :: string
  mbe_Interface :: string
  mbe_VRF :: string
  mbe_Multihop :: bool
  mbe_Profile :: string
  mbe_DetectMultiplier :: int
  mbe_ReceiveInterval :: int
  mbe_TransmitInterval :: int
  mbe_EchoMode :: bool
  mbe_PassiveMode :: bool
  mbe_Shutdown :: bool

record MBFDConfig =
  mbfd_Profiles :: "(string, MBFDProfile) gomap"
  mbfd_Peers :: "(string, MBFDPeer) gomap"

record MBGPNeighbor =
  mbn_PeerAS :: "32 word"
  mbn_Description :: string
  mbn_LocalAddress :: string
  mbn_BFD :: bool
  mbn_BFDProfile :: string

record MBGPGroup =
  mbg_Type :: string
  mbg_Neighbors :: "(string, MBGPNeighbor) gomap"
  mbg_Import :: string
  mbg_Export :: string

record MBGPConfig =
  mbgp_Groups :: "(string, MBGPGroup) gomap"

record MEVPNVNI =
  mev_VNI :: int
  mev_Type :: string
  mev_BridgeDomain :: string
  mev_VLANID :: int
  mev_RoutingInstance :: string
  mev_RouteDistinguisher :: string
  mev_VRFTarget :: string
  mev_VRFTargetImport :: "string list"
  mev_VRFTargetExport :: "string list"
  mev_SourceInterface :: string
  mev_SourceAddress :: string
  mev_MulticastGroup :: string
  mev_RemoteVTEP :: string

record MEVPNConfig =
  mevpn_VNIs :: "(int, MEVPNVNI) gomap"

record MOSPFInterface =
  moi_Passive :: bool
  moi_Metric :: int
  moi_Priority :: "int option"
  moi_BFD :: bool
  moi_BFDProfile :: string

record MOSPFArea =
  moa_Interfaces :: "(string, MOSPFInterface) gomap"

record MOSPFConfig =
  mospf_RouterID :: string
  mospf_Areas :: "(string, MOSPFArea) gomap"

record MMPLSConfig =
  mmpls_Interfaces :: "string list"

record MVRRPGroup =
  mvg_Interface :: string
  mvg_VirtualAddress :: string
  mvg_Priority :: int
  mvg_Preempt :: bool

record MVRRPConfig =
  mvrrp_Groups :: "(string, MVRRPGroup) gomap"

record ProtocolsConfig =
  mpc_BFD :: "MBFDConfig option"
  mpc_BGP :: "MBGPConfig option"
  mpc_EVPN :: "MEVPNConfig option"
  mpc_OSPF :: "MOSPFConfig option"
  mpc_OSPF3 :: "MOSPFConfig option"
  mpc_MPLS :: "MMPLSConfig option"
  mpc_VRRP :: "MVRRPConfig option"

record MStaticRoute =
  msr_Prefix :: string
  msr_NextHop :: string
  msr_Distance :: int
  msr_BFD :: bool
  msr_BFDProfile :: string
  msr_BFDSource :: string
  msr_BFDMultihop :: bool

record RoutingConfig =
  mro_AutonomousSystem :: "32 word"
  mro_RouterID :: string
  mro_StaticRoutes :: "MStaticRoute option list"

record MRoutingInstance =
  mri_InstanceType :: string
  mri_RouteDistinguisher :: string
  mri_VRFTarget :: string
  mri_VRFTargetImport :: "string list"
  mri_VRFTargetExport :: "string list"
  mri_VRFImport :: "string list"
  mri_VRFExport :: "string list"
  mri_Interfaces :: "string list"

record MPrefixList =
  mpl_Prefixes :: "string list"

record MPolicyMatchConditions =
  mpm_PrefixLists :: "string list"
  mpm_Protocol :: string
  mpm_Neighbor :: string
  mpm_ASPath :: string

record MPolicyActions =
  mpa_Accept :: "bool option"
  mpa_LocalPreference :: "32 word option"
  mpa_Community :: string

record MPolicyTerm =
  mpt_Name :: string
  mpt_From :: "MPolicyMatchConditions option"
  mpt_Then :: "MPolicyActions option"

record MPolicyStatement =
  mps_Terms :: "MPolicyTerm option list"

record PolicyConfig =
  mpo_PrefixLists :: "(string, MPrefixList) gomap"
  mpo_PolicyStatements :: "(string, MPolicyStatement) gomap"

record MForwardingClass =
  mfc_Queue :: int

record MTrafficControlProfile =
  mtcp_ShapingRate :: "64 word"
  mtcp_SchedulerMap :: string

record MCoSInterface =
  mci_OutputTrafficControlProfile :: string

record MClassOfServiceConfig =
  mcos_ForwardingClasses :: "(string, MForwardingClass) gomap"
  mcos_TrafficControlProfiles :: "(string, MTrafficControlProfile) gomap"
  mcos_Interfaces :: "(string, MCoSInterface) gomap"

record MNETCONFSSHConfig =
  mssh_Enabled :: bool
  mssh_EnabledSet :: bool
  mssh_ListenAddress :: string
  mssh_Port :: int

record NETCONFSecurityConfig =
  mnc_SSH :: "MNETCONFSSHConfig option"

record MUserConfig =
  mus_Password :: string
  mus_Role :: string
  mus_SSHKey :: string

record MRateLimitConfig =
  mrl_PerIP :: int
  mrl_PerUser :: int

record MSecurityConfig =
  msec_NETCONF :: "NETCONFSecurityConfig option"
  msec_Users :: "(string, MUserConfig) gomap"
  msec_RateLimit :: "MRateLimitConfig option"

record RouterConfig =
  rc_System :: "MSystemConfig option"
  rc_Chassis :: "MChassisConfig option"
  rc_Interfaces :: "(string, InterfaceConfig) gomap"
  rc_Protocols :: "ProtocolsConfig option"
  rc_Routing :: "RoutingConfig option"
  rc_RoutingInstances :: "(string, MRoutingInstance) gomap"
  rc_Policy :: "PolicyConfig option"
  rc_ClassOfService :: "MClassOfServiceConfig option"
  rc_Security :: "MSecurityConfig option"

definition NewRouterConfig :: RouterConfig where
  "NewRouterConfig =
     \<lparr>rc_System = None, rc_Chassis = None, rc_Interfaces = [], rc_Protocols = None, rc_Routing = None, rc_RoutingInstances = [], rc_Policy = None, rc_ClassOfService = None, rc_Security = None\<rparr>"

end
