(* ===== verification/ModelConvert.thy ===== *)
theory ModelConvert
  imports ModelTypes ConfigTypes "HOL-Library.Monad_Syntax"
begin

text \<open>
  internal/model/convert.go: the adapters between the tree of pkg/config and the canonical tree.
  A conversion returns \<open>None\<close> where the Go code dereferences a nil entry and panics. The
  composite literals have a definition each; \<open>\<dots>FromLegacy\<close> and \<open>\<dots>ToLegacy\<close> are inverse on them.
\<close>

section \<open>Composite literals\<close>

definition webUIFromLegacy :: "WebUIConfig \<Rightarrow> MWebUIConfig" where
  "webUIFromLegacy x =
     \<lparr>mweb_Enabled = web_Enabled x, mweb_ListenAddress = web_ListenAddress x,
      mweb_Port = web_Port x\<rparr>"

definition webUIToLegacy :: "MWebUIConfig \<Rightarrow> WebUIConfig" where
  "webUIToLegacy x =
     \<lparr>web_Enabled = mweb_Enabled x, web_ListenAddress = mweb_ListenAddress x,
      web_Port = mweb_Port x\<rparr>"

definition prometheusFromLegacy :: "PrometheusConfig \<Rightarrow> MPrometheusConfig" where
  "prometheusFromLegacy x =
     \<lparr>mprom_Enabled = prom_Enabled x, mprom_ListenAddress = prom_ListenAddress x,
      mprom_Port = prom_Port x\<rparr>"

definition prometheusToLegacy :: "MPrometheusConfig \<Rightarrow> PrometheusConfig" where
  "prometheusToLegacy x =
     \<lparr>prom_Enabled = mprom_Enabled x, prom_ListenAddress = mprom_ListenAddress x,
      prom_Port = mprom_Port x\<rparr>"

definition snmpFromLegacy :: "SNMPConfig \<Rightarrow> MSNMPConfig" where
  "snmpFromLegacy x =
     \<lparr>msnmp_Enabled = snmp_Enabled x, msnmp_ListenAddress = snmp_ListenAddress x,
      msnmp_Port = snmp_Port x, msnmp_Community = snmp_Community x\<rparr>"

definition snmpToLegacy :: "MSNMPConfig \<Rightarrow> SNMPConfig" where
  "snmpToLegacy x =
     \<lparr>snmp_Enabled = msnmp_Enabled x, snmp_ListenAddress = msnmp_ListenAddress x,
      snmp_Port = msnmp_Port x, snmp_Community = msnmp_Community x\<rparr>"

definition clusterNodeFromLegacy :: "ClusterNode \<Rightarrow> MClusterNode" where
  "clusterNodeFromLegacy x = \<lparr>mcn_Address = cn_Address x, mcn_Priority = cn_Priority x\<rparr>"

definition clusterNodeToLegacy :: "string \<Rightarrow> MClusterNode \<Rightarrow> ClusterNode" where
  "clusterNodeToLegacy name x =
     \<lparr>cn_Name = name, cn_Address = mcn_Address x, cn_Priority = mcn_Priority x\<rparr>"

definition staticRouteFromLegacy :: "StaticRoute \<Rightarrow> MStaticRoute" where
  "staticRouteFromLegacy x =
     \<lparr>msr_Prefix = sr_Prefix x, msr_NextHop = sr_NextHop x, msr_Distance = sr_Distance x,
      msr_BFD = sr_BFD x, msr_BFDProfile = sr_BFDProfile x, msr_BFDSource = sr_BFDSource x,
      msr_BFDMultihop = sr_BFDMultihop x\<rparr>"

definition staticRouteToLegacy :: "MStaticRoute \<Rightarrow> StaticRoute" where
  "staticRouteToLegacy x =
     \<lparr>sr_Prefix = msr_Prefix x, sr_NextHop = msr_NextHop x, sr_Distance = msr_Distance x,
      sr_BFD = msr_BFD x, sr_BFDProfile = msr_BFDProfile x, sr_BFDSource = msr_BFDSource x,
      sr_BFDMultihop = msr_BFDMultihop x\<rparr>"

definition bfdProfileFromLegacy :: "BFDProfile \<Rightarrow> MBFDProfile" where
  "bfdProfileFromLegacy x =
     \<lparr>mbp_DetectMultiplier = bp_DetectMultiplier x, mbp_ReceiveInterval = bp_ReceiveInterval x,
      mbp_TransmitInterval = bp_TransmitInterval x, mbp_EchoMode = bp_EchoMode x,
      mbp_PassiveMode = bp_PassiveMode x\<rparr>"

definition bfdProfileToLegacy :: "string \<Rightarrow> MBFDProfile \<Rightarrow> BFDProfile" where
  "bfdProfileToLegacy name x =
     \<lparr>bp_Name = name, bp_DetectMultiplier = mbp_DetectMultiplier x,
      bp_ReceiveInterval = mbp_ReceiveInterval x, bp_TransmitInterval = mbp_TransmitInterval x,
      bp_EchoMode = mbp_EchoMode x, bp_PassiveMode = mbp_PassiveMode x\<rparr>"

definition bfdPeerFromLegacy :: "BFDPeer \<Rightarrow> MBFDPeer" where
  "bfdPeerFromLegacy x =
     \<lparr>mbe_LocalAddress = be_LocalAddress x, mbe_Interface = be_Interface x, mbe_VRF = be_VRF x,
      mbe_Multihop = be_Multihop x, mbe_Profile = be_Profile x,
      mbe_DetectMultiplier = be_DetectMultiplier x, mbe_ReceiveInterval = be_ReceiveInterval x,
      mbe_TransmitInterval = be_TransmitInterval x, mbe_EchoMode = be_EchoMode x,
      mbe_PassiveMode = be_PassiveMode x, mbe_Shutdown = be_Shutdown x\<rparr>"

definition bfdPeerToLegacy :: "string \<Rightarrow> MBFDPeer \<Rightarrow> BFDPeer" where
  "bfdPeerToLegacy name x =
     \<lparr>be_Address = name, be_LocalAddress = mbe_LocalAddress x, be_Interface = mbe_Interface x,
      be_VRF = mbe_VRF x, be_Multihop = mbe_Multihop x, be_Profile = mbe_Profile x,
      be_DetectMultiplier = mbe_DetectMultiplier x, be_ReceiveInterval = mbe_ReceiveInterval x,
      be_TransmitInterval = mbe_TransmitInterval x, be_EchoMode = mbe_EchoMode x,
      be_PassiveMode = mbe_PassiveMode x, be_Shutdown = mbe_Shutdown x\<rparr>"

definition evpnVNIFromLegacy :: "EVPNVNI \<Rightarrow> MEVPNVNI" where
  "evpnVNIFromLegacy x =
     \<lparr>mev_VNI = ev_VNI x, mev_Type = ev_Type x, mev_BridgeDomain = ev_BridgeDomain x,
      mev_VLANID = ev_VLANID x, mev_RoutingInstance = ev_RoutingInstance x,
      mev_RouteDistinguisher = ev_RouteDistinguisher x, mev_VRFTarget = ev_VRFTarget x,
      mev_VRFTargetImport = ev_VRFTargetImport x, mev_VRFTargetExport = ev_VRFTargetExport x,
      mev_SourceInterface = ev_SourceInterface x, mev_SourceAddress = ev_SourceAddress x,
      mev_MulticastGroup = ev_MulticastGroup x, mev_RemoteVTEP = ev_RemoteVTEP x\<rparr>"

definition evpnVNIToLegacy :: "MEVPNVNI \<Rightarrow> EVPNVNI" where
  "evpnVNIToLegacy x =
     \<lparr>ev_VNI = mev_VNI x, ev_Type = mev_Type x, ev_BridgeDomain = mev_BridgeDomain x,
      ev_VLANID = mev_VLANID x, ev_RoutingInstance = mev_RoutingInstance x,
      ev_RouteDistinguisher = mev_RouteDistinguisher x, ev_VRFTarget = mev_VRFTarget x,
      ev_VRFTargetImport = mev_VRFTargetImport x, ev_VRFTargetExport = mev_VRFTargetExport x,
      ev_SourceInterface = mev_SourceInterface x, ev_SourceAddress = mev_SourceAddress x,
      ev_MulticastGroup = mev_MulticastGroup x, ev_RemoteVTEP = mev_RemoteVTEP x\<rparr>"

definition vrrpGroupFromLegacy :: "VRRPGroup \<Rightarrow> MVRRPGroup" where
  "vrrpGroupFromLegacy x =
     \<lparr>mvg_Interface = vg_Interface x, mvg_VirtualAddress = vg_VirtualAddress x,
      mvg_Priority = vg_Priority x, mvg_Preempt = vg_Preempt x\<rparr>"

definition vrrpGroupToLegacy :: "string \<Rightarrow> MVRRPGroup \<Rightarrow> VRRPGroup" where
  "vrrpGroupToLegacy name x =
     \<lparr>vg_Name = name, vg_Interface = mvg_Interface x, vg_VirtualAddress = mvg_VirtualAddress x,
      vg_Priority = mvg_Priority x, vg_Preempt = mvg_Preempt x\<rparr>"

definition bgpNeighborFromLegacy :: "BGPNeighbor \<Rightarrow> MBGPNeighbor" where
  "bgpNeighborFromLegacy x =
     \<lparr>mbn_PeerAS = bn_PeerAS x, mbn_Description = bn_Description x,
      mbn_LocalAddress = bn_LocalAddress x, mbn_BFD = bn_BFD x, mbn_BFDProfile = bn_BFDProfile x\<rparr>"

definition bgpNeighborToLegacy :: "string \<Rightarrow> MBGPNeighbor \<Rightarrow> BGPNeighbor" where
  "bgpNeighborToLegacy name x =
     \<lparr>bn_IP = name, bn_PeerAS = mbn_PeerAS x, bn_Description = mbn_Description x,
      bn_LocalAddress = mbn_LocalAddress x, bn_BFD = mbn_BFD x, bn_BFDProfile = mbn_BFDProfile x\<rparr>"

definition routingInstanceFromLegacy :: "RoutingInstance \<Rightarrow> MRoutingInstance" where
  "routingInstanceFromLegacy x =
     \<lparr>mri_InstanceType = ri_InstanceType x, mri_RouteDistinguisher = ri_RouteDistinguisher x,
      mri_VRFTarget = ri_VRFTarget x, mri_VRFTargetImport = ri_VRFTargetImport x,
      mri_VRFTargetExport = ri_VRFTargetExport x, mri_VRFImport = ri_VRFImport x,
      mri_VRFExport = ri_VRFExport x, mri_Interfaces = ri_Interfaces x\<rparr>"

definition routingInstanceToLegacy :: "string \<Rightarrow> MRoutingInstance \<Rightarrow> RoutingInstance" where
  "routingInstanceToLegacy name x =
     \<lparr>ri_Name = name, ri_InstanceType = mri_InstanceType x,
      ri_RouteDistinguisher = mri_RouteDistinguisher x, ri_VRFTarget = mri_VRFTarget x,
      ri_VRFTargetImport = mri_VRFTargetImport x, ri_VRFTargetExport = mri_VRFTargetExport x,
      ri_VRFImport = mri_VRFImport x, ri_VRFExport = mri_VRFExport x,
      ri_Interfaces = mri_Interfaces x\<rparr>"

definition policyMatchFromLegacy :: "PolicyMatchConditions \<Rightarrow> MPolicyMatchConditions" where
  "policyMatchFromLegacy x =
     \<lparr>mpm_PrefixLists = pm_PrefixLists x, mpm_Protocol = pm_Protocol x,
      mpm_Neighbor = pm_Neighbor x, mpm_ASPath = pm_ASPath x\<rparr>"

definition policyMatchToLegacy :: "MPolicyMatchConditions \<Rightarrow> PolicyMatchConditions" where
  "policyMatchToLegacy x =
     \<lparr>pm_PrefixLists = mpm_PrefixLists x, pm_Protocol = mpm_Protocol x,
      pm_Neighbor = mpm_Neighbor x, pm_ASPath = mpm_ASPath x\<rparr>"

definition policyActionsFromLegacy :: "PolicyActions \<Rightarrow> MPolicyActions" where
  "policyActionsFromLegacy x =
     \<lparr>mpa_Accept = pa_Accept x, mpa_LocalPreference = pa_LocalPreference x,
      mpa_Community = pa_Community x\<rparr>"

definition policyActionsToLegacy :: "MPolicyActions \<Rightarrow> PolicyActions" where
  "policyActionsToLegacy x =
     \<lparr>pa_Accept = mpa_Accept x, pa_LocalPreference = mpa_LocalPreference x,
      pa_Community = mpa_Community x\<rparr>"

definition netconfSSHFromLegacy :: "NETCONFSSHConfig \<Rightarrow> MNETCONFSSHConfig" where
  "netconfSSHFromLegacy x =
     \<lparr>mssh_Enabled = ssh_Enabled x, mssh_EnabledSet = ssh_EnabledSet x,
      mssh_ListenAddress = ssh_ListenAddress x, mssh_Port = ssh_Port x\<rparr>"

definition netconfSSHToLegacy :: "MNETCONFSSHConfig \<Rightarrow> NETCONFSSHConfig" where
  "netconfSSHToLegacy x =
     \<lparr>ssh_Enabled = mssh_Enabled x, ssh_EnabledSet = mssh_EnabledSet x,
      ssh_ListenAddress = mssh_ListenAddress x, ssh_Port = mssh_Port x\<rparr>"

definition userFromLegacy :: "UserConfig \<Rightarrow> MUserConfig" where
  "userFromLegacy x =
     \<lparr>mus_Password = us_Password x, mus_Role = us_Role x, mus_SSHKey = us_SSHKey x\<rparr>"

definition userToLegacy :: "string \<Rightarrow> MUserConfig \<Rightarrow> UserConfig" where
  "userToLegacy name x =
     \<lparr>us_Username = name, us_Password = mus_Password x, us_Role = mus_Role x,
      us_SSHKey = mus_SSHKey x\<rparr>"

definition rateLimitFromLegacy :: "RateLimitConfig \<Rightarrow> MRateLimitConfig" where
  "rateLimitFromLegacy x = \<lparr>mrl_PerIP = rl_PerIP x, mrl_PerUser = rl_PerUser x\<rparr>"

definition rateLimitToLegacy :: "MRateLimitConfig \<Rightarrow> RateLimitConfig" where
  "rateLimitToLegacy x = \<lparr>rl_PerIP = mrl_PerIP x, rl_PerUser = mrl_PerUser x\<rparr>"

definition forwardingClassFromLegacy :: "ForwardingClass \<Rightarrow> MForwardingClass" where
  "forwardingClassFromLegacy x = \<lparr>mfc_Queue = fc_Queue x\<rparr>"

definition forwardingClassToLegacy :: "string \<Rightarrow> MForwardingClass \<Rightarrow> ForwardingClass" where
  "forwardingClassToLegacy name x = \<lparr>fc_Name = name, fc_Queue = mfc_Queue x\<rparr>"

definition trafficControlProfileFromLegacy :: "TrafficControlProfile \<Rightarrow> MTrafficControlProfile" where
  "trafficControlProfileFromLegacy x =
     \<lparr>mtcp_ShapingRate = tcp_ShapingRate x, mtcp_SchedulerMap = tcp_SchedulerMap x\<rparr>"

definition trafficControlProfileToLegacy :: "string \<Rightarrow> MTrafficControlProfile \<Rightarrow> TrafficControlProfile" where
  "trafficControlProfileToLegacy name x =
     \<lparr>tcp_Name = name, tcp_ShapingRate = mtcp_ShapingRate x,
      tcp_SchedulerMap = mtcp_SchedulerMap x\<rparr>"

definition cosInterfaceFromLegacy :: "CoSInterface \<Rightarrow> MCoSInterface" where
  "cosInterfaceFromLegacy x =
     \<lparr>mci_OutputTrafficControlProfile = ci_OutputTrafficControlProfile x\<rparr>"

definition cosInterfaceToLegacy :: "string \<Rightarrow> MCoSInterface \<Rightarrow> CoSInterface" where
  "cosInterfaceToLegacy name x =
     \<lparr>ci_Name = name, ci_OutputTrafficControlProfile = mci_OutputTrafficControlProfile x\<rparr>"

lemmas leaf_defs =
  webUIFromLegacy_def webUIToLegacy_def prometheusFromLegacy_def prometheusToLegacy_def
  snmpFromLegacy_def snmpToLegacy_def clusterNodeFromLegacy_def clusterNodeToLegacy_def
  staticRouteFromLegacy_def staticRouteToLegacy_def bfdProfileFromLegacy_def bfdProfileToLegacy_def
  bfdPeerFromLegacy_def bfdPeerToLegacy_def evpnVNIFromLegacy_def evpnVNIToLegacy_def
  vrrpGroupFromLegacy_def vrrpGroupToLegacy_def bgpNeighborFromLegacy_def bgpNeighborToLegacy_def
  routingInstanceFromLegacy_def routingInstanceToLegacy_def policyMatchFromLegacy_def policyMatchToLegacy_def
  policyActionsFromLegacy_def policyActionsToLegacy_def netconfSSHFromLegacy_def netconfSSHToLegacy_def
  userFromLegacy_def userToLegacy_def rateLimitFromLegacy_def rateLimitToLegacy_def
  forwardingClassFromLegacy_def forwardingClassToLegacy_def trafficControlProfileFromLegacy_def trafficControlProfileToLegacy_def
  cosInterfaceFromLegacy_def cosInterfaceToLegacy_def

lemma leaf_inverse [simp]:
  "webUIFromLegacy (webUIToLegacy mweb) = mweb" "prometheusFromLegacy (prometheusToLegacy mprom) = mprom" "snmpFromLegacy (snmpToLegacy msnmp) = msnmp"
  "clusterNodeFromLegacy (clusterNodeToLegacy k mcn) = mcn" "staticRouteFromLegacy (staticRouteToLegacy msr) = msr" "bfdProfileFromLegacy (bfdProfileToLegacy k mbp) = mbp"
  "bfdPeerFromLegacy (bfdPeerToLegacy k mbe) = mbe" "evpnVNIFromLegacy (evpnVNIToLegacy mev) = mev" "vrrpGroupFromLegacy (vrrpGroupToLegacy k mvg) = mvg"
  "bgpNeighborFromLegacy (bgpNeighborToLegacy k mbn) = mbn" "routingInstanceFromLegacy (routingInstanceToLegacy k mri) = mri" "policyMatchFromLegacy (policyMatchToLegacy mpm) = mpm"
  "policyActionsFromLegacy (policyActionsToLegacy mpa) = mpa" "netconfSSHFromLegacy (netconfSSHToLegacy mssh) = mssh" "userFromLegacy (userToLegacy k mus) = mus"
  "rateLimitFromLegacy (rateLimitToLegacy mrl) = mrl" "forwardingClassFromLegacy (forwardingClassToLegacy k mfc) = mfc" "trafficControlProfileFromLegacy (trafficControlProfileToLegacy k mtcp) = mtcp"
  "cosInterfaceFromLegacy (cosInterfaceToLegacy k mci) = mci"
  by (simp_all add: leaf_defs)

section \<open>From the legacy tree\<close>

definition servicesFromLegacy :: "SystemServicesConfig \<Rightarrow> MSystemServicesConfig option" where
  "servicesFromLegacy v =
     (let services = \<lparr>msvc_WebUI = map_option webUIFromLegacy (svc_WebUI v),
            msvc_Prometheus = map_option prometheusFromLegacy (svc_Prometheus v),
            msvc_SNMP = map_option snmpFromLegacy (svc_SNMP v)\<rparr>
      in if msvc_WebUI services \<noteq> None \<or> msvc_Prometheus services \<noteq> None \<or> msvc_SNMP services \<noteq> None
         then Some services else None)"

definition systemFromLegacy :: "SystemConfig \<Rightarrow> MSystemConfig" where
  "systemFromLegacy s =
     \<lparr>msys_HostName = sys_HostName s, msys_Services = Option.bind (sys_Services s) servicesFromLegacy\<rparr>"

definition clusterFromLegacy :: "ClusterConfig \<Rightarrow> MClusterConfig" where
  "clusterFromLegacy cl =
     \<lparr>mcl_Enabled = cl_Enabled cl, mcl_Nodes = keepMap (\<lambda>_. clusterNodeFromLegacy) (cl_Nodes cl),
      mcl_Sync = Option.bind (cl_Sync cl)
        (\<lambda>sy. map_option (\<lambda>e. \<lparr>mcs_Etcd = Some \<lparr>mes_Endpoints = es_Endpoints e\<rparr>\<rparr>) (cs_Etcd sy))\<rparr>"

definition chassisFromLegacy :: "ChassisConfig \<Rightarrow> MChassisConfig option" where
  "chassisFromLegacy ch = map_option (\<lambda>cl. \<lparr>mch_Cluster = Some (clusterFromLegacy cl)\<rparr>) (ch_Cluster ch)"

definition familyFromLegacy :: "Family \<Rightarrow> AddressFamily" where
  "familyFromLegacy f = \<lparr>af_Addresses = fam_Addresses f\<rparr>"

definition unitFromLegacy :: "Unit \<Rightarrow> MUnit option" where
  "unitFromLegacy u =
     map_option (\<lambda>fs. \<lparr>mu_Family = fs\<rparr>) (derefMap (\<lambda>_ f. Some (familyFromLegacy f)) (unit_Family u))"

definition interfaceFromLegacy :: "Interface \<Rightarrow> InterfaceConfig option" where
  "interfaceFromLegacy i =
     map_option (\<lambda>us. \<lparr>ic_Description = if_Description i, ic_Units = us\<rparr>) (derefMap (\<lambda>_. unitFromLegacy) (if_Units i))"

definition routingFromLegacy :: "RoutingOptions \<Rightarrow> RoutingConfig option" where
  "routingFromLegacy ro =
     map_option (\<lambda>rs. \<lparr>mro_AutonomousSystem = ro_AutonomousSystem ro, mro_RouterID = ro_RouterID ro, mro_StaticRoutes = rs\<rparr>)
       (derefList (\<lambda>r. Some (staticRouteFromLegacy r)) (ro_StaticRoutes ro))"

definition bfdFromLegacy :: "BFDConfig \<Rightarrow> MBFDConfig" where
  "bfdFromLegacy b =
     \<lparr>mbfd_Profiles = passMap (\<lambda>_. bfdProfileFromLegacy) (bfd_Profiles b),
      mbfd_Peers = passMap (\<lambda>_. bfdPeerFromLegacy) (bfd_Peers b)\<rparr>"

text \<open>The neighbors of a group are stored under the address inside the neighbor.\<close>

definition neighborsFromLegacy :: "(string, BGPNeighbor) gomap \<Rightarrow> (string, MBGPNeighbor) gomap option" where
  "neighborsFromLegacy ns =
     foldM (\<lambda>m (_, p). map_option (\<lambda>n. mput (bn_IP n) (bgpNeighborFromLegacy n) m) p) ns []"

definition bgpGroupFromLegacy :: "BGPGroup \<Rightarrow> MBGPGroup option" where
  "bgpGroupFromLegacy g =
     map_option (\<lambda>ns. \<lparr>mbg_Type = bg_Type g, mbg_Neighbors = ns, mbg_Import = bg_Import g, mbg_Export = bg_Export g\<rparr>)
       (neighborsFromLegacy (bg_Neighbors g))"

definition bgpFromLegacy :: "BGPConfig \<Rightarrow> MBGPConfig option" where
  "bgpFromLegacy b = map_option (\<lambda>gs. \<lparr>mbgp_Groups = gs\<rparr>) (derefMap (\<lambda>_. bgpGroupFromLegacy) (bgp_Groups b))"

definition evpnFromLegacy :: "EVPNConfig \<Rightarrow> MEVPNConfig" where
  "evpnFromLegacy e = \<lparr>mevpn_VNIs = passMap (\<lambda>_. evpnVNIFromLegacy) (evpn_VNIs e)\<rparr>"

definition ospfInterfaceFromLegacy :: "OSPFInterface \<Rightarrow> MOSPFInterface" where
  "ospfInterfaceFromLegacy i =
     \<lparr>moi_Passive = oi_Passive i, moi_Metric = oi_Metric i,
      moi_Priority = (if oi_PrioritySet i \<or> oi_Priority i \<noteq> 0 then Some (oi_Priority i) else None),
      moi_BFD = oi_BFD i, moi_BFDProfile = oi_BFDProfile i\<rparr>"

definition ospfFromLegacy :: "OSPFConfig \<Rightarrow> MOSPFConfig" where
  "ospfFromLegacy x =
     \<lparr>mospf_RouterID = ospf_RouterID x,
      mospf_Areas = passMap (\<lambda>_ a. \<lparr>moa_Interfaces = passMap (\<lambda>_. ospfInterfaceFromLegacy) (oa_Interfaces a)\<rparr>) (ospf_Areas x)\<rparr>"

definition mplsFromLegacy :: "MPLSConfig \<Rightarrow> MMPLSConfig" where
  "mplsFromLegacy x = \<lparr>mmpls_Interfaces = mpls_Interfaces x\<rparr>"

definition vrrpFromLegacy :: "VRRPConfig \<Rightarrow> MVRRPConfig" where
  "vrrpFromLegacy x = \<lparr>mvrrp_Groups = keepMap (\<lambda>_. vrrpGroupFromLegacy) (vrrp_Groups x)\<rparr>"

text \<open>An optional part whose conversion may panic.\<close>

definition derefOpt :: "('v \<Rightarrow> 'w option) \<Rightarrow> 'v option \<Rightarrow> 'w option option" where
  "derefOpt f x = (case x of None \<Rightarrow> Some None | Some v \<Rightarrow> map_option Some (f v))"

definition protocolsFromLegacy :: "ProtocolConfig \<Rightarrow> ProtocolsConfig option" where
  "protocolsFromLegacy pc =
     map_option (\<lambda>bgp. \<lparr>mpc_BFD = map_option bfdFromLegacy (pc_BFD pc), mpc_BGP = bgp,
        mpc_EVPN = map_option evpnFromLegacy (pc_EVPN pc), mpc_OSPF = map_option ospfFromLegacy (pc_OSPF pc),
        mpc_OSPF3 = map_option ospfFromLegacy (pc_OSPF3 pc), mpc_MPLS = map_option mplsFromLegacy (pc_MPLS pc),
        mpc_VRRP = map_option vrrpFromLegacy (pc_VRRP pc)\<rparr>)
       (derefOpt bgpFromLegacy (pc_BGP pc))"

definition termFromLegacy :: "PolicyTerm \<Rightarrow> MPolicyTerm" where
  "termFromLegacy t =
     \<lparr>mpt_Name = pt_Name t, mpt_From = map_option policyMatchFromLegacy (pt_From t),
      mpt_Then = map_option policyActionsFromLegacy (pt_Then t)\<rparr>"

definition policyFromLegacy :: "PolicyOptions \<Rightarrow> PolicyConfig option" where
  "policyFromLegacy po =
     do { pls \<leftarrow> derefMap (\<lambda>_ l. Some \<lparr>mpl_Prefixes = pl_Prefixes l\<rparr>) (po_PrefixLists po);
          pss \<leftarrow> derefMap (\<lambda>_ s. map_option (\<lambda>ts. \<lparr>mps_Terms = ts\<rparr>) (derefList (\<lambda>t. Some (termFromLegacy t)) (ps_Terms s)))
                   (po_PolicyStatements po);
          Some \<lparr>mpo_PrefixLists = pls, mpo_PolicyStatements = pss\<rparr> }"

definition securityFromLegacy :: "SecurityConfig \<Rightarrow> MSecurityConfig option" where
  "securityFromLegacy s =
     map_option (\<lambda>us. \<lparr>msec_NETCONF = Option.bind (sec_NETCONF s)
          (\<lambda>nc. map_option (\<lambda>ssh. \<lparr>mnc_SSH = Some (netconfSSHFromLegacy ssh)\<rparr>) (nc_SSH nc)),
        msec_Users = us, msec_RateLimit = map_option rateLimitFromLegacy (sec_RateLimit s)\<rparr>)
       (derefMap (\<lambda>_ u. Some (userFromLegacy u)) (sec_Users s))"

definition cosFromLegacy :: "ClassOfServiceConfig \<Rightarrow> MClassOfServiceConfig" where
  "cosFromLegacy co =
     \<lparr>mcos_ForwardingClasses = keepMap (\<lambda>_. forwardingClassFromLegacy) (cos_ForwardingClasses co),
      mcos_TrafficControlProfiles = keepMap (\<lambda>_. trafficControlProfileFromLegacy) (cos_TrafficControlProfiles co),
      mcos_Interfaces = keepMap (\<lambda>_. cosInterfaceFromLegacy) (cos_Interfaces co)\<rparr>"

definition FromLegacyConfig :: "Config option \<Rightarrow> RouterConfig option" where
  "FromLegacyConfig old =
     (case old of None \<Rightarrow> Some NewRouterConfig | Some old \<Rightarrow>
        do { ifs \<leftarrow> derefMap (\<lambda>_. interfaceFromLegacy) (cfg_Interfaces old);
             ro \<leftarrow> derefOpt routingFromLegacy (cfg_RoutingOptions old);
             pc \<leftarrow> derefOpt protocolsFromLegacy (cfg_Protocols old);
             po \<leftarrow> derefOpt policyFromLegacy (cfg_PolicyOptions old);
             sec \<leftarrow> derefOpt securityFromLegacy (cfg_Security old);
             Some \<lparr>rc_System = map_option systemFromLegacy (cfg_System old),
               rc_Chassis = Option.bind (cfg_Chassis old) chassisFromLegacy, rc_Interfaces = ifs, rc_Protocols = pc,
               rc_Routing = ro, rc_RoutingInstances = keepMap (\<lambda>_. routingInstanceFromLegacy) (cfg_RoutingInstances old),
               rc_Policy = po, rc_ClassOfService = map_option cosFromLegacy (cfg_ClassOfService old), rc_Security = sec\<rparr> })"

section \<open>To the legacy tree\<close>

definition servicesToLegacy :: "MSystemServicesConfig \<Rightarrow> SystemServicesConfig option" where
  "servicesToLegacy v =
     (let services = \<lparr>svc_WebUI = map_option webUIToLegacy (msvc_WebUI v),
            svc_Prometheus = map_option prometheusToLegacy (msvc_Prometheus v),
            svc_SNMP = map_option snmpToLegacy (msvc_SNMP v)\<rparr>
      in if svc_WebUI services \<noteq> None \<or> svc_Prometheus services \<noteq> None \<or> svc_SNMP services \<noteq> None
         then Some services else None)"

definition systemToLegacy :: "MSystemConfig \<Rightarrow> SystemConfig" where
  "systemToLegacy s =
     \<lparr>sys_HostName = msys_HostName s, sys_Services = Option.bind (msys_Services s) servicesToLegacy\<rparr>"

definition clusterToLegacy :: "MClusterConfig \<Rightarrow> ClusterConfig" where
  "clusterToLegacy cl =
     \<lparr>cl_Enabled = mcl_Enabled cl, cl_Nodes = keepMap clusterNodeToLegacy (mcl_Nodes cl),
      cl_Sync = Option.bind (mcl_Sync cl)
        (\<lambda>sy. map_option (\<lambda>e. \<lparr>cs_Etcd = Some \<lparr>es_Endpoints = mes_Endpoints e\<rparr>\<rparr>) (mcs_Etcd sy))\<rparr>"

definition chassisToLegacy :: "MChassisConfig \<Rightarrow> ChassisConfig option" where
  "chassisToLegacy ch = map_option (\<lambda>cl. \<lparr>ch_Cluster = Some (clusterToLegacy cl)\<rparr>) (mch_Cluster ch)"

text \<open>Families, units and interfaces are created on demand in the new tree.\<close>

definition addFamily :: "Unit \<Rightarrow> string \<times> AddressFamily option \<Rightarrow> Unit option" where
  "addFamily u = (\<lambda>(familyName, p). map_option (\<lambda>af.
     let family = GetOrCreateFamily u familyName
     in u\<lparr>unit_Family := mput familyName (family\<lparr>fam_Addresses := fam_Addresses family @ af_Addresses af\<rparr>) (unit_Family u)\<rparr>) p)"

definition addUnit :: "Interface \<Rightarrow> int \<times> MUnit option \<Rightarrow> Interface option" where
  "addUnit iface = (\<lambda>(unitNum, p).
     do { mu \<leftarrow> p;
          u \<leftarrow> foldM addFamily (mu_Family mu) (GetOrCreateUnit iface unitNum);
          Some (iface\<lparr>if_Units := mput unitNum u (if_Units iface)\<rparr>) })"

definition addInterface :: "Config \<Rightarrow> string \<times> InterfaceConfig option \<Rightarrow> Config option" where
  "addInterface old = (\<lambda>(name, p).
     do { ic \<leftarrow> p;
          iface \<leftarrow> foldM addUnit (ic_Units ic) ((GetOrCreateInterface old name)\<lparr>if_Description := ic_Description ic\<rparr>);
          Some (old\<lparr>cfg_Interfaces := mput name iface (cfg_Interfaces old)\<rparr>) })"

definition routingToLegacy :: "RoutingConfig \<Rightarrow> RoutingOptions option" where
  "routingToLegacy ro =
     map_option (\<lambda>rs. \<lparr>ro_StaticRoutes = rs, ro_AutonomousSystem = mro_AutonomousSystem ro, ro_RouterID = mro_RouterID ro\<rparr>)
       (derefList (\<lambda>r. Some (staticRouteToLegacy r)) (mro_StaticRoutes ro))"

definition bfdToLegacy :: "MBFDConfig \<Rightarrow> BFDConfig" where
  "bfdToLegacy b =
     \<lparr>bfd_Profiles = passMap bfdProfileToLegacy (mbfd_Profiles b), bfd_Peers = passMap bfdPeerToLegacy (mbfd_Peers b)\<rparr>"

definition bgpGroupToLegacy :: "MBGPGroup \<Rightarrow> BGPGroup option" where
  "bgpGroupToLegacy g =
     map_option (\<lambda>ns. \<lparr>bg_Type = mbg_Type g, bg_Neighbors = ns, bg_Import = mbg_Import g, bg_Export = mbg_Export g\<rparr>)
       (derefMap (\<lambda>ip n. Some (bgpNeighborToLegacy ip n)) (mbg_Neighbors g))"

definition bgpToLegacy :: "MBGPConfig \<Rightarrow> BGPConfig option" where
  "bgpToLegacy b = map_option (\<lambda>gs. \<lparr>bgp_Groups = gs\<rparr>) (derefMap (\<lambda>_. bgpGroupToLegacy) (mbgp_Groups b))"

definition evpnToLegacy :: "MEVPNConfig \<Rightarrow> EVPNConfig" where
  "evpnToLegacy e = \<lparr>evpn_VNIs = passMap (\<lambda>_. evpnVNIToLegacy) (mevpn_VNIs e)\<rparr>"

definition ospfInterfaceToLegacy :: "string \<Rightarrow> MOSPFInterface \<Rightarrow> OSPFInterface" where
  "ospfInterfaceToLegacy name i =
     \<lparr>oi_Name = name, oi_Passive = moi_Passive i, oi_Metric = moi_Metric i, oi_Priority = getOr 0 (moi_Priority i),
      oi_PrioritySet = (moi_Priority i \<noteq> None), oi_BFD = moi_BFD i, oi_BFDProfile = moi_BFDProfile i\<rparr>"

definition ospfToLegacy :: "MOSPFConfig \<Rightarrow> OSPFConfig" where
  "ospfToLegacy x =
     \<lparr>ospf_Areas = passMap (\<lambda>aID a. \<lparr>oa_AreaID = aID, oa_Interfaces = passMap ospfInterfaceToLegacy (moa_Interfaces a)\<rparr>)
        (mospf_Areas x), ospf_RouterID = mospf_RouterID x\<rparr>"

definition mplsToLegacy :: "MMPLSConfig \<Rightarrow> MPLSConfig" where
  "mplsToLegacy x = \<lparr>mpls_Interfaces = mmpls_Interfaces x\<rparr>"

definition vrrpToLegacy :: "MVRRPConfig \<Rightarrow> VRRPConfig" where
  "vrrpToLegacy x = \<lparr>vrrp_Groups = keepMap vrrpGroupToLegacy (mvrrp_Groups x)\<rparr>"

definition protocolsToLegacy :: "ProtocolsConfig \<Rightarrow> ProtocolConfig option" where
  "protocolsToLegacy pc =
     map_option (\<lambda>bgp. \<lparr>pc_BFD = map_option bfdToLegacy (mpc_BFD pc), pc_BGP = bgp,
        pc_EVPN = map_option evpnToLegacy (mpc_EVPN pc), pc_OSPF = map_option ospfToLegacy (mpc_OSPF pc),
        pc_OSPF3 = map_option ospfToLegacy (mpc_OSPF3 pc), pc_MPLS = map_option mplsToLegacy (mpc_MPLS pc),
        pc_VRRP = map_option vrrpToLegacy (mpc_VRRP pc)\<rparr>)
       (derefOpt bgpToLegacy (mpc_BGP pc))"

definition termToLegacy :: "MPolicyTerm \<Rightarrow> PolicyTerm" where
  "termToLegacy t =
     \<lparr>pt_Name = mpt_Name t, pt_From = map_option policyMatchToLegacy (mpt_From t),
      pt_Then = map_option policyActionsToLegacy (mpt_Then t)\<rparr>"

definition policyToLegacy :: "PolicyConfig \<Rightarrow> PolicyOptions option" where
  "policyToLegacy po =
     do { pls \<leftarrow> derefMap (\<lambda>name l. Some \<lparr>pl_Name = name, pl_Prefixes = mpl_Prefixes l\<rparr>) (mpo_PrefixLists po);
          pss \<leftarrow> derefMap (\<lambda>name s. map_option (\<lambda>ts. \<lparr>ps_Name = name, ps_Terms = ts\<rparr>)
                     (derefList (\<lambda>t. Some (termToLegacy t)) (mps_Terms s))) (mpo_PolicyStatements po);
          Some \<lparr>po_PrefixLists = pls, po_PolicyStatements = pss\<rparr> }"

definition securityToLegacy :: "MSecurityConfig \<Rightarrow> SecurityConfig option" where
  "securityToLegacy s =
     map_option (\<lambda>us. \<lparr>sec_NETCONF = map_option (\<lambda>nc. \<lparr>nc_SSH = map_option netconfSSHToLegacy (mnc_SSH nc)\<rparr>) (msec_NETCONF s),
        sec_Users = us, sec_RateLimit = map_option rateLimitToLegacy (msec_RateLimit s)\<rparr>)
       (derefMap (\<lambda>name u. Some (userToLegacy name u)) (msec_Users s))"

definition cosToLegacy :: "MClassOfServiceConfig \<Rightarrow> ClassOfServiceConfig" where
  "cosToLegacy co =
     \<lparr>cos_ForwardingClasses = keepMap forwardingClassToLegacy (mcos_ForwardingClasses co),
      cos_TrafficControlProfiles = keepMap trafficControlProfileToLegacy (mcos_TrafficControlProfiles co),
      cos_Interfaces = keepMap cosInterfaceToLegacy (mcos_Interfaces co)\<rparr>"

definition ToLegacyConfig :: "RouterConfig option \<Rightarrow> Config option" where
  "ToLegacyConfig c =
     (case c of None \<Rightarrow> Some NewConfig | Some c \<Rightarrow>
        do { old \<leftarrow> foldM addInterface (rc_Interfaces c) NewConfig;
             ro \<leftarrow> derefOpt routingToLegacy (rc_Routing c);
             pc \<leftarrow> derefOpt protocolsToLegacy (rc_Protocols c);
             po \<leftarrow> derefOpt policyToLegacy (rc_Policy c);
             sec \<leftarrow> derefOpt securityToLegacy (rc_Security c);
             Some (old\<lparr>cfg_System := map_option systemToLegacy (rc_System c),
               cfg_Chassis := Option.bind (rc_Chassis c) chassisToLegacy, cfg_Protocols := pc, cfg_RoutingOptions := ro,
               cfg_RoutingInstances := keepMap routingInstanceToLegacy (rc_RoutingInstances c),
               cfg_PolicyOptions := po, cfg_ClassOfService := map_option cosToLegacy (rc_ClassOfService c),
               cfg_Security := sec\<rparr>) })"

end
