(* ===== verification/ParserInvariant.thy ===== *)
theory ParserInvariant
  imports RoundTripSecurity
begin

text \<open>
  What holds of every tree the parser returns. The locale \<open>statement_invariant\<close> lifts a predicate
  that each statement preserves to \<open>Parser.Parse\<close>; it is interpreted on \<open>typedConfig\<close>: keys are
  unique and agree with the names inside the objects, lists that are filled by
  \<open>appendUniqueString\<close> have no repetitions, values lie in the ranges the statements check, and
  no password is kept in clear text.
\<close>

locale statement_invariant =
  fixes hash :: hasher and I :: "Config \<Rightarrow> bool"
  assumes init: "I NewConfig"
    and step: "parseStatement hash c p = Inr (c', p') \<Longrightarrow> I c \<Longrightarrow> I c'"
begin

lemma loop: "ParseLoop hash c p = Inr c' \<Longrightarrow> I c \<Longrightarrow> I c'"
proof (induction p arbitrary: c rule: measure_induct_rule [of todo])
  case (less p)
  show ?case
  proof (cases "cty p = TokenEOF \<or> cty p = TokenEOL")
    case True
    then show ?thesis
      using less.IH [of "nextToken p" c] less.prems todo_nextToken [of p]
      by (auto simp: ParseLoop.simps [of hash c p])
  next
    case False
    then obtain d q where dq: "parseStatement hash c p = Inr (d, q)" "cty q = TokenEOL \<or> cty q = TokenEOF"
      "ParseLoop hash d (if cty q = TokenEOL then nextToken q else q) = Inr c'"
      using less.prems(1) by (auto simp: ParseLoop.simps [of hash c p] split: sum.splits if_splits)
    have "todo (if cty q = TokenEOL then nextToken q else q) < todo p"
      using parseStatement_advance [OF dq(1)] todo_nextToken_le [of q] by auto
    with less.IH dq(3) step [OF dq(1) less.prems(2)] show ?thesis by blast
  qed
qed

lemma parsed: "Parse hash s = Inr c \<Longrightarrow> I c"
  using loop init by (simp add: Parse_def)

end

section \<open>Results of a parser function\<close>

definition post :: "('a \<Rightarrow> bool) \<Rightarrow> 'a presult \<Rightarrow> bool" where
  "post P r \<longleftrightarrow> (case r of Inl _ \<Rightarrow> True | Inr (x, _) \<Rightarrow> P x)"

lemma post_simps [simp]:
  "post P (Inl e)" "post P (perror p msg)" "post P (lexerError p msg)" "post P (Inr (x, p)) = P x"
  by (simp_all add: post_def perror_def lexerError_def)

lemma postD: "post P r \<Longrightarrow> r = Inr (x, p) \<Longrightarrow> P x"
  by (simp add: post_def)

lemma post_mono: "post Q r \<Longrightarrow> (\<And>x. Q x \<Longrightarrow> P x) \<Longrightarrow> post P r"
  by (auto simp: post_def split: sum.splits)

text \<open>Storing the result of a part in the whole.\<close>

lemma post_store:
  "post Q r \<Longrightarrow> (\<And>x. Q x \<Longrightarrow> P (f x)) \<Longrightarrow>
   post P (case r of Inl e \<Rightarrow> Inl e | Inr (x, p) \<Rightarrow> Inr (f x, p))"
  by (auto simp: post_def split: sum.splits)

section \<open>Security\<close>

definition typedUser :: "string \<Rightarrow> UserConfig \<Rightarrow> bool" where
  "typedUser k u \<longleftrightarrow> us_Username u = k \<and> roleOk (us_Role u) \<and>
     (us_Password u = [] \<or> ValidateStoredHash (us_Password u) = Inr ())"

definition typedSecurity :: "SecurityConfig \<Rightarrow> bool" where
  "typedSecurity s \<longleftrightarrow> fullMap typedUser (sec_Users s) \<and>
     pred_option (\<lambda>r. rateOk (rl_PerIP r) \<and> rateOk (rl_PerUser r)) (sec_RateLimit s) \<and>
     pred_option (\<lambda>n. pred_option (\<lambda>u. 0 \<le> ssh_Port u \<and> ssh_Port u \<le> 65535) (nc_SSH n)) (sec_NETCONF s)"

lemma typed_newSecurity: "typedSecurity newSecurityConfig"
  by (simp add: typedSecurity_def newSecurityConfig_def)

lemma typed_user_update:
  "typedUser k u \<Longrightarrow> p = [] \<or> ValidateStoredHash p = Inr () \<Longrightarrow> typedUser k (u\<lparr>us_Password := p\<rparr>)"
  "typedUser k u \<Longrightarrow> roleOk r \<Longrightarrow> typedUser k (u\<lparr>us_Role := r\<rparr>)"
  "typedUser k u \<Longrightarrow> typedUser k (u\<lparr>us_SSHKey := v\<rparr>)"
  by (simp_all add: typedUser_def)

lemma typed_newUser: "typedUser k (newUserConfig k)"
  by (simp add: typedUser_def newUserConfig_def roleOk_def)

abbreviation secTyped :: "Config \<Rightarrow> bool" where
  "secTyped c \<equiv> pred_option typedSecurity (cfg_Security c)"

lemma parseSecurityUsers_typed:
  assumes "secTyped c" "goodHasher hash"
  shows "post secTyped (parseSecurityUsers hash c p)"
proof -
  let ?s = "getOr newSecurityConfig (cfg_Security c)"
  have s: "typedSecurity ?s" using assms(1) typed_newSecurity by (rule pred_getOr)
  have user: "typedUser k (getOr (newUserConfig k) (mget (sec_Users ?s) k))" for k
    by (rule fullMap_get [of typedUser]) (use s typed_newUser in \<open>simp_all add: typedSecurity_def\<close>)
  have sec: "typedSecurity (?s\<lparr>sec_Users := mput k u (sec_Users ?s)\<rparr>)" if "typedUser k u" for k u
    using s that by (simp add: typedSecurity_def fullMap_mput)
  have pw: "q = [] \<or> ValidateStoredHash q = Inr ()" if "NormalizePasswordForStorage hash pw = Inr q" for pw q
    using storedPassword_ok(3) [OF assms(2) that] by blast
  have role: "roleOk r" if "\<not> (r \<noteq> ''admin'' \<and> r \<noteq> ''operator'' \<and> r \<noteq> ''read-only'')" for r
    using that by (simp add: roleOk_def)
  show ?thesis
    unfolding parseSecurityUsers_def Let_def
    by (simp add: sec user typed_user_update role split: sum.split) (simp add: pw sec user typed_user_update)
qed

lemma parseSecurityRateLimit_typed:
  assumes "secTyped c"
  shows "post secTyped (parseSecurityRateLimit c p)"
proof -
  let ?s = "getOr newSecurityConfig (cfg_Security c)" and ?ok = "\<lambda>r. rateOk (rl_PerIP r) \<and> rateOk (rl_PerUser r)"
  have s: "typedSecurity ?s" using assms typed_newSecurity by (rule pred_getOr)
  then have "?ok (getOr newRateLimitConfig (sec_RateLimit ?s))"
    by (intro pred_getOr [of ?ok]) (simp_all add: typedSecurity_def newRateLimitConfig_def rateOk_def)
  with s show ?thesis
    unfolding parseSecurityRateLimit_def Let_def by (simp add: typedSecurity_def rateOk_def split: option.split)
qed

lemma parseSecurityNETCONF_typed:
  assumes "secTyped c"
  shows "post secTyped (parseSecurityNETCONF c p)"
proof -
  let ?s = "getOr newSecurityConfig (cfg_Security c)" and ?ok = "\<lambda>u. 0 \<le> ssh_Port u \<and> ssh_Port u \<le> 65535"
  let ?n = "getOr newNETCONFConfig (sec_NETCONF ?s)"
  have s: "typedSecurity ?s" using assms typed_newSecurity by (rule pred_getOr)
  then have "pred_option ?ok (nc_SSH ?n)"
    by (intro pred_getOr [of "\<lambda>n. pred_option ?ok (nc_SSH n)"]) (simp_all add: typedSecurity_def newNETCONFConfig_def)
  then have "?ok (getOr newNETCONFSSHConfig (nc_SSH ?n))"
    by (intro pred_getOr [of ?ok]) (simp_all add: newNETCONFSSHConfig_def)
  with s show ?thesis
    unfolding parseSecurityNETCONF_def Let_def
    by (simp add: typedSecurity_def split: option.split sum.split)
qed

lemma parseSecurity_typed:
  "secTyped c \<Longrightarrow> goodHasher hash \<Longrightarrow> post secTyped (parseSecurity hash c p)"
  by (simp add: parseSecurity_def Let_def parseSecurityUsers_typed parseSecurityRateLimit_typed parseSecurityNETCONF_typed)

section \<open>Interfaces, routing options and instances\<close>

definition typedUnit :: "int \<Rightarrow> Unit \<Rightarrow> bool" where
  "typedUnit n u \<longleftrightarrow> fullMap (\<lambda>_ f. distinct (fam_Addresses f)) (unit_Family u)"

definition typedInterface :: "string \<Rightarrow> Interface \<Rightarrow> bool" where
  "typedInterface k i \<longleftrightarrow> fullMap typedUnit (if_Units i)"

lemma parseInterface_parts_typed:
  assumes "typedInterface k i"
  shows "post (typedInterface k) (parseInterfaceDescription i p)" "post (typedInterface k) (parseInterfaceUnit i p)"
proof -
  have u: "typedUnit n (GetOrCreateUnit i n)" for n
    unfolding GetOrCreateUnit_def
    by (rule fullMap_get [of typedUnit]) (use assms in \<open>simp_all add: typedInterface_def typedUnit_def newUnit_def\<close>)
  have f: "distinct (fam_Addresses (GetOrCreateFamily (GetOrCreateUnit i n) k'))" for n k'
    unfolding GetOrCreateFamily_def
    by (rule fullMap_get [of "\<lambda>_ f. distinct (fam_Addresses f)"]) (use u [of n] in \<open>simp_all add: typedUnit_def newFamily_def\<close>)
  show "post (typedInterface k) (parseInterfaceDescription i p)"
    using assms by (simp add: parseInterfaceDescription_def typedInterface_def)
  show "post (typedInterface k) (parseInterfaceUnit i p)"
    using assms u f unfolding parseInterfaceUnit_def Let_def
    by (simp add: typedInterface_def typedUnit_def fullMap_mput appendUniqueString_distinct split: option.split)
qed

lemma parseInterfaces_typed:
  assumes "fullMap typedInterface (cfg_Interfaces c)"
  shows "post (\<lambda>c'. fullMap typedInterface (cfg_Interfaces c')) (parseInterfaces c p)"
proof -
  have "typedInterface k (GetOrCreateInterface c k)" for k
    unfolding GetOrCreateInterface_def
    by (rule fullMap_get [of typedInterface]) (use assms in \<open>simp_all add: typedInterface_def newInterface_def\<close>)
  then show ?thesis
    unfolding parseInterfaces_def Let_def
    by (auto intro!: post_store parseInterface_parts_typed fullMap_mput simp: assms)
qed

definition typedRoute :: "StaticRoute \<Rightarrow> bool" where
  "typedRoute r \<longleftrightarrow> sr_BFD r \<or> sr_BFDProfile r = [] \<and> sr_BFDSource r = [] \<and> \<not> sr_BFDMultihop r"

definition typedRoutingOptions :: "RoutingOptions \<Rightarrow> bool" where
  "typedRoutingOptions ro \<longleftrightarrow> list_all (\<lambda>x. pred_option typedRoute x \<and> x \<noteq> None) (ro_StaticRoutes ro) \<and>
     distinct (map (map_option sr_Prefix) (ro_StaticRoutes ro))"

definition routeTo :: "string \<Rightarrow> StaticRoute \<Rightarrow> bool" where
  "routeTo k r \<longleftrightarrow> typedRoute r \<and> sr_Prefix r = k"

lemma routeTo_update:
  "routeTo k r \<Longrightarrow> routeTo k (r\<lparr>sr_Distance := d\<rparr>)" "routeTo k r \<Longrightarrow> routeTo k (r\<lparr>sr_BFD := True\<rparr>)"
  "routeTo k r \<Longrightarrow> sr_BFD r \<Longrightarrow> routeTo k (r\<lparr>sr_BFDProfile := s\<rparr>)"
  "routeTo k r \<Longrightarrow> sr_BFD r \<Longrightarrow> routeTo k (r\<lparr>sr_BFDSource := s\<rparr>)"
  "routeTo k r \<Longrightarrow> sr_BFD r \<Longrightarrow> routeTo k (r\<lparr>sr_BFDMultihop := True\<rparr>)"
  by (simp_all add: routeTo_def typedRoute_def)

lemma parseStaticRouteParams_typed: "routeTo k r \<Longrightarrow> post (routeTo k) (parseStaticRouteParams r p)"
proof (induction r p rule: parseStaticRouteParams.induct)
  case (1 r p)
  from "1.prems" show ?case
    by (subst parseStaticRouteParams.simps) (auto simp: Let_def split: option.split intro!: "1.IH" routeTo_update)
qed

lemma parseRoutingOption_typed:
  assumes "typedRoutingOptions ro"
  shows "post typedRoutingOptions (parseAutonomousSystem ro p)" "post typedRoutingOptions (parseRouterID ro p)"
    "post typedRoutingOptions (parseStaticRoute ro p)"
proof -
  show "post typedRoutingOptions (parseAutonomousSystem ro p)" "post typedRoutingOptions (parseRouterID ro p)"
    using assms by (simp_all add: parseAutonomousSystem_def parseRouterID_def typedRoutingOptions_def split: option.split)
  have new: "post (routeTo a) (parseStaticRouteParams (newStaticRoute a b) q)" for a b q
    by (rule parseStaticRouteParams_typed) (simp add: routeTo_def typedRoute_def newStaticRoute_def)
  have add: "typedRoutingOptions (ro\<lparr>ro_StaticRoutes := ro_StaticRoutes ro @ [Some r]\<rparr>)"
    if "routeTo k r" "\<not> list_ex (\<lambda>sr. case sr of None \<Rightarrow> False | Some r \<Rightarrow> sr_Prefix r = k) (ro_StaticRoutes ro)" for r k
  proof -
    have "Some (sr_Prefix r) \<notin> map_option sr_Prefix ` set (ro_StaticRoutes ro)"
      using that by (fastforce simp: routeTo_def list_ex_iff eq_commute [of "Some _"])
    with assms that(1) show ?thesis by (simp add: typedRoutingOptions_def routeTo_def)
  qed
  have store: "post typedRoutingOptions (case r of Inl e \<Rightarrow> Inl e | Inr (x, p') \<Rightarrow>
      if list_ex (\<lambda>sr. case sr of None \<Rightarrow> False | Some r \<Rightarrow> sr_Prefix r = k) (ro_StaticRoutes ro) then perror p' msg
      else Inr (ro\<lparr>ro_StaticRoutes := ro_StaticRoutes ro @ [Some x]\<rparr>, p'))" if "post (routeTo k) r" for r k msg
    using that by (auto simp: add post_def perror_def split: sum.split)
  show "post typedRoutingOptions (parseStaticRoute ro p)"
    unfolding parseStaticRoute_def Let_def by (simp add: store [OF new])
qed

lemma parseRoutingOptions_typed:
  assumes "pred_option typedRoutingOptions (cfg_RoutingOptions c)"
  shows "post (\<lambda>c'. pred_option typedRoutingOptions (cfg_RoutingOptions c')) (parseRoutingOptions c p)"
proof -
  have ro: "typedRoutingOptions (getOr newRoutingOptions (cfg_RoutingOptions c))"
    by (rule pred_getOr [OF assms]) (simp add: typedRoutingOptions_def newRoutingOptions_def)
  show ?thesis
    unfolding parseRoutingOptions_def Let_def by (auto intro!: post_store parseRoutingOption_typed [OF ro])
qed

definition typedInstance :: "string \<Rightarrow> RoutingInstance \<Rightarrow> bool" where
  "typedInstance k i \<longleftrightarrow> ri_Name i = k \<and> distinct (ri_VRFTargetImport i) \<and> distinct (ri_VRFTargetExport i) \<and>
     distinct (ri_VRFImport i) \<and> distinct (ri_VRFExport i) \<and> distinct (ri_Interfaces i)"

lemma parseRoutingInstances_typed:
  assumes "fullMap typedInstance (cfg_RoutingInstances c)"
  shows "post (\<lambda>c'. fullMap typedInstance (cfg_RoutingInstances c')) (parseRoutingInstances c p)"
proof -
  have "typedInstance k (getOr (newRoutingInstance k) (mget (cfg_RoutingInstances c) k))" for k
    by (rule fullMap_get [of typedInstance, OF assms]) (simp add: typedInstance_def newRoutingInstance_def)
  then show ?thesis
    using assms unfolding parseRoutingInstances_def Let_def
    by (simp add: fullMap_mput typedInstance_def appendUniqueString_distinct)
qed

section \<open>Protocols\<close>

definition typedVNI :: "int \<Rightarrow> EVPNVNI \<Rightarrow> bool" where
  "typedVNI k v \<longleftrightarrow> ev_VNI v = k \<and> distinct (ev_VRFTargetImport v) \<and> distinct (ev_VRFTargetExport v)"

definition typedNeighbor :: "string \<Rightarrow> BGPNeighbor \<Rightarrow> bool" where
  "typedNeighbor k n \<longleftrightarrow> bn_IP n = k \<and> (bn_BFD n \<or> bn_BFDProfile n = [])"

definition typedGroup :: "string \<Rightarrow> BGPGroup \<Rightarrow> bool" where
  "typedGroup k g \<longleftrightarrow> (bg_Type g = [] \<or> bg_Type g = ''internal'' \<or> bg_Type g = ''external'') \<and>
     fullMap typedNeighbor (bg_Neighbors g)"

definition typedOSPFInterface :: "string \<Rightarrow> OSPFInterface \<Rightarrow> bool" where
  "typedOSPFInterface k i \<longleftrightarrow> oi_Name i = k \<and> (oi_PrioritySet i \<or> oi_Priority i = 0) \<and> (oi_BFD i \<or> oi_BFDProfile i = [])"

definition typedArea :: "string \<Rightarrow> OSPFArea \<Rightarrow> bool" where
  "typedArea k a \<longleftrightarrow> oa_AreaID a = k \<and> fullMap typedOSPFInterface (oa_Interfaces a)"

definition typedProtocols :: "ProtocolConfig \<Rightarrow> bool" where
  "typedProtocols pc \<longleftrightarrow>
     pred_option (\<lambda>b. fullMap (\<lambda>k r. bp_Name r = k) (bfd_Profiles b) \<and> fullMap (\<lambda>k r. be_Address r = k) (bfd_Peers b)) (pc_BFD pc) \<and>
     pred_option (\<lambda>b. fullMap typedGroup (bgp_Groups b)) (pc_BGP pc) \<and>
     pred_option (\<lambda>e. fullMap typedVNI (evpn_VNIs e)) (pc_EVPN pc) \<and>
     pred_option (\<lambda>x. fullMap typedArea (ospf_Areas x)) (pc_OSPF pc) \<and>
     pred_option (\<lambda>x. fullMap typedArea (ospf_Areas x)) (pc_OSPF3 pc) \<and>
     pred_option (\<lambda>m. distinct (mpls_Interfaces m)) (pc_MPLS pc) \<and>
     pred_option (\<lambda>v. fullMap (\<lambda>k g. vg_Name g = k) (vrrp_Groups v)) (pc_VRRP pc)"

lemma parseEVPN_typed:
  assumes "typedProtocols pc"
  shows "post typedProtocols (parseEVPN pc p)"
proof -
  have e: "fullMap typedVNI (evpn_VNIs (getOr newEVPNConfig (pc_EVPN pc)))"
    by (rule pred_getOr) (use assms in \<open>simp_all add: typedProtocols_def newEVPNConfig_def\<close>)
  have "typedVNI k (getOr (newEVPNVNI k) (mget (evpn_VNIs (getOr newEVPNConfig (pc_EVPN pc))) k))" for k
    by (rule fullMap_get [of typedVNI, OF e]) (simp add: typedVNI_def newEVPNVNI_def)
  with e assms show ?thesis
    unfolding parseEVPN_def Let_def
    by (simp add: typedProtocols_def fullMap_mput typedVNI_def appendUniqueString_distinct split: option.split)
qed

lemma parseMPLS_typed:
  assumes "typedProtocols pc"
  shows "post typedProtocols (parseMPLS pc p)"
proof -
  have "distinct (mpls_Interfaces (getOr newMPLSConfig (pc_MPLS pc)))"
    by (rule pred_getOr) (use assms in \<open>simp_all add: typedProtocols_def newMPLSConfig_def\<close>)
  with assms show ?thesis
    unfolding parseMPLS_def Let_def by (simp add: typedProtocols_def appendUniqueString_distinct)
qed

lemma parseVRRP_typed:
  assumes "typedProtocols pc"
  shows "post typedProtocols (parseVRRP pc p)"
proof -
  have v: "fullMap (\<lambda>k g. vg_Name g = k) (vrrp_Groups (getOr newVRRPConfig (pc_VRRP pc)))"
    by (rule pred_getOr) (use assms in \<open>simp_all add: typedProtocols_def newVRRPConfig_def\<close>)
  have "vg_Name (getOr (newVRRPGroup k) (mget (vrrp_Groups (getOr newVRRPConfig (pc_VRRP pc))) k)) = k" for k
    by (rule fullMap_get [of "\<lambda>k g. vg_Name g = k", OF v]) (simp add: newVRRPGroup_def)
  with v assms show ?thesis
    unfolding parseVRRP_def Let_def by (simp add: typedProtocols_def fullMap_mput split: option.split)
qed

abbreviation bfdTyped :: "BFDConfig \<Rightarrow> bool" where
  "bfdTyped b \<equiv> fullMap (\<lambda>k r. bp_Name r = k) (bfd_Profiles b) \<and> fullMap (\<lambda>k r. be_Address r = k) (bfd_Peers b)"

lemma parseBFD_parts_typed:
  assumes "bfdTyped b"
  shows "post bfdTyped (parseBFDProfile b p)" "post bfdTyped (parseBFDPeer b p)"
proof -
  have "bp_Name (getOr (newBFDProfile k) (mget (bfd_Profiles b) k)) = k" for k
    by (rule fullMap_get [of "\<lambda>k r. bp_Name r = k"]) (use assms in \<open>simp_all add: newBFDProfile_def\<close>)
  with assms show "post bfdTyped (parseBFDProfile b p)"
    unfolding parseBFDProfile_def Let_def by (simp add: fullMap_mput split: sum.split)
  have "be_Address (getOr (newBFDPeer k) (mget (bfd_Peers b) k)) = k" for k
    by (rule fullMap_get [of "\<lambda>k r. be_Address r = k"]) (use assms in \<open>simp_all add: newBFDPeer_def\<close>)
  with assms show "post bfdTyped (parseBFDPeer b p)"
    unfolding parseBFDPeer_def Let_def by (simp add: fullMap_mput split: sum.split)
qed

lemma parseBFD_typed:
  assumes "typedProtocols pc"
  shows "post typedProtocols (parseBFD pc p)"
proof -
  have b: "bfdTyped (getOr newBFDConfig (pc_BFD pc))"
    by (rule pred_getOr [of bfdTyped]) (use assms in \<open>simp_all add: typedProtocols_def newBFDConfig_def\<close>)
  have "post typedProtocols (case r of Inl e \<Rightarrow> Inl e | Inr (b, p') \<Rightarrow> Inr (pc\<lparr>pc_BFD := Some b\<rparr>, p'))"
    if "post bfdTyped r" for r
    using that assms by (auto intro!: post_store [of bfdTyped] simp: typedProtocols_def)
  then show ?thesis
    unfolding parseBFD_def Let_def using parseBFD_parts_typed [OF b] by simp
qed

lemma parseBGP_parts_typed:
  assumes "typedGroup k g"
  shows "post (typedGroup k) (parseBGPGroupType g p)" "post (typedGroup k) (parseBGPGroupImport g p)"
    "post (typedGroup k) (parseBGPGroupExport g p)" "post (typedGroup k) (parseBGPNeighbor g p)"
proof -
  show "post (typedGroup k) (parseBGPGroupType g p)" "post (typedGroup k) (parseBGPGroupImport g p)"
    "post (typedGroup k) (parseBGPGroupExport g p)"
    using assms
    by (auto simp: parseBGPGroupType_def parseBGPGroupImport_def parseBGPGroupExport_def Let_def typedGroup_def)
  have "typedNeighbor n (getOr (newBGPNeighbor n) (mget (bg_Neighbors g) n))" for n
    by (rule fullMap_get [of typedNeighbor])
      (use assms in \<open>simp_all add: typedGroup_def typedNeighbor_def newBGPNeighbor_def\<close>)
  with assms show "post (typedGroup k) (parseBGPNeighbor g p)"
    unfolding parseBGPNeighbor_def Let_def
    by (simp add: fullMap_mput typedGroup_def typedNeighbor_def split: option.split)
qed

lemma parseBGP_typed:
  assumes "typedProtocols pc"
  shows "post typedProtocols (parseBGP pc p)"
proof -
  let ?b = "getOr newBGPConfig (pc_BGP pc)" and ?ok = "\<lambda>b. fullMap typedGroup (bgp_Groups b)"
  have b: "?ok ?b"
    by (rule pred_getOr [of ?ok]) (use assms in \<open>simp_all add: typedProtocols_def newBGPConfig_def\<close>)
  have g: "typedGroup k (getOr newBGPGroup (mget (bgp_Groups ?b) k))" for k
    by (rule fullMap_get [of typedGroup, OF b]) (simp add: typedGroup_def newBGPGroup_def)
  have "post ?ok (case r of Inl e \<Rightarrow> Inl e | Inr (g, p') \<Rightarrow> Inr (?b\<lparr>bgp_Groups := mput k g (bgp_Groups ?b)\<rparr>, p'))"
    if "post (typedGroup k) r" for k r
    by (rule post_store [OF that]) (simp add: b fullMap_mput)
  then have "post ?ok (parseBGPGroup ?b q)" for q
    unfolding parseBGPGroup_def Let_def using parseBGP_parts_typed [OF g] by simp
  then have "post typedProtocols (case parseBGPGroup ?b q of Inl e \<Rightarrow> Inl e | Inr (b, p') \<Rightarrow> Inr (pc\<lparr>pc_BGP := Some b\<rparr>, p'))" for q
    by (rule post_store) (use assms in \<open>simp add: typedProtocols_def\<close>)
  then show ?thesis by (simp add: parseBGP_def Let_def)
qed

lemma typed_ospf_update:
  "typedOSPFInterface k i \<Longrightarrow> typedOSPFInterface k (i\<lparr>oi_Passive := True\<rparr>)"
  "typedOSPFInterface k i \<Longrightarrow> typedOSPFInterface k (i\<lparr>oi_Metric := m\<rparr>)"
  "typedOSPFInterface k i \<Longrightarrow> typedOSPFInterface k (i\<lparr>oi_Priority := m, oi_PrioritySet := True\<rparr>)"
  "typedOSPFInterface k i \<Longrightarrow> typedOSPFInterface k (i\<lparr>oi_BFD := True, oi_BFDProfile := s\<rparr>)"
  "typedOSPFInterface k i \<Longrightarrow> typedOSPFInterface k (i\<lparr>oi_BFD := True\<rparr>)"
  by (auto simp: typedOSPFInterface_def)

lemma parseOSPFInterfaceParams_typed:
  "typedOSPFInterface k i \<Longrightarrow> post (typedOSPFInterface k) (parseOSPFInterfaceParams i p)"
proof (induction i p rule: parseOSPFInterfaceParams.induct)
  case (1 i p)
  from "1.prems" show ?case
    by (subst parseOSPFInterfaceParams.simps) (auto simp: Let_def split: option.split intro!: "1.IH" typed_ospf_update)
qed

abbreviation ospfTyped :: "OSPFConfig \<Rightarrow> bool" where
  "ospfTyped x \<equiv> fullMap typedArea (ospf_Areas x)"

lemma parseOSPFArea_typed:
  assumes "ospfTyped x"
  shows "post ospfTyped (parseOSPFArea x p)"
proof -
  have a: "typedArea k (getOr (newOSPFArea k) (mget (ospf_Areas x) k))" for k
    by (rule fullMap_get [of typedArea, OF assms]) (simp add: typedArea_def newOSPFArea_def)
  have i: "typedOSPFInterface n (getOr (newOSPFInterface n) (mget (oa_Interfaces (getOr (newOSPFArea k) (mget (ospf_Areas x) k))) n))" for k n
    by (rule fullMap_get [of typedOSPFInterface])
      (use a [of k] in \<open>simp_all add: typedArea_def typedOSPFInterface_def newOSPFInterface_def\<close>)
  have "post ospfTyped (case r of Inl e \<Rightarrow> Inl e | Inr (i, p') \<Rightarrow>
      Inr (x\<lparr>ospf_Areas := mput k (getOr (newOSPFArea k) (mget (ospf_Areas x) k)\<lparr>oa_Interfaces := mput n i
        (oa_Interfaces (getOr (newOSPFArea k) (mget (ospf_Areas x) k)))\<rparr>) (ospf_Areas x)\<rparr>, p'))"
    if "post (typedOSPFInterface n) r" for r k n
    by (rule post_store [OF that]) (use assms a [of k] in \<open>simp add: fullMap_mput typedArea_def\<close>)
  then show ?thesis
    unfolding parseOSPFArea_def Let_def using parseOSPFInterfaceParams_typed [OF i] by simp
qed

lemma parseOSPFConfig_typed: "ospfTyped x \<Longrightarrow> post ospfTyped (parseOSPFConfig x s p)"
  by (simp add: parseOSPFConfig_def Let_def parseOSPFArea_typed parseOSPFRouterID_def)

lemma parseOSPF_typed:
  assumes "typedProtocols pc"
  shows "post typedProtocols (parseOSPF pc p)" "post typedProtocols (parseOSPF3 pc p)"
proof -
  have x: "ospfTyped (getOr newOSPFConfig (pc_OSPF pc))" "ospfTyped (getOr newOSPFConfig (pc_OSPF3 pc))"
    by (rule pred_getOr [of ospfTyped]; use assms in \<open>simp add: typedProtocols_def newOSPFConfig_def\<close>)+
  show "post typedProtocols (parseOSPF pc p)" "post typedProtocols (parseOSPF3 pc p)"
    unfolding parseOSPF_def parseOSPF3_def
    by (rule post_store [OF parseOSPFConfig_typed], rule x, use assms in \<open>simp add: typedProtocols_def\<close>)+
qed

lemma parseProtocols_typed:
  assumes "pred_option typedProtocols (cfg_Protocols c)"
  shows "post (\<lambda>c'. pred_option typedProtocols (cfg_Protocols c')) (parseProtocols c p)"
proof -
  have pc: "typedProtocols (getOr newProtocolConfig (cfg_Protocols c))"
    by (rule pred_getOr [OF assms]) (simp add: typedProtocols_def newProtocolConfig_def)
  show ?thesis
    unfolding parseProtocols_def Let_def
    by (auto intro!: post_store [of typedProtocols] parseBFD_typed parseBGP_typed parseEVPN_typed parseOSPF_typed
        parseMPLS_typed parseVRRP_typed pc)
qed

section \<open>Policy options\<close>

definition typedTerm :: "PolicyTerm \<Rightarrow> bool" where
  "typedTerm t \<longleftrightarrow>
     pred_option (\<lambda>f. (pm_Protocol f = [] \<or> validateProtocol (pm_Protocol f) = Inr ()) \<and>
       (pm_Neighbor f = [] \<or> validateIPAddress (pm_Neighbor f) = Inr ())) (pt_From t) \<and>
     pred_option (\<lambda>a. pa_Community a = [] \<or> validateCommunity (pa_Community a) = Inr ()) (pt_Then t)"

definition setTerm :: "PolicyTerm option \<Rightarrow> bool" where
  "setTerm x = (case x of None \<Rightarrow> False | Some t \<Rightarrow> typedTerm t)"

definition typedStatement :: "string \<Rightarrow> PolicyStatement \<Rightarrow> bool" where
  "typedStatement k s \<longleftrightarrow> ps_Name s = k \<and> list_all setTerm (ps_Terms s) \<and>
     distinct (map (map_option pt_Name) (ps_Terms s))"

definition typedPrefixList :: "string \<Rightarrow> PrefixList \<Rightarrow> bool" where
  "typedPrefixList k l \<longleftrightarrow> pl_Name l = k \<and> distinct (pl_Prefixes l) \<and> list_all (\<lambda>x. validateCIDR x = Inr ()) (pl_Prefixes l)"

definition typedPolicy :: "PolicyOptions \<Rightarrow> bool" where
  "typedPolicy po \<longleftrightarrow> fullMap typedPrefixList (po_PrefixLists po) \<and> fullMap typedStatement (po_PolicyStatements po)"

lemma typed_newPolicy: "typedPolicy newPolicyOptions"
  by (simp add: typedPolicy_def newPolicyOptions_def)

abbreviation policyTyped :: "Config \<Rightarrow> bool" where
  "policyTyped c \<equiv> pred_option typedPolicy (cfg_PolicyOptions c)"

lemma list_all_appendUnique: "list_all P xs \<Longrightarrow> P v \<Longrightarrow> list_all P (appendUniqueString xs v)"
  by (simp add: appendUniqueString_def)

lemma parsePrefixList_typed:
  assumes "policyTyped c"
  shows "post policyTyped (parsePrefixList c p)"
proof -
  let ?po = "getOr newPolicyOptions (cfg_PolicyOptions c)"
  have po: "typedPolicy ?po" using assms typed_newPolicy by (rule pred_getOr)
  have "typedPrefixList k (getOr (newPrefixList k) (mget (po_PrefixLists ?po) k))" for k
    by (rule fullMap_get [of typedPrefixList]) (use po in \<open>simp_all add: typedPolicy_def typedPrefixList_def newPrefixList_def\<close>)
  with po show ?thesis
    unfolding parsePrefixList_def Let_def
    by (simp add: typedPolicy_def fullMap_mput typedPrefixList_def appendUniqueString_distinct list_all_appendUnique
        split: sum.split)
qed

definition namedTerm :: "string \<Rightarrow> PolicyTerm \<Rightarrow> bool" where
  "namedTerm k t \<longleftrightarrow> typedTerm t \<and> pt_Name t = k"

lemma parsePolicy_parts_typed:
  assumes "namedTerm k t"
  shows "post (namedTerm k) (parsePolicyMatchConditions t p)" "post (namedTerm k) (parsePolicyActions t p)"
proof -
  let ?f = "\<lambda>f. (pm_Protocol f = [] \<or> validateProtocol (pm_Protocol f) = Inr ()) \<and>
       (pm_Neighbor f = [] \<or> validateIPAddress (pm_Neighbor f) = Inr ())"
  let ?a = "\<lambda>a. pa_Community a = [] \<or> validateCommunity (pa_Community a) = Inr ()"
  have "?f (getOr newPolicyMatchConditions (pt_From t))"
    by (rule pred_getOr [of ?f]) (use assms in \<open>simp_all add: namedTerm_def typedTerm_def newPolicyMatchConditions_def\<close>)
  with assms show "post (namedTerm k) (parsePolicyMatchConditions t p)"
    unfolding parsePolicyMatchConditions_def Let_def by (simp add: namedTerm_def typedTerm_def split: sum.split)
  have "?a (getOr newPolicyActions (pt_Then t))"
    by (rule pred_getOr [of ?a]) (use assms in \<open>simp_all add: namedTerm_def typedTerm_def newPolicyActions_def\<close>)
  with assms show "post (namedTerm k) (parsePolicyActions t p)"
    unfolding parsePolicyActions_def Let_def by (simp add: namedTerm_def typedTerm_def split: sum.split option.split)
qed

lemma typed_findTerm:
  assumes "list_all setTerm ts"
  shows "namedTerm k (findTerm k ts)"
proof (cases "filter (isTerm k) ts")
  case Nil
  then show ?thesis
    by (simp add: findTerm_def namedTerm_def typedTerm_def newPolicyTerm_def newPolicyMatchConditions_def newPolicyActions_def)
next
  case (Cons x xs)
  then have "x \<in> set ts" "isTerm k x" by (auto simp: filter_eq_Cons_iff)
  with assms Cons show ?thesis
    by (cases x) (auto simp: findTerm_def namedTerm_def isTerm_def setTerm_def list_all_iff)
qed

lemma putTerm_names:
  "pt_Name t = k \<Longrightarrow> set (map (map_option pt_Name) (putTerm k t ts)) = insert (Some k) (set (map (map_option pt_Name) ts))"
  by (induction ts) (auto simp: isTerm_def split: option.splits)

lemma typed_putTerm:
  assumes "namedTerm k t" "list_all setTerm ts" "distinct (map (map_option pt_Name) ts)"
  shows "list_all setTerm (putTerm k t ts)"
    and "distinct (map (map_option pt_Name) (putTerm k t ts))"
proof -
  show "list_all setTerm (putTerm k t ts)"
    using assms(1,2) by (induction ts) (auto simp: namedTerm_def setTerm_def)
  show "distinct (map (map_option pt_Name) (putTerm k t ts))"
    using assms(3)
  proof (induction ts)
    case (Cons x ts)
    show ?case
    proof (cases "isTerm k x")
      case True
      with Cons.prems assms(1) show ?thesis by (cases x) (auto simp: isTerm_def namedTerm_def)
    next
      case False
      with Cons assms(1) putTerm_names [of t k ts] show ?thesis by (cases x) (auto simp: isTerm_def namedTerm_def)
    qed
  qed simp
qed

lemma parsePolicyStatement_typed:
  assumes "policyTyped c"
  shows "post policyTyped (parsePolicyStatement c p)"
proof -
  let ?po = "getOr newPolicyOptions (cfg_PolicyOptions c)"
  let ?s = "\<lambda>k. getOr (newPolicyStatement k) (mget (po_PolicyStatements ?po) k)"
  have po: "typedPolicy ?po" using assms typed_newPolicy by (rule pred_getOr)
  have s: "typedStatement k (?s k)" for k
    by (rule fullMap_get [of typedStatement]) (use po in \<open>simp_all add: typedPolicy_def typedStatement_def newPolicyStatement_def\<close>)
  have t: "namedTerm n (findTerm n (ps_Terms (?s k)))" for k n
    using s [of k] by (intro typed_findTerm) (simp add: typedStatement_def)
  have "post policyTyped (case r of Inl e \<Rightarrow> Inl e | Inr (t', p') \<Rightarrow> Inr (c\<lparr>cfg_PolicyOptions := Some (?po\<lparr>po_PolicyStatements :=
      mput k (?s k\<lparr>ps_Terms := putTerm n t' (ps_Terms (?s k))\<rparr>) (po_PolicyStatements ?po)\<rparr>)\<rparr>, p'))"
    if "post (namedTerm n) r" for r k n
    by (rule post_store [OF that])
      (use po s [of k] in \<open>simp add: typedPolicy_def typedStatement_def fullMap_mput typed_putTerm\<close>)
  then show ?thesis
    unfolding parsePolicyStatement_def Let_def using parsePolicy_parts_typed [OF t] by simp
qed

lemma parsePolicyOptions_typed: "policyTyped c \<Longrightarrow> post policyTyped (parsePolicyOptions c p)"
  by (simp add: parsePolicyOptions_def Let_def parsePrefixList_typed parsePolicyStatement_typed)

section \<open>Every parsed tree\<close>

definition typedConfig :: "Config \<Rightarrow> bool" where
  "typedConfig c \<longleftrightarrow> fullMap typedInterface (cfg_Interfaces c) \<and>
     pred_option typedRoutingOptions (cfg_RoutingOptions c) \<and> fullMap typedInstance (cfg_RoutingInstances c) \<and>
     pred_option typedProtocols (cfg_Protocols c) \<and> policyTyped c \<and> secTyped c"

text \<open>A statement changes only the section it names.\<close>

lemma parseSystem_frame:
  "post (\<lambda>c'. cfg_Interfaces c' = cfg_Interfaces c \<and> cfg_RoutingOptions c' = cfg_RoutingOptions c \<and> cfg_RoutingInstances c' = cfg_RoutingInstances c \<and> cfg_Protocols c' = cfg_Protocols c \<and>
     cfg_PolicyOptions c' = cfg_PolicyOptions c \<and> cfg_Security c' = cfg_Security c)
     (parseSystem c p)"
  unfolding parseSystem_def parseSystemServices_def Let_def by (simp split: sum.split)

lemma parseChassis_frame:
  "post (\<lambda>c'. cfg_Interfaces c' = cfg_Interfaces c \<and> cfg_RoutingOptions c' = cfg_RoutingOptions c \<and> cfg_RoutingInstances c' = cfg_RoutingInstances c \<and> cfg_Protocols c' = cfg_Protocols c \<and>
     cfg_PolicyOptions c' = cfg_PolicyOptions c \<and> cfg_Security c' = cfg_Security c)
     (parseChassis c p)"
  unfolding parseChassis_def Let_def by (simp split: sum.split)

lemma parseInterfaces_frame:
  "post (\<lambda>c'. cfg_RoutingOptions c' = cfg_RoutingOptions c \<and> cfg_RoutingInstances c' = cfg_RoutingInstances c \<and> cfg_Protocols c' = cfg_Protocols c \<and>
     cfg_PolicyOptions c' = cfg_PolicyOptions c \<and> cfg_Security c' = cfg_Security c)
     (parseInterfaces c p)"
  unfolding parseInterfaces_def Let_def by (simp split: sum.split)

lemma parseRoutingOptions_frame:
  "post (\<lambda>c'. cfg_Interfaces c' = cfg_Interfaces c \<and> cfg_RoutingInstances c' = cfg_RoutingInstances c \<and> cfg_Protocols c' = cfg_Protocols c \<and>
     cfg_PolicyOptions c' = cfg_PolicyOptions c \<and> cfg_Security c' = cfg_Security c)
     (parseRoutingOptions c p)"
  unfolding parseRoutingOptions_def Let_def by (simp split: sum.split)

lemma parseRoutingInstances_frame:
  "post (\<lambda>c'. cfg_Interfaces c' = cfg_Interfaces c \<and> cfg_RoutingOptions c' = cfg_RoutingOptions c \<and> cfg_Protocols c' = cfg_Protocols c \<and>
     cfg_PolicyOptions c' = cfg_PolicyOptions c \<and> cfg_Security c' = cfg_Security c)
     (parseRoutingInstances c p)"
  unfolding parseRoutingInstances_def Let_def by (simp)

lemma parseProtocols_frame:
  "post (\<lambda>c'. cfg_Interfaces c' = cfg_Interfaces c \<and> cfg_RoutingOptions c' = cfg_RoutingOptions c \<and> cfg_RoutingInstances c' = cfg_RoutingInstances c \<and>
     cfg_PolicyOptions c' = cfg_PolicyOptions c \<and> cfg_Security c' = cfg_Security c)
     (parseProtocols c p)"
  unfolding parseProtocols_def Let_def by (simp split: sum.split)

lemma parsePolicyOptions_frame:
  "post (\<lambda>c'. cfg_Interfaces c' = cfg_Interfaces c \<and> cfg_RoutingOptions c' = cfg_RoutingOptions c \<and> cfg_RoutingInstances c' = cfg_RoutingInstances c \<and>
     cfg_Protocols c' = cfg_Protocols c \<and> cfg_Security c' = cfg_Security c)
     (parsePolicyOptions c p)"
  unfolding parsePolicyOptions_def parsePrefixList_def parsePolicyStatement_def Let_def by (simp split: sum.split)

lemma parseClassOfService_frame:
  "post (\<lambda>c'. cfg_Interfaces c' = cfg_Interfaces c \<and> cfg_RoutingOptions c' = cfg_RoutingOptions c \<and> cfg_RoutingInstances c' = cfg_RoutingInstances c \<and> cfg_Protocols c' = cfg_Protocols c \<and>
     cfg_PolicyOptions c' = cfg_PolicyOptions c \<and> cfg_Security c' = cfg_Security c)
     (parseClassOfService c p)"
  unfolding parseClassOfService_def Let_def by (simp split: sum.split)

abbreviation otherThanSecurity :: "Config \<Rightarrow> Config \<Rightarrow> bool" where
  "otherThanSecurity c c' \<equiv> cfg_Interfaces c' = cfg_Interfaces c \<and> cfg_RoutingOptions c' = cfg_RoutingOptions c \<and>
     cfg_RoutingInstances c' = cfg_RoutingInstances c \<and> cfg_Protocols c' = cfg_Protocols c \<and>
     cfg_PolicyOptions c' = cfg_PolicyOptions c"

lemma parseSecurity_parts_frame:
  "post (otherThanSecurity c) (parseSecurityNETCONF c p)" "post (otherThanSecurity c) (parseSecurityUsers hash c p)"
  "post (otherThanSecurity c) (parseSecurityRateLimit c p)"
  unfolding parseSecurityNETCONF_def parseSecurityUsers_def parseSecurityRateLimit_def Let_def
  by (simp_all split: sum.split option.split)

lemma parseSecurity_frame: "post (otherThanSecurity c) (parseSecurity hash c p)"
  by (simp add: parseSecurity_def Let_def parseSecurity_parts_frame)

lemma post_both: "post P r \<Longrightarrow> post Q r \<Longrightarrow> (\<And>x. P x \<Longrightarrow> Q x \<Longrightarrow> R x) \<Longrightarrow> post R r"
  by (auto simp: post_def split: sum.splits)

lemma parseStatement_typed:
  assumes "typedConfig c" and "goodHasher hash"
  shows "post typedConfig (parseStatement hash c p)"
proof -
  note c = assms(1) [unfolded typedConfig_def]
  have "post typedConfig (parseSystem c q)" "post typedConfig (parseChassis c q)" "post typedConfig (parseClassOfService c q)" for q
    by (rule parseSystem_frame [THEN post_mono] parseChassis_frame [THEN post_mono] parseClassOfService_frame [THEN post_mono],
        use c in \<open>simp add: typedConfig_def\<close>)+
  moreover have "post typedConfig (parseInterfaces c q)" "post typedConfig (parseRoutingOptions c q)"
    "post typedConfig (parseRoutingInstances c q)" "post typedConfig (parseProtocols c q)"
    "post typedConfig (parsePolicyOptions c q)" "post typedConfig (parseSecurity hash c q)" for q
    by (rule post_both [OF parseInterfaces_frame parseInterfaces_typed] post_both [OF parseRoutingOptions_frame parseRoutingOptions_typed]
        post_both [OF parseRoutingInstances_frame parseRoutingInstances_typed] post_both [OF parseProtocols_frame parseProtocols_typed]
        post_both [OF parsePolicyOptions_frame parsePolicyOptions_typed] post_both [OF parseSecurity_frame parseSecurity_typed],
        (use c assms(2) in \<open>simp add: typedConfig_def\<close>)+)+
  ultimately show ?thesis by (simp add: parseStatement_def Let_def)
qed

lemma typed_NewConfig: "typedConfig NewConfig"
  by (simp add: typedConfig_def NewConfig_def)

text \<open>The predicate is stated for hashers whose results are stored hashes.\<close>

interpretation tree: statement_invariant hash "\<lambda>c. goodHasher hash \<longrightarrow> typedConfig c"
  by unfold_locales (auto intro: typed_NewConfig postD [OF parseStatement_typed])

lemma Parse_typed: "goodHasher hash \<Longrightarrow> Parse hash s = Inr c \<Longrightarrow> typedConfig c"
  using tree.parsed by blast

end
