(* ===== verification/ModelRoundTrip.thy ===== *)
theory ModelRoundTrip
  imports ModelConvert ParserInvariant
begin

text \<open>
  The two adapters of internal/model/convert.go: a canonical tree survives the way to the legacy
  tree and back, and a tree that the parser built is converted without a nil dereference.
\<close>

section \<open>Canonical trees that the adapters preserve\<close>

abbreviation noNil :: "('k, 'v) gomap \<Rightarrow> bool" where
  "noNil \<equiv> fullMap (\<lambda>_ _. True)"

definition wfServices :: "MSystemServicesConfig \<Rightarrow> bool" where
  "wfServices v \<longleftrightarrow> msvc_WebUI v \<noteq> None \<or> msvc_Prometheus v \<noteq> None \<or> msvc_SNMP v \<noteq> None"

definition wfCluster :: "MClusterConfig \<Rightarrow> bool" where
  "wfCluster cl \<longleftrightarrow> noNil (mcl_Nodes cl) \<and> pred_option (\<lambda>sy. mcs_Etcd sy \<noteq> None) (mcl_Sync cl)"

definition wfMInterface :: "string \<Rightarrow> InterfaceConfig \<Rightarrow> bool" where
  "wfMInterface k i \<longleftrightarrow> fullMap (\<lambda>_ u. noNil (mu_Family u)) (ic_Units i)"

definition wfMProtocols :: "ProtocolsConfig \<Rightarrow> bool" where
  "wfMProtocols pc \<longleftrightarrow> pred_option (\<lambda>b. fullMap (\<lambda>_ g. noNil (mbg_Neighbors g)) (mbgp_Groups b)) (mpc_BGP pc) \<and>
     pred_option (\<lambda>v. noNil (mvrrp_Groups v)) (mpc_VRRP pc)"

definition wfMPolicy :: "PolicyConfig \<Rightarrow> bool" where
  "wfMPolicy po \<longleftrightarrow> noNil (mpo_PrefixLists po) \<and>
     fullMap (\<lambda>_ s. list_all (\<lambda>t. t \<noteq> None) (mps_Terms s)) (mpo_PolicyStatements po)"

definition wfMSecurity :: "MSecurityConfig \<Rightarrow> bool" where
  "wfMSecurity s \<longleftrightarrow> pred_option (\<lambda>nc. mnc_SSH nc \<noteq> None) (msec_NETCONF s) \<and> noNil (msec_Users s)"

definition wfCos :: "MClassOfServiceConfig \<Rightarrow> bool" where
  "wfCos co \<longleftrightarrow> noNil (mcos_ForwardingClasses co) \<and> noNil (mcos_TrafficControlProfiles co) \<and> noNil (mcos_Interfaces co)"

definition wfModel :: "RouterConfig \<Rightarrow> bool" where
  "wfModel c \<longleftrightarrow> pred_option (\<lambda>s. pred_option wfServices (msys_Services s)) (rc_System c) \<and>
     pred_option (\<lambda>ch. mch_Cluster ch \<noteq> None \<and> pred_option wfCluster (mch_Cluster ch)) (rc_Chassis c) \<and>
     fullMap wfMInterface (rc_Interfaces c) \<and>
     pred_option (\<lambda>ro. list_all (\<lambda>r. r \<noteq> None) (mro_StaticRoutes ro)) (rc_Routing c) \<and>
     pred_option wfMProtocols (rc_Protocols c) \<and> noNil (rc_RoutingInstances c) \<and>
     pred_option wfMPolicy (rc_Policy c) \<and> pred_option wfMSecurity (rc_Security c) \<and>
     pred_option wfCos (rc_ClassOfService c)"

section \<open>Out and back, section by section\<close>

lemma derefOpt_inverse:
  assumes "pred_option P x" and "\<And>v. P v \<Longrightarrow> \<exists>w. f v = Some w \<and> g w = Some v"
  shows "\<exists>y. derefOpt f x = Some y \<and> derefOpt g y = Some x"
  using assms by (cases x) (force simp: derefOpt_def)+

lemma derefOpt_total:
  assumes "pred_option P x" and "\<And>v. P v \<Longrightarrow> \<exists>w. f v = Some w"
  shows "\<exists>y. derefOpt f x = Some y"
  using assms by (cases x) (force simp: derefOpt_def)+

lemma systemConvert_inverse:
  assumes "pred_option wfServices (msys_Services s)"
  shows "systemFromLegacy (systemToLegacy s) = s"
proof -
  have "Option.bind (Option.bind (msys_Services s) servicesToLegacy) servicesFromLegacy = msys_Services s"
    using assms by (cases "msys_Services s")
      (auto simp: wfServices_def servicesToLegacy_def servicesFromLegacy_def Let_def option.map_comp comp_def option.map_ident)
  then show ?thesis by (simp add: systemFromLegacy_def systemToLegacy_def)
qed

lemma clusterConvert_inverse: "wfCluster cl \<Longrightarrow> clusterFromLegacy (clusterToLegacy cl) = cl"
  by (cases "mcl_Sync cl") (auto simp: wfCluster_def clusterFromLegacy_def clusterToLegacy_def keepMap_inverse)

lemma chassisConvert_inverse:
  assumes "pred_option (\<lambda>ch. mch_Cluster ch \<noteq> None \<and> pred_option wfCluster (mch_Cluster ch)) x"
  shows "Option.bind x (\<lambda>ch. Option.bind (chassisToLegacy ch) chassisFromLegacy) = x"
  using assms by (cases x) (auto simp: chassisToLegacy_def chassisFromLegacy_def clusterConvert_inverse)

definition unitToLegacy :: "MUnit \<Rightarrow> Unit" where
  "unitToLegacy u = \<lparr>unit_Family = passMap (\<lambda>_ af. \<lparr>fam_Addresses = af_Addresses af\<rparr>) (mu_Family u)\<rparr>"

definition interfaceToLegacy :: "InterfaceConfig \<Rightarrow> Interface" where
  "interfaceToLegacy i = \<lparr>if_Description = ic_Description i, if_Units = passMap (\<lambda>_. unitToLegacy) (ic_Units i)\<rparr>"

lemma foldM_addFamily:
  assumes "noNil fs"
  shows "foldM addFamily fs newUnit = Some \<lparr>unit_Family = passMap (\<lambda>_ af. \<lparr>fam_Addresses = af_Addresses af\<rparr>) fs\<rparr>"
  using foldM_entries [where put = "\<lambda>M. \<lparr>unit_Family = M\<rparr>" and M = "[]" and step = addFamily
      and f = "\<lambda>_ af. \<lparr>fam_Addresses = af_Addresses af\<rparr>", OF assms]
  by (simp add: addFamily_def GetOrCreateFamily_def mget_fresh new_defs)

lemma foldM_addUnit:
  assumes "fullMap (\<lambda>_ u. noNil (mu_Family u)) us"
  shows "foldM addUnit us \<lparr>if_Description = d, if_Units = []\<rparr> =
    Some \<lparr>if_Description = d, if_Units = passMap (\<lambda>_. unitToLegacy) us\<rparr>"
  using foldM_entries [where put = "\<lambda>M. \<lparr>if_Description = d, if_Units = M\<rparr>" and M = "[]" and step = addUnit
      and f = "\<lambda>_. unitToLegacy", OF assms]
  by (simp add: addUnit_def GetOrCreateUnit_def mget_fresh foldM_addFamily unitToLegacy_def)

lemma foldM_addInterface:
  assumes "fullMap wfMInterface ifs"
  shows "foldM addInterface ifs NewConfig = Some (NewConfig\<lparr>cfg_Interfaces := passMap (\<lambda>_. interfaceToLegacy) ifs\<rparr>)"
  using foldM_entries [where put = "\<lambda>M. NewConfig\<lparr>cfg_Interfaces := M\<rparr>" and M = "[]" and step = addInterface
      and f = "\<lambda>_. interfaceToLegacy", OF assms]
  by (simp add: addInterface_def GetOrCreateInterface_def mget_fresh wfMInterface_def interfaceToLegacy_def
      newInterface_def foldM_addUnit) (simp add: NewConfig_def)

lemma interfacesConvert_inverse:
  assumes "fullMap wfMInterface ifs"
  shows "derefMap (\<lambda>_. interfaceFromLegacy) (passMap (\<lambda>_. interfaceToLegacy) ifs) = Some ifs"
proof -
  have u: "unitFromLegacy (unitToLegacy u) = Some u" if "noNil (mu_Family u)" for u
    using derefMap_passMap [OF that, of "\<lambda>_ f. Some (familyFromLegacy f)" "\<lambda>_ af. \<lparr>fam_Addresses = af_Addresses af\<rparr>"]
    by (simp add: unitFromLegacy_def unitToLegacy_def familyFromLegacy_def)
  have i: "interfaceFromLegacy (interfaceToLegacy i) = Some i" if "wfMInterface k i" for k i
    using derefMap_passMap [OF that [unfolded wfMInterface_def], of "\<lambda>_. unitFromLegacy" "\<lambda>_. unitToLegacy"] u
    by (simp add: interfaceFromLegacy_def interfaceToLegacy_def)
  show ?thesis by (rule derefMap_passMap [OF assms]) (rule i)
qed

lemma routingConvert_inverse:
  assumes "list_all (\<lambda>r. r \<noteq> None) (mro_StaticRoutes ro)"
  shows "\<exists>ro'. routingToLegacy ro = Some ro' \<and> routingFromLegacy ro' = Some ro"
proof -
  from assms have "list_all (\<lambda>x. \<exists>v. x = Some v \<and> True) (mro_StaticRoutes ro)" by (simp add: list_all_iff)
  from derefList_inverse [OF this, of "\<lambda>r. Some (staticRouteToLegacy r)" "\<lambda>r. Some (staticRouteFromLegacy r)"]
  obtain rs where "derefList (\<lambda>r. Some (staticRouteToLegacy r)) (mro_StaticRoutes ro) = Some rs"
    "derefList (\<lambda>r. Some (staticRouteFromLegacy r)) rs = Some (mro_StaticRoutes ro)" by auto
  then show ?thesis by (simp add: routingToLegacy_def routingFromLegacy_def)
qed

text \<open>Neighbors come back under the address they were stored under.\<close>

lemma neighborsConvert_inverse:
  assumes "noNil ns"
  shows "\<exists>ns'. derefMap (\<lambda>ip n. Some (bgpNeighborToLegacy ip n)) ns = Some ns' \<and> neighborsFromLegacy ns' = Some ns"
proof -
  let ?ns = "passMap bgpNeighborToLegacy ns"
  have to: "derefMap (\<lambda>ip n. Some (bgpNeighborToLegacy ip n)) ns = Some ?ns"
    using assms by (induction ns) (auto simp: passMap_def fullMap_Cons)
  have full: "fullMap (\<lambda>ip n. bn_IP n = ip) ?ns"
    using assms by (induction ns) (fastforce simp: passMap_def fullMap_Cons bgpNeighborToLegacy_def image_iff)+
  have "neighborsFromLegacy ?ns = Some ([] @ passMap (\<lambda>_. bgpNeighborFromLegacy) ?ns)"
    unfolding neighborsFromLegacy_def
    by (rule foldM_entries [where put = "\<lambda>M. M" and f = "\<lambda>_. bgpNeighborFromLegacy", OF full]) auto
  with to show ?thesis by (simp add: passMap_inverse)
qed

lemma bgpConvert_inverse:
  assumes "fullMap (\<lambda>_ g. noNil (mbg_Neighbors g)) (mbgp_Groups b)"
  shows "\<exists>b'. bgpToLegacy b = Some b' \<and> bgpFromLegacy b' = Some b"
proof -
  have "\<exists>g'. bgpGroupToLegacy g = Some g' \<and> bgpGroupFromLegacy g' = Some g" if "noNil (mbg_Neighbors g)" for g
    using neighborsConvert_inverse [OF that] by (auto simp: bgpGroupToLegacy_def bgpGroupFromLegacy_def)
  from derefMap_inverse [OF assms this]
  show ?thesis by (auto simp: bgpToLegacy_def bgpFromLegacy_def)
qed

lemma ospfConvert_inverse: "ospfFromLegacy (ospfToLegacy x) = x"
proof -
  have i: "ospfInterfaceFromLegacy (ospfInterfaceToLegacy k i) = i" for k i
    by (cases "moi_Priority i") (simp_all add: ospfInterfaceFromLegacy_def ospfInterfaceToLegacy_def)
  show ?thesis by (simp add: ospfFromLegacy_def ospfToLegacy_def passMap_inverse i)
qed

lemma protocolsConvert_inverse:
  assumes "wfMProtocols pc"
  shows "\<exists>pc'. protocolsToLegacy pc = Some pc' \<and> protocolsFromLegacy pc' = Some pc"
proof -
  have "bfdFromLegacy (bfdToLegacy b) = b" "evpnFromLegacy (evpnToLegacy e) = e" "mplsFromLegacy (mplsToLegacy l) = l" for b e l
    by (simp_all add: bfdFromLegacy_def bfdToLegacy_def evpnFromLegacy_def evpnToLegacy_def mplsFromLegacy_def
        mplsToLegacy_def passMap_inverse)
  moreover have "map_option (\<lambda>x. vrrpFromLegacy (vrrpToLegacy x)) (mpc_VRRP pc) = mpc_VRRP pc"
    using assms by (cases "mpc_VRRP pc") (simp_all add: wfMProtocols_def vrrpFromLegacy_def vrrpToLegacy_def keepMap_inverse)
  moreover obtain b where "derefOpt bgpToLegacy (mpc_BGP pc) = Some b" "derefOpt bgpFromLegacy b = Some (mpc_BGP pc)"
    using derefOpt_inverse [OF _ bgpConvert_inverse] assms by (auto simp: wfMProtocols_def)
  ultimately show ?thesis
    by (simp add: protocolsToLegacy_def protocolsFromLegacy_def option.map_comp comp_def ospfConvert_inverse option.map_ident)
qed

lemma termConvert_inverse: "termFromLegacy (termToLegacy t) = t"
  by (simp add: termFromLegacy_def termToLegacy_def option.map_comp comp_def option.map_ident)

lemma policyConvert_inverse:
  assumes "wfMPolicy po"
  shows "\<exists>po'. policyToLegacy po = Some po' \<and> policyFromLegacy po' = Some po"
proof -
  let ?toS = "\<lambda>name s. map_option (\<lambda>ts. \<lparr>ps_Name = name, ps_Terms = ts\<rparr>) (derefList (\<lambda>t. Some (termToLegacy t)) (mps_Terms s))"
  let ?fromS = "\<lambda>_ s. map_option (\<lambda>ts. \<lparr>mps_Terms = ts\<rparr>) (derefList (\<lambda>t. Some (termFromLegacy t)) (ps_Terms s))"
  have st: "\<exists>s'. ?toS k s = Some s' \<and> ?fromS k s' = Some s" if "list_all (\<lambda>t. t \<noteq> None) (mps_Terms s)" for k s
  proof -
    from that have "list_all (\<lambda>x. \<exists>v. x = Some v \<and> True) (mps_Terms s)" by (simp add: list_all_iff)
    from derefList_inverse [OF this, of "\<lambda>t. Some (termToLegacy t)" "\<lambda>t. Some (termFromLegacy t)"]
    show ?thesis by (auto simp: termConvert_inverse)
  qed
  from assms obtain pls where "derefMap (\<lambda>name l. Some \<lparr>pl_Name = name, pl_Prefixes = mpl_Prefixes l\<rparr>) (mpo_PrefixLists po) = Some pls"
    "derefMap (\<lambda>_ l. Some \<lparr>mpl_Prefixes = pl_Prefixes l\<rparr>) pls = Some (mpo_PrefixLists po)"
    using derefMap_inverse [of "\<lambda>_ _. True" "mpo_PrefixLists po" "\<lambda>name l. Some \<lparr>pl_Name = name, pl_Prefixes = mpl_Prefixes l\<rparr>"
        "\<lambda>_ l. Some \<lparr>mpl_Prefixes = pl_Prefixes l\<rparr>"] by (auto simp: wfMPolicy_def)
  moreover from assms obtain pss where "derefMap ?toS (mpo_PolicyStatements po) = Some pss"
    "derefMap ?fromS pss = Some (mpo_PolicyStatements po)"
    using derefMap_inverse [of _ _ ?toS ?fromS, OF _ st] by (auto simp: wfMPolicy_def)
  ultimately show ?thesis by (simp add: policyToLegacy_def policyFromLegacy_def)
qed

lemma securityConvert_inverse:
  assumes "wfMSecurity s"
  shows "\<exists>s'. securityToLegacy s = Some s' \<and> securityFromLegacy s' = Some s"
proof -
  from assms obtain us where "derefMap (\<lambda>name u. Some (userToLegacy name u)) (msec_Users s) = Some us"
    "derefMap (\<lambda>_ u. Some (userFromLegacy u)) us = Some (msec_Users s)"
    using derefMap_inverse [of "\<lambda>_ _. True" "msec_Users s" "\<lambda>name u. Some (userToLegacy name u)" "\<lambda>_ u. Some (userFromLegacy u)"]
    by (auto simp: wfMSecurity_def)
  with assms show ?thesis
    by (cases "msec_NETCONF s")
      (auto simp: wfMSecurity_def securityToLegacy_def securityFromLegacy_def option.map_comp comp_def option.map_ident)
qed

lemma cosConvert_inverse: "wfCos co \<Longrightarrow> cosFromLegacy (cosToLegacy co) = co"
  by (simp add: wfCos_def cosFromLegacy_def cosToLegacy_def keepMap_inverse)

lemma FromLegacy_ToLegacy:
  assumes "wfModel c"
  shows "\<exists>old. ToLegacyConfig (Some c) = Some old \<and> FromLegacyConfig (Some old) = Some c"
proof -
  note wf = assms [unfolded wfModel_def]
  obtain ro where ro: "derefOpt routingToLegacy (rc_Routing c) = Some ro" "derefOpt routingFromLegacy ro = Some (rc_Routing c)"
    using derefOpt_inverse [OF _ routingConvert_inverse] wf by blast
  obtain pc where pc: "derefOpt protocolsToLegacy (rc_Protocols c) = Some pc" "derefOpt protocolsFromLegacy pc = Some (rc_Protocols c)"
    using derefOpt_inverse [OF _ protocolsConvert_inverse] wf by blast
  obtain po where po: "derefOpt policyToLegacy (rc_Policy c) = Some po" "derefOpt policyFromLegacy po = Some (rc_Policy c)"
    using derefOpt_inverse [OF _ policyConvert_inverse] wf by blast
  obtain sec where sec: "derefOpt securityToLegacy (rc_Security c) = Some sec" "derefOpt securityFromLegacy sec = Some (rc_Security c)"
    using derefOpt_inverse [OF _ securityConvert_inverse] wf by blast
  have sys: "map_option (\<lambda>x. systemFromLegacy (systemToLegacy x)) (rc_System c) = rc_System c"
    using wf by (cases "rc_System c") (simp_all add: systemConvert_inverse)
  have cos: "map_option (\<lambda>x. cosFromLegacy (cosToLegacy x)) (rc_ClassOfService c) = rc_ClassOfService c"
    using wf by (cases "rc_ClassOfService c") (simp_all add: cosConvert_inverse)
  have ch: "Option.bind (rc_Chassis c) (\<lambda>ch. Option.bind (chassisToLegacy ch) chassisFromLegacy) = rc_Chassis c"
    using wf by (intro chassisConvert_inverse) blast
  show ?thesis using wf ro pc po sec sys cos ch
    by (simp add: ToLegacyConfig_def FromLegacyConfig_def foldM_addInterface interfacesConvert_inverse
        keepMap_inverse option.map_comp comp_def)
qed

section \<open>Conversion of a parsed tree\<close>

lemma derefList_total:
  assumes "list_all (\<lambda>x. x \<noteq> None) xs" and "\<And>v. \<exists>w. f v = Some w"
  shows "\<exists>ys. derefList f xs = Some ys"
  using assms(1)
proof (induction xs)
  case (Cons x xs)
  then obtain v ys where "x = Some v" "derefList f xs = Some ys" by auto
  with assms(2) [of v] show ?case by auto
qed simp

lemma interfaceFromLegacy_total: "typedInterface k i \<Longrightarrow> \<exists>x. interfaceFromLegacy i = Some x"
proof -
  assume "typedInterface k i"
  then have "fullMap typedUnit (if_Units i)" by (simp add: typedInterface_def)
  moreover have "\<exists>x. unitFromLegacy u = Some x" if "typedUnit n u" for n u
    using derefMap_total [OF that [unfolded typedUnit_def], of "\<lambda>_ f. Some (familyFromLegacy f)"]
    by (auto simp: unitFromLegacy_def)
  ultimately show ?thesis
    using derefMap_total [of typedUnit "if_Units i" "\<lambda>_. unitFromLegacy"] by (auto simp: interfaceFromLegacy_def)
qed

lemma neighborsFromLegacy_total: "fullMap typedNeighbor ns \<Longrightarrow> \<exists>x. neighborsFromLegacy ns = Some x"
  unfolding neighborsFromLegacy_def
  using foldM_entries [where put = "\<lambda>M. M" and M = "[]" and P = typedNeighbor and f = "\<lambda>_. bgpNeighborFromLegacy"
      and m = ns and step = "\<lambda>m (_, p). map_option (\<lambda>n. mput (bn_IP n) (bgpNeighborFromLegacy n) m) p"]
  by (simp add: typedNeighbor_def)

lemma protocolsFromLegacy_total: "typedProtocols pc \<Longrightarrow> \<exists>x. protocolsFromLegacy pc = Some x"
proof -
  assume t: "typedProtocols pc"
  have g: "\<exists>x. bgpGroupFromLegacy g = Some x" if "typedGroup k g" for k g
    using that neighborsFromLegacy_total [of "bg_Neighbors g"] by (auto simp: typedGroup_def bgpGroupFromLegacy_def)
  have "\<exists>x. bgpFromLegacy b = Some x" if "fullMap typedGroup (bgp_Groups b)" for b
    using derefMap_total [OF that, of "\<lambda>_. bgpGroupFromLegacy"] g by (auto simp: bgpFromLegacy_def)
  with t show ?thesis
    using derefOpt_total [of "\<lambda>b. fullMap typedGroup (bgp_Groups b)" "pc_BGP pc" bgpFromLegacy]
    by (auto simp: typedProtocols_def protocolsFromLegacy_def)
qed

lemma policyFromLegacy_total: "typedPolicy po \<Longrightarrow> \<exists>x. policyFromLegacy po = Some x"
proof -
  assume t: "typedPolicy po"
  have "\<exists>x. derefList (\<lambda>t. Some (termFromLegacy t)) (ps_Terms s) = Some x" if "typedStatement k s" for k s
  proof (rule derefList_total)
    show "list_all (\<lambda>x. x \<noteq> None) (ps_Terms s)"
      using that by (auto simp: typedStatement_def setTerm_def list_all_iff split: option.splits)
  qed simp
  then have s: "\<exists>x. map_option (\<lambda>ts. \<lparr>mps_Terms = ts\<rparr>) (derefList (\<lambda>t. Some (termFromLegacy t)) (ps_Terms s)) = Some x"
    if "typedStatement k s" for k s using that by fastforce
  from t show ?thesis
    using derefMap_total [of typedPrefixList "po_PrefixLists po" "\<lambda>_ l. Some \<lparr>mpl_Prefixes = pl_Prefixes l\<rparr>"]
      derefMap_total [of typedStatement "po_PolicyStatements po"
        "\<lambda>_ s. map_option (\<lambda>ts. \<lparr>mps_Terms = ts\<rparr>) (derefList (\<lambda>t. Some (termFromLegacy t)) (ps_Terms s))"] s
    by (auto simp: typedPolicy_def policyFromLegacy_def)
qed

lemma FromLegacy_total:
  assumes "typedConfig c"
  shows "\<exists>m. FromLegacyConfig (Some c) = Some m"
proof -
  note t = assms [unfolded typedConfig_def]
  have r: "\<exists>x. routingFromLegacy ro = Some x" if "typedRoutingOptions ro" for ro
    using derefList_total [of "ro_StaticRoutes ro" "\<lambda>r. Some (staticRouteFromLegacy r)"] that
    by (auto simp: typedRoutingOptions_def routingFromLegacy_def list_all_iff)
  have s: "\<exists>x. securityFromLegacy s = Some x" if "typedSecurity s" for s
    using derefMap_total [of typedUser "sec_Users s" "\<lambda>_ u. Some (userFromLegacy u)"] that
    by (auto simp: typedSecurity_def securityFromLegacy_def)
  from t derefMap_total [of typedInterface "cfg_Interfaces c" "\<lambda>_. interfaceFromLegacy"] interfaceFromLegacy_total
    derefOpt_total [of typedRoutingOptions "cfg_RoutingOptions c" routingFromLegacy, OF _ r]
    derefOpt_total [of typedProtocols "cfg_Protocols c" protocolsFromLegacy, OF _ protocolsFromLegacy_total]
    derefOpt_total [of typedPolicy "cfg_PolicyOptions c" policyFromLegacy, OF _ policyFromLegacy_total]
    derefOpt_total [of typedSecurity "cfg_Security c" securityFromLegacy, OF _ s]
  obtain ifs ro pc po sec where "derefMap (\<lambda>_. interfaceFromLegacy) (cfg_Interfaces c) = Some ifs"
    "derefOpt routingFromLegacy (cfg_RoutingOptions c) = Some ro" "derefOpt protocolsFromLegacy (cfg_Protocols c) = Some pc"
    "derefOpt policyFromLegacy (cfg_PolicyOptions c) = Some po" "derefOpt securityFromLegacy (cfg_Security c) = Some sec"
    by blast
  then show ?thesis by (simp add: FromLegacyConfig_def)
qed

end
