(* ===== verification/TablePlan.thy ===== *)
theory TablePlan
  imports ModelTypes
begin

text \<open>
  internal/model/routing\_instance\_table.go: the VPP table ID of every routing instance, from its
  route distinguisher or from a 32-bit FNV-1a hash of its name with linear probing. Table IDs are
  32-bit words, so that the probe wraps around as in the code.
\<close>

unbundle bit_operations_syntax

section \<open>Table IDs\<close>

text \<open>The UTF-8 bytes of a string of code points below U+0100 (\<open>[]byte(name)\<close>).\<close>

definition utf8 :: "string \<Rightarrow> nat list" where
  "utf8 s = concat (map (\<lambda>c. if runeval c < 128 then [runeval c] else [192 + runeval c div 64, 128 + runeval c mod 64]) s)"

text \<open>\<open>fnv.New32a\<close>, \<open>Write\<close> and \<open>Sum32\<close>\<close>

definition fnv32a :: "nat list \<Rightarrow> 32 word" where
  "fnv32a bs = foldl (\<lambda>h b. (h XOR of_nat b) * 16777619) 2166136261 bs"

definition RoutingInstanceTableID :: "string \<Rightarrow> MRoutingInstance option \<Rightarrow> string + 32 word \<times> bool" where
  "RoutingInstanceTableID name inst =
     (case inst of
        Some i \<Rightarrow>
          if mri_RouteDistinguisher i \<noteq> [] then
            (let rd = mri_RouteDistinguisher i; parts = SplitOn (CHR '':'') rd
             in if length parts \<noteq> 2
                then Inl (''route-distinguisher '' @ Quote rd @ '' must use ASN:number format'')
                else case ParseUint (parts ! 1) 32 of
                  None \<Rightarrow> Inl (''route-distinguisher '' @ Quote rd @ '' does not provide a usable VPP table ID'')
                | Some value \<Rightarrow>
                    if value = 0 then Inl (''route-distinguisher '' @ Quote rd @ '' does not provide a usable VPP table ID'')
                    else Inr (of_nat value, True))
          else Inr (100000 + fnv32a (utf8 name) mod 900000, False)
      | None \<Rightarrow> Inr (100000 + fnv32a (utf8 name) mod 900000, False))"

definition uniqueSortedStrings :: "string list \<Rightarrow> string list" where
  "uniqueSortedStrings values = sort (remdups (filter (\<lambda>v. v \<noteq> []) values))"

record RoutingInstanceTablePlan =
  tp_Name :: string
  tp_TableID :: "32 word"
  tp_Interfaces :: "string list"

section \<open>The plans of all instances\<close>

lemma unat32: "unat (t :: 32 word) < 2 ^ 32"
  using unsigned_less [of t] by simp

lemma unat_next: "t + 1 \<noteq> 0 \<Longrightarrow> unat (t + 1 :: 32 word) = unat t + 1"
  using unatSuc [of t] by (simp add: add.commute)

lemma unat_next_less: "t + 1 \<noteq> 0 \<Longrightarrow> 2 ^ 32 - unat (t + 1 :: 32 word) < 2 ^ 32 - unat t"
  unfolding unat_next using unat32 [of t] by linarith

text \<open>The probe loop: the next free table ID from \<open>tableID\<close> on, or an error at the wrap-around.\<close>

function probeTable :: "(32 word \<times> string) list \<Rightarrow> string \<Rightarrow> bool \<Rightarrow> 32 word \<Rightarrow> string + 32 word" where
  "probeTable usedTables name explicit tableID =
     (case map_of usedTables tableID of None \<Rightarrow> Inr tableID
      | Some owner \<Rightarrow>
          if explicit then Inl (''routing-instance '' @ name @ '': table ID '' @ formatNat (unat tableID) @ '' collides with '' @ owner)
          else if tableID + 1 = 0 then Inl (''routing-instance '' @ name @ '': no usable VPP table ID'')
          else probeTable usedTables name explicit (tableID + 1))"
  by pat_completeness auto
termination
  by (relation "measure (\<lambda>(_, _, _, tableID). 2 ^ 32 - unat tableID)")
    (use unat_next_less in \<open>simp_all del: unat_plus_if'\<close>)

declare probeTable.simps [simp del]

type_synonym plans = "(string \<times> RoutingInstanceTablePlan) list"

text \<open>One iteration of the loop over the sorted names; the state is \<open>usedTables\<close> and \<open>plans\<close>.\<close>

definition planInstance :: "(string, MRoutingInstance) gomap \<Rightarrow> string \<Rightarrow>
    (32 word \<times> string) list \<times> plans \<Rightarrow> string + (32 word \<times> string) list \<times> plans" where
  "planInstance instances name st =
     (case mget instances name of None \<Rightarrow> Inr st
      | Some inst \<Rightarrow>
        if mri_InstanceType inst \<noteq> [] \<and> mri_InstanceType inst \<noteq> ''vrf''
        then Inl (''routing-instance '' @ name @ '': unsupported instance-type '' @ Quote (mri_InstanceType inst))
        else case RoutingInstanceTableID name (Some inst) of
          Inl err \<Rightarrow> Inl (''routing-instance '' @ name @ '': '' @ err)
        | Inr (tableID, explicit) \<Rightarrow>
         (case probeTable (fst st) name explicit tableID of Inl err \<Rightarrow> Inl err
          | Inr tableID \<Rightarrow>
              Inr (AList.update tableID name (fst st),
                   AList.update name \<lparr>tp_Name = name, tp_TableID = tableID,
                     tp_Interfaces = uniqueSortedStrings (mri_Interfaces inst)\<rparr> (snd st))))"

fun planAll :: "(string, MRoutingInstance) gomap \<Rightarrow> string list \<Rightarrow>
    (32 word \<times> string) list \<times> plans \<Rightarrow> string + plans" where
  "planAll instances [] st = Inr (snd st)"
| "planAll instances (name # names) st =
     (case planInstance instances name st of Inl e \<Rightarrow> Inl e | Inr st \<Rightarrow> planAll instances names st)"

definition RoutingInstanceTablePlans :: "(string, MRoutingInstance) gomap \<Rightarrow> string + plans" where
  "RoutingInstanceTablePlans instances =
     (if instances = [] then Inr [] else planAll instances (sort (map fst instances)) ([], []))"

section \<open>Probing\<close>

lemma probe_free: "probeTable used name ex t = Inr t' \<Longrightarrow> map_of used t' = None"
proof (induction used name ex t rule: probeTable.induct)
  case (1 used name ex t)
  then show ?case by (subst (asm) (2) probeTable.simps) (auto split: option.splits if_splits)
qed

lemma probe_above: "probeTable used name ex t = Inr t' \<Longrightarrow> unat t \<le> unat t'"
proof (induction used name ex t rule: probeTable.induct)
  case (1 used name ex t)
  show ?case
  proof (cases "map_of used t = None \<or> ex \<or> t + 1 = 0")
    case True
    then show ?thesis using 1(2) by (subst (asm) probeTable.simps) (auto split: option.splits if_splits)
  next
    case False
    then have "unat t \<le> unat (t + 1)" by (simp add: unat_next)
    moreover have "probeTable used name ex (t + 1) = Inr t'" using 1(2) False
      by (subst (asm) probeTable.simps) (auto split: option.splits if_splits)
    ultimately show ?thesis using 1(1) [of _] False by auto
  qed
qed

lemma probe_explicit: "probeTable used name True t = Inr t' \<Longrightarrow> t' = t"
  by (subst (asm) probeTable.simps) (simp split: option.splits)

text \<open>If the probe fails, every table ID from its start up to the largest one is taken.\<close>

lemma probe_full: "probeTable used name False t = Inl e \<Longrightarrow> unat t \<le> unat u \<Longrightarrow> map_of used u \<noteq> None"
proof (induction used name False t rule: probeTable.induct)
  case (1 used name t)
  from 1(2) have t: "map_of used t \<noteq> None" by (subst (asm) probeTable.simps) (auto split: option.splits)
  show ?case
  proof (cases "u = t")
    case False
    with 1(3) have l: "unat t < unat u" by (simp add: le_less word_unat_eq_iff)
    have n: "t + 1 \<noteq> 0"
    proof
      assume "t + 1 = 0"
      then have "t = - 1" by (simp add: eq_neg_iff_add_eq_0)
      with l unat32 [of u] show False by (simp add: unsigned_minus_1_eq_mask mask_eq_exp_minus_1)
    qed
    with 1(2) t have "probeTable used name False (t + 1) = Inl e" by (subst (asm) probeTable.simps) auto
    with 1(1) t n l unat_next [OF n] show ?thesis by auto
  qed (use t in simp)
qed

section \<open>Base table IDs\<close>

lemma hashed_table: "100000 \<le> unat (100000 + h mod 900000 :: 32 word) \<and> unat (100000 + h mod 900000 :: 32 word) < 1000000"
proof -
  have "unat (h mod 900000) = unat h mod 900000" by (simp add: unat_mod)
  then have "unat (h mod 900000) < 900000" by simp
  then show ?thesis by (simp add: unat_plus_if' )
qed

lemma TableID_range:
  assumes "RoutingInstanceTableID name (Some i) = Inr (t, ex)"
  shows "ex \<longleftrightarrow> mri_RouteDistinguisher i \<noteq> []" and "0 < unat t" and "\<not> ex \<Longrightarrow> 100000 \<le> unat t \<and> unat t < 1000000"
proof -
  have d: "unat (of_nat v :: 32 word) = v" if "ParseUint s 32 = Some v" for s v
    using ParseUint_bounds [OF that] by (simp add: unsigned_of_nat take_bit_nat_eq_self)
  show e: "ex \<longleftrightarrow> mri_RouteDistinguisher i \<noteq> []"
    using assms by (auto simp: RoutingInstanceTableID_def Let_def split: if_splits option.splits)
  show "\<not> ex \<Longrightarrow> 100000 \<le> unat t \<and> unat t < 1000000"
    using assms hashed_table e by (auto simp: RoutingInstanceTableID_def Let_def split: if_splits option.splits)
  show "0 < unat t"
  proof (cases ex)
    case True
    with assms d show ?thesis by (auto simp: RoutingInstanceTableID_def Let_def split: if_splits option.splits)
  next
    case False
    with assms hashed_table e have "100000 \<le> unat t" by (auto simp: RoutingInstanceTableID_def Let_def split: if_splits option.splits)
    then show ?thesis by simp
  qed
qed

lemma set_uniqueSortedStrings: "set (uniqueSortedStrings xs) = set xs - {[]}" "distinct (uniqueSortedStrings xs)" "sorted (uniqueSortedStrings xs)"
  by (auto simp: uniqueSortedStrings_def)

section \<open>The plan invariant\<close>

text \<open>What a plan promises of its instance.\<close>

definition planOf :: "(string, MRoutingInstance) gomap \<Rightarrow> string \<Rightarrow> RoutingInstanceTablePlan \<Rightarrow> bool" where
  "planOf instances n p \<longleftrightarrow> (\<exists>i. mget instances n = Some i \<and> tp_Name p = n \<and> 0 < unat (tp_TableID p) \<and>
     (if mri_RouteDistinguisher i \<noteq> [] then RoutingInstanceTableID n (Some i) = Inr (tp_TableID p, True)
      else 100000 \<le> unat (tp_TableID p)) \<and>
     set (tp_Interfaces p) = set (mri_Interfaces i) - {[]} \<and> distinct (tp_Interfaces p) \<and> sorted (tp_Interfaces p))"

abbreviation tablesOf :: "plans \<Rightarrow> (32 word \<times> string) list" where
  "tablesOf ps \<equiv> map (\<lambda>(n, p). (tp_TableID p, n)) ps"

definition plansOk :: "(string, MRoutingInstance) gomap \<Rightarrow> string list \<Rightarrow> plans \<Rightarrow> bool" where
  "plansOk instances names ps \<longleftrightarrow> map fst ps = filter (\<lambda>n. mget instances n \<noteq> None) names \<and>
     distinct (map (tp_TableID \<circ> snd) ps) \<and> list_all (\<lambda>(n, p). planOf instances n p) ps"

lemma update_fresh: "map_of xs k = None \<Longrightarrow> AList.update k v xs = xs @ [(k, v)]"
  by (induction xs) auto

lemma fst_tablesOf: "fst ` set (tablesOf ps) = set (map (tp_TableID \<circ> snd) ps)"
  by force

lemma planInstance_ok:
  assumes "planInstance instances name (tablesOf ps, ps) = Inr st" and "plansOk instances names ps" and "name \<notin> set names"
  shows "\<exists>ps'. st = (tablesOf ps', ps') \<and> plansOk instances (names @ [name]) ps'"
proof (cases "mget instances name")
  case None
  with assms show ?thesis by (auto simp: planInstance_def plansOk_def)
next
  case (Some i)
  with assms(1) obtain t0 ex t where t: "RoutingInstanceTableID name (Some i) = Inr (t0, ex)"
    "probeTable (tablesOf ps) name ex t0 = Inr t"
    and st: "st = (AList.update t name (tablesOf ps), AList.update name \<lparr>tp_Name = name, tp_TableID = t,
      tp_Interfaces = uniqueSortedStrings (mri_Interfaces i)\<rparr> ps)"
    by (auto simp: planInstance_def split: if_splits sum.splits prod.splits)
  let ?p = "\<lparr>tp_Name = name, tp_TableID = t, tp_Interfaces = uniqueSortedStrings (mri_Interfaces i)\<rparr>"
  have free: "map_of (tablesOf ps) t = None" using probe_free [OF t(2)] .
  have fresh: "map_of ps name = None"
    using assms(2,3) by (auto simp: plansOk_def map_of_eq_None_iff simp flip: list.set_map)
  have "planOf instances name ?p"
    using Some t(1) TableID_range [OF t(1)] probe_above [OF t(2)] probe_explicit t(2)
    by (cases ex) (auto simp: planOf_def set_uniqueSortedStrings)
  moreover have "t \<notin> set (map (tp_TableID \<circ> snd) ps)" using free fst_tablesOf [of ps] by (simp add: map_of_eq_None_iff)
  ultimately have "plansOk instances (names @ [name]) (ps @ [(name, ?p)])"
    using assms(2) Some by (auto simp: plansOk_def)
  moreover have "st = (tablesOf (ps @ [(name, ?p)]), ps @ [(name, ?p)])"
    using st free fresh by (simp add: update_fresh)
  ultimately show ?thesis by blast
qed

lemma planAll_ok:
  "planAll instances ns (tablesOf ps, ps) = Inr res \<Longrightarrow> plansOk instances names ps \<Longrightarrow> distinct (names @ ns) \<Longrightarrow>
   plansOk instances (names @ ns) res"
proof (induction ns arbitrary: ps names)
  case (Cons n ns)
  then obtain st where st: "planInstance instances n (tablesOf ps, ps) = Inr st" "planAll instances ns st = Inr res"
    by (auto split: sum.splits)
  from planInstance_ok [OF st(1) Cons.prems(2)] Cons.prems(3)
  obtain ps' where "st = (tablesOf ps', ps')" "plansOk instances (names @ [n]) ps'" by auto
  with Cons.IH [of ps' "names @ [n]"] st(2) Cons.prems(3) show ?case by simp
qed simp

lemma plans_ok:
  assumes "keys_ok instances" and "RoutingInstanceTablePlans instances = Inr ps"
  shows "plansOk instances (sort (map fst instances)) ps"
proof (cases "instances = []")
  case True
  with assms(2) show ?thesis by (simp add: RoutingInstanceTablePlans_def plansOk_def)
next
  case False
  then show ?thesis using assms planAll_ok [of instances "sort (map fst instances)" "[]" ps "[]"]
    by (simp add: RoutingInstanceTablePlans_def keys_ok_def) (simp add: plansOk_def)
qed

section \<open>Enough table IDs\<close>

lemma unat_of_nat32: "n < 2 ^ 32 \<Longrightarrow> unat (of_nat n :: 32 word) = n"
  by (simp add: unsigned_of_nat take_bit_nat_eq_self)

lemma card_above: "card {u :: 32 word. unat t \<le> unat u} = 2 ^ 32 - unat t"
proof -
  have "{u :: 32 word. unat t \<le> unat u} = of_nat ` {unat t..<2 ^ 32}"
  proof (intro equalityI subsetI)
    fix u :: "32 word" assume "u \<in> {u. unat t \<le> unat u}"
    then show "u \<in> of_nat ` {unat t..<2 ^ 32}" using unat32 [of u] by (intro image_eqI [of _ _ "unat u"]) auto
  qed (auto simp: unsigned_of_nat take_bit_nat_eq_self)
  moreover have "inj_on (of_nat :: nat \<Rightarrow> 32 word) {unat t..<2 ^ 32}"
  proof (rule inj_onI)
    fix a b assume "a \<in> {unat t..<2 ^ 32}" "b \<in> {unat t..<2 ^ 32}" "(of_nat a :: 32 word) = of_nat b"
    then show "a = b" by (metis atLeastLessThan_iff unat_of_nat32)
  qed
  ultimately show ?thesis by (simp add: card_image)
qed

lemma probe_total:
  assumes "length used < 2 ^ 32 - unat t"
  shows "\<exists>t'. probeTable used name False t = Inr t'"
proof (rule ccontr)
  assume "\<not> ?thesis"
  then obtain e where e: "probeTable used name False t = Inl e" by (cases "probeTable used name False t") auto
  then have "{u. unat t \<le> unat u} \<subseteq> fst ` set used" using probe_full by (fastforce simp: map_of_eq_None_iff)
  then have "2 ^ 32 - unat t \<le> card (fst ` set used)" 
    using card_mono [of "fst ` set used" "{u. unat t \<le> unat u}"] by (simp add: card_above)
  moreover have "card (fst ` set used) \<le> length used" 
    using card_length [of "map fst used"] by simp
  ultimately show False using assms by linarith
qed

definition hashedInstance :: "MRoutingInstance \<Rightarrow> bool" where
  "hashedInstance i \<longleftrightarrow> (mri_InstanceType i = [] \<or> mri_InstanceType i = ''vrf'') \<and> mri_RouteDistinguisher i = []"

lemma planInstance_total:
  assumes "\<And>i. mget instances n = Some i \<Longrightarrow> hashedInstance i" and "length used < 2 ^ 32 - 1000000"
  shows "\<exists>st. planInstance instances n (used, ps) = Inr st"
proof (cases "mget instances n")
  case (Some i)
  define t where "t = 100000 + fnv32a (utf8 n) mod 900000"
  from Some assms(1) have i: "hashedInstance i" by simp
  then have t: "RoutingInstanceTableID n (Some i) = Inr (t, False)"
    by (simp add: RoutingInstanceTableID_def hashedInstance_def t_def)
  have "unat t < 1000000" using hashed_table unfolding t_def by blast
  with assms(2) have "length used < 2 ^ 32 - unat t" by linarith
  from probe_total [OF this, of n] obtain t' where "probeTable used n False t = Inr t'" by blast
  with Some t i show ?thesis by (auto simp: planInstance_def hashedInstance_def)
qed (simp add: planInstance_def)

lemma planAll_total:
  assumes "\<And>n i. mget instances n = Some i \<Longrightarrow> hashedInstance i"
  shows "plansOk instances names ps \<Longrightarrow> distinct (names @ ns) \<Longrightarrow> length names + length ns < 2 ^ 32 - 1000000 \<Longrightarrow>
    \<exists>res. planAll instances ns (tablesOf ps, ps) = Inr res"
proof (induction ns arbitrary: ps names)
  case (Cons n ns)
  have "length ps \<le> length names"
    using Cons.prems(1) length_filter_le [of _ names] by (metis plansOk_def length_map)
  with Cons.prems(3) have "length (tablesOf ps) < 2 ^ 32 - 1000000" by simp
  from planInstance_total [of instances n "tablesOf ps" ps, OF assms [of n] this] obtain st where st: "planInstance instances n (tablesOf ps, ps) = Inr st" by blast
  from planInstance_ok [OF st Cons.prems(1)] Cons.prems(2)
  obtain ps' where "st = (tablesOf ps', ps')" "plansOk instances (names @ [n]) ps'" by auto
  with Cons.IH [of "names @ [n]" ps'] Cons.prems(2,3) st show ?case by simp
qed simp

lemma mget_order: "keys_ok m \<Longrightarrow> keys_ok m' \<Longrightarrow> set m = set m' \<Longrightarrow> mget m = mget m'"
  using map_of_inject_set [of m m'] by (simp add: mget_def keys_ok_def fun_eq_iff)

section \<open>Properties\<close>

text \<open>
  C17. Sound table plans: when planning succeeds, exactly the instances that are present have a
  plan, no two of them share a table ID, no ID is 0, an instance with a route distinguisher has
  the number of its distinguisher, one without has an ID of at least 100000, and the interface
  list is the set of the instance's nonempty interface names, sorted.
\<close>

theorem table_plans_sound:
  assumes "keys_ok instances" and "RoutingInstanceTablePlans instances = Inr ps"
  shows "map fst ps = filter (\<lambda>n. mget instances n \<noteq> None) (sort (map fst instances)) \<and>
    distinct (map (tp_TableID \<circ> snd) ps) \<and> list_all (\<lambda>(n, p). planOf instances n p) ps"
  using plans_ok [OF assms] by (simp add: plansOk_def)

definition sampleInstance :: "string \<Rightarrow> MRoutingInstance" where
  "sampleInstance rd = \<lparr>mri_InstanceType = ''vrf'', mri_RouteDistinguisher = rd, mri_VRFTarget = [],
     mri_VRFTargetImport = [], mri_VRFTargetExport = [], mri_VRFImport = [], mri_VRFExport = [],
     mri_Interfaces = [''b'', ''a'', ''b'']\<rparr>"

lemma sampleInstance_plan:
  "RoutingInstanceTablePlans [(''red'', Some (sampleInstance ''65000:7''))] =
    Inr [(''red'', \<lparr>tp_Name = ''red'', tp_TableID = 7, tp_Interfaces = [''a'', ''b'']\<rparr>)]"
  by (simp add: RoutingInstanceTablePlans_def planInstance_def RoutingInstanceTableID_def sampleInstance_def mget_def ParseUint_def
      digitsVal_def digitVal_def rune_class_defs probeTable.simps uniqueSortedStrings_def less_eq_char_def less_char_def)

theorem table_plans_sound_witness:
  "list_all (\<lambda>(n, p). planOf [(''red'', Some (sampleInstance ''65000:7''))] n p)
     [(''red'', \<lparr>tp_Name = ''red'', tp_TableID = 7, tp_Interfaces = [''a'', ''b'']\<rparr>)]"
  using table_plans_sound [OF _ sampleInstance_plan] by (simp add: keys_ok_def)

text \<open>
  C18. Planning succeeds: with fewer than \<open>2^32 - 1000000\<close> instances, all of type vrf and none with
  a route distinguisher, the probe for a free table ID always ends with one and never wraps around.
\<close>

theorem table_plans_total:
  assumes "keys_ok instances" and "\<And>n i. mget instances n = Some i \<Longrightarrow> hashedInstance i"
    and "length instances < 2 ^ 32 - 1000000"
  shows "\<exists>ps. RoutingInstanceTablePlans instances = Inr ps"
proof -
  have "plansOk instances [] []" by (simp add: plansOk_def)
  from planAll_total [of instances "[]" "[]" "sort (map fst instances)", OF assms(2) this] assms(1,3) show ?thesis
    by (simp add: RoutingInstanceTablePlans_def keys_ok_def)
qed

theorem table_plans_total_witness:
  "\<exists>ps. RoutingInstanceTablePlans [(''red'', Some (sampleInstance [])), (''blue'', None)] = Inr ps"
  by (rule table_plans_total)
    (auto simp: keys_ok_def mget_def hashedInstance_def sampleInstance_def split: if_splits)

text \<open>
  C19. Table plans do not depend on the enumeration order of the map of instances, so that a
  restart assigns the same table IDs.
\<close>

theorem table_plans_deterministic:
  assumes "keys_ok m" and "keys_ok m'" and "set m = set m'"
  shows "RoutingInstanceTablePlans m = RoutingInstanceTablePlans m'"
proof -
  have "planAll m ns st = planAll m' ns st" for ns st
    by (induction ns arbitrary: st) (simp_all add: planInstance_def mget_order [OF assms] split: sum.split)
  moreover have "sort (map fst m) = sort (map fst m')"
    using assms by (intro sort_distinct_set) (auto simp: keys_ok_def)
  moreover have "m = [] \<longleftrightarrow> m' = []" using assms(3) by (metis set_empty)
  ultimately show ?thesis by (simp add: RoutingInstanceTablePlans_def)
qed

theorem table_plans_deterministic_witness:
  "RoutingInstanceTablePlans [(''a'', Some (sampleInstance [])), (''b'', None)] =
   RoutingInstanceTablePlans [(''b'', None), (''a'', Some (sampleInstance []))]"
  by (rule table_plans_deterministic) (auto simp: keys_ok_def)

end
