(* ===== verification/Framing.thy ===== *)
theory Framing
  imports GoLib
begin

text \<open>
  pkg/netconf/framing.go: the base:1.0 (end-of-message marker) and base:1.1 (chunked) framing of
  NETCONF messages. A byte is a \<open>char\<close>. The reader's source is the list of bytes still to come, its
  end is the end of the stream; every function returns its result and the source after it. The
  writer's destination is an \<open>io.Writer\<close>: a state and a \<open>Write\<close> that returns an error or nil and the
  next state.
\<close>

section \<open>Constants and errors\<close>

definition MaxChunkSize :: nat where "MaxChunkSize = 4096"
definition MaxMessageSize :: nat where "MaxMessageSize = 16 * 1024 * 1024"
definition MaxChunkHeaderLength :: nat where "MaxChunkHeaderLength = 64"
definition EOMMarker :: string where "EOMMarker = '']]>]]>''"
definition chunkEndLine :: string where "chunkEndLine = ''##'' @ [newline]"
definition ChunkEnd :: string where "ChunkEnd = newline # chunkEndLine"

datatype ioError = EOF | UnexpectedEOF | WriterError string

datatype FramingError =
    NotInitialized string | IOError ioError | Wrapped string FramingError | LineTooLong nat
  | NoChunks | BadHeader string | EmptySize | BadSize string | SizeRange string
  | ChunkTooLarge nat nat | MessageTooLarge nat nat | BadSeparator char | ContainsMarker

section \<open>Reading\<close>

fun ReadByte :: "string \<Rightarrow> (ioError + char) \<times> string" where
  "ReadByte [] = (Inl EOF, [])"
| "ReadByte (b # src) = (Inr b, src)"

definition ReadFull :: "nat \<Rightarrow> string \<Rightarrow> (ioError + string) \<times> string" where
  "ReadFull n src =
     (if n \<le> length src then (Inr (take n src), drop n src)
      else (Inl (if src = [] then EOF else UnexpectedEOF), []))"

fun readBoundedLineLoop :: "nat \<Rightarrow> nat \<Rightarrow> string \<Rightarrow> string \<Rightarrow> (FramingError + string) \<times> string" where
  "readBoundedLineLoop maxLen 0 line src = (Inl (LineTooLong maxLen), src)"
| "readBoundedLineLoop maxLen (Suc i) line src =
     (case ReadByte src of (Inl e, src) \<Rightarrow> (Inl (IOError e), src)
      | (Inr b, src) \<Rightarrow> if b = newline then (Inr (line @ [b]), src)
          else readBoundedLineLoop maxLen i (line @ [b]) src)"

definition readBoundedLine :: "nat \<Rightarrow> string \<Rightarrow> (FramingError + string) \<times> string" where
  "readBoundedLine maxLen src = readBoundedLineLoop maxLen maxLen [] src"

definition parseChunkSize :: "string \<Rightarrow> FramingError + nat" where
  "parseChunkSize value =
     (if value = [] then Inl EmptySize
      else if \<not> isDigit (hd value) \<or> hd value = CHR ''0'' then Inl (BadSize value)
      else if \<not> list_all isDigit (tl value) then Inl (BadSize value)
      else if digitsVal value < 2 ^ 63 then Inr (digitsVal value) else Inl (SizeRange value))"

definition readChunkSeparator :: "string \<Rightarrow> FramingError option \<times> string" where
  "readChunkSeparator src =
     (case ReadByte src of (Inl e, src) \<Rightarrow> (Some (Wrapped ''read chunk separator'' (IOError e)), src)
      | (Inr b, src) \<Rightarrow> (if b \<noteq> newline then Some (BadSeparator b) else None, src))"

lemma readBoundedLineLoop_le: "readBoundedLineLoop m n line src = (r, src') \<Longrightarrow> length src' \<le> length src"
proof (induction m n line src arbitrary: r src' rule: readBoundedLineLoop.induct)
  case (2 m i line src)
  then show ?case by (cases src) (auto split: if_splits simp: le_SucI)
qed simp

lemma readBoundedLine_le: "readBoundedLine m src = (r, src') \<Longrightarrow> length src' \<le> length src"
  by (simp add: readBoundedLine_def readBoundedLineLoop_le)

lemma readChunkSeparator_less: "readChunkSeparator src = (None, src') \<Longrightarrow> src = newline # src'"
  by (cases src) (auto simp: readChunkSeparator_def split: if_splits)

lemma ReadFull_le: "ReadFull n src = (r, src') \<Longrightarrow> length src' \<le> length src"
  by (auto simp: ReadFull_def split: if_splits)

text \<open>The loop of \<open>readChunkedMessage\<close>; the total size stays far below the range of \<open>int64\<close>.\<close>

function readChunks :: "string \<Rightarrow> nat \<Rightarrow> nat \<Rightarrow> string \<Rightarrow> (FramingError + string) \<times> string" where
  "readChunks buffer totalSize chunksRead src =
     (case readChunkSeparator src of (Some e, src) \<Rightarrow> (Inl e, src)
      | (None, src) \<Rightarrow>
     (case readBoundedLine MaxChunkHeaderLength src of (Inl e, src) \<Rightarrow> (Inl (Wrapped ''read chunk header'' e), src)
      | (Inr line, src) \<Rightarrow>
        if line = chunkEndLine then (if chunksRead = 0 then Inl NoChunks else Inr buffer, src)
        else if length line < 3 \<or> hd line \<noteq> CHR ''#'' \<or> last line \<noteq> newline then (Inl (BadHeader line), src)
        else
     (case parseChunkSize (butlast (tl line)) of Inl e \<Rightarrow> (Inl e, src)
      | Inr chunkSize \<Rightarrow>
        if MaxMessageSize < chunkSize then (Inl (ChunkTooLarge chunkSize MaxMessageSize), src)
        else if MaxMessageSize < totalSize + chunkSize
          then (Inl (MessageTooLarge (totalSize + chunkSize) MaxMessageSize), src)
        else
     (case ReadFull chunkSize src of (Inl e, src) \<Rightarrow> (Inl (Wrapped ''read chunk data'' (IOError e)), src)
      | (Inr chunkData, src) \<Rightarrow>
          readChunks (buffer @ chunkData) (totalSize + chunkSize) (chunksRead + 1) src))))"
  by pat_completeness auto
termination
  by (relation "measure (\<lambda>(_, _, _, src). length src)")
    (auto dest!: readChunkSeparator_less [OF sym] readBoundedLine_le [OF sym] ReadFull_le [OF sym])

declare readChunks.simps [simp del]

definition readChunkedMessage :: "string \<Rightarrow> (FramingError + string) \<times> string" where
  "readChunkedMessage src = readChunks [] 0 0 src"

fun readEOMLoop :: "string \<Rightarrow> nat \<Rightarrow> string \<Rightarrow> (FramingError + string) \<times> string" where
  "readEOMLoop buffer totalSize [] = (Inl (Wrapped ''read byte'' (IOError EOF)), [])"
| "readEOMLoop buffer totalSize (b # src) =
     (let buffer = buffer @ [b]; totalSize = totalSize + 1
      in if MaxMessageSize < totalSize then (Inl (MessageTooLarge totalSize MaxMessageSize), src)
         else if length EOMMarker \<le> length buffer \<and> drop (length buffer - length EOMMarker) buffer = EOMMarker
         then (Inr (take (length buffer - length EOMMarker) buffer), src)
         else readEOMLoop buffer totalSize src)"

declare readEOMLoop.simps [simp del]

definition readEOMMessage :: "string \<Rightarrow> (FramingError + string) \<times> string" where
  "readEOMMessage src = readEOMLoop [] 0 src"

text \<open>A nil reader is a reader without a source.\<close>

record FramingReader =
  fr_reader :: "string option"
  fr_baseVersion :: string

definition NewFramingReader :: "string option \<Rightarrow> string \<Rightarrow> FramingReader" where
  "NewFramingReader r baseVersion = \<lparr>fr_reader = r, fr_baseVersion = baseVersion\<rparr>"

definition ReaderSetBaseVersion :: "string \<Rightarrow> FramingReader option \<Rightarrow> FramingReader option" where
  "ReaderSetBaseVersion baseVersion fr = map_option (fr_baseVersion_update (\<lambda>_. baseVersion)) fr"

definition ReadMessage :: "FramingReader option \<Rightarrow> (FramingError + string) \<times> FramingReader option" where
  "ReadMessage fr =
     (case fr of None \<Rightarrow> (Inl (NotInitialized ''framing reader is not initialized''), fr)
      | Some r \<Rightarrow>
     (case fr_reader r of None \<Rightarrow> (Inl (NotInitialized ''framing reader is not initialized''), fr)
      | Some src \<Rightarrow>
        (let (result, src') = (if fr_baseVersion r = ''1.1'' then readChunkedMessage src else readEOMMessage src)
         in (result, Some (r\<lparr>fr_reader := Some src'\<rparr>)))))"

section \<open>Writing\<close>

type_synonym 's writeFun = "string \<Rightarrow> 's \<Rightarrow> string option \<times> 's"

text \<open>One call of \<open>Write\<close> whose error is wrapped, followed by the rest of the function.\<close>

definition writeThen :: "'s writeFun \<Rightarrow> string \<Rightarrow> string \<Rightarrow> 's \<Rightarrow> ('s \<Rightarrow> FramingError option \<times> 's) \<Rightarrow> FramingError option \<times> 's" where
  "writeThen Write what d s k =
     (case Write d s of (Some e, s) \<Rightarrow> (Some (Wrapped what (IOError (WriterError e))), s) | (None, s) \<Rightarrow> k s)"

function writeChunks :: "'s writeFun \<Rightarrow> string \<Rightarrow> 's \<Rightarrow> FramingError option \<times> 's" where
  "writeChunks Write data s =
     (if data = [] then writeThen Write ''write chunk end'' ChunkEnd s (Pair None)
      else let chunkSize = (if MaxChunkSize < length data then MaxChunkSize else length data)
        in writeThen Write ''write chunk header'' ([newline] @ ''#'' @ formatNat chunkSize @ [newline]) s (\<lambda>s.
           writeThen Write ''write chunk data'' (take chunkSize data) s (\<lambda>s.
           writeChunks Write (drop chunkSize data) s)))"
  by pat_completeness auto
termination
  by (relation "measure (\<lambda>(_, data, _). length data)") (auto simp: MaxChunkSize_def)

declare writeChunks.simps [simp del]

definition writeChunkedMessage :: "'s writeFun \<Rightarrow> string \<Rightarrow> 's \<Rightarrow> FramingError option \<times> 's" where
  "writeChunkedMessage Write data s = (if data = [] then (Some NoChunks, s) else writeChunks Write data s)"

text \<open>\<open>bytes.Contains\<close>\<close>

definition Contains :: "string \<Rightarrow> string \<Rightarrow> bool" where
  "Contains s sub = list_ex (\<lambda>i. take (length sub) (drop i s) = sub) [0..<length s + 1]"

definition writeEOMMessage :: "'s writeFun \<Rightarrow> string \<Rightarrow> 's \<Rightarrow> FramingError option \<times> 's" where
  "writeEOMMessage Write data s =
     (if Contains data EOMMarker then (Some ContainsMarker, s)
      else writeThen Write ''write message'' data s (\<lambda>s. writeThen Write ''write EOM marker'' EOMMarker s (Pair None)))"

record 's FramingWriter =
  fw_writer :: "'s option"
  fw_baseVersion :: string

definition NewFramingWriter :: "'s option \<Rightarrow> string \<Rightarrow> 's FramingWriter" where
  "NewFramingWriter w baseVersion = \<lparr>fw_writer = w, fw_baseVersion = baseVersion\<rparr>"

definition WriterSetBaseVersion :: "string \<Rightarrow> 's FramingWriter option \<Rightarrow> 's FramingWriter option" where
  "WriterSetBaseVersion baseVersion fw = map_option (fw_baseVersion_update (\<lambda>_. baseVersion)) fw"

definition WriteMessage :: "'s writeFun \<Rightarrow> string \<Rightarrow> 's FramingWriter option \<Rightarrow> FramingError option \<times> 's FramingWriter option" where
  "WriteMessage Write data fw =
     (case fw of None \<Rightarrow> (Some (NotInitialized ''framing writer is not initialized''), fw)
      | Some w \<Rightarrow>
     (case fw_writer w of None \<Rightarrow> (Some (NotInitialized ''framing writer is not initialized''), fw)
      | Some s \<Rightarrow>
        (let (err, s') = (if fw_baseVersion w = ''1.1'' then writeChunkedMessage Write data s else writeEOMMessage Write data s)
         in (err, Some (w\<lparr>fw_writer := Some s'\<rparr>)))))"

section \<open>The text of a message\<close>

text \<open>What the writer must put on the wire.\<close>

function chunked :: "string \<Rightarrow> string" where
  "chunked data =
     (if data = [] then ChunkEnd
      else let n = min MaxChunkSize (length data)
        in [newline] @ ''#'' @ formatNat n @ [newline] @ take n data @ chunked (drop n data))"
  by pat_completeness auto
termination by (relation "measure length") (auto simp: MaxChunkSize_def)

declare chunked.simps [simp del]

definition framed :: "string \<Rightarrow> string \<Rightarrow> string" where
  "framed baseVersion data = (if baseVersion = ''1.1'' then chunked data else data @ EOMMarker)"

definition sendable :: "string \<Rightarrow> string \<Rightarrow> bool" where
  "sendable baseVersion data = (if baseVersion = ''1.1'' then data \<noteq> [] else \<not> Contains data EOMMarker)"

text \<open>The contract of the destination: a write without error appends its bytes.\<close>

locale byte_sink =
  fixes Write :: "'s writeFun" and content :: "'s \<Rightarrow> string"
  assumes appends: "Write d s = (None, s') \<Longrightarrow> content s' = content s @ d"
begin

lemma writeThen_ok:
  assumes "writeThen Write what d s k = (None, s')"
  shows "\<exists>s1. content s1 = content s @ d \<and> k s1 = (None, s')"
proof -
  obtain r s1 where "Write d s = (r, s1)" by (cases "Write d s")
  with assms show ?thesis using appends [of d s s1] by (cases r) (auto simp: writeThen_def)
qed

lemma writeChunks_content: "writeChunks Write data s = (None, s') \<Longrightarrow> content s' = content s @ chunked data"
proof (induction "length data" arbitrary: data s rule: less_induct)
  case less
  show ?case
  proof (cases "data = []")
    case True
    then show ?thesis using less.prems by (auto simp: writeChunks.simps [of _ "[]"] chunked.simps [of "[]"] dest!: writeThen_ok)
  next
    case False
    define n where "n = min MaxChunkSize (length data)"
    have n: "(if MaxChunkSize < length data then MaxChunkSize else length data) = n" by (simp add: n_def)
    from less.prems False have "writeThen Write ''write chunk header'' ([newline] @ ''#'' @ formatNat n @ [newline]) s (\<lambda>s.
        writeThen Write ''write chunk data'' (take n data) s (\<lambda>s. writeChunks Write (drop n data) s)) = (None, s')"
      unfolding writeChunks.simps [of _ data] Let_def n by simp
    then obtain s1 s2 where c: "content s1 = content s @ [newline] @ ''#'' @ formatNat n @ [newline]"
      "content s2 = content s1 @ take n data" "writeChunks Write (drop n data) s2 = (None, s')"
      by (blast dest: writeThen_ok)
    have "length (drop n data) < length data" using False by (simp add: n_def MaxChunkSize_def)
    from less.hyps [OF this c(3)] c(1,2) show ?thesis
      using False unfolding chunked.simps [of data] Let_def n_def [symmetric] by simp
  qed
qed

text \<open>A message that is written without error is on the wire as its frame, and only a sendable one is.\<close>

lemma WriteMessage_content:
  assumes "WriteMessage Write data (Some \<lparr>fw_writer = Some s, fw_baseVersion = v\<rparr>) = (None, fw)"
  shows "sendable v data \<and> (\<exists>s'. fw = Some \<lparr>fw_writer = Some s', fw_baseVersion = v\<rparr> \<and> content s' = content s @ framed v data)"
  using assms unfolding WriteMessage_def
  by (auto simp: sendable_def framed_def writeChunkedMessage_def writeEOMMessage_def Let_def
      split: prod.splits if_splits dest!: writeChunks_content writeThen_ok)

end

text \<open>\<open>bytes.Buffer\<close> as the destination: it grows and never fails.\<close>

definition bufferWrite :: "string writeFun" where
  "bufferWrite d s = (None, s @ d)"

interpretation buf: byte_sink bufferWrite "\<lambda>s. s"
  by unfold_locales (simp add: bufferWrite_def)

lemma bufferWrite_total: "sendable v data \<Longrightarrow> \<exists>fw. WriteMessage bufferWrite data (Some \<lparr>fw_writer = Some s, fw_baseVersion = v\<rparr>) = (None, fw)"
proof -
  have "\<exists>s'. writeChunks bufferWrite data s = (None, s')" for data s
  proof (induction "length data" arbitrary: data s rule: less_induct)
    case less
    show ?case
    proof (cases "data = []")
      case False
      then have "length (drop (if MaxChunkSize < length data then MaxChunkSize else length data) data) < length data"
        by (auto simp: MaxChunkSize_def)
      from less.hyps [OF this] show ?thesis
        by (subst writeChunks.simps) (simp add: Let_def writeThen_def bufferWrite_def)
    qed (simp add: writeChunks.simps [of _ "[]"] writeThen_def bufferWrite_def)
  qed
  then show "sendable v data \<Longrightarrow> ?thesis"
    by (auto simp: WriteMessage_def sendable_def writeChunkedMessage_def writeEOMMessage_def writeThen_def bufferWrite_def
        split: prod.splits) (metis prod.inject)+
qed

section \<open>Reading a frame back\<close>

lemma formatNat_length: "n < 10 ^ Suc k \<Longrightarrow> length (formatNat n) \<le> Suc k"
proof (induction k arbitrary: n)
  case 0
  then show ?case by (subst formatNat.simps) simp
next
  case (Suc k)
  then have "n div 10 < 10 ^ Suc k" by (auto simp: div_less_iff_less_mult)
  with Suc.IH show ?case by (subst formatNat.simps) simp
qed

lemma digitChar_inj0: "n < 10 \<Longrightarrow> digitChar n = CHR ''0'' \<Longrightarrow> n = 0"
  using runeval_digitChar [of n] by (simp add: runeval_def)

lemma formatNat_nonzero: "0 < n \<Longrightarrow> hd (formatNat n) \<noteq> CHR ''0''"
proof (induction n rule: formatNat.induct)
  case (1 n)
  then show ?case using digitChar_inj0 [of n] by (subst formatNat.simps) (auto simp: hd_append)
qed

lemma parseChunkSize_formatNat:
  assumes "0 < n" and "n < 2 ^ 63"
  shows "parseChunkSize (formatNat n) = Inr n"
proof -
  have "list_all isDigit (tl (formatNat n))" using formatNat_digits [of n] by (cases "formatNat n") simp_all
  with assms hd_formatNat [of n] formatNat_nonzero [of n] show ?thesis by (simp add: parseChunkSize_def)
qed

lemma readBoundedLineLoop_line:
  "newline \<notin> set l \<Longrightarrow> length l < n \<Longrightarrow> readBoundedLineLoop m n acc (l @ newline # rest) = (Inr (acc @ l @ [newline]), rest)"
proof (induction l arbitrary: n acc)
  case Nil
  then show ?case by (cases n) simp_all
next
  case (Cons c l)
  then have "c \<noteq> newline" by auto
  with Cons show ?case by (cases n) simp_all
qed

lemma newline_no_digit: "list_all isDigit l \<Longrightarrow> newline \<notin> set l"
  by (auto simp: list_all_iff isDigit_def runeval_def)


lemma read_header:
  assumes "0 < n" and "n \<le> MaxChunkSize"
  shows "readChunkSeparator ([newline] @ ''#'' @ formatNat n @ [newline] @ rest) = (None, ''#'' @ formatNat n @ [newline] @ rest)"
    and "readBoundedLine MaxChunkHeaderLength (''#'' @ formatNat n @ [newline] @ rest) = (Inr (''#'' @ formatNat n @ [newline]), rest)"
proof -
  have l: "length (formatNat n) \<le> Suc 3" using assms(2) by (intro formatNat_length) (simp add: MaxChunkSize_def)
  from readBoundedLineLoop_line [of "''#'' @ formatNat n" MaxChunkHeaderLength MaxChunkHeaderLength "[]" rest]
  show "readBoundedLine MaxChunkHeaderLength (''#'' @ formatNat n @ [newline] @ rest) = (Inr (''#'' @ formatNat n @ [newline]), rest)"
    using l newline_no_digit [OF formatNat_digits] by (simp add: readBoundedLine_def MaxChunkHeaderLength_def)
qed (simp add: readChunkSeparator_def)

lemma read_end: "0 < k \<Longrightarrow> readChunks buffer sz k (ChunkEnd @ rest) = (Inr buffer, rest)"
  using readBoundedLineLoop_line [of "''##''" MaxChunkHeaderLength MaxChunkHeaderLength "[]" rest]
  by (subst readChunks.simps)
    (simp add: ChunkEnd_def chunkEndLine_def readChunkSeparator_def readBoundedLine_def MaxChunkHeaderLength_def)

lemma read_chunk:
  assumes "d \<noteq> []" and "length d \<le> MaxChunkSize" and "sz + length d \<le> MaxMessageSize"
  shows "readChunks buffer sz k ([newline] @ ''#'' @ formatNat (length d) @ [newline] @ d @ rest) =
    readChunks (buffer @ d) (sz + length d) (k + 1) rest"
proof -
  have p: "0 < length d" "length d < 2 ^ 63" using assms by (simp_all add: MaxChunkSize_def)
  have "''#'' @ formatNat (length d) @ [newline] \<noteq> chunkEndLine"
    using hd_formatNat [of "length d"] formatNat_ne [of "length d"]
    by (cases "formatNat (length d)") (auto simp: chunkEndLine_def isDigit_def runeval_def)
  moreover have "Suc 0 \<le> length (formatNat (length d))" using formatNat_ne [of "length d"] by (cases "formatNat (length d)") simp_all
  moreover have "\<not> MaxMessageSize < length d" using assms(3) by simp
  ultimately show ?thesis using assms parseChunkSize_formatNat [OF p]
    by (subst readChunks.simps) (simp add: read_header [OF p(1) assms(2), simplified] ReadFull_def butlast_append)
qed

lemma readChunks_chunked:
  "sz + length data \<le> MaxMessageSize \<Longrightarrow> 0 < k \<or> data \<noteq> [] \<Longrightarrow>
   readChunks buffer sz k (chunked data @ rest) = (Inr (buffer @ data), rest)"
proof (induction "length data" arbitrary: data buffer sz k rule: less_induct)
  case less
  show ?case
  proof (cases "data = []")
    case False
    define n where "n = min MaxChunkSize (length data)"
    have n: "take n data \<noteq> []" "length (take n data) = n" "n \<le> MaxChunkSize" "n \<le> length data" "length (drop n data) < length data"
      using False by (simp_all add: n_def MaxChunkSize_def)
    have "readChunks buffer sz k (chunked data @ rest) = readChunks (buffer @ take n data) (sz + n) (k + 1) (chunked (drop n data) @ rest)"
      using read_chunk [of "take n data" sz buffer k "chunked (drop n data) @ rest"] n less.prems False
      unfolding chunked.simps [of data] Let_def n_def [symmetric] by simp
    with less.hyps [OF n(5), of "sz + n" "k + 1" "buffer @ take n data"] n less.prems show ?thesis by simp
  qed (use less.prems in \<open>simp add: chunked.simps [of "[]"] read_end\<close>)
qed

text \<open>The buffer of the end-of-message reader holds the marker at its end.\<close>

lemma marker_at_end: "length EOMMarker \<le> length b \<and> drop (length b - length EOMMarker) b = EOMMarker \<longleftrightarrow> (\<exists>a. b = a @ EOMMarker)"
  by (metis append_eq_conv_conj append_take_drop_id length_append le_add2 add_diff_cancel_right')

lemma readEOM_step:
  assumes "length buffer < MaxMessageSize"
  shows "readEOMLoop buffer (length buffer) (b # src) =
    (if \<exists>a. buffer @ [b] = a @ EOMMarker then (Inr (take (length buffer + 1 - length EOMMarker) (buffer @ [b])), src)
     else readEOMLoop (buffer @ [b]) (length (buffer @ [b])) src)"
  using assms marker_at_end [of "buffer @ [b]"] by (auto simp: Let_def readEOMLoop.simps)

lemma readEOM_scan:
  assumes "\<And>z a. z \<noteq> [] \<Longrightarrow> \<exists>y. xs = z @ y \<Longrightarrow> buffer @ z \<noteq> a @ EOMMarker" and "length buffer + length xs \<le> MaxMessageSize"
  shows "readEOMLoop buffer (length buffer) (xs @ ys) = readEOMLoop (buffer @ xs) (length (buffer @ xs)) ys"
  using assms
proof (induction xs arbitrary: buffer)
  case (Cons x xs)
  have "\<nexists>a. buffer @ [x] = a @ EOMMarker" using Cons.prems(1) [of "[x]"] by simp
  moreover have "(buffer @ [x]) @ z \<noteq> a @ EOMMarker" if "z \<noteq> []" "\<exists>y. xs = z @ y" for z a
    using Cons.prems(1) [of "x # z" a] that by auto
  ultimately show ?case using Cons.IH [of "buffer @ [x]"] Cons.prems(2) readEOM_step [of buffer x "xs @ ys"] by simp
qed simp

text \<open>Where the marker can first appear in a message followed by the beginning of the marker.\<close>

lemma Contains_iff: "Contains s sub \<longleftrightarrow> (\<exists>a b. s = a @ sub @ b)"
proof
  assume "Contains s sub"
  then obtain i where "take (length sub) (drop i s) = sub" by (auto simp: Contains_def list_ex_iff)
  then have "s = take i s @ sub @ drop (length sub) (drop i s)" by (metis append_take_drop_id)
  then show "\<exists>a b. s = a @ sub @ b" by blast
next
  assume "\<exists>a b. s = a @ sub @ b"
  then obtain a b where "s = a @ sub @ b" by blast
  then have "length a \<in> set [0..<length s + 1] \<and> take (length sub) (drop (length a) s) = sub" by simp
  then show "Contains s sub" unfolding Contains_def list_ex_iff by blast
qed

lemma marker_overlap:
  assumes "data @ u = a @ EOMMarker" and "EOMMarker = u @ w" and "w \<noteq> []" and "u \<noteq> []"
  shows "data = a @ '']]>''"
proof -
  have "length u + length w = 6" using arg_cong [OF assms(2), of length] by (simp add: EOMMarker_def)
  moreover have "0 < length u" "0 < length w" using assms(3,4) by simp_all
  ultimately have n: "length u = 1 \<or> length u = 2 \<or> length u = 3 \<or> length u = 4 \<or> length u = 5" by arith
  have "u = take (length u) EOMMarker" using assms(2) by (metis append_eq_conv_conj)
  with n have "u = '']'' \<or> u = '']]'' \<or> u = '']]>'' \<or> u = '']]>]'' \<or> u = '']]>]]''"
    by (elim disjE) (simp_all add: EOMMarker_def)
  then show ?thesis using arg_cong [OF assms(1), of rev] by (elim disjE) (simp_all add: EOMMarker_def)
qed

lemma no_early_marker:
  assumes "\<not> Contains data EOMMarker" and "z @ y = data @ EOMMarker" and "y \<noteq> []" and "z = a @ EOMMarker"
  shows "data = a @ '']]>''"
proof -
  consider u where "data = z @ u" | u where "z = data @ u" "u @ y = EOMMarker"
    using assms(2) by (auto simp: append_eq_append_conv2)
  then show ?thesis
  proof cases
    case 1
    with assms(1,4) show ?thesis by (auto simp: Contains_iff)
  next
    case 2
    show ?thesis
    proof (cases "u = []")
      case True
      then show ?thesis using 2 assms(1,4) by (metis Contains_iff append_Nil2)
    qed (use 2 assms marker_overlap [of data u a y] in auto)
  qed
qed

definition HasSuffix :: "string \<Rightarrow> string \<Rightarrow> bool" where
  "HasSuffix s p \<longleftrightarrow> length p \<le> length s \<and> drop (length s - length p) s = p"

lemma HasSuffix_append: "HasSuffix (a @ p) p"
  by (simp add: HasSuffix_def)

lemma readEOM_frame:
  assumes "\<not> Contains data EOMMarker" and "\<not> HasSuffix data '']]>''" and "length data + length EOMMarker \<le> MaxMessageSize"
  shows "readEOMMessage (data @ EOMMarker @ rest) = (Inr data, rest)"
proof -
  let ?xs = "data @ '']]>]]''"
  have "z \<noteq> a @ EOMMarker" if "\<exists>y. ?xs = z @ y" for z a
  proof
    assume z: "z = a @ EOMMarker"
    from that obtain y where "?xs = z @ y" by blast
    then have "?xs @ ''>'' = (z @ y) @ ''>''" by (rule arg_cong)
    then have "z @ (y @ ''>'') = data @ EOMMarker" by (simp add: EOMMarker_def)
    from no_early_marker [OF assms(1) this _ z] assms(2) show False using HasSuffix_append [of a "'']]>''"] by simp
  qed
  then have "readEOMLoop [] (length ([]::string)) (?xs @ CHR ''>'' # rest) = readEOMLoop ?xs (length ?xs) (CHR ''>'' # rest)"
    using readEOM_scan [of ?xs "[]" "CHR ''>'' # rest"] assms(3) by (simp add: EOMMarker_def)
  also have "\<dots> = (Inr data, rest)"
  proof -
    have "?xs @ [CHR ''>''] = data @ EOMMarker" by (simp add: EOMMarker_def)
    then have "\<exists>a. ?xs @ [CHR ''>''] = a @ EOMMarker" by blast
    then show ?thesis using readEOM_step [of ?xs "CHR ''>''" rest] assms(3) by (simp add: EOMMarker_def)
  qed
  finally show ?thesis by (simp add: readEOMMessage_def EOMMarker_def)
qed

lemma HasSuffixD: "HasSuffix s p \<Longrightarrow> \<exists>a. s = a @ p"
  unfolding HasSuffix_def by (metis append_take_drop_id)

lemma readEOM_truncated:
  assumes "\<not> Contains (x @ '']]>'') EOMMarker" and "length x + length EOMMarker \<le> MaxMessageSize"
  shows "readEOMMessage ((x @ '']]>'') @ EOMMarker @ rest) = (Inr x, '']]>'' @ rest)"
proof -
  have "\<not> Contains x EOMMarker" using assms(1) unfolding Contains_iff by (metis append.assoc)
  moreover have "\<not> HasSuffix x '']]>''"
  proof
    assume "HasSuffix x '']]>''"
    then obtain a where "x @ '']]>'' = a @ EOMMarker @ []" by (auto simp: EOMMarker_def dest: HasSuffixD)
    with assms(1) show False unfolding Contains_iff by blast
  qed
  ultimately show ?thesis using readEOM_frame [of x "'']]>'' @ rest"] assms(2) by (simp add: EOMMarker_def)
qed

section \<open>Size limits\<close>





section \<open>Sequences of messages\<close>

text \<open>Messages sent and received one after the other, each under the base version set for it.\<close>

primrec sendAll :: "(string \<times> string) list \<Rightarrow> string FramingWriter option \<Rightarrow> FramingError option \<times> string FramingWriter option" where
  "sendAll [] fw = (None, fw)"
| "sendAll (m # ms) fw =
     (case WriteMessage bufferWrite (snd m) (WriterSetBaseVersion (fst m) fw) of (Some e, fw) \<Rightarrow> (Some e, fw)
      | (None, fw) \<Rightarrow> sendAll ms fw)"

primrec receiveAll :: "string list \<Rightarrow> FramingReader option \<Rightarrow> (FramingError + string) list \<times> FramingReader option" where
  "receiveAll [] fr = ([], fr)"
| "receiveAll (v # vs) fr =
     (let (m, fr) = ReadMessage (ReaderSetBaseVersion v fr); (ms, fr) = receiveAll vs fr in (m # ms, fr))"

definition deliverable :: "string \<Rightarrow> string \<Rightarrow> bool" where
  "deliverable v d \<longleftrightarrow> sendable v d \<and>
     (if v = ''1.1'' then length d \<le> MaxMessageSize
      else length d + length EOMMarker \<le> MaxMessageSize \<and> \<not> HasSuffix d '']]>'')"

lemma ReadMessage_framed:
  assumes "deliverable v d"
  shows "ReadMessage (Some \<lparr>fr_reader = Some (framed v d @ rest), fr_baseVersion = v\<rparr>) =
    (Inr d, Some \<lparr>fr_reader = Some rest, fr_baseVersion = v\<rparr>)"
  using assms readChunks_chunked [of 0 d 0 "[]" rest] readEOM_frame [of d rest]
  by (auto simp: deliverable_def sendable_def framed_def ReadMessage_def readChunkedMessage_def)

lemma WriteMessage_framed:
  assumes "sendable v d"
  shows "WriteMessage bufferWrite d (Some \<lparr>fw_writer = Some s, fw_baseVersion = v\<rparr>) =
    (None, Some \<lparr>fw_writer = Some (s @ framed v d), fw_baseVersion = v\<rparr>)"
  using bufferWrite_total [OF assms, of s] buf.WriteMessage_content [of d s v] by fastforce

lemma sendAll_wire:
  "list_all (\<lambda>(v, d). sendable v d) ms \<Longrightarrow> \<exists>v'. sendAll ms (Some \<lparr>fw_writer = Some s, fw_baseVersion = v\<rparr>) =
    (None, Some \<lparr>fw_writer = Some (s @ concat (map (\<lambda>(v, d). framed v d) ms)), fw_baseVersion = v'\<rparr>)"
proof (induction ms arbitrary: s v)
  case (Cons m ms)
  then show ?case using Cons.IH [of "s @ framed (fst m) (snd m)" "fst m"]
    by (cases m) (simp add: WriterSetBaseVersion_def WriteMessage_framed)
qed simp

lemma receiveAll_wire:
  "list_all (\<lambda>(v, d). deliverable v d) ms \<Longrightarrow> \<exists>v'. receiveAll (map fst ms)
     (Some \<lparr>fr_reader = Some (concat (map (\<lambda>(v, d). framed v d) ms) @ rest), fr_baseVersion = v\<rparr>) =
    (map (Inr \<circ> snd) ms, Some \<lparr>fr_reader = Some rest, fr_baseVersion = v'\<rparr>)"
proof (induction ms arbitrary: v)
  case (Cons m ms)
  then have "list_all (\<lambda>(v, d). deliverable v d) ms" by (cases m) simp
  from Cons.IH [OF this, of "fst m"] obtain v' where "receiveAll (map fst ms) (Some \<lparr>fr_reader = Some (concat (map (\<lambda>(v, d). framed v d) ms) @ rest),
      fr_baseVersion = fst m\<rparr>) = (map (Inr \<circ> snd) ms, Some \<lparr>fr_reader = Some rest, fr_baseVersion = v'\<rparr>)"
    by blast
  with Cons.prems show ?case by (cases m) (simp add: ReaderSetBaseVersion_def ReadMessage_framed)
qed simp

section \<open>Properties\<close>

text \<open>
  C14. Pipelined NETCONF messages: a sequence of messages, each sent under the framing negotiated
  for it (a base:1.0 hello followed by base:1.1 messages, say), is written without error and read
  back in order, whatever follows on the stream; no byte of a later message is lost when the
  version changes.
\<close>

theorem framing_pipeline:
  assumes "list_all (\<lambda>(v, d). deliverable v d) ms"
  shows "\<exists>wire v' v''. sendAll ms (Some (NewFramingWriter (Some []) v)) = (None, Some (NewFramingWriter (Some wire) v')) \<and>
    receiveAll (map fst ms) (Some (NewFramingReader (Some (wire @ rest)) v)) =
      (map (Inr \<circ> snd) ms, Some (NewFramingReader (Some rest) v''))"
proof -
  from assms have "list_all (\<lambda>(v, d). sendable v d) ms" by (auto simp: list_all_iff deliverable_def)
  from sendAll_wire [OF this, of "[]" v] receiveAll_wire [OF assms, of rest v] show ?thesis
    by (auto simp: NewFramingWriter_def NewFramingReader_def)
qed

theorem framing_pipeline_witness:
  "\<exists>wire v' v''. sendAll [(''1.0'', ''<hello/>''), (''1.1'', ''<rpc/>'')] (Some (NewFramingWriter (Some []) ''1.0'')) =
      (None, Some (NewFramingWriter (Some wire) v')) \<and>
    receiveAll [''1.0'', ''1.1''] (Some (NewFramingReader (Some (wire @ ''x'')) ''1.0'')) =
      ([Inr ''<hello/>'', Inr ''<rpc/>''], Some (NewFramingReader (Some ''x'') v''))"
  using framing_pipeline [of "[(''1.0'', ''<hello/>''), (''1.1'', ''<rpc/>'')]" "''1.0''" "''x''"]
  by (simp add: deliverable_def sendable_def Contains_def EOMMarker_def MaxMessageSize_def HasSuffix_def upt_rec)



text \<open>
  C16. The end-of-message check of \<open>writeEOMMessage\<close> is not sufficient: a message that ends in
  \<open>]]>\<close> does not contain the marker and is written, but its last three bytes and the marker together
  form the marker early, so the reader returns the message without them and leaves them in the
  stream in front of the next message.
\<close>

theorem eom_suffix_truncates:
  assumes "\<not> Contains (x @ '']]>'') EOMMarker" and "length x + length EOMMarker \<le> MaxMessageSize"
  shows "\<exists>wire. WriteMessage bufferWrite (x @ '']]>'') (Some (NewFramingWriter (Some []) ''1.0'')) =
      (None, Some (NewFramingWriter (Some wire) ''1.0'')) \<and>
    ReadMessage (Some (NewFramingReader (Some (wire @ rest)) ''1.0'')) =
      (Inr x, Some (NewFramingReader (Some ('']]>'' @ rest)) ''1.0''))"
  using WriteMessage_framed [of "''1.0''" "x @ '']]>''" "[]"] readEOM_truncated [OF assms, of rest] assms(1)
  by (simp add: NewFramingWriter_def NewFramingReader_def sendable_def framed_def ReadMessage_def)

theorem eom_suffix_truncates_witness:
  "\<exists>wire. WriteMessage bufferWrite (''a'' @ '']]>'') (Some (NewFramingWriter (Some []) ''1.0'')) =
      (None, Some (NewFramingWriter (Some wire) ''1.0'')) \<and>
    ReadMessage (Some (NewFramingReader (Some (wire @ [])) ''1.0'')) =
      (Inr ''a'', Some (NewFramingReader (Some ('']]>'' @ [])) ''1.0''))"
  by (rule eom_suffix_truncates) (simp_all add: Contains_def EOMMarker_def MaxMessageSize_def upt_rec)

end
