(* ===== verification/RateLimit.thy ===== *)
theory RateLimit
  imports GoLib
begin

text \<open>
  pkg/netconf/rate\_limit.go and config.go: failure counters and lockouts per IP address and per
  user, and the two authentication callbacks of ssh\_server.go that consult them. A time is the
  clock's reading in nanoseconds, a duration a difference of times. Every operation holds the
  mutex of the map it touches and is given the time at which it runs; the readings it takes while
  it runs are that time. The user database is a parameter, log output is not modelled.
\<close>

section \<open>Configuration\<close>

abbreviation second :: int where "second \<equiv> 1000000000"
abbreviation minute :: int where "minute \<equiv> 60 * second"
abbreviation hour :: int where "hour \<equiv> 60 * minute"

text \<open>The settings of the embedded datastore are not read here; \<open>'d\<close> is their type.\<close>

record 'd SSHConfig =
  sc_ListenAddr :: string
  sc_HostKeyPath :: string
  sc_UserDBPath :: string
  sc_DatastorePath :: string
  sc_DatastoreConfig :: "'d option"
  sc_SkipDatastoreStartupCleanup :: bool
  sc_AdvertiseStandardXPath :: bool
  sc_DisableStandardXPath :: bool
  sc_IdleTimeout :: int
  sc_AbsoluteTimeout :: int
  sc_MaxSessions :: int
  sc_IPFailureLimit :: int
  sc_IPLockoutWindow :: int
  sc_UserFailureLimit :: int
  sc_UserLockoutWindow :: int
  sc_LockoutDuration :: int
  sc_SSHCiphers :: "string list"
  sc_SSHKeyExchanges :: "string list"
  sc_SSHMACs :: "string list"

definition DefaultSSHConfig :: "'d SSHConfig" where
  "DefaultSSHConfig =
     \<lparr>sc_ListenAddr = '':830'', sc_HostKeyPath = ''/var/lib/arca-router/ssh_host_ed25519_key'',
      sc_UserDBPath = ''/var/lib/arca-router/users.db'', sc_DatastorePath = ''/var/lib/arca-router/config.db'',
      sc_DatastoreConfig = None, sc_SkipDatastoreStartupCleanup = False,
      sc_AdvertiseStandardXPath = True, sc_DisableStandardXPath = False,
      sc_IdleTimeout = 30 * minute, sc_AbsoluteTimeout = 24 * hour, sc_MaxSessions = 100,
      sc_IPFailureLimit = 3, sc_IPLockoutWindow = 5 * minute, sc_UserFailureLimit = 5,
      sc_UserLockoutWindow = 10 * minute, sc_LockoutDuration = 15 * minute,
      sc_SSHCiphers = [''chacha20-poly1305@openssh.com'', ''aes256-gcm@openssh.com'', ''aes128-gcm@openssh.com'',
        ''aes256-ctr'', ''aes128-ctr''],
      sc_SSHKeyExchanges = [''curve25519-sha256'', ''curve25519-sha256@libssh.org'', ''ecdh-sha2-nistp256''],
      sc_SSHMACs = [''hmac-sha2-256-etm@openssh.com'', ''hmac-sha2-512-etm@openssh.com'']\<rparr>"

definition orStr :: "string \<Rightarrow> string \<Rightarrow> string" where
  "orStr v d = (if v = [] then d else v)"

definition orPos :: "int \<Rightarrow> int \<Rightarrow> int" where
  "orPos v d = (if v \<le> 0 then d else v)"

definition orList :: "'a list \<Rightarrow> 'a list \<Rightarrow> 'a list" where
  "orList v d = (if length v = 0 then d else v)"

definition sshConfigWithDefaults :: "'d SSHConfig option \<Rightarrow> 'd SSHConfig" where
  "sshConfigWithDefaults config =
     (let d = DefaultSSHConfig in case config of None \<Rightarrow> d | Some m \<Rightarrow>
        m\<lparr>sc_ListenAddr := orStr (sc_ListenAddr m) (sc_ListenAddr d),
          sc_HostKeyPath := orStr (sc_HostKeyPath m) (sc_HostKeyPath d),
          sc_UserDBPath := orStr (sc_UserDBPath m) (sc_UserDBPath d),
          sc_DatastorePath := orStr (sc_DatastorePath m) (sc_DatastorePath d),
          sc_AdvertiseStandardXPath :=
            (if sc_DisableStandardXPath m then False
             else if \<not> sc_AdvertiseStandardXPath m then sc_AdvertiseStandardXPath d
             else sc_AdvertiseStandardXPath m),
          sc_IdleTimeout := orPos (sc_IdleTimeout m) (sc_IdleTimeout d),
          sc_AbsoluteTimeout := orPos (sc_AbsoluteTimeout m) (sc_AbsoluteTimeout d),
          sc_MaxSessions := orPos (sc_MaxSessions m) (sc_MaxSessions d),
          sc_IPFailureLimit := orPos (sc_IPFailureLimit m) (sc_IPFailureLimit d),
          sc_UserFailureLimit := orPos (sc_UserFailureLimit m) (sc_UserFailureLimit d),
          sc_IPLockoutWindow := orPos (sc_IPLockoutWindow m) (sc_IPLockoutWindow d),
          sc_UserLockoutWindow := orPos (sc_UserLockoutWindow m) (sc_UserLockoutWindow d),
          sc_LockoutDuration := orPos (sc_LockoutDuration m) (sc_LockoutDuration d),
          sc_SSHCiphers := orList (sc_SSHCiphers m) (sc_SSHCiphers d),
          sc_SSHKeyExchanges := orList (sc_SSHKeyExchanges m) (sc_SSHKeyExchanges d),
          sc_SSHMACs := orList (sc_SSHMACs m) (sc_SSHMACs d)\<rparr>)"

definition rateLimiterConfigWithDefaults :: "'d SSHConfig option \<Rightarrow> 'd SSHConfig" where
  "rateLimiterConfigWithDefaults config =
     (let d = DefaultSSHConfig in case config of None \<Rightarrow> d | Some m \<Rightarrow>
        m\<lparr>sc_IPFailureLimit := orPos (sc_IPFailureLimit m) (sc_IPFailureLimit d),
          sc_UserFailureLimit := orPos (sc_UserFailureLimit m) (sc_UserFailureLimit d),
          sc_IPLockoutWindow := orPos (sc_IPLockoutWindow m) (sc_IPLockoutWindow d),
          sc_UserLockoutWindow := orPos (sc_UserLockoutWindow m) (sc_UserLockoutWindow d),
          sc_LockoutDuration := orPos (sc_LockoutDuration m) (sc_LockoutDuration d)\<rparr>)"

section \<open>The limiter\<close>

record failureTracker =
  ft_failures :: "int list"
  ft_lockedOut :: bool
  ft_lockoutAt :: int

type_synonym trackers = "(string \<times> failureTracker) list"

record 'd RateLimiter =
  rl_config :: "'d SSHConfig option"
  rl_ipFailures :: trackers
  rl_userFailures :: trackers

definition NewRateLimiter :: "'d SSHConfig option \<Rightarrow> 'd RateLimiter" where
  "NewRateLimiter config =
     \<lparr>rl_config = Some (rateLimiterConfigWithDefaults config), rl_ipFailures = [], rl_userFailures = []\<rparr>"

definition effectiveConfig :: "'d RateLimiter option \<Rightarrow> 'd SSHConfig" where
  "effectiveConfig rl =
     (case rl of None \<Rightarrow> DefaultSSHConfig | Some r \<Rightarrow>
        (case rl_config r of None \<Rightarrow> DefaultSSHConfig | Some c \<Rightarrow> c))"

text \<open>Whether a key may authenticate at time \<open>now\<close>, and otherwise when its lockout ends.\<close>

definition checkKey :: "int \<Rightarrow> trackers \<Rightarrow> string \<Rightarrow> int \<Rightarrow> bool \<times> int option" where
  "checkKey duration m key now =
     (case map_of m key of None \<Rightarrow> (True, None)
      | Some tracker \<Rightarrow>
          if ft_lockedOut tracker \<and> now - ft_lockoutAt tracker < duration
          then (False, Some (ft_lockoutAt tracker + duration)) else (True, None))"

definition CheckIP :: "'d RateLimiter option \<Rightarrow> string \<Rightarrow> int \<Rightarrow> bool \<times> int option" where
  "CheckIP rl ip now =
     (case rl of None \<Rightarrow> (True, None)
      | Some r \<Rightarrow> checkKey (sc_LockoutDuration (effectiveConfig rl)) (rl_ipFailures r) ip now)"

definition CheckUser :: "'d RateLimiter option \<Rightarrow> string \<Rightarrow> int \<Rightarrow> bool \<times> int option" where
  "CheckUser rl username now =
     (case rl of None \<Rightarrow> (True, None)
      | Some r \<Rightarrow> checkKey (sc_LockoutDuration (effectiveConfig rl)) (rl_userFailures r) username now)"

definition newTracker :: failureTracker where
  "newTracker = \<lparr>ft_failures = [], ft_lockedOut = False, ft_lockoutAt = 0\<rparr>"

definition getOrCreateTracker :: "trackers \<Rightarrow> string \<Rightarrow> failureTracker" where
  "getOrCreateTracker m key = (case map_of m key of None \<Rightarrow> newTracker | Some t \<Rightarrow> t)"

definition removeExpiredFailures :: "int list \<Rightarrow> int \<Rightarrow> int \<Rightarrow> int list" where
  "removeExpiredFailures failures window now = dropWhile (\<lambda>t. t < now - window) failures"

text \<open>The half of \<open>RecordFailure\<close> that both maps share.\<close>

definition recordKey :: "int \<Rightarrow> int \<Rightarrow> trackers \<Rightarrow> string \<Rightarrow> int \<Rightarrow> bool \<times> trackers" where
  "recordKey limit window m key now =
     (let tracker = getOrCreateTracker m key;
          failures = removeExpiredFailures (ft_failures tracker @ [now]) window now;
          tracker = tracker\<lparr>ft_failures := failures\<rparr>
      in if limit \<le> int (length failures) \<and> \<not> ft_lockedOut tracker
         then (True, AList.update key (tracker\<lparr>ft_lockedOut := True, ft_lockoutAt := now\<rparr>) m)
         else (False, AList.update key tracker m))"

definition RecordFailure :: "'d RateLimiter option \<Rightarrow> string \<Rightarrow> string \<Rightarrow> int \<Rightarrow> (bool \<times> bool) \<times> 'd RateLimiter option" where
  "RecordFailure rl ip username now =
     (case rl of None \<Rightarrow> ((False, False), None)
      | Some r \<Rightarrow>
        (let config = effectiveConfig rl;
             (ipLocked, ips) = recordKey (sc_IPFailureLimit config) (sc_IPLockoutWindow config) (rl_ipFailures r) ip now;
             (userLocked, users) =
               recordKey (sc_UserFailureLimit config) (sc_UserLockoutWindow config) (rl_userFailures r) username now
         in ((ipLocked, userLocked), Some (r\<lparr>rl_ipFailures := ips, rl_userFailures := users\<rparr>))))"

definition RecordSuccess :: "'d RateLimiter option \<Rightarrow> string \<Rightarrow> string \<Rightarrow> 'd RateLimiter option" where
  "RecordSuccess rl ip username =
     map_option (\<lambda>r. r\<lparr>rl_ipFailures := AList.delete ip (rl_ipFailures r),
       rl_userFailures := AList.delete username (rl_userFailures r)\<rparr>) rl"

text \<open>What the clean-up loop leaves of one tracker.\<close>

definition cleanTracker :: "int \<Rightarrow> int \<Rightarrow> int \<Rightarrow> failureTracker \<Rightarrow> failureTracker option" where
  "cleanTracker duration window now tracker =
     (if ft_lockedOut tracker \<and> duration \<le> now - ft_lockoutAt tracker then None
      else let failures = removeExpiredFailures (ft_failures tracker) window now
        in if length failures = 0 \<and> \<not> ft_lockedOut tracker then None else Some (tracker\<lparr>ft_failures := failures\<rparr>))"

definition cleanKeys :: "int \<Rightarrow> int \<Rightarrow> int \<Rightarrow> trackers \<Rightarrow> trackers" where
  "cleanKeys duration window now m =
     concat (map (\<lambda>(k, t). case cleanTracker duration window now t of None \<Rightarrow> [] | Some t' \<Rightarrow> [(k, t')]) m)"

definition cleanup :: "'d RateLimiter option \<Rightarrow> int \<Rightarrow> 'd RateLimiter option" where
  "cleanup rl now =
     (let config = effectiveConfig rl in
      map_option (\<lambda>r. r\<lparr>
        rl_ipFailures := cleanKeys (sc_LockoutDuration config) (sc_IPLockoutWindow config) now (rl_ipFailures r),
        rl_userFailures := cleanKeys (sc_LockoutDuration config) (sc_UserLockoutWindow config) now (rl_userFailures r)\<rparr>) rl)"

record RateLimiterStats =
  rs_IPsTracked :: nat
  rs_IPsLocked :: nat
  rs_UsersTracked :: nat
  rs_UsersLocked :: nat
  rs_LockoutWindow :: int

definition GetStats :: "'d RateLimiter option \<Rightarrow> RateLimiterStats" where
  "GetStats rl =
     (case rl of
        None \<Rightarrow> \<lparr>rs_IPsTracked = 0, rs_IPsLocked = 0, rs_UsersTracked = 0, rs_UsersLocked = 0, rs_LockoutWindow = 0\<rparr>
      | Some r \<Rightarrow>
          \<lparr>rs_IPsTracked = length (rl_ipFailures r),
           rs_IPsLocked = length (filter (\<lambda>(_, t). ft_lockedOut t) (rl_ipFailures r)),
           rs_UsersTracked = length (rl_userFailures r),
           rs_UsersLocked = length (filter (\<lambda>(_, t). ft_lockedOut t) (rl_userFailures r)),
           rs_LockoutWindow = sc_LockoutDuration (effectiveConfig rl)\<rparr>)"

section \<open>Authentication\<close>

datatype authResult = LockedUntil int | AuthFailed | Permitted "(string \<times> string) list"

text \<open>
  The two callbacks differ in the credential and in the question they ask the user database:
  \<open>verify\<close> is \<open>VerifyPasswordWithReason\<close> on the password or \<open>VerifyPublicKeyAuth\<close> on the encoded key,
  and returns the user's role. The two checks and the record run at times \<open>t1\<close>, \<open>t2\<close> and \<open>t3\<close>.
\<close>

definition authenticate :: "(string \<Rightarrow> string \<Rightarrow> string option) \<Rightarrow> 'd RateLimiter option \<Rightarrow> string \<Rightarrow> string \<Rightarrow> string \<Rightarrow>
    int \<Rightarrow> int \<Rightarrow> int \<Rightarrow> authResult \<times> 'd RateLimiter option" where
  "authenticate verify rl sourceIP username credential t1 t2 t3 =
     (case CheckIP rl sourceIP t1 of
        (False, unlockAt) \<Rightarrow> (LockedUntil (the unlockAt), rl)
      | (True, _) \<Rightarrow>
     (case CheckUser rl username t2 of
        (False, unlockAt) \<Rightarrow> (LockedUntil (the unlockAt), rl)
      | (True, _) \<Rightarrow>
     (case verify username credential of
        None \<Rightarrow> (AuthFailed, snd (RecordFailure rl sourceIP username t3))
      | Some role \<Rightarrow>
          (Permitted [(''username'', username), (''role'', role)], RecordSuccess rl sourceIP username))))"

definition passwordCallback :: "(string \<Rightarrow> string \<Rightarrow> string option) \<Rightarrow> 'd RateLimiter option \<Rightarrow> string \<Rightarrow> string \<Rightarrow> string \<Rightarrow>
    int \<Rightarrow> int \<Rightarrow> int \<Rightarrow> authResult \<times> 'd RateLimiter option" where
  "passwordCallback VerifyPasswordWithReason rl sourceIP username password =
     authenticate VerifyPasswordWithReason rl sourceIP username password"

definition publicKeyCallback :: "(string \<Rightarrow> string \<Rightarrow> string option) \<Rightarrow> 'd RateLimiter option \<Rightarrow> string \<Rightarrow> string \<Rightarrow> string \<Rightarrow>
    int \<Rightarrow> int \<Rightarrow> int \<Rightarrow> authResult \<times> 'd RateLimiter option" where
  "publicKeyCallback VerifyPublicKeyAuth rl sourceIP username keyData =
     authenticate VerifyPublicKeyAuth rl sourceIP username keyData"

section \<open>Operations on one map\<close>

lemma map_of_recordKey:
  "map_of (snd (recordKey L W m k t)) j =
    (if j = k then
       (let tr = getOrCreateTracker m k; fs = removeExpiredFailures (ft_failures tr @ [t]) W t
        in Some (if L \<le> int (length fs) \<and> \<not> ft_lockedOut tr
          then tr\<lparr>ft_failures := fs, ft_lockedOut := True, ft_lockoutAt := t\<rparr> else tr\<lparr>ft_failures := fs\<rparr>))
     else map_of m j)"
  by (simp add: recordKey_def Let_def update_conv')


lemma cleanKeys_simps [simp]:
  "cleanKeys D W t [] = []"
  "cleanKeys D W t ((k, tr) # m) =
    (case cleanTracker D W t tr of None \<Rightarrow> cleanKeys D W t m | Some tr' \<Rightarrow> (k, tr') # cleanKeys D W t m)"
  by (simp_all add: cleanKeys_def split: option.split)






section \<open>Runs\<close>

text \<open>The state changes of the limiter, in the order in which its mutexes serialise them.\<close>

datatype event = Failure string string int | Success string string | Cleanup int

primrec applyEvent :: "event \<Rightarrow> 'd RateLimiter option \<Rightarrow> 'd RateLimiter option" where
  "applyEvent (Failure ip u t) rl = snd (RecordFailure rl ip u t)"
| "applyEvent (Success ip u) rl = RecordSuccess rl ip u"
| "applyEvent (Cleanup t) rl = cleanup rl t"

definition runEvents :: "event list \<Rightarrow> 'd RateLimiter option \<Rightarrow> 'd RateLimiter option" where
  "runEvents evs rl = fold applyEvent evs rl"

text \<open>The effect of an event on the map of IP addresses and on the map of users.\<close>

primrec mapEvent :: "(event \<Rightarrow> string option) \<Rightarrow> int \<Rightarrow> int \<Rightarrow> int \<Rightarrow> event \<Rightarrow> trackers \<Rightarrow> trackers" where
  "mapEvent key L W D (Failure ip u t) m = snd (recordKey L W m (the (key (Failure ip u t))) t)"
| "mapEvent key L W D (Success ip u) m = AList.delete (the (key (Success ip u))) m"
| "mapEvent key L W D (Cleanup t) m = cleanKeys D W t m"

primrec ipOf :: "event \<Rightarrow> string option" where
  "ipOf (Failure ip u t) = Some ip" | "ipOf (Success ip u) = Some ip" | "ipOf (Cleanup t) = None"

primrec userOf :: "event \<Rightarrow> string option" where
  "userOf (Failure ip u t) = Some u" | "userOf (Success ip u) = Some u" | "userOf (Cleanup t) = None"

definition ipEvent :: "'d RateLimiter \<Rightarrow> event \<Rightarrow> trackers \<Rightarrow> trackers" where
  "ipEvent r = (let c = effectiveConfig (Some r) in mapEvent ipOf (sc_IPFailureLimit c) (sc_IPLockoutWindow c) (sc_LockoutDuration c))"

definition userEvent :: "'d RateLimiter \<Rightarrow> event \<Rightarrow> trackers \<Rightarrow> trackers" where
  "userEvent r = (let c = effectiveConfig (Some r) in mapEvent userOf (sc_UserFailureLimit c) (sc_UserLockoutWindow c) (sc_LockoutDuration c))"

lemma applyEvent_maps:
  "applyEvent e (Some r) = Some (r\<lparr>rl_ipFailures := ipEvent r e (rl_ipFailures r), rl_userFailures := userEvent r e (rl_userFailures r)\<rparr>)"
  by (cases e) (auto simp: ipEvent_def userEvent_def RecordFailure_def RecordSuccess_def cleanup_def Let_def split: prod.splits)

lemma runEvents_maps:
  "runEvents evs (Some r) = Some (r\<lparr>rl_ipFailures := fold (ipEvent r) evs (rl_ipFailures r),
     rl_userFailures := fold (userEvent r) evs (rl_userFailures r)\<rparr>)"
proof (induction evs arbitrary: r)
  case (Cons e evs)
  let ?r = "r\<lparr>rl_ipFailures := ipEvent r e (rl_ipFailures r), rl_userFailures := userEvent r e (rl_userFailures r)\<rparr>"
  have "effectiveConfig (Some ?r) = effectiveConfig (Some r)" by (simp add: effectiveConfig_def)
  then have "ipEvent ?r = ipEvent r" "userEvent ?r = userEvent r" by (simp_all add: ipEvent_def userEvent_def)
  with Cons.IH [of ?r] show ?case by (simp add: runEvents_def applyEvent_maps)
qed (simp add: runEvents_def)

text \<open>How often a run records a failure of \<open>k\<close>.\<close>

primrec isFailure :: "event \<Rightarrow> bool" where
  "isFailure (Failure ip u t) = True" | "isFailure (Success ip u) = False" | "isFailure (Cleanup t) = False"











section \<open>A lockout that has expired\<close>

text \<open>The tracker of \<open>k\<close> is marked as locked out by a lockout that is over at time \<open>t0\<close>.\<close>

definition stale :: "int \<Rightarrow> int \<Rightarrow> string \<Rightarrow> trackers \<Rightarrow> bool" where
  "stale D t0 k m \<longleftrightarrow> (\<exists>tr. map_of m k = Some tr \<and> ft_lockedOut tr \<and> D \<le> t0 - ft_lockoutAt tr)"

lemma stale_record:
  assumes "stale D t0 k m"
  shows "stale D t0 k (snd (recordKey L W m j t))" and "\<not> fst (recordKey L W m k t)"
  using assms by (auto simp: stale_def map_of_recordKey getOrCreateTracker_def Let_def) (simp add: recordKey_def getOrCreateTracker_def Let_def)

lemma stale_allowed: "stale D t0 k m \<Longrightarrow> t0 \<le> t \<Longrightarrow> fst (checkKey D m k t)"
  by (auto simp: stale_def checkKey_def)

lemma stale_run:
  assumes "list_all isFailure evs" and "stale D t0 k m"
  shows "stale D t0 k (fold (mapEvent key L W D) evs m)"
  using assms
proof (induction evs arbitrary: m)
  case (Cons e evs)
  then show ?case by (cases e) (simp_all add: stale_record(1))
qed simp

section \<open>The state invariant\<close>
















lemma effectiveConfig_maps [simp]:
  "effectiveConfig (Some (r\<lparr>rl_ipFailures := a, rl_userFailures := b\<rparr>)) = effectiveConfig (Some r)"
  by (simp add: effectiveConfig_def)


section \<open>Properties\<close>


definition sampleLimiter :: "unit RateLimiter" where
  "sampleLimiter = NewRateLimiter None"

definition threeFailures :: "event list" where
  "threeFailures = [Failure ''192.0.2.9'' ''alice'' 0, Failure ''192.0.2.9'' ''bob'' 1, Cleanup 2, Failure ''192.0.2.9'' ''alice'' 3]"




text \<open>
  C22. A locked-out address or user learns nothing: while the lockout lasts, the result of both
  callbacks and the state after them do not depend on the credential or on the user database.
\<close>

theorem lockout_hides_credentials:
  assumes "\<not> fst (CheckIP rl ip t1) \<or> \<not> fst (CheckUser rl u t2)"
  shows "\<exists>t. passwordCallback verify rl ip u pw t1 t2 t3 = (LockedUntil t, rl) \<and>
    publicKeyCallback verify' rl ip u key t1 t2 t3' = (LockedUntil t, rl)"
  using assms by (auto simp: passwordCallback_def publicKeyCallback_def authenticate_def split: prod.split bool.split)

theorem lockout_hides_credentials_witness:
  "\<exists>t. passwordCallback (\<lambda>_ _. Some ''admin'') (runEvents threeFailures (Some sampleLimiter)) ''192.0.2.9'' ''alice'' ''pw'' minute minute minute =
    (LockedUntil t, runEvents threeFailures (Some sampleLimiter))"
proof -
  have "\<not> fst (CheckIP (runEvents threeFailures (Some sampleLimiter)) ''192.0.2.9'' minute)"
    by (simp add: sampleLimiter_def NewRateLimiter_def effectiveConfig_def rateLimiterConfigWithDefaults_def DefaultSSHConfig_def
        threeFailures_def runEvents_def RecordFailure_def recordKey_def getOrCreateTracker_def newTracker_def removeExpiredFailures_def
        cleanup_def cleanKeys_def cleanTracker_def CheckIP_def checkKey_def Let_def)
  then show ?thesis using lockout_hides_credentials [of "runEvents threeFailures (Some sampleLimiter)" "''192.0.2.9''" minute] by blast
qed

text \<open>
  C23. Once a lockout has expired and until the clean-up loop removes its tracker, the address can
  fail any number of times: no further failure locks it out again, and it is always allowed.
\<close>

theorem expired_lockout_never_relocks:
  assumes "stale (sc_LockoutDuration (effectiveConfig (Some r))) t0 ip (rl_ipFailures r)"
    and "list_all isFailure evs" and "t0 \<le> t"
  shows "fst (CheckIP (runEvents evs (Some r)) ip t) \<and>
    \<not> fst (fst (RecordFailure (runEvents evs (Some r)) ip u t))"
proof -
  let ?r = "r\<lparr>rl_ipFailures := fold (ipEvent r) evs (rl_ipFailures r), rl_userFailures := fold (userEvent r) evs (rl_userFailures r)\<rparr>"
  have s: "stale (sc_LockoutDuration (effectiveConfig (Some r))) t0 ip (rl_ipFailures ?r)"
    using stale_run [OF assms(2,1)] by (simp add: ipEvent_def Let_def)
  then show ?thesis using stale_allowed [OF s assms(3)] stale_record(2) [OF s]
    by (simp add: runEvents_maps CheckIP_def RecordFailure_def Let_def split: prod.split) (metis fst_conv)
qed

theorem expired_lockout_never_relocks_witness:
  "fst (CheckIP (runEvents (replicate 100 (Failure ''192.0.2.9'' ''alice'' (16 * minute))) (runEvents threeFailures (Some sampleLimiter)))
    ''192.0.2.9'' (16 * minute))"
proof -
  define r where "r = the (runEvents threeFailures (Some sampleLimiter))"
  have r: "runEvents threeFailures (Some sampleLimiter) = Some r" by (simp add: r_def runEvents_maps)
  have "stale (sc_LockoutDuration (effectiveConfig (Some r))) (16 * minute) ''192.0.2.9'' (rl_ipFailures r)"
    by (simp add: r_def sampleLimiter_def NewRateLimiter_def effectiveConfig_def rateLimiterConfigWithDefaults_def DefaultSSHConfig_def
        threeFailures_def runEvents_def RecordFailure_def recordKey_def getOrCreateTracker_def newTracker_def removeExpiredFailures_def
        cleanup_def cleanKeys_def cleanTracker_def stale_def Let_def)
  from expired_lockout_never_relocks [OF this, of "replicate 100 (Failure ''192.0.2.9'' ''alice'' (16 * minute))"]
  show ?thesis by (simp add: r list_all_iff)
qed

end
