(* ===== verification/ModelEqual.thy ===== *)
theory ModelEqual
  imports ModelTypes
begin

text \<open>
  Equality of configuration trees as Go values. A map is compared by its length and a lookup of
  every key, as \<open>reflect.DeepEqual\<close> does, so the enumeration order of the lists that stand for maps
  does not matter. \<open>goConfig\<close> says that the keys of every map of a tree are distinct, which holds
  of every value of the program.
\<close>

section \<open>Maps\<close>

definition deepMap :: "('v \<Rightarrow> 'v \<Rightarrow> bool) \<Rightarrow> ('k, 'v) gomap \<Rightarrow> ('k, 'v) gomap \<Rightarrow> bool" where
  "deepMap R m m' \<longleftrightarrow> length m = length m' \<and>
     list_all (\<lambda>(k, p). case map_of m' k of None \<Rightarrow> False | Some p' \<Rightarrow> rel_option R p p') m"

definition okMap :: "('v \<Rightarrow> bool) \<Rightarrow> ('k, 'v) gomap \<Rightarrow> bool" where
  "okMap P m \<longleftrightarrow> keys_ok m \<and> list_all (\<lambda>(k, p). pred_option P p) m"

lemma okMap_keys: "okMap P m \<Longrightarrow> keys_ok m"
  by (simp add: okMap_def)

lemma okMap_value: "okMap P m \<Longrightarrow> (k, Some v) \<in> set m \<Longrightarrow> P v"
  by (force simp: okMap_def list_all_iff)

lemma okMap_mget: "okMap P m \<Longrightarrow> mget m k = Some v \<Longrightarrow> P v"
  by (blast dest: mget_SomeD okMap_value)

lemma fullMap_okMap: "fullMap P m \<Longrightarrow> okMap (\<lambda>_. True) m"
  by (simp add: fullMap_def okMap_def list_all_iff pred_option_def)

lemma deepMap_refl:
  assumes "okMap P m" and "\<And>v. P v \<Longrightarrow> R v v"
  shows "deepMap R m m"
proof -
  have "case map_of m k of None \<Rightarrow> False | Some p' \<Rightarrow> rel_option R p p'" if "(k, p) \<in> set m" for k p
  proof -
    have "map_of m k = Some p" using that assms(1) by (simp add: okMap_def keys_ok_def)
    moreover have "rel_option R p p" using that assms by (cases p) (auto simp: okMap_def list_all_iff)
    ultimately show ?thesis by simp
  qed
  then show ?thesis by (auto simp: deepMap_def list_all_iff)
qed

lemma deepMap_entry:
  assumes "deepMap R m m'" and "(k, p) \<in> set m"
  obtains p' where "(k, p') \<in> set m'" and "rel_option R p p'"
proof -
  from assms have "case map_of m' k of None \<Rightarrow> False | Some p' \<Rightarrow> rel_option R p p'"
    by (auto simp: deepMap_def list_all_iff)
  then show thesis using that by (cases "map_of m' k") (auto dest: map_of_SomeD)
qed

lemma keys_ok_card: "keys_ok m \<Longrightarrow> card (fst ` set m) = length m"
  using distinct_card [of "map fst m"] by (simp add: keys_ok_def)

lemma deepMap_keys:
  assumes "deepMap R m m'" and "keys_ok m" and "keys_ok m'"
  shows "fst ` set m = fst ` set m'"
proof (rule card_subset_eq)
  show "finite (fst ` set m')" by simp
  show "fst ` set m \<subseteq> fst ` set m'"
    by (force elim: deepMap_entry [OF assms(1)])
  show "card (fst ` set m) = card (fst ` set m')"
    using assms by (simp add: keys_ok_card) (simp add: deepMap_def)
qed

lemma deepMap_back:
  assumes "deepMap R m m'" and "keys_ok m" and "keys_ok m'" and "(k, p') \<in> set m'"
  obtains p where "(k, p) \<in> set m" and "rel_option R p p'"
proof -
  have "k \<in> fst ` set m'" using assms(4) by force
  then obtain p where p: "(k, p) \<in> set m" unfolding deepMap_keys [OF assms(1-3), symmetric] by auto
  from deepMap_entry [OF assms(1) p] obtain q where q: "(k, q) \<in> set m'" "rel_option R p q" .
  with assms(3,4) have "q = p'" by (auto simp: keys_ok_def dest: eq_key_imp_eq_value)
  with p q show thesis by (auto intro: that)
qed

lemma deepMap_mget:
  assumes "deepMap R m m'" and "keys_ok m" and "keys_ok m'"
  shows "rel_option R (mget m k) (mget m' k)"
proof (cases "k \<in> fst ` set m")
  case True
  then obtain p where p: "(k, p) \<in> set m" by auto
  from deepMap_entry [OF assms(1) p] obtain q where "(k, q) \<in> set m'" "rel_option R p q" .
  with p assms show ?thesis by (simp add: mget_in_set)
next
  case False
  with deepMap_keys [OF assms] show ?thesis by (simp add: mget_fresh)
qed

lemma deepMap_sym:
  assumes "deepMap R m m'" and "keys_ok m" and "keys_ok m'" and "\<And>v w. R v w \<Longrightarrow> R w v"
  shows "deepMap R m' m"
proof -
  have "case map_of m k of None \<Rightarrow> False | Some p \<Rightarrow> rel_option R p' p" if "(k, p') \<in> set m'" for k p'
  proof -
    from deepMap_back [OF assms(1-3) that] obtain p where "(k, p) \<in> set m" "rel_option R p p'" .
    then show ?thesis using assms(2,4) by (cases p; cases p') (auto simp: keys_ok_def)
  qed
  then show ?thesis using assms(1) by (auto simp: deepMap_def list_all_iff)
qed

section \<open>Trees\<close>

definition deepCluster :: "MClusterConfig \<Rightarrow> MClusterConfig \<Rightarrow> bool" where
  "deepCluster a b \<longleftrightarrow> mcl_Enabled a = mcl_Enabled b \<and> deepMap (=) (mcl_Nodes a) (mcl_Nodes b) \<and> mcl_Sync a = mcl_Sync b"

definition deepChassis :: "MChassisConfig \<Rightarrow> MChassisConfig \<Rightarrow> bool" where
  "deepChassis a b \<longleftrightarrow> rel_option deepCluster (mch_Cluster a) (mch_Cluster b)"

definition deepUnit :: "MUnit \<Rightarrow> MUnit \<Rightarrow> bool" where
  "deepUnit a b \<longleftrightarrow> deepMap (=) (mu_Family a) (mu_Family b)"

definition deepInterface :: "InterfaceConfig \<Rightarrow> InterfaceConfig \<Rightarrow> bool" where
  "deepInterface a b \<longleftrightarrow> ic_Description a = ic_Description b \<and> deepMap deepUnit (ic_Units a) (ic_Units b)"

definition deepBFD :: "MBFDConfig \<Rightarrow> MBFDConfig \<Rightarrow> bool" where
  "deepBFD a b \<longleftrightarrow> deepMap (=) (mbfd_Profiles a) (mbfd_Profiles b) \<and> deepMap (=) (mbfd_Peers a) (mbfd_Peers b)"

definition deepBGPGroup :: "MBGPGroup \<Rightarrow> MBGPGroup \<Rightarrow> bool" where
  "deepBGPGroup a b \<longleftrightarrow> mbg_Type a = mbg_Type b \<and> deepMap (=) (mbg_Neighbors a) (mbg_Neighbors b) \<and>
     mbg_Import a = mbg_Import b \<and> mbg_Export a = mbg_Export b"

definition deepBGP :: "MBGPConfig \<Rightarrow> MBGPConfig \<Rightarrow> bool" where
  "deepBGP a b \<longleftrightarrow> deepMap deepBGPGroup (mbgp_Groups a) (mbgp_Groups b)"

definition deepEVPN :: "MEVPNConfig \<Rightarrow> MEVPNConfig \<Rightarrow> bool" where
  "deepEVPN a b \<longleftrightarrow> deepMap (=) (mevpn_VNIs a) (mevpn_VNIs b)"

definition deepOSPFArea :: "MOSPFArea \<Rightarrow> MOSPFArea \<Rightarrow> bool" where
  "deepOSPFArea a b \<longleftrightarrow> deepMap (=) (moa_Interfaces a) (moa_Interfaces b)"

definition deepOSPF :: "MOSPFConfig \<Rightarrow> MOSPFConfig \<Rightarrow> bool" where
  "deepOSPF a b \<longleftrightarrow> mospf_RouterID a = mospf_RouterID b \<and> deepMap deepOSPFArea (mospf_Areas a) (mospf_Areas b)"

definition deepVRRP :: "MVRRPConfig \<Rightarrow> MVRRPConfig \<Rightarrow> bool" where
  "deepVRRP a b \<longleftrightarrow> deepMap (=) (mvrrp_Groups a) (mvrrp_Groups b)"

definition deepProtocols :: "ProtocolsConfig \<Rightarrow> ProtocolsConfig \<Rightarrow> bool" where
  "deepProtocols a b \<longleftrightarrow> rel_option deepBFD (mpc_BFD a) (mpc_BFD b) \<and> rel_option deepBGP (mpc_BGP a) (mpc_BGP b) \<and>
     rel_option deepEVPN (mpc_EVPN a) (mpc_EVPN b) \<and> rel_option deepOSPF (mpc_OSPF a) (mpc_OSPF b) \<and>
     rel_option deepOSPF (mpc_OSPF3 a) (mpc_OSPF3 b) \<and> mpc_MPLS a = mpc_MPLS b \<and>
     rel_option deepVRRP (mpc_VRRP a) (mpc_VRRP b)"

definition deepPolicy :: "PolicyConfig \<Rightarrow> PolicyConfig \<Rightarrow> bool" where
  "deepPolicy a b \<longleftrightarrow> deepMap (=) (mpo_PrefixLists a) (mpo_PrefixLists b) \<and>
     deepMap (=) (mpo_PolicyStatements a) (mpo_PolicyStatements b)"

definition deepCoS :: "MClassOfServiceConfig \<Rightarrow> MClassOfServiceConfig \<Rightarrow> bool" where
  "deepCoS a b \<longleftrightarrow> deepMap (=) (mcos_ForwardingClasses a) (mcos_ForwardingClasses b) \<and>
     deepMap (=) (mcos_TrafficControlProfiles a) (mcos_TrafficControlProfiles b) \<and>
     deepMap (=) (mcos_Interfaces a) (mcos_Interfaces b)"

definition deepSecurity :: "MSecurityConfig \<Rightarrow> MSecurityConfig \<Rightarrow> bool" where
  "deepSecurity a b \<longleftrightarrow> msec_NETCONF a = msec_NETCONF b \<and> deepMap (=) (msec_Users a) (msec_Users b) \<and>
     msec_RateLimit a = msec_RateLimit b"

definition sameConfig :: "RouterConfig \<Rightarrow> RouterConfig \<Rightarrow> bool" where
  "sameConfig a b \<longleftrightarrow> rc_System a = rc_System b \<and> rel_option deepChassis (rc_Chassis a) (rc_Chassis b) \<and>
     deepMap deepInterface (rc_Interfaces a) (rc_Interfaces b) \<and> rel_option deepProtocols (rc_Protocols a) (rc_Protocols b) \<and>
     rc_Routing a = rc_Routing b \<and> deepMap (=) (rc_RoutingInstances a) (rc_RoutingInstances b) \<and>
     rel_option deepPolicy (rc_Policy a) (rc_Policy b) \<and> rel_option deepCoS (rc_ClassOfService a) (rc_ClassOfService b) \<and>
     rel_option deepSecurity (rc_Security a) (rc_Security b)"

section \<open>Distinct keys\<close>

definition goInterface :: "InterfaceConfig \<Rightarrow> bool" where
  "goInterface i \<longleftrightarrow> okMap (\<lambda>u. keys_ok (mu_Family u)) (ic_Units i)"

definition goBFD :: "MBFDConfig \<Rightarrow> bool" where
  "goBFD b \<longleftrightarrow> keys_ok (mbfd_Profiles b) \<and> keys_ok (mbfd_Peers b)"

definition goBGP :: "MBGPConfig \<Rightarrow> bool" where
  "goBGP b \<longleftrightarrow> okMap (\<lambda>g. keys_ok (mbg_Neighbors g)) (mbgp_Groups b)"

definition goOSPF :: "MOSPFConfig \<Rightarrow> bool" where
  "goOSPF x \<longleftrightarrow> okMap (\<lambda>a. keys_ok (moa_Interfaces a)) (mospf_Areas x)"

definition goProtocols :: "ProtocolsConfig \<Rightarrow> bool" where
  "goProtocols pc \<longleftrightarrow> pred_option goBFD (mpc_BFD pc) \<and> pred_option goBGP (mpc_BGP pc) \<and>
     pred_option (\<lambda>e. keys_ok (mevpn_VNIs e)) (mpc_EVPN pc) \<and> pred_option goOSPF (mpc_OSPF pc) \<and>
     pred_option goOSPF (mpc_OSPF3 pc) \<and> pred_option (\<lambda>v. keys_ok (mvrrp_Groups v)) (mpc_VRRP pc)"

definition goPolicy :: "PolicyConfig \<Rightarrow> bool" where
  "goPolicy po \<longleftrightarrow> keys_ok (mpo_PrefixLists po) \<and> keys_ok (mpo_PolicyStatements po)"

definition goCoS :: "MClassOfServiceConfig \<Rightarrow> bool" where
  "goCoS co \<longleftrightarrow> keys_ok (mcos_ForwardingClasses co) \<and> keys_ok (mcos_TrafficControlProfiles co) \<and> keys_ok (mcos_Interfaces co)"

definition goConfig :: "RouterConfig \<Rightarrow> bool" where
  "goConfig c \<longleftrightarrow> pred_option (\<lambda>ch. pred_option (\<lambda>cl. keys_ok (mcl_Nodes cl)) (mch_Cluster ch)) (rc_Chassis c) \<and>
     okMap goInterface (rc_Interfaces c) \<and> pred_option goProtocols (rc_Protocols c) \<and> keys_ok (rc_RoutingInstances c) \<and>
     pred_option goPolicy (rc_Policy c) \<and> pred_option goCoS (rc_ClassOfService c) \<and>
     pred_option (\<lambda>s. keys_ok (msec_Users s)) (rc_Security c)"

lemmas deep_defs = deepCluster_def deepChassis_def deepUnit_def deepInterface_def deepBFD_def deepBGPGroup_def deepBGP_def
  deepEVPN_def deepOSPFArea_def deepOSPF_def deepVRRP_def deepProtocols_def deepPolicy_def deepCoS_def deepSecurity_def

lemmas go_defs = goInterface_def goBFD_def goBGP_def goOSPF_def goProtocols_def goPolicy_def goCoS_def

lemma deepMap_eq_refl [simp]: "keys_ok m \<Longrightarrow> deepMap (=) m m"
  by (rule deepMap_refl [where P = "\<lambda>_. True"]) (simp_all add: okMap_def list_all_iff pred_option_def)

end
