(* ===== verification/ModelClone.thy ===== *)
theory ModelClone
  imports ModelTypes
begin

text \<open>
  internal/model/clone.go: the deep copies that the engine makes of a configuration before it
  keeps it or hands it to a plugin. A \<open>Clone\<close> method on a nil pointer returns nil, so a method is
  mapped over the option that holds its receiver. The loops copy nil entries as nil (\<open>passMap\<close>).
\<close>

definition CloneSystemServices :: "MSystemServicesConfig \<Rightarrow> MSystemServicesConfig" where
  "CloneSystemServices c =
     \<lparr>msvc_WebUI = map_option (\<lambda>w. w) (msvc_WebUI c), msvc_Prometheus = map_option (\<lambda>p. p) (msvc_Prometheus c),
      msvc_SNMP = map_option (\<lambda>s. s) (msvc_SNMP c)\<rparr>"

definition CloneSystem :: "MSystemConfig \<Rightarrow> MSystemConfig" where
  "CloneSystem c = \<lparr>msys_HostName = msys_HostName c, msys_Services = map_option CloneSystemServices (msys_Services c)\<rparr>"

definition CloneEtcdSync :: "MEtcdSyncConfig \<Rightarrow> MEtcdSyncConfig" where
  "CloneEtcdSync c = \<lparr>mes_Endpoints = [] @ mes_Endpoints c\<rparr>"

definition CloneClusterSync :: "MClusterSyncConfig \<Rightarrow> MClusterSyncConfig" where
  "CloneClusterSync c = \<lparr>mcs_Etcd = map_option CloneEtcdSync (mcs_Etcd c)\<rparr>"

definition CloneCluster :: "MClusterConfig \<Rightarrow> MClusterConfig" where
  "CloneCluster c =
     \<lparr>mcl_Enabled = mcl_Enabled c, mcl_Nodes = passMap (\<lambda>_ n. n) (mcl_Nodes c),
      mcl_Sync = map_option CloneClusterSync (mcl_Sync c)\<rparr>"

definition CloneChassis :: "MChassisConfig \<Rightarrow> MChassisConfig" where
  "CloneChassis c = \<lparr>mch_Cluster = map_option CloneCluster (mch_Cluster c)\<rparr>"

definition CloneAddressFamily :: "AddressFamily \<Rightarrow> AddressFamily" where
  "CloneAddressFamily a = \<lparr>af_Addresses = [] @ af_Addresses a\<rparr>"

definition CloneUnit :: "MUnit \<Rightarrow> MUnit" where
  "CloneUnit u = \<lparr>mu_Family = passMap (\<lambda>_. CloneAddressFamily) (mu_Family u)\<rparr>"

definition CloneInterface :: "InterfaceConfig \<Rightarrow> InterfaceConfig" where
  "CloneInterface c = \<lparr>ic_Description = ic_Description c, ic_Units = passMap (\<lambda>_. CloneUnit) (ic_Units c)\<rparr>"

definition CloneBFD :: "MBFDConfig \<Rightarrow> MBFDConfig" where
  "CloneBFD c = \<lparr>mbfd_Profiles = passMap (\<lambda>_ p. p) (mbfd_Profiles c), mbfd_Peers = passMap (\<lambda>_ p. p) (mbfd_Peers c)\<rparr>"

definition CloneEVPNVNI :: "MEVPNVNI \<Rightarrow> MEVPNVNI" where
  "CloneEVPNVNI v =
     v\<lparr>mev_VRFTargetImport := [] @ mev_VRFTargetImport v, mev_VRFTargetExport := [] @ mev_VRFTargetExport v\<rparr>"

definition CloneEVPN :: "MEVPNConfig \<Rightarrow> MEVPNConfig" where
  "CloneEVPN c = \<lparr>mevpn_VNIs = passMap (\<lambda>_. CloneEVPNVNI) (mevpn_VNIs c)\<rparr>"

definition CloneMPLS :: "MMPLSConfig \<Rightarrow> MMPLSConfig" where
  "CloneMPLS c = \<lparr>mmpls_Interfaces = [] @ mmpls_Interfaces c\<rparr>"

definition CloneVRRP :: "MVRRPConfig \<Rightarrow> MVRRPConfig" where
  "CloneVRRP c = \<lparr>mvrrp_Groups = passMap (\<lambda>_ g. g) (mvrrp_Groups c)\<rparr>"

definition CloneBGPGroup :: "MBGPGroup \<Rightarrow> MBGPGroup" where
  "CloneBGPGroup g =
     \<lparr>mbg_Type = mbg_Type g, mbg_Neighbors = passMap (\<lambda>_ n. n) (mbg_Neighbors g), mbg_Import = mbg_Import g,
      mbg_Export = mbg_Export g\<rparr>"

definition CloneBGP :: "MBGPConfig \<Rightarrow> MBGPConfig" where
  "CloneBGP c = \<lparr>mbgp_Groups = passMap (\<lambda>_. CloneBGPGroup) (mbgp_Groups c)\<rparr>"

definition CloneOSPFArea :: "MOSPFArea \<Rightarrow> MOSPFArea" where
  "CloneOSPFArea a =
     \<lparr>moa_Interfaces = passMap (\<lambda>_ i. i\<lparr>moi_Priority := map_option (\<lambda>p. p) (moi_Priority i)\<rparr>) (moa_Interfaces a)\<rparr>"

definition CloneOSPF :: "MOSPFConfig \<Rightarrow> MOSPFConfig" where
  "CloneOSPF c = \<lparr>mospf_RouterID = mospf_RouterID c, mospf_Areas = passMap (\<lambda>_. CloneOSPFArea) (mospf_Areas c)\<rparr>"

definition CloneProtocols :: "ProtocolsConfig \<Rightarrow> ProtocolsConfig" where
  "CloneProtocols c =
     \<lparr>mpc_BFD = map_option CloneBFD (mpc_BFD c), mpc_BGP = map_option CloneBGP (mpc_BGP c),
      mpc_EVPN = map_option CloneEVPN (mpc_EVPN c), mpc_OSPF = map_option CloneOSPF (mpc_OSPF c),
      mpc_OSPF3 = map_option CloneOSPF (mpc_OSPF3 c), mpc_MPLS = map_option CloneMPLS (mpc_MPLS c),
      mpc_VRRP = map_option CloneVRRP (mpc_VRRP c)\<rparr>"

definition CloneRouting :: "RoutingConfig \<Rightarrow> RoutingConfig" where
  "CloneRouting c =
     \<lparr>mro_AutonomousSystem = mro_AutonomousSystem c, mro_RouterID = mro_RouterID c,
      mro_StaticRoutes = map (map_option (\<lambda>r. r)) (mro_StaticRoutes c)\<rparr>"

definition CloneRoutingInstance :: "MRoutingInstance \<Rightarrow> MRoutingInstance" where
  "CloneRoutingInstance c =
     c\<lparr>mri_Interfaces := [] @ mri_Interfaces c, mri_VRFTargetImport := [] @ mri_VRFTargetImport c,
       mri_VRFTargetExport := [] @ mri_VRFTargetExport c, mri_VRFImport := [] @ mri_VRFImport c,
       mri_VRFExport := [] @ mri_VRFExport c\<rparr>"

definition ClonePrefixList :: "MPrefixList \<Rightarrow> MPrefixList" where
  "ClonePrefixList p = \<lparr>mpl_Prefixes = [] @ mpl_Prefixes p\<rparr>"

definition ClonePolicyMatchConditions :: "MPolicyMatchConditions \<Rightarrow> MPolicyMatchConditions" where
  "ClonePolicyMatchConditions p =
     \<lparr>mpm_PrefixLists = [] @ mpm_PrefixLists p, mpm_Protocol = mpm_Protocol p, mpm_Neighbor = mpm_Neighbor p,
      mpm_ASPath = mpm_ASPath p\<rparr>"

definition ClonePolicyActions :: "MPolicyActions \<Rightarrow> MPolicyActions" where
  "ClonePolicyActions p =
     \<lparr>mpa_Accept = map_option (\<lambda>a. a) (mpa_Accept p), mpa_LocalPreference = map_option (\<lambda>l. l) (mpa_LocalPreference p),
      mpa_Community = mpa_Community p\<rparr>"

definition ClonePolicyTerm :: "MPolicyTerm \<Rightarrow> MPolicyTerm" where
  "ClonePolicyTerm p =
     \<lparr>mpt_Name = mpt_Name p, mpt_From = map_option ClonePolicyMatchConditions (mpt_From p),
      mpt_Then = map_option ClonePolicyActions (mpt_Then p)\<rparr>"

definition ClonePolicyStatement :: "MPolicyStatement \<Rightarrow> MPolicyStatement" where
  "ClonePolicyStatement p = \<lparr>mps_Terms = map (map_option ClonePolicyTerm) (mps_Terms p)\<rparr>"

definition ClonePolicy :: "PolicyConfig \<Rightarrow> PolicyConfig" where
  "ClonePolicy c =
     \<lparr>mpo_PrefixLists = passMap (\<lambda>_. ClonePrefixList) (mpo_PrefixLists c),
      mpo_PolicyStatements = passMap (\<lambda>_. ClonePolicyStatement) (mpo_PolicyStatements c)\<rparr>"

definition CloneNETCONF :: "NETCONFSecurityConfig \<Rightarrow> NETCONFSecurityConfig" where
  "CloneNETCONF c = \<lparr>mnc_SSH = map_option (\<lambda>s. s) (mnc_SSH c)\<rparr>"

definition CloneSecurity :: "MSecurityConfig \<Rightarrow> MSecurityConfig" where
  "CloneSecurity c =
     \<lparr>msec_NETCONF = map_option CloneNETCONF (msec_NETCONF c), msec_Users = passMap (\<lambda>_ u. u) (msec_Users c),
      msec_RateLimit = map_option (\<lambda>r. r) (msec_RateLimit c)\<rparr>"

definition CloneClassOfService :: "MClassOfServiceConfig \<Rightarrow> MClassOfServiceConfig" where
  "CloneClassOfService c =
     \<lparr>mcos_ForwardingClasses = passMap (\<lambda>_ f. f) (mcos_ForwardingClasses c),
      mcos_TrafficControlProfiles = passMap (\<lambda>_ p. p) (mcos_TrafficControlProfiles c),
      mcos_Interfaces = passMap (\<lambda>_ i. i) (mcos_Interfaces c)\<rparr>"

definition Clone :: "RouterConfig \<Rightarrow> RouterConfig" where
  "Clone c =
     \<lparr>rc_System = map_option CloneSystem (rc_System c), rc_Chassis = map_option CloneChassis (rc_Chassis c),
      rc_Interfaces = passMap (\<lambda>_. CloneInterface) (rc_Interfaces c),
      rc_Protocols = map_option CloneProtocols (rc_Protocols c), rc_Routing = map_option CloneRouting (rc_Routing c),
      rc_RoutingInstances = passMap (\<lambda>_. CloneRoutingInstance) (rc_RoutingInstances c),
      rc_Policy = map_option ClonePolicy (rc_Policy c),
      rc_ClassOfService = map_option CloneClassOfService (rc_ClassOfService c),
      rc_Security = map_option CloneSecurity (rc_Security c)\<rparr>"

section \<open>A copy forgets no field\<close>

lemma map_same: "(\<And>v. f v = v) \<Longrightarrow> map_option f x = x"
  by (cases x) simp_all

lemma passMap_same: "(\<And>k v. f k v = v) \<Longrightarrow> passMap f m = m"
  by (induction m) (auto simp: passMap_def map_same)

lemma leaf_clones:
  "CloneSystemServices sv = sv" "CloneEtcdSync es = es" "CloneAddressFamily af = af" "CloneBFD bf = bf" "CloneEVPNVNI ev = ev"
  "CloneMPLS mp = mp" "CloneVRRP vr = vr" "CloneBGPGroup bg = bg" "CloneOSPFArea oa = oa" "CloneRouting ro = ro"
  "CloneRoutingInstance ri = ri" "ClonePrefixList pl = pl" "ClonePolicyMatchConditions pm = pm" "ClonePolicyActions pa = pa"
  "CloneNETCONF nc = nc" "CloneClassOfService cs = cs"
  by (simp_all add: CloneSystemServices_def CloneEtcdSync_def CloneAddressFamily_def CloneBFD_def CloneEVPNVNI_def CloneMPLS_def
      CloneVRRP_def CloneBGPGroup_def CloneOSPFArea_def CloneRouting_def CloneRoutingInstance_def ClonePrefixList_def
      ClonePolicyMatchConditions_def ClonePolicyActions_def CloneNETCONF_def CloneClassOfService_def
      passMap_same option.map_ident option.map_id0 id_def [symmetric])

lemma inner_clones:
  "CloneSystem sy = sy" "CloneClusterSync cs = cs" "CloneUnit u = u" "CloneEVPN ev = ev" "CloneBGP bg = bg" "CloneOSPF os = os"
  "ClonePolicyTerm pt = pt" "CloneSecurity se = se"
  by (simp_all add: CloneSystem_def CloneClusterSync_def CloneUnit_def CloneEVPN_def CloneBGP_def CloneOSPF_def ClonePolicyTerm_def
      CloneSecurity_def leaf_clones passMap_same map_same option.map_ident)

lemma ClonePolicyStatement_same: "ClonePolicyStatement ps = ps"
  by (simp add: ClonePolicyStatement_def inner_clones map_same map_idI)

lemma outer_clones:
  "CloneCluster cl = cl" "CloneInterface i = i" "CloneProtocols pc = pc" "ClonePolicy po = po"
  by (simp_all add: CloneCluster_def CloneInterface_def CloneProtocols_def ClonePolicy_def leaf_clones inner_clones
      ClonePolicyStatement_same passMap_same map_same)

lemma Clone_same [simp]: "Clone c = c"
  by (simp add: Clone_def CloneChassis_def leaf_clones inner_clones outer_clones passMap_same map_same)

end
