(* ===== verification/Diff.thy ===== *)
theory Diff
  imports ModelEqual ModelClone "HOL-Library.Monad_Syntax"
begin

text \<open>
  internal/engine/diff.go: the difference between two configurations that the engine hands to the
  southbound plugins. \<open>None\<close> is a nil dereference. Sections compared with \<open>reflect.DeepEqual\<close> use
  the equality of ModelEqual, in which a nil and an empty map are the same value; the code can in
  addition report a change between these two.
\<close>

section \<open>Data\<close>

record UnitAddress =
  ua_UnitNum :: int
  ua_Family :: string
  ua_Address :: string

record InterfaceChange =
  ich_Name :: string
  ich_DescriptionChanged :: bool
  ich_OldDescription :: string
  ich_NewDescription :: string
  ich_AddressesAdded :: "UnitAddress list"
  ich_AddressesRemoved :: "UnitAddress list"

record ConfigDiff =
  cd_OldConfig :: RouterConfig
  cd_NewConfig :: RouterConfig
  cd_InterfacesAdded :: "(string, InterfaceConfig) gomap"
  cd_InterfacesRemoved :: "string list"
  cd_InterfacesChanged :: "(string, InterfaceChange) gomap"
  cd_BFDChanged :: bool
  cd_OldBFD :: "MBFDConfig option"
  cd_NewBFD :: "MBFDConfig option"
  cd_BGPChanged :: bool
  cd_OldBGP :: "MBGPConfig option"
  cd_NewBGP :: "MBGPConfig option"
  cd_EVPNChanged :: bool
  cd_OldEVPN :: "MEVPNConfig option"
  cd_NewEVPN :: "MEVPNConfig option"
  cd_OSPFChanged :: bool
  cd_OldOSPF :: "MOSPFConfig option"
  cd_NewOSPF :: "MOSPFConfig option"
  cd_OSPF3Changed :: bool
  cd_OldOSPF3 :: "MOSPFConfig option"
  cd_NewOSPF3 :: "MOSPFConfig option"
  cd_MPLSChanged :: bool
  cd_OldMPLS :: "MMPLSConfig option"
  cd_NewMPLS :: "MMPLSConfig option"
  cd_VRRPChanged :: bool
  cd_OldVRRP :: "MVRRPConfig option"
  cd_NewVRRP :: "MVRRPConfig option"
  cd_StaticRoutesChanged :: bool
  cd_OldStaticRoutes :: "MStaticRoute option list"
  cd_NewStaticRoutes :: "MStaticRoute option list"
  cd_RoutingChanged :: bool
  cd_OldRouting :: "RoutingConfig option"
  cd_NewRouting :: "RoutingConfig option"
  cd_RoutingInstancesChanged :: bool
  cd_OldRoutingInstances :: "(string, MRoutingInstance) gomap"
  cd_NewRoutingInstances :: "(string, MRoutingInstance) gomap"
  cd_PolicyChanged :: bool
  cd_OldPolicy :: "PolicyConfig option"
  cd_NewPolicy :: "PolicyConfig option"
  cd_ChassisChanged :: bool
  cd_OldChassis :: "MChassisConfig option"
  cd_NewChassis :: "MChassisConfig option"
  cd_ClassOfServiceChanged :: bool
  cd_OldClassOfService :: "MClassOfServiceConfig option"
  cd_NewClassOfService :: "MClassOfServiceConfig option"
  cd_SystemChanged :: bool
  cd_OldSystem :: "MSystemConfig option"
  cd_NewSystem :: "MSystemConfig option"
  cd_SecurityChanged :: bool
  cd_OldSecurity :: "MSecurityConfig option"
  cd_NewSecurity :: "MSecurityConfig option"

definition emptyDiff :: "RouterConfig \<Rightarrow> RouterConfig \<Rightarrow> ConfigDiff" where
  "emptyDiff old new = \<lparr>cd_OldConfig = old, cd_NewConfig = new, cd_InterfacesAdded = [], cd_InterfacesRemoved = [],
     cd_InterfacesChanged = [], cd_BFDChanged = False, cd_OldBFD = None, cd_NewBFD = None, cd_BGPChanged = False, cd_OldBGP = None,
     cd_NewBGP = None, cd_EVPNChanged = False, cd_OldEVPN = None, cd_NewEVPN = None, cd_OSPFChanged = False, cd_OldOSPF = None,
     cd_NewOSPF = None, cd_OSPF3Changed = False, cd_OldOSPF3 = None, cd_NewOSPF3 = None, cd_MPLSChanged = False, cd_OldMPLS = None,
     cd_NewMPLS = None, cd_VRRPChanged = False, cd_OldVRRP = None, cd_NewVRRP = None, cd_StaticRoutesChanged = False,
     cd_OldStaticRoutes = [], cd_NewStaticRoutes = [], cd_RoutingChanged = False, cd_OldRouting = None, cd_NewRouting = None,
     cd_RoutingInstancesChanged = False, cd_OldRoutingInstances = [], cd_NewRoutingInstances = [], cd_PolicyChanged = False,
     cd_OldPolicy = None, cd_NewPolicy = None, cd_ChassisChanged = False, cd_OldChassis = None, cd_NewChassis = None,
     cd_ClassOfServiceChanged = False, cd_OldClassOfService = None, cd_NewClassOfService = None, cd_SystemChanged = False,
     cd_OldSystem = None, cd_NewSystem = None, cd_SecurityChanged = False, cd_OldSecurity = None, cd_NewSecurity = None\<rparr>"

definition HasChanges :: "ConfigDiff \<Rightarrow> bool" where
  "HasChanges d \<longleftrightarrow> cd_InterfacesAdded d \<noteq> [] \<or> cd_InterfacesRemoved d \<noteq> [] \<or> cd_InterfacesChanged d \<noteq> [] \<or>
     cd_BFDChanged d \<or> cd_BGPChanged d \<or> cd_EVPNChanged d \<or> cd_OSPFChanged d \<or> cd_OSPF3Changed d \<or> cd_MPLSChanged d \<or>
     cd_VRRPChanged d \<or> cd_StaticRoutesChanged d \<or> cd_RoutingChanged d \<or> cd_RoutingInstancesChanged d \<or> cd_PolicyChanged d \<or>
     cd_ChassisChanged d \<or> cd_ClassOfServiceChanged d \<or> cd_SystemChanged d \<or> cd_SecurityChanged d"

section \<open>Interfaces\<close>

definition interfaceDescription :: "InterfaceConfig option \<Rightarrow> string" where
  "interfaceDescription iface = (case iface of None \<Rightarrow> [] | Some i \<Rightarrow> ic_Description i)"

definition collectFamily :: "int \<Rightarrow> string \<times> AddressFamily option \<Rightarrow> UnitAddress list" where
  "collectFamily unitNum = (\<lambda>(familyName, p). case p of None \<Rightarrow> []
     | Some family \<Rightarrow> map (\<lambda>addr. \<lparr>ua_UnitNum = unitNum, ua_Family = familyName, ua_Address = addr\<rparr>) (af_Addresses family))"

definition collectUnit :: "int \<times> MUnit option \<Rightarrow> UnitAddress list" where
  "collectUnit = (\<lambda>(unitNum, p). case p of None \<Rightarrow> [] | Some unit \<Rightarrow> concat (map (collectFamily unitNum) (mu_Family unit)))"

definition collectAddresses :: "InterfaceConfig option \<Rightarrow> UnitAddress list" where
  "collectAddresses ic = (case ic of None \<Rightarrow> [] | Some i \<Rightarrow> concat (map collectUnit (ic_Units i)))"

definition containsAddress :: "UnitAddress list \<Rightarrow> UnitAddress \<Rightarrow> bool" where
  "containsAddress addrs target = list_ex (\<lambda>a. ua_UnitNum a = ua_UnitNum target \<and> ua_Family a = ua_Family target \<and>
     ua_Address a = ua_Address target) addrs"

definition diffInterface :: "string \<Rightarrow> InterfaceConfig option \<Rightarrow> InterfaceConfig option \<Rightarrow> InterfaceChange option" where
  "diffInterface name old new =
     (let oldDescription = interfaceDescription old; newDescription = interfaceDescription new;
          descr = (oldDescription \<noteq> newDescription);
          oldAddrs = collectAddresses old; newAddrs = collectAddresses new;
          added = filter (\<lambda>a. \<not> containsAddress oldAddrs a) newAddrs;
          removed = filter (\<lambda>a. \<not> containsAddress newAddrs a) oldAddrs
      in if \<not> descr \<and> added = [] \<and> removed = [] then None
         else Some \<lparr>ich_Name = name, ich_DescriptionChanged = descr, ich_OldDescription = (if descr then oldDescription else []),
                ich_NewDescription = (if descr then newDescription else []), ich_AddressesAdded = added, ich_AddressesRemoved = removed\<rparr>)"

definition removedInterfaces :: "(string, InterfaceConfig) gomap \<Rightarrow> (string, InterfaceConfig) gomap \<Rightarrow> string list" where
  "removedInterfaces old new = sort (map fst (filter (\<lambda>(name, _). map_of new name = None) old))"

definition changedInterfaces :: "(string, InterfaceConfig) gomap \<Rightarrow> (string, InterfaceConfig) gomap \<Rightarrow> (string, InterfaceChange) gomap" where
  "changedInterfaces old new = concat (map (\<lambda>(name, oldIface).
     case map_of new name of None \<Rightarrow> []
     | Some newIface \<Rightarrow> (case diffInterface name oldIface newIface of None \<Rightarrow> [] | Some change \<Rightarrow> [(name, Some change)])) old)"

definition addedInterfaces :: "(string, InterfaceConfig) gomap \<Rightarrow> (string, InterfaceConfig) gomap \<Rightarrow> (string, InterfaceConfig) gomap" where
  "addedInterfaces old new = filter (\<lambda>(name, _). map_of old name = None) new"

definition computeInterfaceDiff :: "RouterConfig \<Rightarrow> RouterConfig \<Rightarrow> ConfigDiff \<Rightarrow> ConfigDiff" where
  "computeInterfaceDiff old new d = d\<lparr>
     cd_InterfacesRemoved := removedInterfaces (rc_Interfaces old) (rc_Interfaces new),
     cd_InterfacesChanged := changedInterfaces (rc_Interfaces old) (rc_Interfaces new),
     cd_InterfacesAdded := addedInterfaces (rc_Interfaces old) (rc_Interfaces new)\<rparr>"

section \<open>Equality helpers\<close>

definition getBFD :: "RouterConfig \<Rightarrow> MBFDConfig option" where "getBFD c = Option.bind (rc_Protocols c) mpc_BFD"
definition getBGP :: "RouterConfig \<Rightarrow> MBGPConfig option" where "getBGP c = Option.bind (rc_Protocols c) mpc_BGP"
definition getEVPN :: "RouterConfig \<Rightarrow> MEVPNConfig option" where "getEVPN c = Option.bind (rc_Protocols c) mpc_EVPN"
definition getOSPF :: "RouterConfig \<Rightarrow> MOSPFConfig option" where "getOSPF c = Option.bind (rc_Protocols c) mpc_OSPF"
definition getOSPF3 :: "RouterConfig \<Rightarrow> MOSPFConfig option" where "getOSPF3 c = Option.bind (rc_Protocols c) mpc_OSPF3"
definition getMPLS :: "RouterConfig \<Rightarrow> MMPLSConfig option" where "getMPLS c = Option.bind (rc_Protocols c) mpc_MPLS"
definition getVRRP :: "RouterConfig \<Rightarrow> MVRRPConfig option" where "getVRRP c = Option.bind (rc_Protocols c) mpc_VRRP"

definition getStaticRoutes :: "RouterConfig \<Rightarrow> MStaticRoute option list" where
  "getStaticRoutes c = (case rc_Routing c of None \<Rightarrow> [] | Some ro \<Rightarrow> mro_StaticRoutes ro)"

text \<open>A loop that returns false at the first difference.\<close>

fun allM :: "('a \<Rightarrow> bool option) \<Rightarrow> 'a list \<Rightarrow> bool option" where
  "allM f [] = Some True"
| "allM f (x # xs) = (case f x of None \<Rightarrow> None | Some b \<Rightarrow> if b then allM f xs else Some False)"

text \<open>The lookup of a key of one map in the other and the comparison of the two entries, which are dereferenced.\<close>

definition eqEntry :: "('v \<Rightarrow> 'v \<Rightarrow> bool option) \<Rightarrow> ('k, 'v) gomap \<Rightarrow> 'k \<times> 'v option \<Rightarrow> bool option" where
  "eqEntry f m = (\<lambda>(k, p). case map_of m k of None \<Rightarrow> Some False
     | Some q \<Rightarrow> (case p of None \<Rightarrow> None | Some v \<Rightarrow> (case q of None \<Rightarrow> None | Some w \<Rightarrow> f v w)))"

definition eqMaps :: "('v \<Rightarrow> 'v \<Rightarrow> bool option) \<Rightarrow> ('k, 'v) gomap \<Rightarrow> ('k, 'v) gomap \<Rightarrow> bool option" where
  "eqMaps f m m' = (if length m \<noteq> length m' then Some False else allM (eqEntry f m') m)"

definition neighborEqual :: "MBGPNeighbor \<Rightarrow> MBGPNeighbor \<Rightarrow> bool" where
  "neighborEqual an bn \<longleftrightarrow> mbn_PeerAS an = mbn_PeerAS bn \<and> mbn_Description an = mbn_Description bn \<and>
     mbn_LocalAddress an = mbn_LocalAddress bn \<and> mbn_BFD an = mbn_BFD bn \<and> mbn_BFDProfile an = mbn_BFDProfile bn"

definition groupEqual :: "MBGPGroup \<Rightarrow> MBGPGroup \<Rightarrow> bool option" where
  "groupEqual ag bg =
     (if mbg_Type ag \<noteq> mbg_Type bg \<or> mbg_Import ag \<noteq> mbg_Import bg \<or> mbg_Export ag \<noteq> mbg_Export bg then Some False
      else eqMaps (\<lambda>an bn. Some (neighborEqual an bn)) (mbg_Neighbors ag) (mbg_Neighbors bg))"

definition eqPtr :: "('a \<Rightarrow> 'a \<Rightarrow> bool option) \<Rightarrow> 'a option \<Rightarrow> 'a option \<Rightarrow> bool option" where
  "eqPtr f a b = (case a of None \<Rightarrow> Some (b = None) | Some x \<Rightarrow> (case b of None \<Rightarrow> Some False | Some y \<Rightarrow> f x y))"

definition bgpEqual :: "MBGPConfig option \<Rightarrow> MBGPConfig option \<Rightarrow> bool option" where
  "bgpEqual = eqPtr (\<lambda>a b. eqMaps groupEqual (mbgp_Groups a) (mbgp_Groups b))"

definition ospfInterfaceEqual :: "MOSPFInterface \<Rightarrow> MOSPFInterface \<Rightarrow> bool" where
  "ospfInterfaceEqual ai bi \<longleftrightarrow> moi_Passive ai = moi_Passive bi \<and> moi_Metric ai = moi_Metric bi \<and> moi_BFD ai = moi_BFD bi \<and>
     moi_BFDProfile ai = moi_BFDProfile bi \<and> (moi_Priority ai = None) = (moi_Priority bi = None) \<and>
     (case moi_Priority ai of None \<Rightarrow> True | Some p \<Rightarrow> moi_Priority bi = Some p)"

definition ospfEqual :: "MOSPFConfig option \<Rightarrow> MOSPFConfig option \<Rightarrow> bool option" where
  "ospfEqual = eqPtr (\<lambda>a b. if mospf_RouterID a \<noteq> mospf_RouterID b then Some False
     else eqMaps (\<lambda>aa ba. eqMaps (\<lambda>ai bi. Some (ospfInterfaceEqual ai bi)) (moa_Interfaces aa) (moa_Interfaces ba))
            (mospf_Areas a) (mospf_Areas b))"

definition routingEqual :: "RoutingConfig option \<Rightarrow> RoutingConfig option \<Rightarrow> bool" where
  "routingEqual a b = (case a of None \<Rightarrow> b = None
     | Some x \<Rightarrow> (case b of None \<Rightarrow> False
        | Some y \<Rightarrow> mro_AutonomousSystem x = mro_AutonomousSystem y \<and> mro_RouterID x = mro_RouterID y))"

definition routeEqual :: "MStaticRoute option \<times> MStaticRoute option \<Rightarrow> bool option" where
  "routeEqual = (\<lambda>(p, q). case p of None \<Rightarrow> None | Some a \<Rightarrow> (case q of None \<Rightarrow> None | Some b \<Rightarrow>
     Some (msr_Prefix a = msr_Prefix b \<and> msr_NextHop a = msr_NextHop b \<and> msr_Distance a = msr_Distance b \<and> msr_BFD a = msr_BFD b \<and>
       msr_BFDProfile a = msr_BFDProfile b \<and> msr_BFDSource a = msr_BFDSource b \<and> msr_BFDMultihop a = msr_BFDMultihop b)))"

definition staticRoutesEqual :: "MStaticRoute option list \<Rightarrow> MStaticRoute option list \<Rightarrow> bool option" where
  "staticRoutesEqual a b = (if length a \<noteq> length b then Some False else allM routeEqual (zip a b))"

definition policyEqual :: "PolicyConfig option \<Rightarrow> PolicyConfig option \<Rightarrow> bool" where
  "policyEqual a b = rel_option deepPolicy a b"

definition systemEqual :: "MSystemConfig option \<Rightarrow> MSystemConfig option \<Rightarrow> bool" where
  "systemEqual a b \<longleftrightarrow> a = b"

definition securityEqual :: "MSecurityConfig option \<Rightarrow> MSecurityConfig option \<Rightarrow> bool" where
  "securityEqual a b = rel_option deepSecurity a b"

section \<open>Sections\<close>

text \<open>The body of each comparison: where the two sections differ, the flag is set and both are recorded.\<close>

definition markBFD :: "bool \<Rightarrow> MBFDConfig option \<Rightarrow> MBFDConfig option \<Rightarrow> ConfigDiff \<Rightarrow> ConfigDiff" where
  "markBFD same old new d = (if same then d else d\<lparr>cd_BFDChanged := True, cd_OldBFD := old, cd_NewBFD := new\<rparr>)"

definition markBGP :: "bool \<Rightarrow> MBGPConfig option \<Rightarrow> MBGPConfig option \<Rightarrow> ConfigDiff \<Rightarrow> ConfigDiff" where
  "markBGP same old new d = (if same then d else d\<lparr>cd_BGPChanged := True, cd_OldBGP := old, cd_NewBGP := new\<rparr>)"

definition markEVPN :: "bool \<Rightarrow> MEVPNConfig option \<Rightarrow> MEVPNConfig option \<Rightarrow> ConfigDiff \<Rightarrow> ConfigDiff" where
  "markEVPN same old new d = (if same then d else d\<lparr>cd_EVPNChanged := True, cd_OldEVPN := old, cd_NewEVPN := new\<rparr>)"

definition markOSPF :: "bool \<Rightarrow> MOSPFConfig option \<Rightarrow> MOSPFConfig option \<Rightarrow> ConfigDiff \<Rightarrow> ConfigDiff" where
  "markOSPF same old new d = (if same then d else d\<lparr>cd_OSPFChanged := True, cd_OldOSPF := old, cd_NewOSPF := new\<rparr>)"

definition markOSPF3 :: "bool \<Rightarrow> MOSPFConfig option \<Rightarrow> MOSPFConfig option \<Rightarrow> ConfigDiff \<Rightarrow> ConfigDiff" where
  "markOSPF3 same old new d = (if same then d else d\<lparr>cd_OSPF3Changed := True, cd_OldOSPF3 := old, cd_NewOSPF3 := new\<rparr>)"

definition markMPLS :: "bool \<Rightarrow> MMPLSConfig option \<Rightarrow> MMPLSConfig option \<Rightarrow> ConfigDiff \<Rightarrow> ConfigDiff" where
  "markMPLS same old new d = (if same then d else d\<lparr>cd_MPLSChanged := True, cd_OldMPLS := old, cd_NewMPLS := new\<rparr>)"

definition markVRRP :: "bool \<Rightarrow> MVRRPConfig option \<Rightarrow> MVRRPConfig option \<Rightarrow> ConfigDiff \<Rightarrow> ConfigDiff" where
  "markVRRP same old new d = (if same then d else d\<lparr>cd_VRRPChanged := True, cd_OldVRRP := old, cd_NewVRRP := new\<rparr>)"

definition markStaticRoutes :: "bool \<Rightarrow> MStaticRoute option list \<Rightarrow> MStaticRoute option list \<Rightarrow> ConfigDiff \<Rightarrow> ConfigDiff" where
  "markStaticRoutes same old new d = (if same then d else d\<lparr>cd_StaticRoutesChanged := True, cd_OldStaticRoutes := old, cd_NewStaticRoutes := new\<rparr>)"

definition markRouting :: "bool \<Rightarrow> RoutingConfig option \<Rightarrow> RoutingConfig option \<Rightarrow> ConfigDiff \<Rightarrow> ConfigDiff" where
  "markRouting same old new d = (if same then d else d\<lparr>cd_RoutingChanged := True, cd_OldRouting := old, cd_NewRouting := new\<rparr>)"

definition markRoutingInstances :: "bool \<Rightarrow> (string, MRoutingInstance) gomap \<Rightarrow> (string, MRoutingInstance) gomap \<Rightarrow> ConfigDiff \<Rightarrow> ConfigDiff" where
  "markRoutingInstances same old new d = (if same then d else d\<lparr>cd_RoutingInstancesChanged := True, cd_OldRoutingInstances := old, cd_NewRoutingInstances := new\<rparr>)"

definition markPolicy :: "bool \<Rightarrow> PolicyConfig option \<Rightarrow> PolicyConfig option \<Rightarrow> ConfigDiff \<Rightarrow> ConfigDiff" where
  "markPolicy same old new d = (if same then d else d\<lparr>cd_PolicyChanged := True, cd_OldPolicy := old, cd_NewPolicy := new\<rparr>)"

definition markChassis :: "bool \<Rightarrow> MChassisConfig option \<Rightarrow> MChassisConfig option \<Rightarrow> ConfigDiff \<Rightarrow> ConfigDiff" where
  "markChassis same old new d = (if same then d else d\<lparr>cd_ChassisChanged := True, cd_OldChassis := old, cd_NewChassis := new\<rparr>)"

definition markClassOfService :: "bool \<Rightarrow> MClassOfServiceConfig option \<Rightarrow> MClassOfServiceConfig option \<Rightarrow> ConfigDiff \<Rightarrow> ConfigDiff" where
  "markClassOfService same old new d = (if same then d else d\<lparr>cd_ClassOfServiceChanged := True, cd_OldClassOfService := old, cd_NewClassOfService := new\<rparr>)"

definition markSystem :: "bool \<Rightarrow> MSystemConfig option \<Rightarrow> MSystemConfig option \<Rightarrow> ConfigDiff \<Rightarrow> ConfigDiff" where
  "markSystem same old new d = (if same then d else d\<lparr>cd_SystemChanged := True, cd_OldSystem := old, cd_NewSystem := new\<rparr>)"

definition markSecurity :: "bool \<Rightarrow> MSecurityConfig option \<Rightarrow> MSecurityConfig option \<Rightarrow> ConfigDiff \<Rightarrow> ConfigDiff" where
  "markSecurity same old new d = (if same then d else d\<lparr>cd_SecurityChanged := True, cd_OldSecurity := old, cd_NewSecurity := new\<rparr>)"

definition computeProtocolDiff :: "RouterConfig \<Rightarrow> RouterConfig \<Rightarrow> ConfigDiff \<Rightarrow> ConfigDiff option" where
  "computeProtocolDiff old new d0 =
     do { let d1 = markBFD (rel_option deepBFD (getBFD old) (getBFD new)) (getBFD old) (getBFD new) d0;
          bgp \<leftarrow> bgpEqual (getBGP old) (getBGP new);
          let d2 = markBGP bgp (getBGP old) (getBGP new) d1;
          let d3 = markEVPN (rel_option deepEVPN (getEVPN old) (getEVPN new)) (getEVPN old) (getEVPN new) d2;
          ospf \<leftarrow> ospfEqual (getOSPF old) (getOSPF new);
          let d4 = markOSPF ospf (getOSPF old) (getOSPF new) d3;
          ospf3 \<leftarrow> ospfEqual (getOSPF3 old) (getOSPF3 new);
          let d5 = markOSPF3 ospf3 (getOSPF3 old) (getOSPF3 new) d4;
          let d6 = markMPLS (getMPLS old = getMPLS new) (getMPLS old) (getMPLS new) d5;
          Some (markVRRP (rel_option deepVRRP (getVRRP old) (getVRRP new)) (getVRRP old) (getVRRP new) d6) }"

definition computeRoutingDiff :: "RouterConfig \<Rightarrow> RouterConfig \<Rightarrow> ConfigDiff \<Rightarrow> ConfigDiff option" where
  "computeRoutingDiff old new d0 =
     do { let d1 = markRouting (routingEqual (rc_Routing old) (rc_Routing new)) (rc_Routing old) (rc_Routing new) d0;
          routes \<leftarrow> staticRoutesEqual (getStaticRoutes old) (getStaticRoutes new);
          let d2 = markStaticRoutes routes (getStaticRoutes old) (getStaticRoutes new) d1;
          Some (markRoutingInstances (deepMap (=) (rc_RoutingInstances old) (rc_RoutingInstances new))
                  (rc_RoutingInstances old) (rc_RoutingInstances new) d2) }"

definition computePolicyDiff :: "RouterConfig \<Rightarrow> RouterConfig \<Rightarrow> ConfigDiff \<Rightarrow> ConfigDiff" where
  "computePolicyDiff old new d = markPolicy (policyEqual (rc_Policy old) (rc_Policy new)) (rc_Policy old) (rc_Policy new) d"

definition computeAdvancedDiff :: "RouterConfig \<Rightarrow> RouterConfig \<Rightarrow> ConfigDiff \<Rightarrow> ConfigDiff" where
  "computeAdvancedDiff old new d =
     markClassOfService (rel_option deepCoS (rc_ClassOfService old) (rc_ClassOfService new)) (rc_ClassOfService old) (rc_ClassOfService new)
       (markChassis (rel_option deepChassis (rc_Chassis old) (rc_Chassis new)) (rc_Chassis old) (rc_Chassis new) d)"

definition computeSystemDiff :: "RouterConfig \<Rightarrow> RouterConfig \<Rightarrow> ConfigDiff \<Rightarrow> ConfigDiff" where
  "computeSystemDiff old new d = markSystem (systemEqual (rc_System old) (rc_System new)) (rc_System old) (rc_System new) d"

definition computeSecurityDiff :: "RouterConfig \<Rightarrow> RouterConfig \<Rightarrow> ConfigDiff \<Rightarrow> ConfigDiff" where
  "computeSecurityDiff old new d = markSecurity (securityEqual (rc_Security old) (rc_Security new)) (rc_Security old) (rc_Security new) d"

definition ComputeDiff :: "RouterConfig option \<Rightarrow> RouterConfig option \<Rightarrow> ConfigDiff option" where
  "ComputeDiff p q =
     (let old = getOr NewRouterConfig p; new = getOr NewRouterConfig q
      in do { d \<leftarrow> computeProtocolDiff old new (computeInterfaceDiff old new (emptyDiff old new));
              d \<leftarrow> computeRoutingDiff old new d;
              Some (computeSecurityDiff old new (computeSystemDiff old new (computeAdvancedDiff old new (computePolicyDiff old new d)))) })"

definition CloneDiff :: "ConfigDiff \<Rightarrow> ConfigDiff option" where
  "CloneDiff d = ComputeDiff (Some (Clone (cd_OldConfig d))) (Some (Clone (cd_NewConfig d)))"

end
