(* ===== verification/GoIP.thy ===== *)
theory GoIP
  imports GoNet
begin

text \<open>
  More of the Go standard library: address families and multicast addresses of package net,
  \<open>strings.ToLower\<close>, and the result type of the validators with the helpers for their checks.
\<close>

section \<open>Package net\<close>

text \<open>\<open>IP.To4\<close>: an IPv4 address, also one mapped into IPv6.\<close>

definition To4 :: "addr \<Rightarrow> nat list option" where
  "To4 ip = (case ip of V4 bs \<Rightarrow> Some bs
     | V6 bs \<Rightarrow> if take 12 bs = replicate 10 0 @ [255, 255] then Some (drop 12 bs) else None)"

definition IsMulticast :: "addr \<Rightarrow> bool" where
  "IsMulticast ip = (case To4 ip of Some bs \<Rightarrow> hd bs div 16 = 14
     | None \<Rightarrow> (case ip of V4 bs \<Rightarrow> False | V6 bs \<Rightarrow> hd bs = 255))"

fun maskBytes :: "nat \<Rightarrow> nat list \<Rightarrow> nat list" where
  "maskBytes n [] = []"
| "maskBytes n (b # bs) = (if 8 \<le> n then b # maskBytes (n - 8) bs else (b div 2 ^ (8 - n)) * 2 ^ (8 - n) # maskBytes 0 bs)"

text \<open>The \<open>IP\<close> of the network that \<open>net.ParseCIDR\<close> returns.\<close>

definition networkIP :: "addr \<times> nat \<Rightarrow> addr" where
  "networkIP cidr = (case fst cidr of V4 bs \<Rightarrow> V4 (maskBytes (snd cidr) bs) | V6 bs \<Rightarrow> V6 (maskBytes (snd cidr) bs))"

definition toLowerRune :: "rune \<Rightarrow> rune" where
  "toLowerRune c = (let v = runeval c in
     if 65 \<le> v \<and> v \<le> 90 \<or> 192 \<le> v \<and> v \<le> 222 \<and> v \<noteq> 215 then char_of (v + 32) else c)"

definition ToLower :: "string \<Rightarrow> string" where
  "ToLower s = map toLowerRune s"

text \<open>\<open>\d+\<close> of package regexp.\<close>

definition digits1 :: "string \<Rightarrow> bool" where
  "digits1 s \<longleftrightarrow> s \<noteq> [] \<and> list_all isDigit s"

section \<open>Checks in sequence\<close>

text \<open>A validator returns its first error.\<close>

fun firstErr :: "('e + unit) list \<Rightarrow> 'e + unit" where
  "firstErr [] = Inr ()"
| "firstErr (Inl e # rs) = Inl e"
| "firstErr (Inr u # rs) = firstErr rs"

definition failIf :: "bool \<Rightarrow> 'e \<Rightarrow> 'e + unit" where
  "failIf b e = (if b then Inl e else Inr ())"

definition wrapErr :: "('e \<Rightarrow> 'f) \<Rightarrow> 'e + 'a \<Rightarrow> 'f + unit" where
  "wrapErr f r = (case r of Inl e \<Rightarrow> Inl (f e) | Inr _ \<Rightarrow> Inr ())"

text \<open>A check that is made only where a pointer is not nil.\<close>

definition ifPtr :: "'a option \<Rightarrow> ('a \<Rightarrow> 'e + unit) \<Rightarrow> 'e + unit" where
  "ifPtr p f = (case p of None \<Rightarrow> Inr () | Some v \<Rightarrow> f v)"

text \<open>A loop over a map that refuses nil entries with \<open>nil k\<close>.\<close>

definition eachEntry :: "('k \<Rightarrow> 'e) \<Rightarrow> ('k \<Rightarrow> 'v \<Rightarrow> 'e + unit) \<Rightarrow> ('k, 'v) gomap \<Rightarrow> 'e + unit" where
  "eachEntry nil f m = firstErr (map (\<lambda>(k, p). case p of None \<Rightarrow> Inl (nil k) | Some v \<Rightarrow> f k v) m)"

lemma firstErr_ok: "firstErr rs = Inr () \<longleftrightarrow> list_all (\<lambda>r. r = Inr ()) rs"
  by (induction rs rule: firstErr.induct) auto

lemma failIf_ok: "failIf b e = Inr () \<longleftrightarrow> \<not> b"
  by (simp add: failIf_def)

lemma ifPtr_ok: "ifPtr p f = Inr () \<longleftrightarrow> pred_option (\<lambda>v. f v = Inr ()) p"
  by (cases p) (simp_all add: ifPtr_def)

lemma wrapErr_ok: "wrapErr f r = Inr () \<longleftrightarrow> (\<exists>v. r = Inr v)"
  by (cases r) (simp_all add: wrapErr_def)

lemma eachEntry_ok:
  "eachEntry nil f m = Inr () \<longleftrightarrow> list_all (\<lambda>(k, p). case p of None \<Rightarrow> False | Some v \<Rightarrow> f k v = Inr ()) m"
  by (auto simp: eachEntry_def firstErr_ok list_all_iff split: option.splits prod.splits)

lemma eachEntry_fullMap:
  "eachEntry nil f m = Inr () \<Longrightarrow> keys_ok m \<Longrightarrow> fullMap (\<lambda>k v. f k v = Inr ()) m"
  by (simp add: eachEntry_ok fullMap_def)

lemmas check_ok = firstErr_ok failIf_ok ifPtr_ok wrapErr_ok eachEntry_ok

text \<open>Whether all entries pass does not depend on the enumeration order.\<close>

lemma eachEntry_order: "set m = set m' \<Longrightarrow> eachEntry nil f m = Inr () \<longleftrightarrow> eachEntry nil f m' = Inr ()"
  by (simp add: eachEntry_ok list_all_iff)

end
