(* ===== verification/Pubkey.thy ===== *)
theory Pubkey
  imports Password Secrets
begin

text \<open>
  pkg/auth/pubkey.go: SSH public keys of users. The parsers of golang.org/x/crypto/ssh are
  parameters: \<open>parsePublicKey\<close> says whether \<open>ssh.ParsePublicKey\<close> accepts a text, and
  \<open>parseAuthorizedKey\<close> gives the type and the wire format (\<open>Marshal\<close>) of the key of an authorized\_keys
  line. Base64 with padding and SHA-256 of the standard library are defined here.
\<close>

unbundle bit_operations_syntax

section \<open>Base64 with padding\<close>

definition StdEncodeToString :: "nat list \<Rightarrow> string" where
  "StdEncodeToString bs = EncodeToString bs @ replicate ((3 - length bs mod 3) mod 3) (CHR ''='')"

definition StdDecodeString :: "string \<Rightarrow> nat list option" where
  "StdDecodeString s =
     (let cs = filter (\<lambda>c. c \<noteq> CHR 0x0D \<and> c \<noteq> newline) s;
          body = takeWhile (\<lambda>c. c \<noteq> CHR ''='') cs; pad = dropWhile (\<lambda>c. c \<noteq> CHR ''='') cs
      in if length cs mod 4 = 0 \<and> pad \<in> {[], ''='', ''==''} then DecodeString body else None)"

section \<open>SHA-256\<close>

definition rotr32 :: "nat \<Rightarrow> 32 word \<Rightarrow> 32 word" where
  "rotr32 n x = (drop_bit n x) OR (push_bit (32 - n) x)"

text \<open>
  The constants of the hash function: the first 32 bits of the fractional parts of the cube roots of
  the first 64 primes, and of the square roots of the first eight.
\<close>

definition rootFloor :: "nat \<Rightarrow> nat \<Rightarrow> nat" where
  "rootFloor k n = foldl (\<lambda>r i. if (r + 2 ^ i) ^ k \<le> n then r + 2 ^ i else r) 0 (rev [0..<36])"

definition firstPrimes :: "nat list" where
  "firstPrimes = filter (\<lambda>p. list_all (\<lambda>d. p mod d \<noteq> 0) [2..<p]) [2..<312]"

definition sha256K :: "32 word list" where
  "sha256K = map (\<lambda>p. of_nat (rootFloor 3 (p * 2 ^ 96))) firstPrimes"

definition sha256Init :: "32 word list" where
  "sha256Init = map (\<lambda>p. of_nat (rootFloor 2 (p * 2 ^ 64))) (take 8 firstPrimes)"

definition wordOfBytes :: "nat list \<Rightarrow> 32 word" where
  "wordOfBytes bs = foldl (\<lambda>w b. push_bit 8 w OR of_nat b) 0 bs"

definition bytesOfWord :: "32 word \<Rightarrow> nat list" where
  "bytesOfWord w = map (\<lambda>i. unat (drop_bit i w) mod 256) [24, 16, 8, 0]"

definition sha256Pad :: "nat list \<Rightarrow> nat list" where
  "sha256Pad bs = bs @ [128] @ replicate ((119 - length bs mod 64) mod 64) 0 @
     map (\<lambda>i. (8 * length bs) div 256 ^ i mod 256) [7, 6, 5, 4, 3, 2, 1, 0]"

function chunksOf :: "nat \<Rightarrow> 'a list \<Rightarrow> 'a list list" where
  "chunksOf n xs = (if xs = [] \<or> n = 0 then [] else take n xs # chunksOf n (drop n xs))"
  by pat_completeness auto
termination by (relation "measure (\<lambda>(_, xs). length xs)") auto

declare chunksOf.simps [simp del]

definition sha256Schedule :: "nat list \<Rightarrow> 32 word list" where
  "sha256Schedule block =
     fold (\<lambda>t ws. ws @ [ws ! (t - 16) +
        (rotr32 7 (ws ! (t - 15)) XOR rotr32 18 (ws ! (t - 15)) XOR drop_bit 3 (ws ! (t - 15))) + ws ! (t - 7) +
        (rotr32 17 (ws ! (t - 2)) XOR rotr32 19 (ws ! (t - 2)) XOR drop_bit 10 (ws ! (t - 2)))])
       [16..<64] (map wordOfBytes (chunksOf 4 block))"

fun sha256Round :: "32 word list \<Rightarrow> 32 word \<times> 32 word \<Rightarrow> 32 word list" where
  "sha256Round [a, b, c, d, e, f, g, h] (k, w) =
     (let t1 = h + (rotr32 6 e XOR rotr32 11 e XOR rotr32 25 e) + ((e AND f) XOR (NOT e AND g)) + k + w;
          t2 = (rotr32 2 a XOR rotr32 13 a XOR rotr32 22 a) + ((a AND b) XOR (a AND c) XOR (b AND c))
      in [t1 + t2, a, b, c, d + t1, e, f, g])"
| "sha256Round s _ = s"

definition sha256Block :: "32 word list \<Rightarrow> nat list \<Rightarrow> 32 word list" where
  "sha256Block h block = map2 (+) h (foldl sha256Round h (zip sha256K (sha256Schedule block)))"

definition Sum256 :: "nat list \<Rightarrow> nat list" where
  "Sum256 bs = concat (map bytesOfWord (foldl sha256Block sha256Init (chunksOf 64 (sha256Pad bs))))"

section \<open>Keys\<close>

record PublicKey =
  pk_Username :: string
  pk_Algorithm :: string
  pk_KeyData :: string
  pk_Fingerprint :: string
  pk_Comment :: string
  pk_Enabled :: bool
  pk_CreatedAt :: int

record sshLib =
  parsePublicKey :: "string \<Rightarrow> bool"
  parseAuthorizedKey :: "string \<Rightarrow> (string \<times> nat list) option"

definition GenerateFingerprint :: "sshLib \<Rightarrow> string \<Rightarrow> string \<Rightarrow> string + string" where
  "GenerateFingerprint ssh algorithm keyData =
     (case StdDecodeString keyData of None \<Rightarrow> Inl ''invalid key data encoding''
      | Some _ \<Rightarrow>
     (case parseAuthorizedKey ssh (algorithm @ '' '' @ keyData) of None \<Rightarrow> Inl ''failed to parse key''
      | Some (_, marshalled) \<Rightarrow> Inr (''SHA256:'' @ EncodeToString (Sum256 marshalled))))"

definition ParsePublicKey :: "sshLib \<Rightarrow> string \<Rightarrow> string + PublicKey" where
  "ParsePublicKey ssh line =
     (let line = TrimSpace line in
      if line = [] \<or> HasPrefix line ''#'' then Inl ''empty or comment line''
      else let parts = Fields line in
      if length parts < 2 then Inl (''invalid public key format: expected at least '' @ [CHR 0x27] @ ''<algorithm> <key-data>'' @ [CHR 0x27])
      else let algorithm = parts ! 0; keyData = parts ! 1;
               comment = (if 2 < length parts then JoinWith '' '' (drop 2 parts) else []);
               key = (if parsePublicKey ssh (algorithm @ '' '' @ keyData) then Some (algorithm, keyData)
                      else map_option (\<lambda>(ty, marshalled). (ty, StdEncodeToString marshalled)) (parseAuthorizedKey ssh line))
        in case key of None \<Rightarrow> Inl ''invalid SSH public key''
           | Some (algorithm, keyData) \<Rightarrow>
             (case GenerateFingerprint ssh algorithm keyData of Inl e \<Rightarrow> Inl (''failed to generate fingerprint: '' @ e)
              | Inr fingerprint \<Rightarrow>
                  Inr \<lparr>pk_Username = [], pk_Algorithm = algorithm, pk_KeyData = keyData, pk_Fingerprint = fingerprint,
                       pk_Comment = comment, pk_Enabled = True, pk_CreatedAt = 0\<rparr>))"

definition VerifyPublicKey :: "nat list \<Rightarrow> string \<Rightarrow> string + bool" where
  "VerifyPublicKey providedBytes storedKeyData =
     (case StdDecodeString storedKeyData of None \<Rightarrow> Inl ''invalid stored key encoding''
      | Some storedBytes \<Rightarrow>
          if length storedBytes \<noteq> length providedBytes then Inr False
          else Inr (list_all (\<lambda>i. storedBytes ! i = providedBytes ! i) [0..<length storedBytes]))"

definition FormatAuthorizedKey :: "PublicKey \<Rightarrow> string" where
  "FormatAuthorizedKey pk =
     (if pk_Comment pk \<noteq> [] then pk_Algorithm pk @ '' '' @ pk_KeyData pk @ '' '' @ pk_Comment pk
      else pk_Algorithm pk @ '' '' @ pk_KeyData pk)"

definition supportedAlgorithms :: "string list" where
  "supportedAlgorithms = [''ssh-rsa'', ''rsa-sha2-256'', ''rsa-sha2-512'', ''ssh-ed25519'', ''ecdsa-sha2-nistp256'',
     ''ecdsa-sha2-nistp384'', ''ecdsa-sha2-nistp521'']"

definition ValidateKeyAlgorithm :: "string \<Rightarrow> string + unit" where
  "ValidateKeyAlgorithm algorithm =
     (if algorithm \<in> set supportedAlgorithms then Inr ()
      else Inl (''unsupported key algorithm: '' @ algorithm @ '' (supported: ['' @ JoinWith '' '' supportedAlgorithms @ ''])''))"

section \<open>Decoding undoes encoding\<close>

lemma length_sextets: "length (sextets bs) = (4 * length bs + 2) div 3"
  by (induction bs rule: sextets.induct) auto

lemma Encode_text:
  assumes "bytes bs" and "c \<in> set (EncodeToString bs)"
  shows "c \<noteq> CHR 0x0D \<and> c \<noteq> newline \<and> c \<noteq> CHR ''=''"
proof -
  from assms obtain n where "n < 64" "c = b64char n"
    using sextets_small [of bs] by (auto simp: EncodeToString_def list_all_iff)
  then have "b64val c \<noteq> None" by (simp add: b64val_b64char)
  then show ?thesis by (auto simp: b64val_def runeval_def Let_def)
qed

lemma padded_length: "((4 * k + 2) div 3 + (3 - k mod 3) mod 3) mod 4 = (0 :: nat)"
proof -
  define q where "q = k div 3"
  have "k = 3 * q \<or> k = 3 * q + 1 \<or> k = 3 * q + 2" unfolding q_def by arith
  then show ?thesis
  proof (elim disjE)
    assume k: "k = 3 * q"
    have "(4 * (3 * q) + 2) div 3 = 4 * q" by arith
    then show ?thesis unfolding k by simp
  next
    assume k: "k = 3 * q + 1"
    have "(4 * (3 * q + 1) + 2) div 3 = 4 * q + 2" "(3 * q + 1) mod 3 = 1" by arith+
    then show ?thesis unfolding k by simp
  next
    assume k: "k = 3 * q + 2"
    have "(4 * (3 * q + 2) + 2) div 3 = 4 * q + 3" "(3 * q + 2) mod 3 = 2" by arith+
    then show ?thesis unfolding k by simp
  qed
qed

lemma StdDecode_Encode: "bytes bs \<Longrightarrow> StdDecodeString (StdEncodeToString bs) = Some bs"
proof -
  assume b: "bytes bs"
  let ?n = "(3 - length bs mod 3) mod 3"
  have f: "filter (\<lambda>c. c \<noteq> CHR 0x0D \<and> c \<noteq> newline) (StdEncodeToString bs) = StdEncodeToString bs"
    using Encode_text [OF b] by (auto simp: StdEncodeToString_def filter_id_conv)
  have tw: "takeWhile (\<lambda>c. c \<noteq> CHR ''='') (StdEncodeToString bs) = EncodeToString bs"
    "dropWhile (\<lambda>c. c \<noteq> CHR ''='') (StdEncodeToString bs) = replicate ?n (CHR ''='')"
    using Encode_text [OF b] by (auto simp: StdEncodeToString_def takeWhile_append2 dropWhile_append2)
  have "length (StdEncodeToString bs) = (4 * length bs + 2) div 3 + ?n"
    by (simp add: StdEncodeToString_def EncodeToString_def length_sextets)
  then have "length (StdEncodeToString bs) mod 4 = 0" by (simp only: padded_length)
  moreover have "?n = 0 \<or> ?n = 1 \<or> ?n = 2" by arith
  then have "replicate ?n (CHR ''='') \<in> {[], ''='', ''==''}" by (auto simp: numeral_2_eq_2)
  ultimately show ?thesis unfolding StdDecodeString_def Let_def f tw using Decode_Encode [OF b] by simp
qed

section \<open>Fields of a line\<close>

definition goWord :: "string \<Rightarrow> bool" where
  "goWord s \<longleftrightarrow> s \<noteq> [] \<and> list_all (\<lambda>c. \<not> isSpace c) s"

lemma Fields_word: "p \<in> set (Fields s) \<Longrightarrow> goWord p"
proof (induction s rule: Fields.induct)
  case (1 s)
  let ?t = "dropWhile isSpace s"
  show ?case
  proof (cases "?t = []")
    case True
    with 1(2) show ?thesis by (simp add: Fields.simps [of s])
  next
    case False
    then have "\<not> isSpace (hd ?t)" using hd_dropWhile by blast
    with False have "goWord (takeWhile (\<lambda>c. \<not> isSpace c) ?t)"
      by (cases ?t) (auto simp: goWord_def list_all_iff dest: set_takeWhileD)
    moreover have "Fields s = takeWhile (\<lambda>c. \<not> isSpace c) ?t # Fields (dropWhile (\<lambda>c. \<not> isSpace c) ?t)"
      by (simp only: Fields.simps [of s] False Let_def if_False)
    ultimately show ?thesis using 1(1) [OF refl False] 1(2) by (auto simp only: list.set)
  qed
qed

lemma word_Nil: "goWord s \<Longrightarrow> s \<noteq> []"
  by (simp add: goWord_def)

lemma word_hd: "goWord s \<Longrightarrow> \<not> isSpace (hd s)"
  by (cases s) (simp_all add: goWord_def)

lemma word_last: "goWord s \<Longrightarrow> \<not> isSpace (last s)"
  by (simp add: goWord_def list_all_iff)

lemma Fields_word_self: "goWord w \<Longrightarrow> Fields w = [w]"
proof -
  assume w: "goWord w"
  then have d: "dropWhile isSpace w = w" "takeWhile (\<lambda>c. \<not> isSpace c) w = w" "dropWhile (\<lambda>c. \<not> isSpace c) w = []"
    by (cases w; auto simp: goWord_def list_all_iff)+
  have "Fields [] = []" by (simp add: Fields.simps [of "[]"])
  with word_Nil [OF w] show ?thesis by (simp only: Fields.simps [of w] d Let_def if_False)
qed

lemma Fields_cons_word: "goWord w \<Longrightarrow> Fields (w @ CHR '' '' # s) = w # Fields s"
proof -
  assume w: "goWord w"
  have sp: "isSpace CHR '' ''" by (simp add: isSpace_def runeval_def)
  from w have "dropWhile isSpace (w @ CHR '' '' # s) = w @ CHR '' '' # s"
    by (cases w) (simp_all add: goWord_def)
  moreover from w sp have "takeWhile (\<lambda>c. \<not> isSpace c) (w @ CHR '' '' # s) = w"
      "dropWhile (\<lambda>c. \<not> isSpace c) (w @ CHR '' '' # s) = CHR '' '' # s"
    by (auto simp: goWord_def list_all_iff takeWhile_append2 dropWhile_append2)
  moreover have "Fields (CHR '' '' # s) = Fields s"
    using sp by (simp add: Fields.simps [of "CHR '' '' # s"] Fields.simps [of s])
  ultimately show ?thesis by (simp add: Fields.simps [of "w @ CHR '' '' # s"])
qed

lemma Fields_Join: "list_all goWord ws \<Longrightarrow> Fields (JoinWith '' '' ws) = ws"
proof (induction "'' ''" ws rule: JoinWith.induct)
  case 1
  then show ?case by (simp add: Fields.simps [of "[]"])
qed (simp_all add: Fields_word_self Fields_cons_word)

lemma Join_ends:
  assumes "list_all goWord ws" and "ws \<noteq> []"
  shows "JoinWith '' '' ws \<noteq> [] \<and> hd (JoinWith '' '' ws) = hd (hd ws) \<and> \<not> isSpace (hd (JoinWith '' '' ws)) \<and> \<not> isSpace (last (JoinWith '' '' ws))"
  using assms
proof (induction "'' ''" ws rule: JoinWith.induct)
  case (3 x y ys)
  then have "JoinWith '' '' (y # ys) \<noteq> []" "\<not> isSpace (last (JoinWith '' '' (y # ys)))" by simp_all
  with 3 word_Nil [of x] word_hd [of x] show ?case by simp
qed (simp_all add: word_Nil word_hd word_last)

lemma TrimSpace_ends: "\<not> isSpace (hd s) \<Longrightarrow> \<not> isSpace (last s) \<Longrightarrow> TrimSpace s = s"
proof (cases s rule: rev_cases)
  case (snoc u c)
  assume "\<not> isSpace (hd s)" "\<not> isSpace (last s)"
  moreover from calculation(1) have "dropWhile isSpace s = s" by (cases s) simp_all
  ultimately show ?thesis using snoc by (simp add: TrimSpace_def)
qed (simp add: TrimSpace_def)

lemma TrimSpace_Join: "list_all goWord ws \<Longrightarrow> ws \<noteq> [] \<Longrightarrow> TrimSpace (JoinWith '' '' ws) = JoinWith '' '' ws"
  using Join_ends [of ws] by (intro TrimSpace_ends) blast+

section \<open>Printing and parsing a key\<close>

text \<open>
  What the code relies on of \<open>ssh.ParseAuthorizedKey\<close>: the type of a key it returns is a plain word,
  and the line built from the type and the encoded wire format gives the same key again, whatever
  comment follows.
\<close>

definition sshLawful :: "sshLib \<Rightarrow> bool" where
  "sshLawful ssh \<longleftrightarrow> (\<forall>line ty m. parseAuthorizedKey ssh line = Some (ty, m) \<longrightarrow>
     goWord ty \<and> hd ty \<noteq> CHR ''#'' \<and> bytes m \<and> m \<noteq> [] \<and>
     (\<forall>rest. rest = [] \<or> hd rest = CHR '' '' \<longrightarrow>
        parseAuthorizedKey ssh (ty @ '' '' @ StdEncodeToString m @ rest) = Some (ty, m)))"

lemma StdEncode_word:
  assumes "bytes m" and "m \<noteq> []"
  shows "goWord (StdEncodeToString m)"
proof -
  have "\<not> isSpace c" if "c \<in> set (EncodeToString m)" for c
  proof -
    from that assms obtain n where "n < 64" "c = b64char n"
      using sextets_small [of m] by (auto simp: EncodeToString_def list_all_iff)
    then have "b64val c \<noteq> None" by (simp add: b64val_b64char)
    then show ?thesis by (auto simp: b64val_def isSpace_def runeval_def Let_def split: if_splits)
  qed
  moreover have "\<not> isSpace CHR ''=''" by (simp add: isSpace_def runeval_def)
  moreover have "EncodeToString m \<noteq> []"
    using assms(2) length_sextets [of m] by (cases m) (auto simp: EncodeToString_def)
  ultimately show ?thesis by (auto simp: goWord_def StdEncodeToString_def list_all_iff)
qed

lemma TrimSpace_hd: "TrimSpace s \<noteq> [] \<Longrightarrow> \<not> isSpace (hd (TrimSpace s))"
proof -
  let ?d = "dropWhile isSpace s"
  assume "TrimSpace s \<noteq> []"
  moreover obtain u where u: "?d = TrimSpace s @ u"
    unfolding TrimSpace_def by (metis rev_append rev_rev_ident takeWhile_dropWhile_id)
  ultimately have "?d \<noteq> []" "hd (TrimSpace s) = hd ?d" by (auto simp: hd_append)
  with hd_dropWhile [of isSpace s] show ?thesis by simp
qed

lemma Fields_hd:
  assumes "s \<noteq> []" and "\<not> isSpace (hd s)" and "Fields s = p # ps"
  shows "hd p = hd s"
proof -
  from assms(1,2) have d: "dropWhile isSpace s = s" by (cases s) simp_all
  have "Fields s = takeWhile (\<lambda>c. \<not> isSpace c) s # Fields (dropWhile (\<lambda>c. \<not> isSpace c) s)"
    by (simp only: Fields.simps [of s] d Let_def assms(1) if_False)
  with assms show ?thesis by (cases s) auto
qed

lemma ParsePublicKey_words:
  assumes "list_all goWord (a # k # cs)" and "hd a \<noteq> CHR ''#''"
    and "(if parsePublicKey ssh (a @ '' '' @ k) then Some (a, k)
          else map_option (\<lambda>(ty, m). (ty, StdEncodeToString m)) (parseAuthorizedKey ssh (JoinWith '' '' (a # k # cs)))) = Some (a, k)"
    and "GenerateFingerprint ssh a k = Inr fp"
  shows "ParsePublicKey ssh (JoinWith '' '' (a # k # cs)) = Inr \<lparr>pk_Username = [], pk_Algorithm = a, pk_KeyData = k,
     pk_Fingerprint = fp, pk_Comment = JoinWith '' '' cs, pk_Enabled = True, pk_CreatedAt = 0\<rparr>"
proof -
  let ?l = "JoinWith '' '' (a # k # cs)"
  have e: "?l \<noteq> []" "hd ?l = hd a" using Join_ends [OF assms(1)] by (simp_all del: JoinWith.simps)
  then have "\<not> HasPrefix ?l ''#''" using assms(2) by (cases ?l) (auto simp: HasPrefix_def)
  moreover have "(if 2 < length (a # k # cs) then JoinWith '' '' (drop 2 (a # k # cs)) else []) = JoinWith '' '' cs" by (cases cs) simp_all
  ultimately show ?thesis using assms(3,4) e(1)
    by (simp add: ParsePublicKey_def TrimSpace_Join [OF assms(1)] Fields_Join [OF assms(1)] Let_def del: JoinWith.simps)
qed

lemma Format_words:
  assumes "list_all goWord cs" and "pk_Comment pk = JoinWith '' '' cs"
  shows "FormatAuthorizedKey pk = JoinWith '' '' (pk_Algorithm pk # pk_KeyData pk # cs)"
  using assms Join_ends [OF assms(1)] by (cases cs) (simp_all add: FormatAuthorizedKey_def)

lemma ParsePublicKey_shape:
  assumes "sshLawful ssh" and "ParsePublicKey ssh line = Inr pk"
  obtains cs where "list_all goWord (pk_Algorithm pk # pk_KeyData pk # cs)" "hd (pk_Algorithm pk) \<noteq> CHR ''#''"
    "(if parsePublicKey ssh (pk_Algorithm pk @ '' '' @ pk_KeyData pk) then Some (pk_Algorithm pk, pk_KeyData pk)
      else map_option (\<lambda>(ty, m). (ty, StdEncodeToString m))
        (parseAuthorizedKey ssh (JoinWith '' '' (pk_Algorithm pk # pk_KeyData pk # cs)))) = Some (pk_Algorithm pk, pk_KeyData pk)"
    "GenerateFingerprint ssh (pk_Algorithm pk) (pk_KeyData pk) = Inr (pk_Fingerprint pk)"
    "pk = \<lparr>pk_Username = [], pk_Algorithm = pk_Algorithm pk, pk_KeyData = pk_KeyData pk, pk_Fingerprint = pk_Fingerprint pk,
       pk_Comment = JoinWith '' '' cs, pk_Enabled = True, pk_CreatedAt = 0\<rparr>"
proof -
  let ?l = "TrimSpace line"
  from assms(2) have l: "?l \<noteq> []" "\<not> HasPrefix ?l ''#''" "2 \<le> length (Fields ?l)"
    by (auto simp: ParsePublicKey_def Let_def split: if_splits)
  then obtain a k cs where f: "Fields ?l = a # k # cs" by (cases "Fields ?l"; cases "tl (Fields ?l)") auto
  have w: "list_all goWord (a # k # cs)" unfolding f [symmetric] by (auto simp: list_all_iff dest: Fields_word)
  have "hd ?l \<noteq> CHR ''#''" using l(1,2) by (cases ?l) (auto simp: HasPrefix_def)
  then have h: "hd a \<noteq> CHR ''#''" using Fields_hd [OF l(1) TrimSpace_hd [OF l(1)] f] by simp
  have c: "(if 2 < length (a # k # cs) then JoinWith '' '' (drop 2 (a # k # cs)) else []) = JoinWith '' '' cs" by (cases cs) simp_all
  let ?key = "if parsePublicKey ssh (a @ '' '' @ k) then Some (a, k)
      else map_option (\<lambda>(ty, m). (ty, StdEncodeToString m)) (parseAuthorizedKey ssh ?l)"
  from assms(2) obtain ty kd fp where key: "?key = Some (ty, kd)" and fp: "GenerateFingerprint ssh ty kd = Inr fp"
    and pk: "pk = \<lparr>pk_Username = [], pk_Algorithm = ty, pk_KeyData = kd, pk_Fingerprint = fp, pk_Comment = JoinWith '' '' cs,
       pk_Enabled = True, pk_CreatedAt = 0\<rparr>"
    using l c by (auto simp: ParsePublicKey_def f Let_def split: option.splits sum.splits)
  show thesis
  proof (cases "parsePublicKey ssh (a @ '' '' @ k)")
    case True
    with key fp pk w h show thesis by (intro that [of cs]) auto
  next
    case False
    with key obtain m where m: "parseAuthorizedKey ssh ?l = Some (ty, m)" "kd = StdEncodeToString m" by auto
    with assms(1) have law: "goWord ty" "hd ty \<noteq> CHR ''#''" "bytes m" "m \<noteq> []"
      "parseAuthorizedKey ssh (ty @ '' '' @ StdEncodeToString m @ rest) = Some (ty, m)" if "rest = [] \<or> hd rest = CHR '' ''" for rest
      using that unfolding sshLawful_def by blast+
    have "JoinWith '' '' (ty # kd # cs) = ty @ '' '' @ StdEncodeToString m @ (if cs = [] then [] else '' '' @ JoinWith '' '' cs)"
      unfolding m(2) by (cases cs) simp_all
    then have "parseAuthorizedKey ssh (JoinWith '' '' (ty # kd # cs)) = Some (ty, m)" using law(5) by simp
    with law(1-4) [of "[]"] StdEncode_word [of m] m(2) fp pk w show thesis by (intro that [of cs]) auto
  qed
qed

section \<open>Properties\<close>

text \<open>
  C27. A key offered at login is accepted against stored key data exactly when its wire format is
  the one that was stored.
\<close>

theorem verify_public_key_exact:
  assumes "bytes stored"
  shows "VerifyPublicKey provided (StdEncodeToString stored) = Inr (provided = stored)"
  using StdDecode_Encode [OF assms] by (auto simp: VerifyPublicKey_def list_all_iff intro: nth_equalityI)

theorem verify_public_key_exact_witness:
  "VerifyPublicKey [7, 255, 0] (StdEncodeToString [7, 255, 0]) = Inr True \<and>
   VerifyPublicKey [7, 255, 1] (StdEncodeToString [7, 255, 0]) = Inr False"
  using verify_public_key_exact [of "[7, 255, 0]"] by simp

text \<open>
  C28. A parsed key printed as an authorized\_keys line parses to the same key, where
  \<open>ssh.ParseAuthorizedKey\<close> is lawful.
\<close>

theorem public_key_roundtrip:
  assumes "sshLawful ssh" and "ParsePublicKey ssh line = Inr pk"
  shows "ParsePublicKey ssh (FormatAuthorizedKey pk) = Inr pk"
proof -
  obtain cs where k: "list_all goWord (pk_Algorithm pk # pk_KeyData pk # cs)" "hd (pk_Algorithm pk) \<noteq> CHR ''#''"
    "(if parsePublicKey ssh (pk_Algorithm pk @ '' '' @ pk_KeyData pk) then Some (pk_Algorithm pk, pk_KeyData pk)
      else map_option (\<lambda>(ty, m). (ty, StdEncodeToString m))
        (parseAuthorizedKey ssh (JoinWith '' '' (pk_Algorithm pk # pk_KeyData pk # cs)))) = Some (pk_Algorithm pk, pk_KeyData pk)"
    "GenerateFingerprint ssh (pk_Algorithm pk) (pk_KeyData pk) = Inr (pk_Fingerprint pk)"
    and pk: "pk = \<lparr>pk_Username = [], pk_Algorithm = pk_Algorithm pk, pk_KeyData = pk_KeyData pk, pk_Fingerprint = pk_Fingerprint pk,
       pk_Comment = JoinWith '' '' cs, pk_Enabled = True, pk_CreatedAt = 0\<rparr>"
    using ParsePublicKey_shape [OF assms] by blast
  have "pk_Comment pk = JoinWith '' '' cs" by (subst pk) simp
  then have "FormatAuthorizedKey pk = JoinWith '' '' (pk_Algorithm pk # pk_KeyData pk # cs)"
    using k(1) by (intro Format_words) simp_all
  then show ?thesis using ParsePublicKey_words [OF k] pk by simp
qed

definition sampleSSH :: sshLib where
  "sampleSSH = \<lparr>parsePublicKey = (\<lambda>_. False), parseAuthorizedKey = (\<lambda>_. Some (''ssh-ed25519'', [1, 2, 3]))\<rparr>"

theorem public_key_roundtrip_witness:
  "\<exists>pk. ParsePublicKey sampleSSH ''  ssh-ed25519 AQID  alice@host '' = Inr pk \<and> pk_Comment pk = ''alice@host'' \<and>
     ParsePublicKey sampleSSH (FormatAuthorizedKey pk) = Inr pk"
proof -
  have law: "sshLawful sampleSSH"
    by (simp add: sshLawful_def sampleSSH_def goWord_def isSpace_def runeval_def)
  have d: "StdDecodeString (StdEncodeToString [1, 2, 3]) = Some [1, 2, 3]" by (rule StdDecode_Encode) simp
  have f: "Fields ''ssh-ed25519 AQID  alice@host'' = [''ssh-ed25519'', ''AQID'', ''alice@host'']"
      "TrimSpace ''  ssh-ed25519 AQID  alice@host '' = ''ssh-ed25519 AQID  alice@host''" by code_simp+
  obtain pk where pk: "ParsePublicKey sampleSSH ''  ssh-ed25519 AQID  alice@host '' = Inr pk" "pk_Comment pk = ''alice@host''"
    unfolding ParsePublicKey_def Let_def f GenerateFingerprint_def
    by (simp add: HasPrefix_def sampleSSH_def d f del: One_nat_def)
  then show ?thesis using public_key_roundtrip [OF law pk(1)] by blast
qed

end
