(* ===== verification/ModelValidate.thy ===== *)
theory ModelValidate
  imports ModelTypes GoIP Pubkey
begin

text \<open>
  internal/model/validate.go and pkg/security/snmp.go: the semantic checks that every candidate
  configuration passes before the engine applies it. Loops over maps run in the order of the
  list; the first error is returned. \<open>regexp.Compile\<close> on an as-path expression and the SSH key
  parsers are the parameter \<open>lib\<close>. The fixed patterns of the code are predicates.
\<close>

section \<open>Errors and patterns\<close>

datatype valError = VErr string | VHash string hashError

record valLib =
  compileRegexp :: "string \<Rightarrow> string option"
  sshKeys :: sshLib

definition junosIfacePattern :: "string \<Rightarrow> bool" where
  "junosIfacePattern s \<longleftrightarrow>
     (3 \<le> length s \<and> list_all (\<lambda>c. 97 \<le> runeval c \<and> runeval c \<le> 122) (take 2 s) \<and> s ! 2 = CHR ''-'' \<and>
       (let parts = SplitOn (CHR ''/'') (drop 3 s) in length parts = 3 \<and> list_all digits1 parts)) \<or>
     HasPrefix s ''ae'' \<and> digits1 (drop 2 s) \<or> HasPrefix s ''lo'' \<and> digits1 (drop 2 s) \<or> s = ''irb'' \<or>
     HasPrefix s ''fxp'' \<and> digits1 (drop 3 s)"

definition rdPattern :: "string \<Rightarrow> bool" where
  "rdPattern s \<longleftrightarrow> (let parts = SplitOn (CHR '':'') s in length parts = 2 \<and> list_all digits1 parts)"

definition targetPattern :: "string \<Rightarrow> bool" where
  "targetPattern s \<longleftrightarrow>
     (let parts = SplitOn (CHR '':'') s in length parts = 3 \<and> hd parts = ''target'' \<and> list_all digits1 (tl parts))"

definition eachPair :: "('k \<Rightarrow> 'v option \<Rightarrow> 'e + unit) \<Rightarrow> ('k, 'v) gomap \<Rightarrow> 'e + unit" where
  "eachPair f m = firstErr (map (\<lambda>(k, p). f k p) m)"

definition weakSNMPCommunities :: "string list" where
  "weakSNMPCommunities = [''private'', ''public'']"

definition ValidateSNMPCommunity :: "string \<Rightarrow> string + unit" where
  "ValidateSNMPCommunity community =
     (let normalized = ToLower (TrimSpace community) in
      if normalized = [] then Inl ''SNMP community is required''
      else if normalized \<in> set weakSNMPCommunities then Inl ''SNMP community must not use a well-known default''
      else Inr ())"

section \<open>System, chassis and interfaces\<close>

definition badListen :: "string \<Rightarrow> bool" where
  "badListen a \<longleftrightarrow> a \<noteq> [] \<and> a \<noteq> ''localhost'' \<and> ParseIP a = None"

definition validateListener :: "string \<Rightarrow> int \<Rightarrow> string \<Rightarrow> valError + unit" where
  "validateListener what port addr =
     firstErr [failIf (port < 0 \<or> 65535 < port) (VErr (what @ '': port must be 0-65535, got '' @ formatInt port)),
       failIf (badListen addr) (VErr (what @ '': invalid listen-address '' @ Quote addr))]"

definition validateSystem :: "RouterConfig \<Rightarrow> valError + unit" where
  "validateSystem c =
     ifPtr (rc_System c) (\<lambda>s. ifPtr (msys_Services s) (\<lambda>sv. firstErr [
       ifPtr (msvc_WebUI sv) (\<lambda>w. validateListener ''system services web-ui'' (mweb_Port w) (mweb_ListenAddress w)),
       ifPtr (msvc_Prometheus sv) (\<lambda>p. validateListener ''system services prometheus'' (mprom_Port p) (mprom_ListenAddress p)),
       ifPtr (msvc_SNMP sv) (\<lambda>n. firstErr [
         if msnmp_Enabled n then wrapErr (\<lambda>e. VErr (''system services snmp: '' @ e)) (ValidateSNMPCommunity (msnmp_Community n)) else Inr (),
         validateListener ''system services snmp'' (msnmp_Port n) (msnmp_ListenAddress n)])]))"

definition cidrError :: "string \<Rightarrow> string" where
  "cidrError s = ''invalid CIDR address: '' @ s"

definition validateFamily :: "string \<Rightarrow> string \<Rightarrow> AddressFamily option \<Rightarrow> valError + unit" where
  "validateFamily context familyName family = firstErr [
     failIf (familyName \<noteq> ''inet'' \<and> familyName \<noteq> ''inet6'') (VErr (context @ '': unsupported family '' @ Quote familyName)),
     case family of None \<Rightarrow> Inl (VErr (context @ '' family '' @ familyName @ '' is nil''))
     | Some f \<Rightarrow> firstErr (map (\<lambda>addr. failIf (ParseCIDR addr = None)
         (VErr (context @ '' family '' @ familyName @ '': invalid address '' @ Quote addr @ '': '' @ cidrError addr))) (af_Addresses f))]"

definition validateUnit :: "string \<Rightarrow> int \<Rightarrow> MUnit option \<Rightarrow> valError + unit" where
  "validateUnit name unitNum unit = firstErr [
     failIf (unitNum < 0) (VErr (''interface '' @ name @ '': unit number must be non-negative, got '' @ formatInt unitNum)),
     case unit of None \<Rightarrow> Inl (VErr (''interface '' @ name @ '' unit '' @ formatInt unitNum @ '' is nil''))
     | Some u \<Rightarrow> eachPair (validateFamily (''interface '' @ name @ '' unit '' @ formatInt unitNum)) (mu_Family u)]"

definition validateInterface :: "string \<Rightarrow> InterfaceConfig option \<Rightarrow> valError + unit" where
  "validateInterface name iface = firstErr [
     failIf (\<not> junosIfacePattern name) (VErr (''invalid interface name '' @ Quote name @
       '': must be Junos format (e.g. ge-0/0/0, ae0, lo0, irb, fxp0)'')),
     case iface of None \<Rightarrow> Inl (VErr (''interface '' @ name @ '' is nil''))
     | Some i \<Rightarrow> eachPair (validateUnit name) (ic_Units i)]"

definition validateInterfaces :: "RouterConfig \<Rightarrow> valError + unit" where
  "validateInterfaces c = eachPair validateInterface (rc_Interfaces c)"

definition validateClusterNode :: "string \<Rightarrow> MClusterNode \<Rightarrow> valError + unit" where
  "validateClusterNode name node = firstErr [
     failIf (mcn_Address node \<noteq> [] \<and> ParseIP (mcn_Address node) = None)
       (VErr (''chassis cluster node '' @ name @ '': invalid address '' @ Quote (mcn_Address node))),
     failIf (mcn_Priority node < 0 \<or> 255 < mcn_Priority node)
       (VErr (''chassis cluster node '' @ name @ '': priority must be 0-255, got '' @ formatInt (mcn_Priority node)))]"

definition validateEtcdEndpoint :: "string \<Rightarrow> valError + unit" where
  "validateEtcdEndpoint endpoint = failIf (TrimSpace endpoint = []) (VErr ''chassis cluster sync etcd endpoint must not be empty'')"

definition validateCluster :: "MClusterConfig \<Rightarrow> valError + unit" where
  "validateCluster cl = firstErr [
     eachEntry (\<lambda>name. VErr (''chassis cluster node '' @ name @ '' is nil'')) validateClusterNode (mcl_Nodes cl),
     ifPtr (mcl_Sync cl) (\<lambda>sy. ifPtr (mcs_Etcd sy) (\<lambda>e. firstErr (map validateEtcdEndpoint (mes_Endpoints e))))]"

definition validateChassis :: "RouterConfig \<Rightarrow> valError + unit" where
  "validateChassis c = ifPtr (rc_Chassis c) (\<lambda>ch. ifPtr (mch_Cluster ch) validateCluster)"

section \<open>References\<close>

definition validateInterfaceReference :: "RouterConfig \<Rightarrow> string \<Rightarrow> string \<Rightarrow> valError + unit" where
  "validateInterfaceReference c context ifName = firstErr [
     failIf (\<not> junosIfacePattern ifName) (VErr (context @ '': invalid interface name '' @ Quote ifName)),
     failIf (ifName \<notin> fst ` set (rc_Interfaces c)) (VErr (context @ '': interface '' @ Quote ifName @ '' is not configured''))]"

definition validatePolicyStatementReference :: "RouterConfig \<Rightarrow> string \<Rightarrow> string \<Rightarrow> valError + unit" where
  "validatePolicyStatementReference c context policyName = firstErr [
     failIf (TrimSpace policyName = []) (VErr (context @ '': empty policy-statement reference'')),
     failIf (case rc_Policy c of None \<Rightarrow> True | Some po \<Rightarrow> policyName \<notin> fst ` set (mpo_PolicyStatements po))
       (VErr (context @ '': policy-statement '' @ Quote policyName @ '' not found in policy-options''))]"

text \<open>\<open>c.Protocols.BFD.Profiles[profileName]\<close>, nil where a pointer on the way is nil.\<close>

definition bfdProfile :: "RouterConfig \<Rightarrow> string \<Rightarrow> MBFDProfile option" where
  "bfdProfile c profileName =
     Option.bind (rc_Protocols c) (\<lambda>pc. Option.bind (mpc_BFD pc) (\<lambda>b. mget (mbfd_Profiles b) profileName))"

definition validateBFDProfileReference :: "RouterConfig \<Rightarrow> string \<Rightarrow> string \<Rightarrow> valError + unit" where
  "validateBFDProfileReference c context profileName = firstErr [
     failIf (TrimSpace profileName = []) (VErr (context @ '': empty BFD profile reference'')),
     failIf (bfdProfile c profileName = None) (VErr (context @ '': BFD profile '' @ Quote profileName @ '' not found in protocols bfd''))]"

definition validateVRFTargetValue :: "string \<Rightarrow> string \<Rightarrow> valError + unit" where
  "validateVRFTargetValue context target =
     failIf (\<not> targetPattern target) (VErr (context @ '': invalid vrf-target '' @ Quote target))"

section \<open>Routing\<close>

definition validateStaticRoute :: "RouterConfig \<Rightarrow> MStaticRoute \<Rightarrow> valError + unit" where
  "validateStaticRoute c route =
     (let what = ''static route '' @ msr_Prefix route in
      case ParseCIDR (msr_Prefix route) of
        None \<Rightarrow> Inl (VErr (''static route: invalid prefix '' @ Quote (msr_Prefix route) @ '': '' @ cidrError (msr_Prefix route)))
      | Some cidr \<Rightarrow>
     (case ParseIP (msr_NextHop route) of
        None \<Rightarrow> Inl (VErr (what @ '': invalid next-hop '' @ Quote (msr_NextHop route)))
      | Some nextHop \<Rightarrow> firstErr [
          failIf ((To4 (networkIP cidr) = None) \<noteq> (To4 nextHop = None)) (VErr (what @ '': next-hop family does not match prefix'')),
          if msr_BFDProfile route \<noteq> [] then validateBFDProfileReference c what (msr_BFDProfile route) else Inr (),
          if msr_BFDSource route \<noteq> [] then
            (case ParseIP (msr_BFDSource route) of
               None \<Rightarrow> Inl (VErr (what @ '': invalid BFD source '' @ Quote (msr_BFDSource route)))
             | Some source \<Rightarrow> failIf ((To4 nextHop = None) \<noteq> (To4 source = None))
                 (VErr (what @ '': BFD source family does not match next-hop'')))
          else Inr (),
          failIf ((msr_BFDProfile route \<noteq> [] \<or> msr_BFDSource route \<noteq> [] \<or> msr_BFDMultihop route) \<and> \<not> msr_BFD route)
            (VErr (what @ '': BFD options require BFD to be enabled'')),
          failIf (0 < msr_Distance route \<and> (msr_BFD route \<or> msr_BFDProfile route \<noteq> [] \<or> msr_BFDSource route \<noteq> [] \<or> msr_BFDMultihop route))
            (VErr (what @ '': distance is not supported with BFD monitoring''))]))"

definition validateRouting :: "RouterConfig \<Rightarrow> valError + unit" where
  "validateRouting c =
     ifPtr (rc_Routing c) (\<lambda>ro. firstErr (
       failIf (mro_RouterID ro \<noteq> [] \<and> ParseIP (mro_RouterID ro) = None)
         (VErr (''routing-options: invalid router-id '' @ Quote (mro_RouterID ro))) #
       map (\<lambda>p. case p of None \<Rightarrow> Inl (VErr ''static route entry is nil'') | Some route \<Rightarrow> validateStaticRoute c route)
         (mro_StaticRoutes ro)))"

definition hasAS :: "RouterConfig \<Rightarrow> bool" where
  "hasAS c = (case rc_Routing c of None \<Rightarrow> False | Some ro \<Rightarrow> mro_AutonomousSystem ro \<noteq> 0)"

definition validateRoutingInstance :: "RouterConfig \<Rightarrow> string \<Rightarrow> MRoutingInstance \<Rightarrow> valError + unit" where
  "validateRoutingInstance c name inst =
     (let what = ''routing-instance '' @ name;
          importTargetCount = (if mri_VRFTarget inst \<noteq> [] then 1 else 0) + length (mri_VRFTargetImport inst);
          exportTargetCount = (if mri_VRFTarget inst \<noteq> [] then 1 else 0) + length (mri_VRFTargetExport inst)
      in firstErr ([
        failIf (mri_InstanceType inst \<noteq> [] \<and> mri_InstanceType inst \<noteq> ''vrf'')
          (VErr (what @ '': unsupported instance-type '' @ Quote (mri_InstanceType inst))),
        failIf (mri_RouteDistinguisher inst \<noteq> [] \<and> \<not> rdPattern (mri_RouteDistinguisher inst))
          (VErr (what @ '': invalid route-distinguisher '' @ Quote (mri_RouteDistinguisher inst))),
        if mri_VRFTarget inst \<noteq> [] then validateVRFTargetValue (what @ '' vrf-target'') (mri_VRFTarget inst) else Inr ()] @
        map (validateInterfaceReference c what) (mri_Interfaces inst) @
        map (validateVRFTargetValue (what @ '' vrf-target import'')) (mri_VRFTargetImport inst) @
        map (validateVRFTargetValue (what @ '' vrf-target export'')) (mri_VRFTargetExport inst) @
        map (validatePolicyStatementReference c (what @ '' vrf-import'')) (mri_VRFImport inst) @
        map (validatePolicyStatementReference c (what @ '' vrf-export'')) (mri_VRFExport inst) @ [
        failIf (mri_VRFImport inst \<noteq> [] \<and> importTargetCount = 0) (VErr (what @ '': vrf-import requires an import vrf-target'')),
        failIf (mri_VRFExport inst \<noteq> [] \<and> exportTargetCount = 0) (VErr (what @ '': vrf-export requires an export vrf-target'')),
        failIf (0 < exportTargetCount \<and> mri_RouteDistinguisher inst = []) (VErr (what @ '': route-distinguisher is required for VPN export'')),
        failIf ((0 < importTargetCount \<or> 0 < exportTargetCount \<or> mri_VRFImport inst \<noteq> [] \<or> mri_VRFExport inst \<noteq> []) \<and> \<not> hasAS c)
          (VErr (what @ '': routing-options autonomous-system is required for VPN import/export''))]))"

definition validateRoutingInstances :: "RouterConfig \<Rightarrow> valError + unit" where
  "validateRoutingInstances c =
     eachEntry (\<lambda>name. VErr (''routing-instance '' @ name @ '' is nil'')) (validateRoutingInstance c) (rc_RoutingInstances c)"

section \<open>Protocols\<close>

definition validateModelBFDTimers :: "string \<Rightarrow> int \<Rightarrow> int \<Rightarrow> int \<Rightarrow> valError + unit" where
  "validateModelBFDTimers context detectMultiplier receiveInterval transmitInterval = firstErr [
     failIf (detectMultiplier < 0 \<or> 255 < detectMultiplier \<or> detectMultiplier = 1)
       (VErr (context @ '': detect-multiplier must be omitted or 2-255, got '' @ formatInt detectMultiplier)),
     failIf (receiveInterval < 0 \<or> 60000 < receiveInterval \<or> 0 < receiveInterval \<and> receiveInterval < 10)
       (VErr (context @ '': receive-interval must be omitted or 10-60000, got '' @ formatInt receiveInterval)),
     failIf (transmitInterval < 0 \<or> 60000 < transmitInterval \<or> 0 < transmitInterval \<and> transmitInterval < 10)
       (VErr (context @ '': transmit-interval must be omitted or 10-60000, got '' @ formatInt transmitInterval))]"

definition validateBFDPeer :: "RouterConfig \<Rightarrow> MBFDConfig \<Rightarrow> string \<Rightarrow> MBFDPeer \<Rightarrow> valError + unit" where
  "validateBFDPeer c bfd address peer =
     (let what = ''bfd peer '' @ address; profile = mget (mbfd_Profiles bfd) (mbe_Profile peer) in firstErr [
       failIf (ParseIP address = None) (VErr (what @ '': invalid peer address'')),
       failIf (mbe_LocalAddress peer \<noteq> [] \<and> ParseIP (mbe_LocalAddress peer) = None)
         (VErr (what @ '': invalid local-address '' @ Quote (mbe_LocalAddress peer))),
       if mbe_Interface peer \<noteq> [] then validateInterfaceReference c what (mbe_Interface peer) else Inr (),
       failIf (mbe_VRF peer \<noteq> [] \<and> mbe_VRF peer \<noteq> ''default'' \<and> mget (rc_RoutingInstances c) (mbe_VRF peer) = None)
         (VErr (what @ '': routing-instance '' @ Quote (mbe_VRF peer) @ '' is not configured'')),
       failIf (mbe_Profile peer \<noteq> [] \<and> profile = None) (VErr (what @ '': profile '' @ Quote (mbe_Profile peer) @ '' is not configured'')),
       failIf (mbe_Multihop peer \<and> mbe_EchoMode peer) (VErr (what @ '': echo-mode is not supported with multihop'')),
       failIf (mbe_Multihop peer \<and> mbe_Profile peer \<noteq> [] \<and> (case profile of None \<Rightarrow> False | Some p \<Rightarrow> mbp_EchoMode p))
         (VErr (what @ '': echo-mode profile '' @ Quote (mbe_Profile peer) @ '' is not supported with multihop'')),
       validateModelBFDTimers what (mbe_DetectMultiplier peer) (mbe_ReceiveInterval peer) (mbe_TransmitInterval peer)])"

definition validateBFD :: "RouterConfig \<Rightarrow> MBFDConfig \<Rightarrow> valError + unit" where
  "validateBFD c bfd = firstErr [
     eachEntry (\<lambda>name. VErr (''bfd profile '' @ name @ '' is nil''))
       (\<lambda>name p. validateModelBFDTimers (''bfd profile '' @ name) (mbp_DetectMultiplier p) (mbp_ReceiveInterval p) (mbp_TransmitInterval p))
       (mbfd_Profiles bfd),
     eachEntry (\<lambda>address. VErr (''bfd peer '' @ address @ '' is nil'')) (validateBFDPeer c bfd) (mbfd_Peers bfd)]"

definition validateBGPNeighbor :: "RouterConfig \<Rightarrow> string \<Rightarrow> string \<Rightarrow> MBGPNeighbor option \<Rightarrow> valError + unit" where
  "validateBGPNeighbor c groupName ip neighbor =
     (let what = ''bgp group '' @ groupName @ '' neighbor '' @ ip in firstErr [
       failIf (ParseIP ip = None) (VErr (''bgp group '' @ groupName @ '': invalid neighbor IP '' @ Quote ip)),
       case neighbor of None \<Rightarrow> Inl (VErr (what @ '' is nil''))
       | Some n \<Rightarrow> firstErr [
           failIf (mbn_PeerAS n = 0) (VErr (what @ '': peer-as is required'')),
           if mbn_BFDProfile n \<noteq> [] then validateBFDProfileReference c what (mbn_BFDProfile n) else Inr ()]])"

definition validateBGPGroup :: "RouterConfig \<Rightarrow> string \<Rightarrow> MBGPGroup \<Rightarrow> valError + unit" where
  "validateBGPGroup c groupName g =
     (let what = ''bgp group '' @ groupName in firstErr [
       failIf (mbg_Type g \<noteq> [] \<and> mbg_Type g \<noteq> ''internal'' \<and> mbg_Type g \<noteq> ''external'')
         (VErr (what @ '': type must be '' @ [CHR 0x27] @ ''internal'' @ [CHR 0x27] @ '' or '' @ [CHR 0x27] @ ''external'' @ [CHR 0x27] @
           '', got '' @ Quote (mbg_Type g))),
       eachPair (validateBGPNeighbor c groupName) (mbg_Neighbors g),
       if mbg_Import g \<noteq> [] then validatePolicyStatementReference c (what @ '' import'') (mbg_Import g) else Inr (),
       if mbg_Export g \<noteq> [] then validatePolicyStatementReference c (what @ '' export'') (mbg_Export g) else Inr ()])"

definition validateBGP :: "RouterConfig \<Rightarrow> MBGPConfig \<Rightarrow> valError + unit" where
  "validateBGP c bgp = firstErr [
     failIf (\<not> hasAS c) (VErr ''bgp: routing-options autonomous-system is required''),
     eachEntry (\<lambda>groupName. VErr (''bgp group '' @ groupName @ '' is nil'')) (validateBGPGroup c) (mbgp_Groups bgp)]"

definition validateVNIType :: "RouterConfig \<Rightarrow> string \<Rightarrow> MEVPNVNI \<Rightarrow> valError + unit" where
  "validateVNIType c context vni =
     (if mev_Type vni = ''l2'' then firstErr [
        failIf (TrimSpace (mev_BridgeDomain vni) = []) (VErr (context @ '': bridge-domain is required for L2 VNI'')),
        failIf (mev_RoutingInstance vni \<noteq> []) (VErr (context @ '': routing-instance is only valid for L3 VNI''))]
      else if mev_Type vni = ''l3'' then firstErr [
        failIf (TrimSpace (mev_RoutingInstance vni) = []) (VErr (context @ '': routing-instance is required for L3 VNI'')),
        failIf (mev_BridgeDomain vni \<noteq> []) (VErr (context @ '': bridge-domain is only valid for L2 VNI'')),
        failIf (mev_VLANID vni \<noteq> 0) (VErr (context @ '': vlan-id is only valid for L2 VNI'')),
        failIf (mev_RoutingInstance vni \<notin> fst ` set (rc_RoutingInstances c))
          (VErr (context @ '': routing-instance '' @ Quote (mev_RoutingInstance vni) @ '' is not configured''))]
      else Inl (VErr (context @ '': type must be l2 or l3'')))"

definition validateEVPNVNI :: "RouterConfig \<Rightarrow> int \<Rightarrow> MEVPNVNI option \<Rightarrow> valError + unit" where
  "validateEVPNVNI c vid p =
     (let context = ''evpn vni '' @ formatInt vid in
      case p of None \<Rightarrow> Inl (VErr (context @ '' is nil''))
      | Some vni \<Rightarrow> firstErr ([
          failIf (vid < 1 \<or> 16777215 < vid) (VErr (context @ '': VNI must be 1-16777215'')),
          failIf (mev_VNI vni \<noteq> 0 \<and> mev_VNI vni \<noteq> vid)
            (VErr (context @ '': VNI value '' @ formatInt (mev_VNI vni) @ '' does not match map key'')),
          validateVNIType c context vni,
          failIf (mev_VLANID vni \<noteq> 0 \<and> (mev_VLANID vni < 1 \<or> 4094 < mev_VLANID vni))
            (VErr (context @ '': vlan-id must be 1-4094, got '' @ formatInt (mev_VLANID vni))),
          failIf (mev_RouteDistinguisher vni \<noteq> [] \<and> \<not> rdPattern (mev_RouteDistinguisher vni))
            (VErr (context @ '': invalid route-distinguisher '' @ Quote (mev_RouteDistinguisher vni))),
          if mev_VRFTarget vni \<noteq> [] then validateVRFTargetValue (context @ '' vrf-target'') (mev_VRFTarget vni) else Inr ()] @
          map (validateVRFTargetValue (context @ '' vrf-target import'')) (mev_VRFTargetImport vni) @
          map (validateVRFTargetValue (context @ '' vrf-target export'')) (mev_VRFTargetExport vni) @ [
          if mev_SourceInterface vni \<noteq> [] then validateInterfaceReference c context (mev_SourceInterface vni) else Inr (),
          failIf (mev_SourceAddress vni \<noteq> [] \<and> ParseIP (mev_SourceAddress vni) = None)
            (VErr (context @ '': invalid source-address '' @ Quote (mev_SourceAddress vni))),
          failIf (mev_MulticastGroup vni \<noteq> [] \<and> \<not> (case ParseIP (mev_MulticastGroup vni) of None \<Rightarrow> False | Some ip \<Rightarrow> IsMulticast ip))
            (VErr (context @ '': invalid multicast-group '' @ Quote (mev_MulticastGroup vni))),
          failIf (mev_RemoteVTEP vni \<noteq> [] \<and> \<not> (case ParseIP (mev_RemoteVTEP vni) of None \<Rightarrow> False | Some ip \<Rightarrow> \<not> IsMulticast ip))
            (VErr (context @ '': invalid remote-vtep '' @ Quote (mev_RemoteVTEP vni))),
          failIf (mev_MulticastGroup vni \<noteq> [] \<and> mev_RemoteVTEP vni \<noteq> [])
            (VErr (context @ '': multicast-group and remote-vtep are mutually exclusive''))]))"

definition validateEVPN :: "RouterConfig \<Rightarrow> MEVPNConfig \<Rightarrow> valError + unit" where
  "validateEVPN c evpn = eachPair (validateEVPNVNI c) (mevpn_VNIs evpn)"

definition validateOSPFInterface :: "RouterConfig \<Rightarrow> string \<Rightarrow> string \<Rightarrow> MOSPFInterface option \<Rightarrow> valError + unit" where
  "validateOSPFInterface c context ifName p = firstErr [
     validateInterfaceReference c context ifName,
     case p of None \<Rightarrow> Inr ()
     | Some i \<Rightarrow> if moi_BFDProfile i \<noteq> [] then validateBFDProfileReference c (context @ '' interface '' @ ifName) (moi_BFDProfile i)
                 else Inr ()]"

definition validateOSPF :: "RouterConfig \<Rightarrow> string \<Rightarrow> MOSPFConfig \<Rightarrow> valError + unit" where
  "validateOSPF c protocol ospf = firstErr [
     failIf (mospf_RouterID ospf \<noteq> [] \<and> ParseIP (mospf_RouterID ospf) = None)
       (VErr (protocol @ '': invalid router-id '' @ Quote (mospf_RouterID ospf))),
     eachEntry (\<lambda>areaName. VErr (protocol @ '' area '' @ areaName @ '' is nil''))
       (\<lambda>areaName area. eachPair (validateOSPFInterface c (protocol @ '' area '' @ areaName)) (moa_Interfaces area))
       (mospf_Areas ospf)]"

definition validateVRRPGroup :: "RouterConfig \<Rightarrow> string \<Rightarrow> MVRRPGroup \<Rightarrow> valError + unit" where
  "validateVRRPGroup c name g =
     (let what = ''vrrp group '' @ name in firstErr [
       failIf (case Atoi name of None \<Rightarrow> True | Some gid \<Rightarrow> gid < 1 \<or> 255 < gid) (VErr (what @ '': id must be numeric 1-255'')),
       if mvg_Interface g \<noteq> [] then validateInterfaceReference c what (mvg_Interface g) else Inr (),
       failIf (mvg_VirtualAddress g \<noteq> [] \<and> ParseIP (mvg_VirtualAddress g) = None)
         (VErr (what @ '': invalid virtual-address '' @ Quote (mvg_VirtualAddress g))),
       failIf (mvg_Priority g < 0 \<or> 254 < mvg_Priority g)
         (VErr (what @ '': priority must be 1-254 when configured, got '' @ formatInt (mvg_Priority g)))])"

definition validateProtocolSections :: "RouterConfig \<Rightarrow> ProtocolsConfig \<Rightarrow> valError + unit" where
  "validateProtocolSections c pc = firstErr [
       ifPtr (mpc_BFD pc) (validateBFD c),
       ifPtr (mpc_BGP pc) (validateBGP c),
       ifPtr (mpc_EVPN pc) (validateEVPN c),
       ifPtr (mpc_OSPF pc) (validateOSPF c ''ospf''),
       ifPtr (mpc_OSPF3 pc) (validateOSPF c ''ospf3''),
       ifPtr (mpc_MPLS pc) (\<lambda>m. firstErr (map (validateInterfaceReference c ''mpls'') (mmpls_Interfaces m))),
       ifPtr (mpc_VRRP pc) (\<lambda>v. eachEntry (\<lambda>name. VErr (''vrrp group '' @ name @ '' is nil'')) (validateVRRPGroup c) (mvrrp_Groups v))]"

definition validateProtocols :: "RouterConfig \<Rightarrow> valError + unit" where
  "validateProtocols c = ifPtr (rc_Protocols c) (validateProtocolSections c)"

section \<open>Policy, class of service and security\<close>

definition isValidRoutePolicyProtocol :: "string \<Rightarrow> bool" where
  "isValidRoutePolicyProtocol protocol \<longleftrightarrow>
     protocol \<in> {''bgp'', ''ospf'', ''ospf3'', ''static'', ''connected'', ''direct'', ''kernel'', ''rip''}"

definition isValidPolicyCommunity :: "string \<Rightarrow> bool" where
  "isValidPolicyCommunity community \<longleftrightarrow>
     community \<in> {''no-export'', ''no-advertise'', ''local-AS'', ''no-peer''} \<or>
     (case SplitOn (CHR '':'') community of
        [p0, p1] \<Rightarrow> p0 \<noteq> [] \<and> p1 \<noteq> [] \<and>
          (case ParseUint p0 32 of None \<Rightarrow> False | Some asn \<Rightarrow> asn \<le> 65535) \<and>
          (case ParseUint p1 32 of None \<Rightarrow> False | Some v \<Rightarrow> v \<le> 65535)
      | _ \<Rightarrow> False)"

definition validatePrefixList :: "string \<Rightarrow> MPrefixList option \<Rightarrow> valError + unit" where
  "validatePrefixList name p = firstErr [
     failIf (TrimSpace name = []) (VErr ''policy-options prefix-list name is empty''),
     case p of None \<Rightarrow> Inl (VErr (''policy-options prefix-list '' @ name @ '' is nil''))
     | Some pl \<Rightarrow> firstErr (map (\<lambda>prefix. failIf (ParseCIDR prefix = None)
         (VErr (''prefix-list '' @ name @ '': invalid prefix '' @ Quote prefix @ '': '' @ cidrError prefix))) (mpl_Prefixes pl))]"

definition validatePolicyMatch :: "valLib \<Rightarrow> PolicyConfig \<Rightarrow> string \<Rightarrow> MPolicyMatchConditions \<Rightarrow> valError + unit" where
  "validatePolicyMatch lib po what from = firstErr (
     map (\<lambda>listName. firstErr [
       failIf (TrimSpace listName = []) (VErr (what @ '': empty prefix-list reference'')),
       failIf (mget (mpo_PrefixLists po) listName = None)
         (VErr (what @ '': prefix-list '' @ Quote listName @ '' not found in policy-options''))]) (mpm_PrefixLists from) @ [
     failIf (mpm_Protocol from \<noteq> [] \<and> \<not> isValidRoutePolicyProtocol (mpm_Protocol from))
       (VErr (what @ '': invalid protocol '' @ Quote (mpm_Protocol from))),
     failIf (mpm_Neighbor from \<noteq> [] \<and> ParseIP (mpm_Neighbor from) = None)
       (VErr (what @ '': invalid neighbor '' @ Quote (mpm_Neighbor from))),
     if mpm_ASPath from \<noteq> [] then
       (case compileRegexp lib (mpm_ASPath from) of None \<Rightarrow> Inr ()
        | Some err \<Rightarrow> Inl (VErr (what @ '': invalid as-path '' @ Quote (mpm_ASPath from) @ '': '' @ err)))
     else Inr ()])"

definition validatePolicyTerm :: "valLib \<Rightarrow> PolicyConfig \<Rightarrow> string \<Rightarrow> MPolicyTerm option \<Rightarrow> valError + unit" where
  "validatePolicyTerm lib po name p =
     (case p of None \<Rightarrow> Inl (VErr (''policy-statement '' @ name @ '': nil term''))
      | Some term \<Rightarrow> (let what = ''policy-statement '' @ name @ '' term '' @ mpt_Name term in firstErr [
          failIf (TrimSpace (mpt_Name term) = []) (VErr (''policy-statement '' @ name @ '': empty term name'')),
          ifPtr (mpt_From term) (validatePolicyMatch lib po what),
          ifPtr (mpt_Then term) (\<lambda>a. failIf (mpa_Community a \<noteq> [] \<and> \<not> isValidPolicyCommunity (mpa_Community a))
            (VErr (what @ '': invalid community '' @ Quote (mpa_Community a))))]))"

definition validatePolicyStatement :: "valLib \<Rightarrow> PolicyConfig \<Rightarrow> string \<Rightarrow> MPolicyStatement \<Rightarrow> valError + unit" where
  "validatePolicyStatement lib po name statement = firstErr (map (validatePolicyTerm lib po name) (mps_Terms statement))"

definition validatePolicyEntry :: "valLib \<Rightarrow> PolicyConfig \<Rightarrow> string \<Rightarrow> MPolicyStatement option \<Rightarrow> valError + unit" where
  "validatePolicyEntry lib po name p = firstErr [
     failIf (TrimSpace name = []) (VErr ''policy-options policy-statement name is empty''),
     case p of None \<Rightarrow> Inl (VErr (''policy-options policy-statement '' @ name @ '' is nil''))
     | Some statement \<Rightarrow> validatePolicyStatement lib po name statement]"

definition validatePolicySections :: "valLib \<Rightarrow> PolicyConfig \<Rightarrow> valError + unit" where
  "validatePolicySections lib po = firstErr [
       eachPair validatePrefixList (mpo_PrefixLists po),
       eachPair (validatePolicyEntry lib po) (mpo_PolicyStatements po)]"

definition validatePolicy :: "valLib \<Rightarrow> RouterConfig \<Rightarrow> valError + unit" where
  "validatePolicy lib c = ifPtr (rc_Policy c) (validatePolicySections lib)"

definition validateCoSInterface :: "RouterConfig \<Rightarrow> MClassOfServiceConfig \<Rightarrow> string \<Rightarrow> MCoSInterface option \<Rightarrow> valError + unit" where
  "validateCoSInterface c co name p = firstErr [
     validateInterfaceReference c ''class-of-service'' name,
     case p of None \<Rightarrow> Inl (VErr (''class-of-service interface '' @ name @ '' is nil''))
     | Some i \<Rightarrow> failIf (mci_OutputTrafficControlProfile i \<noteq> [] \<and>
           mci_OutputTrafficControlProfile i \<notin> fst ` set (mcos_TrafficControlProfiles co))
         (VErr (''class-of-service interface '' @ name @ '': output traffic-control-profile '' @
           Quote (mci_OutputTrafficControlProfile i) @ '' not found''))]"

definition validateCoSSections :: "RouterConfig \<Rightarrow> MClassOfServiceConfig \<Rightarrow> valError + unit" where
  "validateCoSSections c co = firstErr [
       eachEntry (\<lambda>name. VErr (''class-of-service forwarding-class '' @ name @ '' is nil''))
         (\<lambda>name fc. failIf (mfc_Queue fc < 0 \<or> 7 < mfc_Queue fc)
            (VErr (''class-of-service forwarding-class '' @ name @ '': queue must be 0-7, got '' @ formatInt (mfc_Queue fc))))
         (mcos_ForwardingClasses co),
       eachPair (validateCoSInterface c co) (mcos_Interfaces co)]"

definition validateClassOfService :: "RouterConfig \<Rightarrow> valError + unit" where
  "validateClassOfService c = ifPtr (rc_ClassOfService c) (validateCoSSections c)"

definition validSecurityUserRole :: "string \<Rightarrow> bool" where
  "validSecurityUserRole role \<longleftrightarrow> role \<in> {[], ''admin'', ''operator'', ''read-only''}"

definition validateSecurityUser :: "valLib \<Rightarrow> string \<Rightarrow> MUserConfig option \<Rightarrow> valError + unit" where
  "validateSecurityUser lib username p =
     (let what = ''security users user '' @ Quote username in firstErr [
       failIf (TrimSpace username = []) (VErr ''security users: username is required''),
       case p of None \<Rightarrow> Inl (VErr (what @ '': config is nil''))
       | Some user \<Rightarrow> firstErr [
           failIf (\<not> validSecurityUserRole (mus_Role user)) (VErr (what @ '': invalid role '' @ Quote (mus_Role user))),
           failIf (mus_Password user = [] \<and> mus_SSHKey user = []) (VErr (what @ '': password or ssh-key is required'')),
           if mus_Password user \<noteq> [] then wrapErr (VHash (what @ '': invalid password hash: '')) (ValidatePasswordHash (mus_Password user)) else Inr (),
           if mus_SSHKey user \<noteq> [] then wrapErr (\<lambda>e. VErr (what @ '': invalid ssh-key: '' @ e)) (ParsePublicKey (sshKeys lib) (mus_SSHKey user))
           else Inr ()]])"

definition validateSecurityUsers :: "valLib \<Rightarrow> (string, MUserConfig) gomap \<Rightarrow> valError + unit" where
  "validateSecurityUsers lib users = eachPair (validateSecurityUser lib) users"

definition validateSecurityRateLimitValue :: "string \<Rightarrow> int \<Rightarrow> valError + unit" where
  "validateSecurityRateLimitValue name v =
     failIf (v \<noteq> 0 \<and> (v < 1 \<or> 1000 < v)) (VErr (''security rate-limit '' @ name @ '' must be 1-1000, got '' @ formatInt v))"

definition validateSecurityRateLimit :: "MRateLimitConfig option \<Rightarrow> valError + unit" where
  "validateSecurityRateLimit rateLimit =
     ifPtr rateLimit (\<lambda>r. firstErr [validateSecurityRateLimitValue ''per-ip'' (mrl_PerIP r), validateSecurityRateLimitValue ''per-user'' (mrl_PerUser r)])"

definition validateSecuritySections :: "valLib \<Rightarrow> MSecurityConfig \<Rightarrow> valError + unit" where
  "validateSecuritySections lib s = firstErr [
       validateSecurityUsers lib (msec_Users s),
       validateSecurityRateLimit (msec_RateLimit s),
       ifPtr (msec_NETCONF s) (\<lambda>nc. ifPtr (mnc_SSH nc) (\<lambda>ssh. firstErr [
         failIf (badListen (mssh_ListenAddress ssh)) (VErr (''security netconf ssh: invalid listen-address '' @ Quote (mssh_ListenAddress ssh))),
         failIf (mssh_Port ssh < 0 \<or> 65535 < mssh_Port ssh)
           (VErr (''security netconf ssh port must be 0-65535, got '' @ formatInt (mssh_Port ssh)))]))]"

definition validateSecurity :: "valLib \<Rightarrow> RouterConfig \<Rightarrow> valError + unit" where
  "validateSecurity lib c = ifPtr (rc_Security c) (validateSecuritySections lib)"

section \<open>The whole configuration\<close>

definition Validate :: "valLib \<Rightarrow> RouterConfig option \<Rightarrow> valError + unit" where
  "Validate lib p =
     (case p of None \<Rightarrow> Inl (VErr ''configuration is nil'')
      | Some c \<Rightarrow> firstErr [validateSystem c, validateInterfaces c, validateChassis c, validateRouting c, validateRoutingInstances c,
          validateProtocols c, validatePolicy lib c, validateClassOfService c, validateSecurity lib c])"

definition ResolveRouterID :: "RouterConfig \<Rightarrow> string \<Rightarrow> string" where
  "ResolveRouterID c protocol =
     (let own = (if ToLower protocol = ''ospf'' then Option.bind (rc_Protocols c) mpc_OSPF
                 else if ToLower protocol = ''ospf3'' then Option.bind (rc_Protocols c) mpc_OSPF3 else None);
          global = (case rc_Routing c of None \<Rightarrow> [] | Some ro \<Rightarrow> mro_RouterID ro)
      in case own of None \<Rightarrow> global | Some osp \<Rightarrow> if mospf_RouterID osp \<noteq> [] then mospf_RouterID osp else global)"

end
