(* ===== verification/Engine.thy ===== *)
theory Engine
  imports Diff ModelValidate
begin

text \<open>
  internal/engine/engine.go and plugin.go, with ConfigSnapshot of internal/model/config.go: the
  engine that validates a candidate, computes the difference to the running configuration, applies
  it through the plugins and rolls back when one of them fails. The engine serialises \<open>Apply\<close> and
  \<open>InitializeRunning\<close> with a mutex, so each is one step here. A plugin is its name and its methods,
  which read and change the state \<open>'w\<close> of the systems below; a method returns the new state and an
  error text. \<open>None\<close> is a nil dereference. \<open>json.Marshal\<close> and the clock are arguments.
\<close>

section \<open>Data\<close>

record ConfigSnapshot =
  sn_Version :: "64 word"
  sn_Config :: "RouterConfig option"
  sn_Hash :: "nat list"
  sn_Author :: string
  sn_Message :: string
  sn_CreatedAt :: int

record 'w Plugin =
  plg_Name :: string
  plg_Init :: "'w \<Rightarrow> 'w \<times> string option"
  plg_Close :: "'w \<Rightarrow> 'w \<times> string option"
  plg_HealthCheck :: "'w \<Rightarrow> 'w \<times> string option"
  plg_ValidateChanges :: "ConfigDiff \<Rightarrow> 'w \<Rightarrow> 'w \<times> string option"
  plg_ApplyChanges :: "ConfigDiff \<Rightarrow> 'w \<Rightarrow> 'w \<times> string option"
  plg_RollbackChanges :: "ConfigDiff \<Rightarrow> 'w \<Rightarrow> 'w \<times> string option"

record 'w Engine =
  en_running :: "ConfigSnapshot option"
  en_plugins :: "'w Plugin list"
  en_version :: "64 word"

record ApplyError =
  ae_Plugin :: string
  ae_Phase :: string
  ae_RollbackAttempted :: bool
  ae_RollbackSucceeded :: bool
  ae_RollbackDiagnostics :: "string list"
  ae_Err :: "string option"

datatype engineError = NilConfiguration | ConfigValidation valError | PluginValidation string string | ApplyFailed ApplyError

record engineEnv =
  ev_lib :: valLib
  ev_marshal :: "RouterConfig option \<Rightarrow> nat list"
  ev_now :: int

definition ApplyErrorText :: "ApplyError \<Rightarrow> string" where
  "ApplyErrorText e =
     (let phase = (if ae_Phase e = [] then ''apply'' else ae_Phase e);
          msg = ''plugin '' @ ae_Plugin e @ '' '' @ phase @ '' failed'';
          msg = (if ae_RollbackAttempted e then
                   (if ae_RollbackSucceeded e then msg @ '' (rollback succeeded)''
                    else msg @ '' (rollback failed'' @
                      (if ae_RollbackDiagnostics e \<noteq> [] then '': '' @ JoinWith ''; '' (ae_RollbackDiagnostics e) else []) @ '')'')
                 else msg)
      in case ae_Err e of None \<Rightarrow> msg | Some err \<Rightarrow> msg @ '': '' @ err)"

definition NewSnapshot :: "engineEnv \<Rightarrow> RouterConfig option \<Rightarrow> 64 word \<Rightarrow> string \<Rightarrow> string \<Rightarrow> ConfigSnapshot" where
  "NewSnapshot env cfg version author message =
     (let snapshotCfg = map_option Clone cfg
      in \<lparr>sn_Version = version, sn_Config = snapshotCfg, sn_Hash = Sum256 (ev_marshal env snapshotCfg), sn_Author = author,
          sn_Message = message, sn_CreatedAt = ev_now env\<rparr>)"

definition CloneSnapshot :: "ConfigSnapshot \<Rightarrow> ConfigSnapshot" where
  "CloneSnapshot s = s\<lparr>sn_Config := map_option Clone (sn_Config s)\<rparr>"

definition NewEngine :: "'w Plugin list \<Rightarrow> 'w Engine" where
  "NewEngine plugins = \<lparr>en_running = None, en_plugins = plugins, en_version = 0\<rparr>"

definition Running :: "'w Engine \<Rightarrow> RouterConfig" where
  "Running e = (case en_running e of None \<Rightarrow> NewRouterConfig
     | Some s \<Rightarrow> (case map_option Clone (sn_Config s) of Some cfg \<Rightarrow> cfg | None \<Rightarrow> NewRouterConfig))"

definition RunningSnapshot :: "'w Engine \<Rightarrow> ConfigSnapshot option" where
  "RunningSnapshot e = map_option CloneSnapshot (en_running e)"

definition oldConfig :: "'w Engine \<Rightarrow> RouterConfig option" where
  "oldConfig e = Option.bind (en_running e) (\<lambda>s. map_option Clone (sn_Config s))"

section \<open>Phases\<close>

text \<open>Each loop clones the difference before a call; the clone is a new comparison and may panic.\<close>

fun validatePlugins :: "'w Plugin list \<Rightarrow> ConfigDiff \<Rightarrow> 'w \<Rightarrow> ('w \<times> engineError option) option" where
  "validatePlugins [] d w = Some (w, None)"
| "validatePlugins (p # ps) d w =
     (case CloneDiff d of None \<Rightarrow> None
      | Some d' \<Rightarrow> (case plg_ValidateChanges p d' w of
            (w', Some err) \<Rightarrow> Some (w', Some (PluginValidation (plg_Name p) err))
          | (w', None) \<Rightarrow> validatePlugins ps d w'))"

text \<open>\<open>transaction.rollback\<close>: the applied plugins in reverse order, all of them, with the errors collected.\<close>

fun rollbackLoop :: "('w Plugin \<times> ConfigDiff) list \<Rightarrow> 'w \<Rightarrow> string list \<Rightarrow> 'w \<times> string list" where
  "rollbackLoop [] w errs = (w, errs)"
| "rollbackLoop ((p, d) # rest) w errs =
     (case plg_RollbackChanges p d w of
        (w', Some err) \<Rightarrow> rollbackLoop rest w' (errs @ [''plugin '' @ plg_Name p @ '' rollback failed: '' @ err])
      | (w', None) \<Rightarrow> rollbackLoop rest w' errs)"

definition rollback :: "('w Plugin \<times> ConfigDiff) list \<Rightarrow> 'w \<Rightarrow> 'w \<times> string list" where
  "rollback applied w = rollbackLoop (rev applied) w []"

fun applyPlugins :: "'w Plugin list \<Rightarrow> ConfigDiff \<Rightarrow> ('w Plugin \<times> ConfigDiff) list \<Rightarrow> 'w \<Rightarrow> ('w \<times> ApplyError option) option" where
  "applyPlugins [] d applied w = Some (w, None)"
| "applyPlugins (p # ps) d applied w =
     (case CloneDiff d of None \<Rightarrow> None
      | Some applyDiff \<Rightarrow> (case CloneDiff d of None \<Rightarrow> None
      | Some rollbackDiff \<Rightarrow>
          (let applied = applied @ [(p, rollbackDiff)] in
           case plg_ApplyChanges p applyDiff w of
             (w1, Some err) \<Rightarrow> (case rollback applied w1 of (w2, rollbackErrs) \<Rightarrow>
               Some (w2, Some \<lparr>ae_Plugin = plg_Name p, ae_Phase = ''apply'', ae_RollbackAttempted = True,
                 ae_RollbackSucceeded = (rollbackErrs = []), ae_RollbackDiagnostics = rollbackErrs, ae_Err = Some err\<rparr>))
           | (w1, None) \<Rightarrow> applyPlugins ps d applied w1)))"

section \<open>Operations\<close>

definition EngineValidate :: "engineEnv \<Rightarrow> 'w Engine \<Rightarrow> RouterConfig option \<Rightarrow> 'w \<Rightarrow> ('w \<times> engineError option) option" where
  "EngineValidate env e p w =
     (case p of None \<Rightarrow> Some (w, Some NilConfiguration)
      | Some candidate \<Rightarrow>
     (case Validate (ev_lib env) (Some candidate) of Inl err \<Rightarrow> Some (w, Some (ConfigValidation err))
      | Inr _ \<Rightarrow>
     (case ComputeDiff (oldConfig e) (Some (Clone candidate)) of None \<Rightarrow> None
      | Some diff \<Rightarrow> validatePlugins (en_plugins e) diff w)))"

definition Apply :: "engineEnv \<Rightarrow> 'w Engine \<Rightarrow> RouterConfig option \<Rightarrow> string \<Rightarrow> string \<Rightarrow> 'w \<Rightarrow> ('w Engine \<times> 'w \<times> engineError option) option" where
  "Apply env e p author message w =
     (case p of None \<Rightarrow> Some (e, w, Some NilConfiguration)
      | Some c \<Rightarrow>
     (let candidate = Clone c in
      case Validate (ev_lib env) (Some candidate) of Inl err \<Rightarrow> Some (e, w, Some (ConfigValidation err))
      | Inr _ \<Rightarrow>
     (case ComputeDiff (oldConfig e) (Some (Clone candidate)) of None \<Rightarrow> None
      | Some diff \<Rightarrow>
          if \<not> HasChanges diff then Some (e, w, None)
          else (case validatePlugins (en_plugins e) diff w of None \<Rightarrow> None
          | Some (w1, Some err) \<Rightarrow> Some (e, w1, Some err)
          | Some (w1, None) \<Rightarrow>
         (case applyPlugins (en_plugins e) diff [] w1 of None \<Rightarrow> None
          | Some (w2, Some err) \<Rightarrow> Some (e, w2, Some (ApplyFailed err))
          | Some (w2, None) \<Rightarrow>
              (let version = en_version e + 1
               in Some (e\<lparr>en_version := version, en_running := Some (NewSnapshot env (Some candidate) version author message)\<rparr>, w2, None)))))))"

definition InitializeRunning :: "engineEnv \<Rightarrow> 'w Engine \<Rightarrow> RouterConfig option \<Rightarrow> 64 word \<Rightarrow> 'w Engine" where
  "InitializeRunning env e cfg version =
     e\<lparr>en_version := version, en_running := Some (NewSnapshot env cfg version ''system'' ''initial load'')\<rparr>"

end
