(* ===== verification/ValidateLaws.thy ===== *)
theory ValidateLaws
  imports ModelValidate ModelEqual ModelRoundTrip
begin

text \<open>
  What the verdict of internal/model/validate.go means: it depends on the configuration only as a
  Go value, an accepted configuration converts to the legacy tree without a nil dereference, and
  every name that an accepted configuration refers to is configured.
\<close>

section \<open>The verdict does not depend on the order of maps\<close>

lemma eachPair_ok: "eachPair f m = Inr () \<longleftrightarrow> (\<forall>(k, p) \<in> set m. f k p = Inr ())"
  by (auto simp: eachPair_def firstErr_ok list_all_iff)

lemma eachEntry_pair: "eachEntry nil f m = eachPair (\<lambda>k p. case p of None \<Rightarrow> Inl (nil k) | Some v \<Rightarrow> f k v) m"
  by (simp add: eachEntry_def eachPair_def)

lemma eachPair_same:
  assumes "deepMap R m m'" and "keys_ok m" and "keys_ok m'"
    and "\<And>k p p'. rel_option R p p' \<Longrightarrow> (k, p) \<in> set m \<Longrightarrow> (k, p') \<in> set m' \<Longrightarrow> f k p = Inr () \<longleftrightarrow> f' k p' = Inr ()"
  shows "eachPair f m = Inr () \<longleftrightarrow> eachPair f' m' = Inr ()"
proof
  assume ok: "eachPair f m = Inr ()"
  have "f' k p' = Inr ()" if m': "(k, p') \<in> set m'" for k p'
  proof -
    from deepMap_back [OF assms(1-3) m'] obtain p where p: "(k, p) \<in> set m" "rel_option R p p'" .
    from p(1) ok have "f k p = Inr ()" by (auto simp only: eachPair_ok)
    with assms(4) [OF p(2,1) m'] show ?thesis by simp
  qed
  then show "eachPair f' m' = Inr ()" by (auto simp only: eachPair_ok)
next
  assume ok: "eachPair f' m' = Inr ()"
  have "f k p = Inr ()" if m: "(k, p) \<in> set m" for k p
  proof -
    from deepMap_entry [OF assms(1) m] obtain p' where p: "(k, p') \<in> set m'" "rel_option R p p'" .
    from p(1) ok have "f' k p' = Inr ()" by (auto simp only: eachPair_ok)
    with assms(4) [OF p(2) m p(1)] show ?thesis by simp
  qed
  then show "eachPair f m = Inr ()" by (auto simp only: eachPair_ok)
qed

lemma eachEntry_same:
  assumes "deepMap R m m'" and "keys_ok m" and "keys_ok m'"
    and "\<And>k v v'. R v v' \<Longrightarrow> (k, Some v) \<in> set m \<Longrightarrow> (k, Some v') \<in> set m' \<Longrightarrow> f k v = Inr () \<longleftrightarrow> f' k v' = Inr ()"
  shows "eachEntry nil f m = Inr () \<longleftrightarrow> eachEntry nil f' m' = Inr ()"
  unfolding eachEntry_pair
proof (rule eachPair_same [OF assms(1-3)])
  fix k p p'
  assume "rel_option R p p'" "(k, p) \<in> set m" "(k, p') \<in> set m'"
  then show "(case p of None \<Rightarrow> Inl (nil k) | Some v \<Rightarrow> f k v) = Inr () \<longleftrightarrow>
      (case p' of None \<Rightarrow> Inl (nil k) | Some v \<Rightarrow> f' k v) = Inr ()"
    using assms(4) by (cases p; cases p') auto
qed

lemma deepMap_eq_set: "deepMap (=) m m' \<Longrightarrow> keys_ok m \<Longrightarrow> keys_ok m' \<Longrightarrow> set m = set m'"
  by (auto simp: option.rel_eq elim: deepMap_entry deepMap_back)

lemma eachPair_order:
  "deepMap (=) m m' \<Longrightarrow> keys_ok m \<Longrightarrow> keys_ok m' \<Longrightarrow> eachPair f m = Inr () \<longleftrightarrow> eachPair f m' = Inr ()"
  by (simp add: eachPair_ok deepMap_eq_set)

lemma eachEntry_order2:
  "deepMap (=) m m' \<Longrightarrow> keys_ok m \<Longrightarrow> keys_ok m' \<Longrightarrow> eachEntry nil f m = Inr () \<longleftrightarrow> eachEntry nil f m' = Inr ()"
  unfolding eachEntry_pair by (rule eachPair_order)

lemma ifPtr_same:
  assumes "rel_option R a b" and "\<And>v w. R v w \<Longrightarrow> a = Some v \<Longrightarrow> b = Some w \<Longrightarrow> f v = Inr () \<longleftrightarrow> g w = Inr ()"
  shows "ifPtr a f = Inr () \<longleftrightarrow> ifPtr b g = Inr ()"
  using assms by (cases a; cases b) (auto simp: ifPtr_def)

lemma mget_deep_eq: "deepMap (=) m m' \<Longrightarrow> keys_ok m \<Longrightarrow> keys_ok m' \<Longrightarrow> mget m k = mget m' k"
  using deepMap_mget [of "(=)" m m' k] by (simp add: option.rel_eq)

subsection \<open>References\<close>

lemma sameInterfaces_keys:
  assumes "sameConfig c c'" and "goConfig c" and "goConfig c'"
  shows "fst ` set (rc_Interfaces c) = fst ` set (rc_Interfaces c')"
  using assms by (intro deepMap_keys [of deepInterface]) (auto simp: sameConfig_def goConfig_def dest: okMap_keys)

lemma interfaceReference_same:
  "sameConfig c c' \<Longrightarrow> goConfig c \<Longrightarrow> goConfig c' \<Longrightarrow> validateInterfaceReference c = validateInterfaceReference c'"
  by (intro ext) (simp add: validateInterfaceReference_def sameInterfaces_keys)

lemma policyReference_same:
  assumes "sameConfig c c'" and "goConfig c" and "goConfig c'"
  shows "validatePolicyStatementReference c = validatePolicyStatementReference c'"
proof -
  have "(case rc_Policy c of None \<Rightarrow> True | Some po \<Rightarrow> n \<notin> fst ` set (mpo_PolicyStatements po)) =
      (case rc_Policy c' of None \<Rightarrow> True | Some po \<Rightarrow> n \<notin> fst ` set (mpo_PolicyStatements po))" for n
    using assms by (cases "rc_Policy c"; cases "rc_Policy c'")
      (auto simp: sameConfig_def goConfig_def deepPolicy_def goPolicy_def dest: deepMap_eq_set)
  then show ?thesis by (intro ext) (simp add: validatePolicyStatementReference_def)
qed

lemma bfdProfile_same:
  assumes "sameConfig c c'" and "goConfig c" and "goConfig c'"
  shows "bfdProfile c n = bfdProfile c' n"
proof (cases "rc_Protocols c")
  case None
  with assms show ?thesis by (cases "rc_Protocols c'") (auto simp: bfdProfile_def sameConfig_def)
next
  case (Some a)
  with assms obtain b where b: "rc_Protocols c' = Some b" "deepProtocols a b" "goProtocols a" "goProtocols b"
    by (cases "rc_Protocols c'") (auto simp: sameConfig_def goConfig_def)
  then have "Option.bind (mpc_BFD a) (\<lambda>b. mget (mbfd_Profiles b) n) = Option.bind (mpc_BFD b) (\<lambda>b. mget (mbfd_Profiles b) n)"
    by (cases "mpc_BFD a"; cases "mpc_BFD b") (auto simp: deepProtocols_def goProtocols_def deepBFD_def goBFD_def dest: mget_deep_eq)
  with Some b show ?thesis by (simp add: bfdProfile_def)
qed

lemma bfdReference_same:
  "sameConfig c c' \<Longrightarrow> goConfig c \<Longrightarrow> goConfig c' \<Longrightarrow> validateBFDProfileReference c = validateBFDProfileReference c'"
  by (intro ext) (simp add: validateBFDProfileReference_def bfdProfile_same)

lemma hasAS_same: "sameConfig c c' \<Longrightarrow> hasAS c = hasAS c'"
  by (simp add: sameConfig_def hasAS_def)

lemma instances_same:
  "sameConfig c c' \<Longrightarrow> goConfig c \<Longrightarrow> goConfig c' \<Longrightarrow> mget (rc_RoutingInstances c) n = mget (rc_RoutingInstances c') n"
  "sameConfig c c' \<Longrightarrow> goConfig c \<Longrightarrow> goConfig c' \<Longrightarrow> fst ` set (rc_RoutingInstances c) = fst ` set (rc_RoutingInstances c')"
  by (auto simp: sameConfig_def goConfig_def mget_deep_eq dest: deepMap_eq_set)

lemmas reference_same = interfaceReference_same policyReference_same bfdReference_same hasAS_same instances_same

subsection \<open>Sections\<close>

lemma interfaces_same:
  assumes "sameConfig c c'" and "goConfig c" and "goConfig c'"
  shows "validateInterfaces c = Inr () \<longleftrightarrow> validateInterfaces c' = Inr ()"
proof -
  have u: "validateUnit n k p = Inr () \<longleftrightarrow> validateUnit n k p' = Inr ()"
    if "rel_option deepUnit p p'" "pred_option (\<lambda>u. keys_ok (mu_Family u)) p" "pred_option (\<lambda>u. keys_ok (mu_Family u)) p'" for n k p p'
    using that eachPair_order by (cases p; cases p') (auto simp: validateUnit_def check_ok deepUnit_def)
  have i: "validateInterface k p = Inr () \<longleftrightarrow> validateInterface k p' = Inr ()"
    if "rel_option deepInterface p p'" "pred_option goInterface p" "pred_option goInterface p'" for k p p'
  proof (cases p)
    case None
    with that show ?thesis by simp
  next
    case (Some a)
    with that obtain b where b: "p' = Some b" "deepInterface a b" "goInterface a" "goInterface b" by (cases p') auto
    have "eachPair (validateUnit k) (ic_Units a) = Inr () \<longleftrightarrow> eachPair (validateUnit k) (ic_Units b) = Inr ()"
      using b by (intro eachPair_same [of deepUnit] u) (auto simp: deepInterface_def goInterface_def okMap_def list_all_iff)
    with Some b show ?thesis by (simp add: validateInterface_def check_ok)
  qed
  show ?thesis unfolding validateInterfaces_def
    using assms by (intro eachPair_same [of deepInterface] i)
      (auto simp: sameConfig_def goConfig_def okMap_def list_all_iff)
qed

lemma cluster_same:
  assumes "deepCluster x y" and "keys_ok (mcl_Nodes x)" and "keys_ok (mcl_Nodes y)"
  shows "validateCluster x = Inr () \<longleftrightarrow> validateCluster y = Inr ()"
proof -
  from assms have "deepMap (=) (mcl_Nodes x) (mcl_Nodes y)" "mcl_Sync x = mcl_Sync y" by (simp_all add: deepCluster_def)
  with assms(2,3) show ?thesis
    by (simp only: validateCluster_def firstErr_ok list.pred_inject eachEntry_order2 [of "mcl_Nodes x" "mcl_Nodes y"])
qed

lemma chassis_same:
  assumes "sameConfig c c'" and "goConfig c" and "goConfig c'"
  shows "validateChassis c = Inr () \<longleftrightarrow> validateChassis c' = Inr ()"
  unfolding validateChassis_def
proof (intro ifPtr_same [of deepChassis] ifPtr_same [of deepCluster] cluster_same)
  show "rel_option deepChassis (rc_Chassis c) (rc_Chassis c')" using assms by (simp add: sameConfig_def)
qed (use assms in \<open>auto simp: deepChassis_def goConfig_def\<close>)

lemma routing_same:
  assumes "sameConfig c c'" and "goConfig c" and "goConfig c'"
  shows "validateRouting c = validateRouting c'"
proof -
  have "validateStaticRoute c = validateStaticRoute c'"
    by (intro ext) (simp only: validateStaticRoute_def bfdReference_same [OF assms])
  moreover have "rc_Routing c = rc_Routing c'" using assms(1) by (simp add: sameConfig_def)
  ultimately show ?thesis by (simp only: validateRouting_def)
qed

lemma instancesValid_same:
  assumes "sameConfig c c'" and "goConfig c" and "goConfig c'"
  shows "validateRoutingInstances c = Inr () \<longleftrightarrow> validateRoutingInstances c' = Inr ()"
proof -
  have "validateRoutingInstance c = validateRoutingInstance c'"
    by (intro ext) (simp only: validateRoutingInstance_def interfaceReference_same [OF assms] policyReference_same [OF assms]
        hasAS_same [OF assms(1)])
  moreover have "deepMap (=) (rc_RoutingInstances c) (rc_RoutingInstances c')" "keys_ok (rc_RoutingInstances c)"
    "keys_ok (rc_RoutingInstances c')" using assms by (simp_all add: sameConfig_def goConfig_def)
  ultimately show ?thesis unfolding validateRoutingInstances_def by (simp only: eachEntry_order2)
qed

lemma bfd_same:
  assumes "sameConfig c c'" and "goConfig c" and "goConfig c'" and "deepBFD a b" and "goBFD a" and "goBFD b"
  shows "validateBFD c a = Inr () \<longleftrightarrow> validateBFD c' b = Inr ()"
proof -
  from assms have p: "mget (mbfd_Profiles a) n = mget (mbfd_Profiles b) n" for n
    by (simp add: deepBFD_def goBFD_def mget_deep_eq)
  have "validateBFDPeer c a = validateBFDPeer c' b"
    by (intro ext) (simp only: validateBFDPeer_def p interfaceReference_same [OF assms(1-3)] instances_same(1) [OF assms(1-3)])
  moreover have "deepMap (=) (mbfd_Profiles a) (mbfd_Profiles b)" "deepMap (=) (mbfd_Peers a) (mbfd_Peers b)"
    "keys_ok (mbfd_Profiles a)" "keys_ok (mbfd_Profiles b)" "keys_ok (mbfd_Peers a)" "keys_ok (mbfd_Peers b)"
    using assms(4-6) by (simp_all add: deepBFD_def goBFD_def)
  ultimately show ?thesis
    by (simp only: validateBFD_def firstErr_ok list.pred_inject eachEntry_order2 [of "mbfd_Profiles a" "mbfd_Profiles b"]
        eachEntry_order2 [of "mbfd_Peers a" "mbfd_Peers b"])
qed

lemma bgp_same:
  assumes "sameConfig c c'" and "goConfig c" and "goConfig c'" and "deepBGP a b" and "goBGP a" and "goBGP b"
  shows "validateBGP c a = Inr () \<longleftrightarrow> validateBGP c' b = Inr ()"
proof -
  have n: "validateBGPNeighbor c = validateBGPNeighbor c'"
    by (intro ext) (simp only: validateBGPNeighbor_def bfdReference_same [OF assms(1-3)])
  have g: "validateBGPGroup c k x = Inr () \<longleftrightarrow> validateBGPGroup c' k y = Inr ()"
    if "deepBGPGroup x y" "keys_ok (mbg_Neighbors x)" "keys_ok (mbg_Neighbors y)" for k x y
  proof -
    from that have "mbg_Type x = mbg_Type y" "mbg_Import x = mbg_Import y" "mbg_Export x = mbg_Export y"
      "deepMap (=) (mbg_Neighbors x) (mbg_Neighbors y)" by (simp_all add: deepBGPGroup_def)
    with that(2,3) show ?thesis
      by (simp only: validateBGPGroup_def n policyReference_same [OF assms(1-3)] Let_def firstErr_ok list.pred_inject
          eachPair_order [of "mbg_Neighbors x" "mbg_Neighbors y"])
  qed
  have "eachEntry (\<lambda>groupName. VErr (''bgp group '' @ groupName @ '' is nil'')) (validateBGPGroup c) (mbgp_Groups a) = Inr () \<longleftrightarrow>
      eachEntry (\<lambda>groupName. VErr (''bgp group '' @ groupName @ '' is nil'')) (validateBGPGroup c') (mbgp_Groups b) = Inr ()"
    using assms(4-6) by (intro eachEntry_same [of deepBGPGroup] g) (auto simp only: deepBGP_def goBGP_def dest: okMap_keys okMap_value)
  then show ?thesis by (simp only: validateBGP_def hasAS_same [OF assms(1)] firstErr_ok list.pred_inject)
qed

lemma evpn_same:
  assumes "sameConfig c c'" and "goConfig c" and "goConfig c'" and "deepEVPN a b" and "keys_ok (mevpn_VNIs a)" and "keys_ok (mevpn_VNIs b)"
  shows "validateEVPN c a = Inr () \<longleftrightarrow> validateEVPN c' b = Inr ()"
proof -
  have "validateEVPNVNI c = validateEVPNVNI c'"
    by (intro ext) (simp only: validateEVPNVNI_def validateVNIType_def interfaceReference_same [OF assms(1-3)] instances_same(2) [OF assms(1-3)])
  with assms(4-6) show ?thesis by (simp only: validateEVPN_def deepEVPN_def eachPair_order)
qed

lemma ospf_same:
  assumes "sameConfig c c'" and "goConfig c" and "goConfig c'" and "deepOSPF a b" and "goOSPF a" and "goOSPF b"
  shows "validateOSPF c pr a = Inr () \<longleftrightarrow> validateOSPF c' pr b = Inr ()"
proof -
  have i: "validateOSPFInterface c = validateOSPFInterface c'"
    by (intro ext) (simp only: validateOSPFInterface_def interfaceReference_same [OF assms(1-3)] bfdReference_same [OF assms(1-3)])
  have g: "eachPair (validateOSPFInterface c w) (moa_Interfaces x) = Inr () \<longleftrightarrow> eachPair (validateOSPFInterface c' w) (moa_Interfaces y) = Inr ()"
    if "deepOSPFArea x y" "keys_ok (moa_Interfaces x)" "keys_ok (moa_Interfaces y)" for w x y
    using that by (simp only: deepOSPFArea_def i eachPair_order)
  have "eachEntry nil (\<lambda>areaName area. eachPair (validateOSPFInterface c (pr @ '' area '' @ areaName)) (moa_Interfaces area)) (mospf_Areas a) = Inr () \<longleftrightarrow>
      eachEntry nil (\<lambda>areaName area. eachPair (validateOSPFInterface c' (pr @ '' area '' @ areaName)) (moa_Interfaces area)) (mospf_Areas b) = Inr ()" for nil
    using assms(4-6) by (intro eachEntry_same [of deepOSPFArea] g) (auto simp only: deepOSPF_def goOSPF_def dest: okMap_keys okMap_value)
  moreover have "mospf_RouterID a = mospf_RouterID b" using assms(4) by (simp add: deepOSPF_def)
  ultimately show ?thesis by (simp only: validateOSPF_def firstErr_ok list.pred_inject)
qed

lemma vrrp_same:
  assumes "sameConfig c c'" and "goConfig c" and "goConfig c'" and "deepVRRP a b" and "keys_ok (mvrrp_Groups a)" and "keys_ok (mvrrp_Groups b)"
  shows "eachEntry nil (validateVRRPGroup c) (mvrrp_Groups a) = Inr () \<longleftrightarrow> eachEntry nil (validateVRRPGroup c') (mvrrp_Groups b) = Inr ()"
proof -
  have "validateVRRPGroup c = validateVRRPGroup c'"
    by (intro ext) (simp only: validateVRRPGroup_def interfaceReference_same [OF assms(1-3)])
  with assms(4-6) show ?thesis by (simp only: deepVRRP_def eachEntry_order2)
qed

lemma protocols_same:
  assumes "sameConfig c c'" and "goConfig c" and "goConfig c'"
  shows "validateProtocols c = Inr () \<longleftrightarrow> validateProtocols c' = Inr ()"
  unfolding validateProtocols_def
proof (rule ifPtr_same [of deepProtocols])
  show "rel_option deepProtocols (rc_Protocols c) (rc_Protocols c')" using assms(1) by (simp add: sameConfig_def)
next
  fix a b
  assume "deepProtocols a b" "rc_Protocols c = Some a" "rc_Protocols c' = Some b"
  then have d: "rel_option deepBFD (mpc_BFD a) (mpc_BFD b)" "rel_option deepBGP (mpc_BGP a) (mpc_BGP b)"
      "rel_option deepEVPN (mpc_EVPN a) (mpc_EVPN b)" "rel_option deepOSPF (mpc_OSPF a) (mpc_OSPF b)"
      "rel_option deepOSPF (mpc_OSPF3 a) (mpc_OSPF3 b)" "rel_option deepVRRP (mpc_VRRP a) (mpc_VRRP b)"
      "mpc_MPLS a = mpc_MPLS b" "goProtocols a" "goProtocols b"
    using assms(2,3) by (simp_all add: deepProtocols_def goConfig_def)
  note g = d(8,9) [unfolded goProtocols_def]
  have 1: "ifPtr (mpc_BFD a) (validateBFD c) = Inr () \<longleftrightarrow> ifPtr (mpc_BFD b) (validateBFD c') = Inr ()"
    using g by (intro ifPtr_same [OF d(1)] bfd_same assms) auto
  have 2: "ifPtr (mpc_BGP a) (validateBGP c) = Inr () \<longleftrightarrow> ifPtr (mpc_BGP b) (validateBGP c') = Inr ()"
    using g by (intro ifPtr_same [OF d(2)] bgp_same assms) auto
  have 3: "ifPtr (mpc_EVPN a) (validateEVPN c) = Inr () \<longleftrightarrow> ifPtr (mpc_EVPN b) (validateEVPN c') = Inr ()"
    using g by (intro ifPtr_same [OF d(3)] evpn_same assms) auto
  have 4: "ifPtr (mpc_OSPF a) (validateOSPF c pr) = Inr () \<longleftrightarrow> ifPtr (mpc_OSPF b) (validateOSPF c' pr) = Inr ()" for pr
    using g by (intro ifPtr_same [OF d(4)] ospf_same assms) auto
  have 5: "ifPtr (mpc_OSPF3 a) (validateOSPF c pr) = Inr () \<longleftrightarrow> ifPtr (mpc_OSPF3 b) (validateOSPF c' pr) = Inr ()" for pr
    using g by (intro ifPtr_same [OF d(5)] ospf_same assms) auto
  have 6: "ifPtr (mpc_VRRP a) (\<lambda>v. eachEntry nil (validateVRRPGroup c) (mvrrp_Groups v)) = Inr () \<longleftrightarrow>
      ifPtr (mpc_VRRP b) (\<lambda>v. eachEntry nil (validateVRRPGroup c') (mvrrp_Groups v)) = Inr ()" for nil
    using g by (intro ifPtr_same [OF d(6)] vrrp_same assms) auto
  show "validateProtocolSections c a = Inr () \<longleftrightarrow> validateProtocolSections c' b = Inr ()"
    by (simp only: validateProtocolSections_def firstErr_ok list.pred_inject 1 2 3 4 5 6 d(7) interfaceReference_same [OF assms])
qed

lemma policy_same:
  assumes "sameConfig c c'" and "goConfig c" and "goConfig c'"
  shows "validatePolicy lib c = Inr () \<longleftrightarrow> validatePolicy lib c' = Inr ()"
  unfolding validatePolicy_def
proof (rule ifPtr_same [of deepPolicy])
  show "rel_option deepPolicy (rc_Policy c) (rc_Policy c')" using assms(1) by (simp add: sameConfig_def)
next
  fix a b
  assume "deepPolicy a b" "rc_Policy c = Some a" "rc_Policy c' = Some b"
  then have d: "deepMap (=) (mpo_PrefixLists a) (mpo_PrefixLists b)" "deepMap (=) (mpo_PolicyStatements a) (mpo_PolicyStatements b)"
      "keys_ok (mpo_PrefixLists a)" "keys_ok (mpo_PrefixLists b)" "keys_ok (mpo_PolicyStatements a)" "keys_ok (mpo_PolicyStatements b)"
    using assms(2,3) by (simp_all add: deepPolicy_def goConfig_def goPolicy_def)
  have "validatePolicyTerm lib a = validatePolicyTerm lib b"
    by (intro ext) (simp only: validatePolicyTerm_def validatePolicyMatch_def [abs_def] mget_deep_eq [OF d(1,3,4)])
  then have "validatePolicyStatement lib a = validatePolicyStatement lib b"
    by (intro ext) (simp only: validatePolicyStatement_def)
  then have "validatePolicyEntry lib a = validatePolicyEntry lib b" by (intro ext) (simp only: validatePolicyEntry_def)
  then show "validatePolicySections lib a = Inr () \<longleftrightarrow> validatePolicySections lib b = Inr ()"
    by (simp only: validatePolicySections_def firstErr_ok list.pred_inject eachPair_order [OF d(1,3,4)] eachPair_order [OF d(2,5,6)])
qed

lemma cos_same:
  assumes "sameConfig c c'" and "goConfig c" and "goConfig c'"
  shows "validateClassOfService c = Inr () \<longleftrightarrow> validateClassOfService c' = Inr ()"
  unfolding validateClassOfService_def
proof (rule ifPtr_same [of deepCoS])
  show "rel_option deepCoS (rc_ClassOfService c) (rc_ClassOfService c')" using assms(1) by (simp add: sameConfig_def)
next
  fix a b
  assume "deepCoS a b" "rc_ClassOfService c = Some a" "rc_ClassOfService c' = Some b"
  then have d: "deepMap (=) (mcos_ForwardingClasses a) (mcos_ForwardingClasses b)" "keys_ok (mcos_ForwardingClasses a)"
      "keys_ok (mcos_ForwardingClasses b)" "deepMap (=) (mcos_Interfaces a) (mcos_Interfaces b)" "keys_ok (mcos_Interfaces a)"
      "keys_ok (mcos_Interfaces b)" "set (mcos_TrafficControlProfiles a) = set (mcos_TrafficControlProfiles b)"
    using assms(2,3) by (simp_all add: deepCoS_def goConfig_def goCoS_def deepMap_eq_set)
  have "validateCoSInterface c a = validateCoSInterface c' b"
    by (intro ext) (simp only: validateCoSInterface_def interfaceReference_same [OF assms] d(7))
  then show "validateCoSSections c a = Inr () \<longleftrightarrow> validateCoSSections c' b = Inr ()"
    by (simp only: validateCoSSections_def firstErr_ok list.pred_inject eachEntry_order2 [OF d(1-3)] eachPair_order [OF d(4-6)])
qed

lemma security_same:
  assumes "sameConfig c c'" and "goConfig c" and "goConfig c'"
  shows "validateSecurity lib c = Inr () \<longleftrightarrow> validateSecurity lib c' = Inr ()"
  unfolding validateSecurity_def
proof (rule ifPtr_same [of deepSecurity])
  show "rel_option deepSecurity (rc_Security c) (rc_Security c')" using assms(1) by (simp add: sameConfig_def)
next
  fix a b
  assume "deepSecurity a b" "rc_Security c = Some a" "rc_Security c' = Some b"
  then have d: "deepMap (=) (msec_Users a) (msec_Users b)" "keys_ok (msec_Users a)" "keys_ok (msec_Users b)"
      "msec_NETCONF a = msec_NETCONF b" "msec_RateLimit a = msec_RateLimit b"
    using assms(2,3) by (simp_all add: deepSecurity_def goConfig_def)
  then show "validateSecuritySections lib a = Inr () \<longleftrightarrow> validateSecuritySections lib b = Inr ()"
    by (simp only: validateSecuritySections_def validateSecurityUsers_def firstErr_ok list.pred_inject eachPair_order [OF d(1-3)])
qed

section \<open>References of accepted configurations\<close>

lemma Validate_ok:
  "Validate lib (Some c) = Inr () \<longleftrightarrow> validateSystem c = Inr () \<and> validateInterfaces c = Inr () \<and> validateChassis c = Inr () \<and>
     validateRouting c = Inr () \<and> validateRoutingInstances c = Inr () \<and> validateProtocols c = Inr () \<and>
     validatePolicy lib c = Inr () \<and> validateClassOfService c = Inr () \<and> validateSecurity lib c = Inr ()"
  by (simp add: Validate_def firstErr_ok)

definition entries :: "('k, 'v) gomap \<Rightarrow> 'v list" where
  "entries m = concat (map (\<lambda>(k, p). case p of None \<Rightarrow> [] | Some v \<Rightarrow> [v]) m)"

definition ofPtr :: "'a option \<Rightarrow> ('a \<Rightarrow> 'b list) \<Rightarrow> 'b list" where
  "ofPtr p f = (case p of None \<Rightarrow> [] | Some v \<Rightarrow> f v)"

definition nonEmpty :: "string list \<Rightarrow> string list" where
  "nonEmpty xs = filter (\<lambda>s. s \<noteq> []) xs"

lemma in_entries [simp]: "v \<in> set (entries m) \<longleftrightarrow> (\<exists>k. (k, Some v) \<in> set m)"
  by (force simp: entries_def split: option.splits)

lemma in_ofPtr [simp]: "x \<in> set (ofPtr p f) \<longleftrightarrow> (\<exists>v. p = Some v \<and> x \<in> set (f v))"
  by (cases p) (simp_all add: ofPtr_def)

lemma in_nonEmpty [simp]: "s \<in> set (nonEmpty xs) \<longleftrightarrow> s \<in> set xs \<and> s \<noteq> []"
  by (simp add: nonEmpty_def)

definition ospfInterfaces :: "MOSPFConfig option \<Rightarrow> string list" where
  "ospfInterfaces x = ofPtr x (\<lambda>x. concat (map (\<lambda>a. map fst (moa_Interfaces a)) (entries (mospf_Areas x))))"

definition ospfProfiles :: "MOSPFConfig option \<Rightarrow> string list" where
  "ospfProfiles x = ofPtr x (\<lambda>x. concat (map (\<lambda>a. nonEmpty (map moi_BFDProfile (entries (moa_Interfaces a)))) (entries (mospf_Areas x))))"

definition protoInterfaces :: "ProtocolsConfig \<Rightarrow> string list" where
  "protoInterfaces pc = ofPtr (mpc_BFD pc) (\<lambda>b. nonEmpty (map mbe_Interface (entries (mbfd_Peers b)))) @
       ofPtr (mpc_EVPN pc) (\<lambda>e. nonEmpty (map mev_SourceInterface (entries (mevpn_VNIs e)))) @
       ospfInterfaces (mpc_OSPF pc) @ ospfInterfaces (mpc_OSPF3 pc) @ ofPtr (mpc_MPLS pc) mmpls_Interfaces @
       ofPtr (mpc_VRRP pc) (\<lambda>v. nonEmpty (map mvg_Interface (entries (mvrrp_Groups v))))"

definition protoProfiles :: "ProtocolsConfig \<Rightarrow> string list" where
  "protoProfiles pc = ofPtr (mpc_BFD pc) (\<lambda>b. nonEmpty (map mbe_Profile (entries (mbfd_Peers b)))) @
       ofPtr (mpc_BGP pc) (\<lambda>b. concat (map (\<lambda>g. nonEmpty (map mbn_BFDProfile (entries (mbg_Neighbors g)))) (entries (mbgp_Groups b)))) @
       ospfProfiles (mpc_OSPF pc) @ ospfProfiles (mpc_OSPF3 pc)"

definition usedInterfaces :: "RouterConfig \<Rightarrow> string list" where
  "usedInterfaces c = concat (map mri_Interfaces (entries (rc_RoutingInstances c))) @
     ofPtr (rc_ClassOfService c) (\<lambda>co. map fst (mcos_Interfaces co)) @
     ofPtr (rc_Protocols c) protoInterfaces"

definition usedBFDProfiles :: "RouterConfig \<Rightarrow> string list" where
  "usedBFDProfiles c =
     ofPtr (rc_Routing c) (\<lambda>ro. nonEmpty (concat (map (\<lambda>r. ofPtr r (\<lambda>r. [msr_BFDProfile r])) (mro_StaticRoutes ro)))) @
     ofPtr (rc_Protocols c) protoProfiles"

definition usedPolicies :: "RouterConfig \<Rightarrow> string list" where
  "usedPolicies c = concat (map (\<lambda>r. mri_VRFImport r @ mri_VRFExport r) (entries (rc_RoutingInstances c))) @
     ofPtr (rc_Protocols c) (\<lambda>pc. ofPtr (mpc_BGP pc) (\<lambda>b.
       nonEmpty (concat (map (\<lambda>g. [mbg_Import g, mbg_Export g]) (entries (mbgp_Groups b))))))"

definition usedInstances :: "RouterConfig \<Rightarrow> string list" where
  "usedInstances c =
     ofPtr (rc_Protocols c) (\<lambda>pc.
       ofPtr (mpc_BFD pc) (\<lambda>b. filter (\<lambda>s. s \<noteq> [] \<and> s \<noteq> ''default'') (map mbe_VRF (entries (mbfd_Peers b)))) @
       ofPtr (mpc_EVPN pc) (\<lambda>e. nonEmpty (map mev_RoutingInstance (entries (mevpn_VNIs e)))))"

definition usedPrefixLists :: "PolicyConfig \<Rightarrow> string list" where
  "usedPrefixLists po = concat (map (\<lambda>s. concat (map (\<lambda>t. ofPtr t (\<lambda>t. ofPtr (mpt_From t) mpm_PrefixLists)) (mps_Terms s)))
     (entries (mpo_PolicyStatements po)))"

definition knownInterface :: "RouterConfig \<Rightarrow> string \<Rightarrow> bool" where
  "knownInterface c i \<longleftrightarrow> junosIfacePattern i \<and> i \<in> fst ` set (rc_Interfaces c)"

definition knownPolicy :: "RouterConfig \<Rightarrow> string \<Rightarrow> bool" where
  "knownPolicy c s \<longleftrightarrow> (\<exists>po. rc_Policy c = Some po \<and> s \<in> fst ` set (mpo_PolicyStatements po))"

lemma reference_ok:
  "validateInterfaceReference c w i = Inr () \<longleftrightarrow> knownInterface c i"
  "validateBFDProfileReference c w p = Inr () \<longleftrightarrow> TrimSpace p \<noteq> [] \<and> bfdProfile c p \<noteq> None"
  "validatePolicyStatementReference c w s = Inr () \<longleftrightarrow> TrimSpace s \<noteq> [] \<and> knownPolicy c s"
  by (simp_all add: validateInterfaceReference_def validateBFDProfileReference_def validatePolicyStatementReference_def check_ok
      knownInterface_def knownPolicy_def split: option.splits)

lemma listCheck_ok: "firstErr (map f xs) = Inr () \<longleftrightarrow> (\<forall>x \<in> set xs. f x = Inr ())"
  by (simp add: firstErr_ok list_all_iff)

lemma entryCheck_ok:
  "eachEntry nil f m = Inr () \<longleftrightarrow> (\<forall>(k, p) \<in> set m. \<exists>v. p = Some v \<and> f k v = Inr ())"
  by (fastforce simp: eachEntry_ok list_all_iff split: option.splits)

lemma condCheck_ok: "(if b then r else Inr ()) = Inr () \<longleftrightarrow> (b \<longrightarrow> r = Inr ())"
  by simp

text \<open>The rewriting that turns a passed check into the facts it establishes; the messages disappear.\<close>

lemmas passed = Let_def listCheck_ok firstErr_ok failIf_ok ifPtr_ok wrapErr_ok entryCheck_ok eachPair_ok list.pred_inject list_all_append
  list.pred_map comp_def condCheck_ok reference_ok

lemma routingInstance_passed:
  assumes "validateRoutingInstance c k r = Inr ()"
  shows "\<forall>i \<in> set (mri_Interfaces r). knownInterface c i" "\<forall>s \<in> set (mri_VRFImport r @ mri_VRFExport r). knownPolicy c s"
  using assms by (simp_all only: validateRoutingInstance_def passed) (auto simp: list_all_iff)

lemma staticRoute_passed:
  assumes "validateStaticRoute c r = Inr ()" and "msr_BFDProfile r \<noteq> []"
  shows "bfdProfile c (msr_BFDProfile r) \<noteq> None"
proof -
  from assms(1) obtain cidr where "ParseCIDR (msr_Prefix r) = Some cidr"
    by (cases "ParseCIDR (msr_Prefix r)") (simp_all only: validateStaticRoute_def Let_def option.case sum.distinct)
  moreover from assms(1) calculation obtain nh where "ParseIP (msr_NextHop r) = Some nh"
    by (cases "ParseIP (msr_NextHop r)") (simp_all only: validateStaticRoute_def Let_def option.case sum.distinct)
  ultimately show ?thesis using assms by (simp_all only: validateStaticRoute_def option.case passed) simp
qed

lemma bfd_passed:
  assumes "validateBFD c b = Inr ()" and "p \<in> set (entries (mbfd_Peers b))"
  shows "mbe_Interface p \<noteq> [] \<Longrightarrow> knownInterface c (mbe_Interface p)"
    and "mbe_Profile p \<noteq> [] \<Longrightarrow> mget (mbfd_Profiles b) (mbe_Profile p) \<noteq> None"
    and "mbe_VRF p \<noteq> [] \<Longrightarrow> mbe_VRF p \<noteq> ''default'' \<Longrightarrow> mget (rc_RoutingInstances c) (mbe_VRF p) \<noteq> None"
proof -
  from assms obtain k where "validateBFDPeer c b k p = Inr ()" by (simp only: validateBFD_def passed in_entries) blast
  then have "(mbe_Interface p \<noteq> [] \<longrightarrow> knownInterface c (mbe_Interface p)) \<and>
      \<not> (mbe_Profile p \<noteq> [] \<and> mget (mbfd_Profiles b) (mbe_Profile p) = None) \<and>
      \<not> (mbe_VRF p \<noteq> [] \<and> mbe_VRF p \<noteq> ''default'' \<and> mget (rc_RoutingInstances c) (mbe_VRF p) = None)"
    by (simp only: validateBFDPeer_def passed) simp
  then show "mbe_Interface p \<noteq> [] \<Longrightarrow> knownInterface c (mbe_Interface p)"
    and "mbe_Profile p \<noteq> [] \<Longrightarrow> mget (mbfd_Profiles b) (mbe_Profile p) \<noteq> None"
    and "mbe_VRF p \<noteq> [] \<Longrightarrow> mbe_VRF p \<noteq> ''default'' \<Longrightarrow> mget (rc_RoutingInstances c) (mbe_VRF p) \<noteq> None" by auto
qed

lemma bgp_passed:
  assumes "validateBGP c b = Inr ()" and "g \<in> set (entries (mbgp_Groups b))"
  shows "mbg_Import g \<noteq> [] \<Longrightarrow> knownPolicy c (mbg_Import g)" and "mbg_Export g \<noteq> [] \<Longrightarrow> knownPolicy c (mbg_Export g)"
    and "n \<in> set (entries (mbg_Neighbors g)) \<Longrightarrow> mbn_BFDProfile n \<noteq> [] \<Longrightarrow> bfdProfile c (mbn_BFDProfile n) \<noteq> None"
proof -
  from assms obtain k where g: "validateBGPGroup c k g = Inr ()" by (simp only: validateBGP_def passed in_entries) blast
  then show "mbg_Import g \<noteq> [] \<Longrightarrow> knownPolicy c (mbg_Import g)" "mbg_Export g \<noteq> [] \<Longrightarrow> knownPolicy c (mbg_Export g)"
    by (simp_all only: validateBGPGroup_def passed simp_thms)
  show "bfdProfile c (mbn_BFDProfile n) \<noteq> None" if "n \<in> set (entries (mbg_Neighbors g))" "mbn_BFDProfile n \<noteq> []"
  proof -
    from g that(1) obtain ip where "validateBGPNeighbor c k ip (Some n) = Inr ()"
      by (simp only: validateBGPGroup_def passed in_entries) blast
    with that(2) show ?thesis by (simp only: validateBGPNeighbor_def option.case passed) simp
  qed
qed

lemma evpn_passed:
  assumes "validateEVPN c e = Inr ()" and "v \<in> set (entries (mevpn_VNIs e))"
  shows "mev_SourceInterface v \<noteq> [] \<Longrightarrow> knownInterface c (mev_SourceInterface v)"
    and "mev_RoutingInstance v \<noteq> [] \<Longrightarrow> mev_RoutingInstance v \<in> fst ` set (rc_RoutingInstances c)"
proof -
  from assms obtain k where "validateEVPNVNI c k (Some v) = Inr ()" by (simp only: validateEVPN_def passed in_entries) blast
  then have v: "mev_SourceInterface v \<noteq> [] \<longrightarrow> knownInterface c (mev_SourceInterface v)"
      "validateVNIType c (''evpn vni '' @ formatInt k) v = Inr ()"
    by (simp_all only: validateEVPNVNI_def option.case passed) blast+
  then show "mev_SourceInterface v \<noteq> [] \<Longrightarrow> knownInterface c (mev_SourceInterface v)" by simp
  from v(2) show "mev_RoutingInstance v \<noteq> [] \<Longrightarrow> mev_RoutingInstance v \<in> fst ` set (rc_RoutingInstances c)"
    by (cases "mev_Type v = ''l2''"; cases "mev_Type v = ''l3''")
      (simp_all only: validateVNIType_def if_True if_False passed sum.distinct simp_thms)
qed

lemma ospf_passed:
  assumes "pred_option (\<lambda>x. validateOSPF c pr x = Inr ()) x"
  shows "\<forall>i \<in> set (ospfInterfaces x). knownInterface c i" and "\<forall>p \<in> set (ospfProfiles x). bfdProfile c p \<noteq> None"
proof -
  have "knownInterface c i \<and> (\<forall>z. q = Some z \<longrightarrow> moi_BFDProfile z \<noteq> [] \<longrightarrow> bfdProfile c (moi_BFDProfile z) \<noteq> None)"
    if "x = Some y" "(k, Some a) \<in> set (mospf_Areas y)" "(i, q) \<in> set (moa_Interfaces a)" for y k a i q
  proof -
    from assms that obtain w where "validateOSPFInterface c w i q = Inr ()"
      by (simp only: option.pred_inject validateOSPF_def passed) fastforce
    then show ?thesis by (cases q) (simp_all only: validateOSPFInterface_def option.case passed, simp_all)
  qed
  then show "\<forall>i \<in> set (ospfInterfaces x). knownInterface c i" "\<forall>p \<in> set (ospfProfiles x). bfdProfile c p \<noteq> None"
    by (fastforce simp: ospfInterfaces_def, fastforce simp: ospfProfiles_def)
qed

lemma protocols_passed:
  assumes "validateProtocols c = Inr ()" and "rc_Protocols c = Some pc"
  shows "pred_option (\<lambda>b. validateBFD c b = Inr ()) (mpc_BFD pc)" and "pred_option (\<lambda>b. validateBGP c b = Inr ()) (mpc_BGP pc)"
    and "pred_option (\<lambda>e. validateEVPN c e = Inr ()) (mpc_EVPN pc)" and "pred_option (\<lambda>x. validateOSPF c ''ospf'' x = Inr ()) (mpc_OSPF pc)"
    and "pred_option (\<lambda>x. validateOSPF c ''ospf3'' x = Inr ()) (mpc_OSPF3 pc)"
    and "pred_option (\<lambda>m. \<forall>i \<in> set (mmpls_Interfaces m). knownInterface c i) (mpc_MPLS pc)"
    and "pred_option (\<lambda>v. \<forall>g \<in> set (entries (mvrrp_Groups v)). mvg_Interface g \<noteq> [] \<longrightarrow> knownInterface c (mvg_Interface g)) (mpc_VRRP pc)"
proof -
  have vrrp: "mvg_Interface g \<noteq> [] \<longrightarrow> knownInterface c (mvg_Interface g)" if "validateVRRPGroup c k g = Inr ()" for k g
    using that by (simp only: validateVRRPGroup_def passed) blast
  from assms have all: "validateProtocolSections c pc = Inr ()" by (simp only: validateProtocols_def ifPtr_ok option.pred_inject)
  then show "pred_option (\<lambda>b. validateBFD c b = Inr ()) (mpc_BFD pc)" "pred_option (\<lambda>b. validateBGP c b = Inr ()) (mpc_BGP pc)"
    "pred_option (\<lambda>e. validateEVPN c e = Inr ()) (mpc_EVPN pc)" "pred_option (\<lambda>x. validateOSPF c ''ospf'' x = Inr ()) (mpc_OSPF pc)"
    "pred_option (\<lambda>x. validateOSPF c ''ospf3'' x = Inr ()) (mpc_OSPF3 pc)"
    "pred_option (\<lambda>m. \<forall>i \<in> set (mmpls_Interfaces m). knownInterface c i) (mpc_MPLS pc)"
    by (simp_all only: validateProtocolSections_def passed) (simp_all add: list_all_iff)
  from all show "pred_option (\<lambda>v. \<forall>g \<in> set (entries (mvrrp_Groups v)). mvg_Interface g \<noteq> [] \<longrightarrow> knownInterface c (mvg_Interface g)) (mpc_VRRP pc)"
    by (simp only: validateProtocolSections_def passed) (use vrrp in \<open>cases "mpc_VRRP pc"; fastforce\<close>)
qed

lemma usedInterfaces_known:
  assumes "Validate lib (Some c) = Inr ()" and "i \<in> set (usedInterfaces c)"
  shows "knownInterface c i"
proof -
  have ok: "validateRoutingInstances c = Inr ()" "validateClassOfService c = Inr ()" "validateProtocols c = Inr ()"
    using assms(1) by (simp_all add: Validate_ok)
  from assms(2) consider
    (inst) k r where "(k, Some r) \<in> set (rc_RoutingInstances c)" "i \<in> set (mri_Interfaces r)"
  | (cos) co p where "rc_ClassOfService c = Some co" "(i, p) \<in> set (mcos_Interfaces co)"
  | (proto) pc where "rc_Protocols c = Some pc" "i \<in> set (protoInterfaces pc)"
    unfolding usedInterfaces_def by fastforce
  then show ?thesis
  proof cases
    case inst
    from ok(1) inst(1) have "validateRoutingInstance c k r = Inr ()" by (simp only: validateRoutingInstances_def passed) fastforce
    with inst(2) show ?thesis using routingInstance_passed(1) by blast
  next
    case cos
    from ok(2) cos have "validateCoSInterface c co i p = Inr ()"
      by (simp only: validateClassOfService_def validateCoSSections_def passed option.pred_inject) blast
    then show ?thesis by (simp only: validateCoSInterface_def passed)
  next
    case proto
    note p = protocols_passed [OF ok(3) proto(1)]
    from proto(2) show ?thesis unfolding protoInterfaces_def
      using p bfd_passed(1) evpn_passed(1) ospf_passed(1) [OF p(4)] ospf_passed(1) [OF p(5)] by auto
  qed
qed

lemma usedBFDProfiles_known:
  assumes "Validate lib (Some c) = Inr ()" and "n \<in> set (usedBFDProfiles c)"
  shows "bfdProfile c n \<noteq> None"
proof -
  have ok: "validateRouting c = Inr ()" "validateProtocols c = Inr ()" using assms(1) by (simp_all add: Validate_ok)
  from assms(2) consider
    (route) ro r where "rc_Routing c = Some ro" "Some r \<in> set (mro_StaticRoutes ro)" "n = msr_BFDProfile r" "n \<noteq> []"
  | (proto) pc where "rc_Protocols c = Some pc" "n \<in> set (protoProfiles pc)"
    unfolding usedBFDProfiles_def by auto
  then show ?thesis
  proof cases
    case route
    from ok(1) route(1,2) have "validateStaticRoute c r = Inr ()"
      by (simp only: validateRouting_def passed option.pred_inject) (auto simp: list_all_iff)
    with route show ?thesis using staticRoute_passed by blast
  next
    case proto
    note p = protocols_passed [OF ok(2) proto(1)]
    have "bfdProfile c m = mget (mbfd_Profiles b) m" if "mpc_BFD pc = Some b" for b m
      using that proto(1) by (simp add: bfdProfile_def)
    with proto(2) show ?thesis unfolding protoProfiles_def
      using p bfd_passed(2) bgp_passed(3) ospf_passed(2) [OF p(4)] ospf_passed(2) [OF p(5)] by fastforce
  qed
qed

lemma usedPolicies_known:
  assumes "Validate lib (Some c) = Inr ()" and "s \<in> set (usedPolicies c)"
  shows "knownPolicy c s"
proof -
  have ok: "validateRoutingInstances c = Inr ()" "validateProtocols c = Inr ()" using assms(1) by (simp_all add: Validate_ok)
  from assms(2) consider
    (inst) k r where "(k, Some r) \<in> set (rc_RoutingInstances c)" "s \<in> set (mri_VRFImport r @ mri_VRFExport r)"
  | (bgp) pc b g where "rc_Protocols c = Some pc" "mpc_BGP pc = Some b" "g \<in> set (entries (mbgp_Groups b))"
      "s = mbg_Import g \<or> s = mbg_Export g" "s \<noteq> []"
    unfolding usedPolicies_def by fastforce
  then show ?thesis
  proof cases
    case inst
    from ok(1) inst(1) have "validateRoutingInstance c k r = Inr ()" by (simp only: validateRoutingInstances_def passed) fastforce
    with inst(2) show ?thesis using routingInstance_passed(2) by blast
  next
    case bgp
    then show ?thesis using protocols_passed(2) [OF ok(2) bgp(1)] bgp_passed(1,2) [OF _ bgp(3)] by auto
  qed
qed

lemma usedInstances_known:
  assumes "Validate lib (Some c) = Inr ()" and "n \<in> set (usedInstances c)"
  shows "n \<in> fst ` set (rc_RoutingInstances c)"
proof -
  have ok: "validateProtocols c = Inr ()" using assms(1) by (simp add: Validate_ok)
  from assms(2) consider
    (bfd) pc b p where "rc_Protocols c = Some pc" "mpc_BFD pc = Some b" "p \<in> set (entries (mbfd_Peers b))" "n = mbe_VRF p"
      "n \<noteq> []" "n \<noteq> ''default''"
  | (evpn) pc e v where "rc_Protocols c = Some pc" "mpc_EVPN pc = Some e" "v \<in> set (entries (mevpn_VNIs e))"
      "n = mev_RoutingInstance v" "n \<noteq> []"
    unfolding usedInstances_def by auto
  then show ?thesis
  proof cases
    case bfd
    then have "mget (rc_RoutingInstances c) n \<noteq> None"
      using protocols_passed(1) [OF ok bfd(1)] bfd_passed(3) [OF _ bfd(3)] by auto
    then show ?thesis by (auto dest: mget_key)
  next
    case evpn
    then show ?thesis using protocols_passed(3) [OF ok evpn(1)] evpn_passed(2) [OF _ evpn(3)] by auto
  qed
qed

lemma usedPrefixLists_known:
  assumes "Validate lib (Some c) = Inr ()" and "rc_Policy c = Some po" and "n \<in> set (usedPrefixLists po)"
  shows "mget (mpo_PrefixLists po) n \<noteq> None"
proof -
  from assms(3) obtain k s tm f where t: "(k, Some s) \<in> set (mpo_PolicyStatements po)" "Some tm \<in> set (mps_Terms s)"
      "mpt_From tm = Some f" "n \<in> set (mpm_PrefixLists f)"
    unfolding usedPrefixLists_def by auto
  from assms(1,2) have "validatePolicySections lib po = Inr ()" by (simp add: Validate_ok validatePolicy_def ifPtr_ok)
  with t(1) have "validatePolicyEntry lib po k (Some s) = Inr ()" by (simp only: validatePolicySections_def passed) blast
  then have "validatePolicyStatement lib po k s = Inr ()" by (simp only: validatePolicyEntry_def option.case passed)
  with t(2) have "validatePolicyTerm lib po k (Some tm) = Inr ()" by (simp only: validatePolicyStatement_def listCheck_ok)
  with t(3,4) show ?thesis
    by (simp only: validatePolicyTerm_def option.case passed option.pred_inject validatePolicyMatch_def) (auto simp: list_all_iff)
qed

section \<open>Accepted configurations convert\<close>

lemma eachPair_full:
  assumes "eachPair f m = Inr ()" and "keys_ok m" and "\<And>k. f k None \<noteq> Inr ()"
    and "\<And>k v. (k, Some v) \<in> set m \<Longrightarrow> f k (Some v) = Inr () \<Longrightarrow> P k v"
  shows "fullMap P m"
proof -
  have "case p of None \<Rightarrow> False | Some v \<Rightarrow> P k v" if "(k, p) \<in> set m" for k p
  proof -
    from assms(1) that have "f k p = Inr ()" by (auto simp only: eachPair_ok)
    with that assms(3) [of k] assms(4) show ?thesis by (cases p) simp_all
  qed
  with assms(2) show ?thesis by (auto simp: fullMap_def list_all_iff)
qed

lemma eachEntry_full:
  assumes "eachEntry nil f m = Inr ()" and "keys_ok m" and "\<And>k v. (k, Some v) \<in> set m \<Longrightarrow> f k v = Inr () \<Longrightarrow> P k v"
  shows "fullMap P m"
  using assms(1) unfolding eachEntry_pair by (rule eachPair_full) (simp_all add: assms(2,3))

lemma interfaces_full:
  assumes "validateInterfaces c = Inr ()" and "okMap goInterface (rc_Interfaces c)"
  shows "fullMap wfMInterface (rc_Interfaces c)"
proof -
  have fam: "noNil (mu_Family u)" if "validateUnit n k (Some u) = Inr ()" "keys_ok (mu_Family u)" for n k u
  proof (rule eachPair_full)
    show "eachPair (validateFamily (''interface '' @ n @ '' unit '' @ formatInt k)) (mu_Family u) = Inr ()"
      using that(1) by (simp only: validateUnit_def option.case firstErr_ok list.pred_inject)
    show "validateFamily w k None \<noteq> Inr ()" for w k by (simp only: validateFamily_def option.case passed) simp
  qed (use that(2) in simp_all)
  have unit: "wfMInterface k i" if "validateInterface k (Some i) = Inr ()" "goInterface i" for k i
    unfolding wfMInterface_def
  proof (rule eachPair_full)
    show "eachPair (validateUnit k) (ic_Units i) = Inr ()"
      using that(1) by (simp only: validateInterface_def option.case firstErr_ok list.pred_inject)
    show "validateUnit k n None \<noteq> Inr ()" for n by (simp only: validateUnit_def option.case passed) simp
    show "keys_ok (ic_Units i)" using that(2) by (simp add: goInterface_def okMap_def)
    fix n u
    assume "(n, Some u) \<in> set (ic_Units i)" "validateUnit k n (Some u) = Inr ()"
    with fam that(2) show "noNil (mu_Family u)" by (auto simp: goInterface_def dest: okMap_value)
  qed
  show ?thesis
  proof (rule eachPair_full)
    show "eachPair validateInterface (rc_Interfaces c) = Inr ()" using assms(1) by (simp only: validateInterfaces_def)
    show "validateInterface k None \<noteq> Inr ()" for k by (simp only: validateInterface_def option.case passed) simp
    show "keys_ok (rc_Interfaces c)" using assms(2) by (rule okMap_keys)
    fix n i
    assume "(n, Some i) \<in> set (rc_Interfaces c)" "validateInterface n (Some i) = Inr ()"
    with unit assms(2) show "wfMInterface n i" by (blast dest: okMap_value)
  qed
qed

lemma bgp_full:
  assumes "validateBGP c b = Inr ()" and "goBGP b"
  shows "fullMap (\<lambda>_ g. noNil (mbg_Neighbors g)) (mbgp_Groups b)"
proof (rule eachEntry_full)
  show "eachEntry (\<lambda>groupName. VErr (''bgp group '' @ groupName @ '' is nil'')) (validateBGPGroup c) (mbgp_Groups b) = Inr ()"
    using assms(1) by (simp only: validateBGP_def firstErr_ok list.pred_inject)
  show "keys_ok (mbgp_Groups b)" using assms(2) by (simp add: goBGP_def okMap_def)
  fix k g
  assume g: "(k, Some g) \<in> set (mbgp_Groups b)" "validateBGPGroup c k g = Inr ()"
  show "noNil (mbg_Neighbors g)"
  proof (rule eachPair_full)
    show "eachPair (validateBGPNeighbor c k) (mbg_Neighbors g) = Inr ()"
      using g(2) by (simp only: validateBGPGroup_def Let_def firstErr_ok list.pred_inject)
    show "validateBGPNeighbor c k ip None \<noteq> Inr ()" for ip by (simp only: validateBGPNeighbor_def option.case passed) simp
    show "keys_ok (mbg_Neighbors g)" using assms(2) g(1) unfolding goBGP_def by (rule okMap_value)
  qed simp
qed

lemma policy_full:
  assumes "validatePolicySections lib po = Inr ()" and "goPolicy po"
  shows "wfMPolicy po"
proof -
  from assms(1) have s: "eachPair validatePrefixList (mpo_PrefixLists po) = Inr ()"
      "eachPair (validatePolicyEntry lib po) (mpo_PolicyStatements po) = Inr ()"
    by (simp_all only: validatePolicySections_def firstErr_ok list.pred_inject)
  have "noNil (mpo_PrefixLists po)"
    using s(1) by (rule eachPair_full) (use assms(2) in \<open>simp_all add: validatePrefixList_def firstErr_ok goPolicy_def\<close>)
  moreover have "fullMap (\<lambda>_ s. list_all (\<lambda>t. t \<noteq> None) (mps_Terms s)) (mpo_PolicyStatements po)"
    using s(2)
  proof (rule eachPair_full)
    show "keys_ok (mpo_PolicyStatements po)" using assms(2) by (simp add: goPolicy_def)
    fix k st
    assume "validatePolicyEntry lib po k (Some st) = Inr ()"
    then have "\<forall>t \<in> set (mps_Terms st). validatePolicyTerm lib po k t = Inr ()"
      by (simp only: validatePolicyEntry_def firstErr_ok list.pred_inject option.case validatePolicyStatement_def list.pred_map comp_def) (simp add: list_all_iff)
    moreover have "validatePolicyTerm lib po k None \<noteq> Inr ()" by (simp add: validatePolicyTerm_def)
    ultimately show "list_all (\<lambda>t. t \<noteq> None) (mps_Terms st)" unfolding list_all_iff by metis
  qed (simp only: validatePolicyEntry_def passed option.case sum.distinct simp_thms)
  ultimately show ?thesis by (simp add: wfMPolicy_def)
qed

lemma routing_full:
  assumes "validateRouting c = Inr ()" and "rc_Routing c = Some ro"
  shows "list_all (\<lambda>r. r \<noteq> None) (mro_StaticRoutes ro)"
  using assms by (simp only: validateRouting_def option.pred_inject passed) (auto simp: list_all_iff split: option.splits)

lemma users_full:
  assumes "validateSecuritySections lib s = Inr ()" and "keys_ok (msec_Users s)"
  shows "noNil (msec_Users s)"
proof (rule eachPair_full)
  show "eachPair (validateSecurityUser lib) (msec_Users s) = Inr ()"
    using assms(1) by (simp only: validateSecuritySections_def validateSecurityUsers_def firstErr_ok list.pred_inject)
  show "validateSecurityUser lib k None \<noteq> Inr ()" for k by (simp only: validateSecurityUser_def option.case passed) simp
qed (use assms(2) in simp_all)

lemma ToLegacy_accepted:
  assumes "goConfig c" and "Validate lib (Some c) = Inr ()"
  shows "\<exists>old. ToLegacyConfig (Some c) = Some old"
proof -
  note ok = assms(2) [unfolded Validate_ok]
  note go = assms(1) [unfolded goConfig_def]
  have "foldM addInterface (rc_Interfaces c) NewConfig = Some (NewConfig\<lparr>cfg_Interfaces := passMap (\<lambda>_. interfaceToLegacy) (rc_Interfaces c)\<rparr>)"
    using interfaces_full ok go by (intro foldM_addInterface) blast
  moreover have "pred_option (\<lambda>ro. list_all (\<lambda>r. r \<noteq> None) (mro_StaticRoutes ro)) (rc_Routing c)"
    using routing_full [of c] ok by (cases "rc_Routing c") simp_all
  then have "\<exists>ro. derefOpt routingToLegacy (rc_Routing c) = Some ro"
    by (rule derefOpt_total) (blast dest: routingConvert_inverse)
  moreover have "pred_option (\<lambda>pc. pred_option (\<lambda>b. fullMap (\<lambda>_ g. noNil (mbg_Neighbors g)) (mbgp_Groups b)) (mpc_BGP pc)) (rc_Protocols c)"
  proof (cases "rc_Protocols c")
    case (Some pc)
    with protocols_passed(2) [OF _ Some] ok go bgp_full show ?thesis
      by (cases "mpc_BGP pc") (auto simp: goProtocols_def)
  qed simp
  then have "\<exists>pc. derefOpt protocolsToLegacy (rc_Protocols c) = Some pc"
  proof (rule derefOpt_total)
    fix pc :: ProtocolsConfig
    assume "pred_option (\<lambda>b. fullMap (\<lambda>_ g. noNil (mbg_Neighbors g)) (mbgp_Groups b)) (mpc_BGP pc)"
    then have "\<exists>b. derefOpt bgpToLegacy (mpc_BGP pc) = Some b" by (rule derefOpt_total) (blast dest: bgpConvert_inverse)
    then show "\<exists>w. protocolsToLegacy pc = Some w" by (auto simp: protocolsToLegacy_def)
  qed
  moreover have "pred_option wfMPolicy (rc_Policy c)"
    using ok go policy_full by (cases "rc_Policy c") (auto simp: validatePolicy_def ifPtr_ok)
  then have "\<exists>po. derefOpt policyToLegacy (rc_Policy c) = Some po"
    by (rule derefOpt_total) (blast dest: policyConvert_inverse)
  moreover have "pred_option (\<lambda>s. noNil (msec_Users s)) (rc_Security c)"
    using ok go users_full by (cases "rc_Security c") (auto simp: validateSecurity_def ifPtr_ok)
  then have "\<exists>s. derefOpt securityToLegacy (rc_Security c) = Some s"
  proof (rule derefOpt_total)
    fix s :: MSecurityConfig
    assume "noNil (msec_Users s)"
    from derefMap_total [OF this, of "\<lambda>name u. Some (userToLegacy name u)"]
    show "\<exists>w. securityToLegacy s = Some w" by (auto simp: securityToLegacy_def)
  qed
  ultimately show ?thesis by (auto simp: ToLegacyConfig_def)
qed

section \<open>Properties\<close>

definition sampleLib :: valLib where
  "sampleLib = \<lparr>compileRegexp = (\<lambda>_. None), sshKeys = \<lparr>parsePublicKey = (\<lambda>_. True), parseAuthorizedKey = (\<lambda>_. Some (''ssh-ed25519'', [1, 2, 3]))\<rparr>\<rparr>"

definition sampleInterfaces :: "(string, InterfaceConfig) gomap" where
  "sampleInterfaces = [(''ge-0/0/0'', Some \<lparr>ic_Description = ''uplink'', ic_Units = [(0, Some \<lparr>mu_Family = [(''inet'', Some \<lparr>af_Addresses = [''10.0.0.1/24'']\<rparr>)]\<rparr>)]\<rparr>),
     (''lo0'', Some \<lparr>ic_Description = [], ic_Units = []\<rparr>)]"

definition sampleRouter :: RouterConfig where
  "sampleRouter = NewRouterConfig\<lparr>rc_Interfaces := sampleInterfaces,
     rc_Routing := Some \<lparr>mro_AutonomousSystem = 65000, mro_RouterID = [], mro_StaticRoutes =
       [Some \<lparr>msr_Prefix = ''0.0.0.0/0'', msr_NextHop = ''10.0.0.2'', msr_Distance = 0, msr_BFD = True, msr_BFDProfile = ''fast'',
              msr_BFDSource = [], msr_BFDMultihop = False\<rparr>]\<rparr>,
     rc_Policy := Some \<lparr>mpo_PrefixLists = [(''pl'', Some \<lparr>mpl_Prefixes = [''10.0.0.0/8'']\<rparr>)], mpo_PolicyStatements =
       [(''in'', Some \<lparr>mps_Terms = [Some \<lparr>mpt_Name = ''t'', mpt_From = Some \<lparr>mpm_PrefixLists = [''pl''], mpm_Protocol = [],
          mpm_Neighbor = [], mpm_ASPath = []\<rparr>, mpt_Then = None\<rparr>]\<rparr>)]\<rparr>,
     rc_Protocols := Some \<lparr>
       mpc_BFD = Some \<lparr>mbfd_Profiles = [(''fast'', Some \<lparr>mbp_DetectMultiplier = 3, mbp_ReceiveInterval = 100, mbp_TransmitInterval = 100,
          mbp_EchoMode = False, mbp_PassiveMode = False\<rparr>)], mbfd_Peers = []\<rparr>,
       mpc_BGP = Some \<lparr>mbgp_Groups = [(''ext'', Some \<lparr>mbg_Type = ''external'', mbg_Neighbors = [(''10.0.0.2'', Some \<lparr>mbn_PeerAS = 65001,
          mbn_Description = [], mbn_LocalAddress = [], mbn_BFD = True, mbn_BFDProfile = ''fast''\<rparr>)], mbg_Import = ''in'', mbg_Export = []\<rparr>)]\<rparr>,
       mpc_EVPN = None,
       mpc_OSPF = Some \<lparr>mospf_RouterID = [], mospf_Areas = [(''0.0.0.0'', Some \<lparr>moa_Interfaces = [(''lo0'', Some \<lparr>moi_Passive = True,
          moi_Metric = 0, moi_Priority = None, moi_BFD = False, moi_BFDProfile = []\<rparr>)]\<rparr>)]\<rparr>,
       mpc_OSPF3 = None, mpc_MPLS = Some \<lparr>mmpls_Interfaces = [''ge-0/0/0'']\<rparr>, mpc_VRRP = None\<rparr>\<rparr>"

lemma sampleRouter_ok: "Validate sampleLib (Some sampleRouter) = Inr ()"
  by code_simp

lemma sampleRouter_go: "goConfig sampleRouter"
  by (simp add: sampleRouter_def sampleInterfaces_def NewRouterConfig_def goConfig_def go_defs okMap_def keys_ok_def)

text \<open>
  C24. Whether a configuration is accepted depends only on its value: two trees that differ in
  nothing but the order in which their maps are enumerated are both accepted or both refused.
\<close>

theorem validate_value_only:
  assumes "sameConfig c c'" and "goConfig c" and "goConfig c'"
  shows "Validate lib (Some c) = Inr () \<longleftrightarrow> Validate lib (Some c') = Inr ()"
proof -
  have "validateSystem c = validateSystem c'" using assms(1) by (simp only: validateSystem_def sameConfig_def)
  then show ?thesis using interfaces_same [OF assms] chassis_same [OF assms] routing_same [OF assms] instancesValid_same [OF assms]
      protocols_same [OF assms] policy_same [OF assms, of lib] cos_same [OF assms] security_same [OF assms, of lib]
    unfolding Validate_ok by simp
qed

theorem validate_value_only_witness:
  "Validate sampleLib (Some (sampleRouter\<lparr>rc_Interfaces := rev sampleInterfaces\<rparr>)) = Inr ()"
proof -
  let ?c = "sampleRouter\<lparr>rc_Interfaces := rev sampleInterfaces\<rparr>"
  have go: "goConfig ?c"
    by (simp add: sampleRouter_def sampleInterfaces_def NewRouterConfig_def goConfig_def go_defs okMap_def keys_ok_def)
  have same: "sameConfig sampleRouter ?c"
    by (simp add: sampleRouter_def sampleInterfaces_def NewRouterConfig_def sameConfig_def deep_defs deepMap_def)
  show ?thesis using validate_value_only [OF same sampleRouter_go go, of sampleLib] sampleRouter_ok by blast
qed

text \<open>
  C25. Every interface, BFD profile, policy statement, routing instance and prefix list that an
  accepted configuration refers to is configured in it.
\<close>

theorem validated_references:
  assumes "Validate lib (Some c) = Inr ()"
  shows "list_all (knownInterface c) (usedInterfaces c) \<and> list_all (\<lambda>p. bfdProfile c p \<noteq> None) (usedBFDProfiles c) \<and>
     list_all (knownPolicy c) (usedPolicies c) \<and> list_all (\<lambda>n. n \<in> fst ` set (rc_RoutingInstances c)) (usedInstances c) \<and>
     pred_option (\<lambda>po. list_all (\<lambda>n. mget (mpo_PrefixLists po) n \<noteq> None) (usedPrefixLists po)) (rc_Policy c)"
  using usedInterfaces_known [OF assms] usedBFDProfiles_known [OF assms] usedPolicies_known [OF assms]
    usedInstances_known [OF assms] usedPrefixLists_known [OF assms]
  by (simp add: list_all_iff option.pred_set)

theorem validated_references_witness:
  "list_all (knownInterface sampleRouter) (usedInterfaces sampleRouter) \<and> usedInterfaces sampleRouter = [''lo0'', ''ge-0/0/0''] \<and>
   list_all (\<lambda>p. bfdProfile sampleRouter p \<noteq> None) (usedBFDProfiles sampleRouter)"
proof -
  have "usedInterfaces sampleRouter = [''lo0'', ''ge-0/0/0'']" by code_simp
  then show ?thesis using validated_references [OF sampleRouter_ok] by simp
qed

text \<open>
  C26. A configuration that passes validation is converted to the legacy tree without a nil
  dereference.
\<close>

theorem validated_converts:
  assumes "goConfig c" and "Validate lib (Some c) = Inr ()"
  shows "ToLegacyConfig (Some c) \<noteq> None"
  using ToLegacy_accepted [OF assms] by blast

theorem validated_converts_witness: "ToLegacyConfig (Some sampleRouter) \<noteq> None"
  by (rule validated_converts [OF sampleRouter_go sampleRouter_ok])

end
