(* ===== verification/DiffLaws.thy ===== *)
theory DiffLaws
  imports Diff ValidateLaws
begin

text \<open>
  Facts about the difference of two configurations: what each field says about the two trees, that
  an interface change is an exact patch of addresses, when a change is reported, and when the
  computation dereferences nil.
\<close>

section \<open>Comparison loops\<close>

lemma containsAddress_set: "containsAddress addrs a \<longleftrightarrow> a \<in> set addrs"
proof -
  have "ua_UnitNum b = ua_UnitNum a \<and> ua_Family b = ua_Family a \<and> ua_Address b = ua_Address a \<longleftrightarrow> b = a" for b :: UnitAddress
    by (cases a; cases b) auto
  then show ?thesis by (auto simp: containsAddress_def list_ex_iff)
qed

lemma allM_True: "allM f xs = Some True \<longleftrightarrow> (\<forall>x \<in> set xs. f x = Some True)"
  by (induction xs) (auto split: option.splits)

lemma allM_total: "(\<And>x. x \<in> set xs \<Longrightarrow> f x \<noteq> None) \<Longrightarrow> allM f xs \<noteq> None"
proof (induction xs)
  case (Cons x xs)
  then have "f x \<noteq> None" "allM f xs \<noteq> None" by simp_all
  then show ?case by (cases "f x") auto
qed simp

lemma eqEntry_True:
  "eqEntry f m (k, p) = Some True \<longleftrightarrow> (\<exists>v w. p = Some v \<and> map_of m k = Some (Some w) \<and> f v w = Some True)"
  by (auto simp: eqEntry_def split: option.splits)

lemma eqMaps_deep:
  assumes "eqMaps f m m' = Some True" and "\<And>v w. f v w = Some True \<Longrightarrow> R v w"
  shows "deepMap R m m'"
proof -
  from assms(1) have "length m = length m'" "\<forall>x \<in> set m. eqEntry f m' x = Some True"
    by (simp_all add: eqMaps_def allM_True split: if_splits)
  with assms(2) show ?thesis by (fastforce simp: deepMap_def list_all_iff eqEntry_True)
qed

lemma eqMaps_True:
  assumes "deepMap R m m'" and "list_all (\<lambda>(k, p). p \<noteq> None) m" and "\<And>k v w. (k, Some v) \<in> set m \<Longrightarrow> R v w \<Longrightarrow> f v w = Some True"
  shows "eqMaps f m m' = Some True"
proof -
  have "eqEntry f m' (k, p) = Some True" if "(k, p) \<in> set m" for k p
  proof -
    from that assms(2) obtain v where v: "p = Some v" by (auto simp: list_all_iff)
    from assms(1) that have "case map_of m' k of None \<Rightarrow> False | Some q \<Rightarrow> rel_option R p q" by (auto simp: deepMap_def list_all_iff)
    with v obtain w where "map_of m' k = Some (Some w)" "R v w" by (auto simp: option_rel_Some1 split: option.splits)
    with v that assms(3) show ?thesis by (auto simp: eqEntry_True)
  qed
  with assms(1) show ?thesis by (auto simp: eqMaps_def allM_True deepMap_def)
qed

lemma eqMaps_total:
  assumes "list_all (\<lambda>(k, p). p \<noteq> None) m" and "list_all (\<lambda>(k, p). p \<noteq> None) m'"
    and "\<And>k v w. (k, Some v) \<in> set m \<Longrightarrow> (k, Some w) \<in> set m' \<Longrightarrow> f v w \<noteq> None"
  shows "eqMaps f m m' \<noteq> None"
proof -
  have "eqEntry f m' (k, p) \<noteq> None" if "(k, p) \<in> set m" for k p
  proof (cases "map_of m' k")
    case None
    then show ?thesis by (simp add: eqEntry_def)
  next
    case (Some q)
    then have q: "(k, q) \<in> set m'" by (rule map_of_SomeD)
    with that assms(1,2) obtain v w where "p = Some v" "q = Some w" by (fastforce simp: list_all_iff)
    with that q Some assms(3) show ?thesis by (auto simp: eqEntry_def)
  qed
  then have "allM (eqEntry f m') m \<noteq> None" by (intro allM_total) auto
  then show ?thesis by (auto simp: eqMaps_def)
qed

lemma neighborEqual_eq: "neighborEqual a b \<longleftrightarrow> a = b"
  by (auto simp: neighborEqual_def)

lemma ospfInterfaceEqual_eq: "ospfInterfaceEqual a b \<longleftrightarrow> a = b"
  by (cases "moi_Priority a"; cases "moi_Priority b") (auto simp: ospfInterfaceEqual_def)

lemma routeEqual_True: "routeEqual (p, q) = Some True \<longleftrightarrow> p \<noteq> None \<and> p = q"
  by (auto simp: routeEqual_def split: option.splits)

section \<open>The fields of a difference\<close>

text \<open>The part of a difference about interfaces, and the flags in the order in which \<open>HasChanges\<close> reads them.\<close>

definition heads :: "ConfigDiff \<Rightarrow> RouterConfig \<times> RouterConfig \<times> (string, InterfaceConfig) gomap \<times> string list \<times> (string, InterfaceChange) gomap" where
  "heads d = (cd_OldConfig d, cd_NewConfig d, cd_InterfacesAdded d, cd_InterfacesRemoved d, cd_InterfacesChanged d)"

definition flags :: "ConfigDiff \<Rightarrow> bool list" where
  "flags d = [cd_BFDChanged d, cd_BGPChanged d, cd_EVPNChanged d, cd_OSPFChanged d, cd_OSPF3Changed d, cd_MPLSChanged d, cd_VRRPChanged d, cd_StaticRoutesChanged d, cd_RoutingChanged d, cd_RoutingInstancesChanged d, cd_PolicyChanged d, cd_ChassisChanged d, cd_ClassOfServiceChanged d, cd_SystemChanged d, cd_SecurityChanged d]"

lemmas mark_defs = markBFD_def markBGP_def markEVPN_def markOSPF_def markOSPF3_def markMPLS_def markVRRP_def markStaticRoutes_def markRouting_def markRoutingInstances_def markPolicy_def markChassis_def markClassOfService_def markSystem_def markSecurity_def

lemma mark_heads:
  "heads (markBFD same x1 y1 d) = heads d"
  "heads (markBGP same x2 y2 d) = heads d"
  "heads (markEVPN same x3 y3 d) = heads d"
  "heads (markOSPF same x4 y4 d) = heads d"
  "heads (markOSPF3 same x5 y5 d) = heads d"
  "heads (markMPLS same x6 y6 d) = heads d"
  "heads (markVRRP same x7 y7 d) = heads d"
  "heads (markStaticRoutes same x8 y8 d) = heads d"
  "heads (markRouting same x9 y9 d) = heads d"
  "heads (markRoutingInstances same x10 y10 d) = heads d"
  "heads (markPolicy same x11 y11 d) = heads d"
  "heads (markChassis same x12 y12 d) = heads d"
  "heads (markClassOfService same x13 y13 d) = heads d"
  "heads (markSystem same x14 y14 d) = heads d"
  "heads (markSecurity same x15 y15 d) = heads d"
  by (simp_all add: mark_defs heads_def)

lemma mark_flags:
  "flags (markBFD same x16 y16 d) = (flags d)[0 := \<not> same \<or> flags d ! 0]"
  "flags (markBGP same x17 y17 d) = (flags d)[1 := \<not> same \<or> flags d ! 1]"
  "flags (markEVPN same x18 y18 d) = (flags d)[2 := \<not> same \<or> flags d ! 2]"
  "flags (markOSPF same x19 y19 d) = (flags d)[3 := \<not> same \<or> flags d ! 3]"
  "flags (markOSPF3 same x20 y20 d) = (flags d)[4 := \<not> same \<or> flags d ! 4]"
  "flags (markMPLS same x21 y21 d) = (flags d)[5 := \<not> same \<or> flags d ! 5]"
  "flags (markVRRP same x22 y22 d) = (flags d)[6 := \<not> same \<or> flags d ! 6]"
  "flags (markStaticRoutes same x23 y23 d) = (flags d)[7 := \<not> same \<or> flags d ! 7]"
  "flags (markRouting same x24 y24 d) = (flags d)[8 := \<not> same \<or> flags d ! 8]"
  "flags (markRoutingInstances same x25 y25 d) = (flags d)[9 := \<not> same \<or> flags d ! 9]"
  "flags (markPolicy same x26 y26 d) = (flags d)[10 := \<not> same \<or> flags d ! 10]"
  "flags (markChassis same x27 y27 d) = (flags d)[11 := \<not> same \<or> flags d ! 11]"
  "flags (markClassOfService same x28 y28 d) = (flags d)[12 := \<not> same \<or> flags d ! 12]"
  "flags (markSystem same x29 y29 d) = (flags d)[13 := \<not> same \<or> flags d ! 13]"
  "flags (markSecurity same x30 y30 d) = (flags d)[14 := \<not> same \<or> flags d ! 14]"
  by (simp_all add: mark_defs flags_def)

lemma HasChanges_flags:
  "HasChanges d \<longleftrightarrow> cd_InterfacesAdded d \<noteq> [] \<or> cd_InterfacesRemoved d \<noteq> [] \<or> cd_InterfacesChanged d \<noteq> [] \<or> True \<in> set (flags d)"
  by (simp add: HasChanges_def flags_def)

text \<open>The values of the flags of a computed difference, where no comparison dereferences nil.\<close>

definition sectionFlags :: "RouterConfig \<Rightarrow> RouterConfig \<Rightarrow> bool list" where
  "sectionFlags old new = [
     \<not> rel_option deepBFD (getBFD old) (getBFD new), bgpEqual (getBGP old) (getBGP new) \<noteq> Some True,
     \<not> rel_option deepEVPN (getEVPN old) (getEVPN new), ospfEqual (getOSPF old) (getOSPF new) \<noteq> Some True,
     ospfEqual (getOSPF3 old) (getOSPF3 new) \<noteq> Some True, getMPLS old \<noteq> getMPLS new, \<not> rel_option deepVRRP (getVRRP old) (getVRRP new),
     staticRoutesEqual (getStaticRoutes old) (getStaticRoutes new) \<noteq> Some True, \<not> routingEqual (rc_Routing old) (rc_Routing new),
     \<not> deepMap (=) (rc_RoutingInstances old) (rc_RoutingInstances new), \<not> policyEqual (rc_Policy old) (rc_Policy new),
     \<not> rel_option deepChassis (rc_Chassis old) (rc_Chassis new), \<not> rel_option deepCoS (rc_ClassOfService old) (rc_ClassOfService new),
     \<not> systemEqual (rc_System old) (rc_System new), \<not> securityEqual (rc_Security old) (rc_Security new)]"

lemma ComputeDiff_fields:
  assumes "ComputeDiff (Some old) (Some new) = Some d"
  shows "heads d = (old, new, addedInterfaces (rc_Interfaces old) (rc_Interfaces new), removedInterfaces (rc_Interfaces old) (rc_Interfaces new),
     changedInterfaces (rc_Interfaces old) (rc_Interfaces new))" and "flags d = sectionFlags old new"
proof -
  let ?d = "computeInterfaceDiff old new (emptyDiff old new)"
  have i: "heads ?d = (old, new, addedInterfaces (rc_Interfaces old) (rc_Interfaces new), removedInterfaces (rc_Interfaces old) (rc_Interfaces new),
     changedInterfaces (rc_Interfaces old) (rc_Interfaces new))" "flags ?d = replicate 15 False"
    by (simp_all add: computeInterfaceDiff_def emptyDiff_def heads_def flags_def numeral_eq_Suc)
  from assms obtain d1 d2 where d: "computeProtocolDiff old new ?d = Some d1" "computeRoutingDiff old new d1 = Some d2"
      "d = computeSecurityDiff old new (computeSystemDiff old new (computeAdvancedDiff old new (computePolicyDiff old new d2)))"
    by (auto simp: ComputeDiff_def Let_def bind_eq_Some_conv)
  have 1: "heads d1 = heads ?d" "flags d1 = take 7 (sectionFlags old new) @ replicate 8 False"
    using d(1) i(2) by (auto simp: computeProtocolDiff_def Let_def bind_eq_Some_conv mark_heads mark_flags sectionFlags_def numeral_eq_Suc)
  have 2: "heads d2 = heads d1" "flags d2 = take 10 (sectionFlags old new) @ replicate 5 False"
    using d(2) 1(2) by (auto simp: computeRoutingDiff_def Let_def bind_eq_Some_conv mark_heads mark_flags sectionFlags_def numeral_eq_Suc)
  have 3: "heads d = heads d2" "flags d = sectionFlags old new"
    using d(3) 2(2) by (simp_all add: computePolicyDiff_def computeAdvancedDiff_def computeSystemDiff_def computeSecurityDiff_def mark_heads
        mark_flags sectionFlags_def numeral_eq_Suc)
  from 1 2 3 i show "heads d = (old, new, addedInterfaces (rc_Interfaces old) (rc_Interfaces new), removedInterfaces (rc_Interfaces old) (rc_Interfaces new),
     changedInterfaces (rc_Interfaces old) (rc_Interfaces new))" "flags d = sectionFlags old new" by simp_all
qed

lemma ComputeDiff_total_iff:
  "ComputeDiff (Some old) (Some new) \<noteq> None \<longleftrightarrow> bgpEqual (getBGP old) (getBGP new) \<noteq> None \<and> ospfEqual (getOSPF old) (getOSPF new) \<noteq> None \<and>
     ospfEqual (getOSPF3 old) (getOSPF3 new) \<noteq> None \<and> staticRoutesEqual (getStaticRoutes old) (getStaticRoutes new) \<noteq> None"
  by (auto simp: ComputeDiff_def computeProtocolDiff_def computeRoutingDiff_def Let_def bind_eq_Some_conv)

section \<open>Interfaces\<close>

lemma removed_set: "set (removedInterfaces old new) = fst ` set old - fst ` set new"
proof -
  have "map_of new k = None \<longleftrightarrow> k \<notin> fst ` set new" for k by (simp add: map_of_eq_None_iff)
  then show ?thesis by (force simp: removedInterfaces_def)
qed

lemma added_keys: "fst ` set (addedInterfaces old new) = fst ` set new - fst ` set old"
proof -
  have "map_of old k = None \<longleftrightarrow> k \<notin> fst ` set old" for k by (simp add: map_of_eq_None_iff)
  then show ?thesis by (force simp: addedInterfaces_def)
qed

lemma in_changed:
  "(k, p) \<in> set (changedInterfaces old new) \<longleftrightarrow>
     (\<exists>o' n ch. (k, o') \<in> set old \<and> map_of new k = Some n \<and> diffInterface k o' n = Some ch \<and> p = Some ch)"
  by (force simp: changedInterfaces_def split: option.splits)

lemma changed_keys: "fst ` set (changedInterfaces old new) \<subseteq> fst ` set old"
proof
  fix k
  assume "k \<in> fst ` set (changedInterfaces old new)"
  then obtain p where "(k, p) \<in> set (changedInterfaces old new)" by auto
  then obtain o' where "(k, o') \<in> set old" by (auto simp: in_changed)
  then show "k \<in> fst ` set old" by force
qed

lemma changed_keys_ok: "keys_ok old \<Longrightarrow> keys_ok (changedInterfaces old new)"
proof (induction old)
  case (Cons x xs)
  have "fst x \<notin> fst ` set (changedInterfaces xs new)"
    using Cons(2) changed_keys [of xs new] by (auto simp: keys_ok_def)
  moreover have "changedInterfaces (x # xs) new = (case map_of new (fst x) of None \<Rightarrow> []
      | Some n \<Rightarrow> (case diffInterface (fst x) (snd x) n of None \<Rightarrow> [] | Some ch \<Rightarrow> [(fst x, Some ch)])) @ changedInterfaces xs new"
    by (cases x) (simp add: changedInterfaces_def split: option.split)
  ultimately show ?case using Cons by (auto simp: keys_ok_def split: option.splits)
qed (simp add: changedInterfaces_def)

text \<open>One interface change is an exact patch of the addresses and the description.\<close>

definition patches :: "InterfaceChange option \<Rightarrow> InterfaceConfig option \<Rightarrow> InterfaceConfig option \<Rightarrow> bool" where
  "patches change old new = (case change of
     None \<Rightarrow> interfaceDescription new = interfaceDescription old \<and> set (collectAddresses new) = set (collectAddresses old)
   | Some ch \<Rightarrow>
       interfaceDescription new = (if ich_DescriptionChanged ch then ich_NewDescription ch else interfaceDescription old) \<and>
       set (collectAddresses new) = set (collectAddresses old) - set (ich_AddressesRemoved ch) \<union> set (ich_AddressesAdded ch) \<and>
       set (ich_AddressesRemoved ch) \<subseteq> set (collectAddresses old) \<and>
       set (ich_AddressesAdded ch) \<inter> set (collectAddresses old) = {})"

lemma diffInterface_patches: "patches (diffInterface k old new) old new"
  by (auto simp: patches_def diffInterface_def Let_def containsAddress_set filter_empty_conv)

lemma changed_mget:
  assumes "keys_ok old" and "keys_ok new" and "k \<in> fst ` set old" and "k \<in> fst ` set new"
  shows "mget (changedInterfaces old new) k = diffInterface k (mget old k) (mget new k)"
proof -
  from assms obtain a b where a: "(k, a) \<in> set old" "(k, b) \<in> set new" by auto
  with assms have ab: "mget old k = a" "mget new k = b" "map_of new k = Some b" by (auto simp: mget_in_set keys_ok_def)
  show ?thesis
  proof (cases "diffInterface k a b")
    case None
    have "k \<notin> fst ` set (changedInterfaces old new)"
    proof
      assume "k \<in> fst ` set (changedInterfaces old new)"
      then obtain p where "(k, p) \<in> set (changedInterfaces old new)" by auto
      then obtain o' ch where "(k, o') \<in> set old" "diffInterface k o' b = Some ch" using ab by (auto simp: in_changed)
      moreover from this have "o' = a" using a(1) assms(1) by (auto simp: keys_ok_def dest: eq_key_imp_eq_value)
      ultimately show False using None by simp
    qed
    then show ?thesis using None ab by (simp add: mget_fresh)
  next
    case (Some ch)
    with a(1) ab(3) have "(k, Some ch) \<in> set (changedInterfaces old new)" by (auto simp: in_changed)
    then show ?thesis using Some ab changed_keys_ok [OF assms(1)] by (simp add: mget_in_set)
  qed
qed

section \<open>When no change is reported\<close>

text \<open>Agreement of two trees in everything that the difference compares.\<close>

definition agree :: "RouterConfig \<Rightarrow> RouterConfig \<Rightarrow> bool" where
  "agree a b \<longleftrightarrow> fst ` set (rc_Interfaces a) = fst ` set (rc_Interfaces b) \<and>
     (\<forall>k \<in> fst ` set (rc_Interfaces a). patches None (mget (rc_Interfaces a) k) (mget (rc_Interfaces b) k)) \<and>
     rel_option deepBFD (getBFD a) (getBFD b) \<and> rel_option deepBGP (getBGP a) (getBGP b) \<and> rel_option deepEVPN (getEVPN a) (getEVPN b) \<and>
     rel_option deepOSPF (getOSPF a) (getOSPF b) \<and> rel_option deepOSPF (getOSPF3 a) (getOSPF3 b) \<and> getMPLS a = getMPLS b \<and>
     rel_option deepVRRP (getVRRP a) (getVRRP b) \<and> rc_Routing a = rc_Routing b \<and>
     deepMap (=) (rc_RoutingInstances a) (rc_RoutingInstances b) \<and> rel_option deepPolicy (rc_Policy a) (rc_Policy b) \<and>
     rel_option deepChassis (rc_Chassis a) (rc_Chassis b) \<and> rel_option deepCoS (rc_ClassOfService a) (rc_ClassOfService b) \<and>
     rc_System a = rc_System b \<and> rel_option deepSecurity (rc_Security a) (rc_Security b)"

lemma bgpEqual_deep: "bgpEqual a b = Some True \<Longrightarrow> rel_option deepBGP a b"
proof (cases a; cases b)
  fix x y
  assume "bgpEqual a b = Some True" "a = Some x" "b = Some y"
  then have "eqMaps groupEqual (mbgp_Groups x) (mbgp_Groups y) = Some True" by (simp add: bgpEqual_def eqPtr_def)
  moreover have "deepBGPGroup v w" if "groupEqual v w = Some True" for v w
    using that eqMaps_deep [of "\<lambda>an bn. Some (neighborEqual an bn)" _ _ "(=)"]
    by (auto simp: groupEqual_def deepBGPGroup_def neighborEqual_eq split: if_splits)
  ultimately have "deepMap deepBGPGroup (mbgp_Groups x) (mbgp_Groups y)" by (rule eqMaps_deep)
  then show ?thesis using \<open>a = Some x\<close> \<open>b = Some y\<close> by (simp add: deepBGP_def)
qed (simp_all add: bgpEqual_def eqPtr_def)

lemma ospfEqual_deep: "ospfEqual a b = Some True \<Longrightarrow> rel_option deepOSPF a b"
proof (cases a; cases b)
  fix x y
  assume "ospfEqual a b = Some True" "a = Some x" "b = Some y"
  then have e: "mospf_RouterID x = mospf_RouterID y"
    "eqMaps (\<lambda>aa ba. eqMaps (\<lambda>ai bi. Some (ospfInterfaceEqual ai bi)) (moa_Interfaces aa) (moa_Interfaces ba)) (mospf_Areas x) (mospf_Areas y) = Some True"
    by (simp_all add: ospfEqual_def eqPtr_def split: if_splits)
  have "deepOSPFArea v w" if "eqMaps (\<lambda>ai bi. Some (ospfInterfaceEqual ai bi)) (moa_Interfaces v) (moa_Interfaces w) = Some True" for v w
    using eqMaps_deep [OF that, of "(=)"] by (simp add: deepOSPFArea_def ospfInterfaceEqual_eq)
  from eqMaps_deep [OF e(2) this] have "deepMap deepOSPFArea (mospf_Areas x) (mospf_Areas y)" .
  then show ?thesis using e(1) \<open>a = Some x\<close> \<open>b = Some y\<close> by (simp add: deepOSPF_def)
qed (simp_all add: ospfEqual_def eqPtr_def)

lemma routes_same:
  assumes "staticRoutesEqual a b = Some True"
  shows "a = b"
proof (rule nth_equalityI)
  from assms show l: "length a = length b" by (simp add: staticRoutesEqual_def split: if_splits)
  fix i
  assume "i < length a"
  with l have "(a ! i, b ! i) \<in> set (zip a b)" by (auto simp: set_zip)
  with assms show "a ! i = b ! i" by (auto simp: staticRoutesEqual_def allM_True routeEqual_True split: if_splits)
qed

lemma routing_agree:
  assumes "routingEqual (rc_Routing a) (rc_Routing b)" and "getStaticRoutes a = getStaticRoutes b"
  shows "rc_Routing a = rc_Routing b"
  using assms by (cases "rc_Routing a"; cases "rc_Routing b") (auto simp: routingEqual_def getStaticRoutes_def)

lemma no_change_agree:
  assumes "goConfig old" and "goConfig new" and "ComputeDiff (Some old) (Some new) = Some d" and "\<not> HasChanges d"
  shows "agree old new"
proof -
  note f = ComputeDiff_fields [OF assms(3)]
  from assms(4) f(1) have i: "addedInterfaces (rc_Interfaces old) (rc_Interfaces new) = []" "removedInterfaces (rc_Interfaces old) (rc_Interfaces new) = []"
      "changedInterfaces (rc_Interfaces old) (rc_Interfaces new) = []" by (simp_all add: HasChanges_flags heads_def)
  have s: "True \<notin> set (sectionFlags old new)" using assms(4) f(2) by (simp add: HasChanges_flags)
  have k: "fst ` set (rc_Interfaces old) = fst ` set (rc_Interfaces new)"
    using added_keys [of "rc_Interfaces old" "rc_Interfaces new"] removed_set [of "rc_Interfaces old" "rc_Interfaces new"] i by auto
  have "keys_ok (rc_Interfaces old)" "keys_ok (rc_Interfaces new)" using assms(1,2) by (auto simp: goConfig_def dest: okMap_keys)
  then have "patches None (mget (rc_Interfaces old) n) (mget (rc_Interfaces new) n)" if "n \<in> fst ` set (rc_Interfaces old)" for n
    using changed_mget [of _ _ n] diffInterface_patches [of n "mget (rc_Interfaces old) n" "mget (rc_Interfaces new) n"] that i(3) k
    by (metis mget_fresh empty_iff empty_set image_empty)
  with k s show ?thesis
    by (auto simp: agree_def sectionFlags_def bgpEqual_deep ospfEqual_deep policyEqual_def systemEqual_def securityEqual_def
        intro!: routing_agree dest: routes_same)
qed

section \<open>A tree compared with itself\<close>

lemma allM_False: "allM f xs = Some False \<Longrightarrow> \<exists>x \<in> set xs. f x = Some False"
  by (induction xs) (auto split: option.splits if_splits)

lemma eqMaps_refl:
  assumes "keys_ok m" and "\<And>k v. (k, Some v) \<in> set m \<Longrightarrow> f v v \<noteq> Some False"
  shows "eqMaps f m m \<noteq> Some False"
proof
  assume "eqMaps f m m = Some False"
  then obtain k p where kp: "(k, p) \<in> set m" "eqEntry f m (k, p) = Some False" by (auto simp: eqMaps_def dest: allM_False)
  from kp(1) assms(1) have "map_of m k = Some p" by (simp add: keys_ok_def)
  with kp assms(2) show False by (auto simp: eqEntry_def split: option.splits)
qed

lemma bgpEqual_refl: "pred_option goBGP b \<Longrightarrow> bgpEqual b b \<noteq> Some False"
proof (cases b)
  case (Some x)
  assume "pred_option goBGP b"
  with Some have go: "okMap (\<lambda>g. keys_ok (mbg_Neighbors g)) (mbgp_Groups x)" by (simp add: goBGP_def)
  have "eqMaps groupEqual (mbgp_Groups x) (mbgp_Groups x) \<noteq> Some False"
  proof (rule eqMaps_refl)
    show "keys_ok (mbgp_Groups x)" using go by (rule okMap_keys)
    fix k g
    assume "(k, Some g) \<in> set (mbgp_Groups x)"
    with go have "keys_ok (mbg_Neighbors g)" by (rule okMap_value)
    then show "groupEqual g g \<noteq> Some False"
      using eqMaps_refl [of "mbg_Neighbors g" "\<lambda>an bn. Some (neighborEqual an bn)"] by (simp add: groupEqual_def neighborEqual_eq)
  qed
  with Some show ?thesis by (simp add: bgpEqual_def eqPtr_def)
qed (simp add: bgpEqual_def eqPtr_def)

lemma ospfEqual_refl: "pred_option goOSPF b \<Longrightarrow> ospfEqual b b \<noteq> Some False"
proof (cases b)
  case (Some x)
  assume "pred_option goOSPF b"
  with Some have go: "okMap (\<lambda>a. keys_ok (moa_Interfaces a)) (mospf_Areas x)" by (simp add: goOSPF_def)
  let ?f = "\<lambda>aa ba. eqMaps (\<lambda>ai bi. Some (ospfInterfaceEqual ai bi)) (moa_Interfaces aa) (moa_Interfaces ba)"
  have "eqMaps ?f (mospf_Areas x) (mospf_Areas x) \<noteq> Some False"
  proof (rule eqMaps_refl)
    show "keys_ok (mospf_Areas x)" using go by (rule okMap_keys)
    fix k a
    assume "(k, Some a) \<in> set (mospf_Areas x)"
    with go have "keys_ok (moa_Interfaces a)" by (rule okMap_value)
    then show "?f a a \<noteq> Some False" by (intro eqMaps_refl) (simp_all add: ospfInterfaceEqual_eq)
  qed
  with Some show ?thesis by (simp add: ospfEqual_def eqPtr_def)
qed (simp add: ospfEqual_def eqPtr_def)

lemma staticRoutesEqual_refl: "staticRoutesEqual r r \<noteq> Some False"
proof
  assume "staticRoutesEqual r r = Some False"
  then obtain p where "routeEqual (p, p) = Some False" by (auto simp: staticRoutesEqual_def zip_same dest!: allM_False)
  then show False by (auto simp: routeEqual_def split: option.splits)
qed

lemma deep_refl:
  "goBFD bfd \<Longrightarrow> deepBFD bfd bfd" "keys_ok (mevpn_VNIs e) \<Longrightarrow> deepEVPN e e" "keys_ok (mvrrp_Groups v) \<Longrightarrow> deepVRRP v v"
  "goPolicy po \<Longrightarrow> deepPolicy po po" "goCoS co \<Longrightarrow> deepCoS co co" "keys_ok (msec_Users s) \<Longrightarrow> deepSecurity s s"
  "pred_option (\<lambda>cl. keys_ok (mcl_Nodes cl)) (mch_Cluster ch) \<Longrightarrow> deepChassis ch ch"
  by (simp_all add: deep_defs go_defs) (cases "mch_Cluster ch"; simp add: deepCluster_def)

lemma pred_rel_option: "pred_option P x \<Longrightarrow> (\<And>v. P v \<Longrightarrow> R v v) \<Longrightarrow> rel_option R x x"
  by (cases x) simp_all

lemma goConfig_parts:
  assumes "goConfig c"
  shows "pred_option goBFD (getBFD c)" "pred_option goBGP (getBGP c)" "pred_option (\<lambda>e. keys_ok (mevpn_VNIs e)) (getEVPN c)"
    "pred_option goOSPF (getOSPF c)" "pred_option goOSPF (getOSPF3 c)" "pred_option (\<lambda>v. keys_ok (mvrrp_Groups v)) (getVRRP c)"
  using assms by (cases "rc_Protocols c"; simp add: goConfig_def goProtocols_def getBFD_def getBGP_def getEVPN_def getOSPF_def getOSPF3_def getVRRP_def)+

lemma sectionFlags_refl:
  assumes "goConfig c" and "ComputeDiff (Some c) (Some c) \<noteq> None"
  shows "True \<notin> set (sectionFlags c c)"
proof -
  note g = goConfig_parts [OF assms(1)]
  from assms(2) [unfolded ComputeDiff_total_iff]
  have "bgpEqual (getBGP c) (getBGP c) = Some True" "ospfEqual (getOSPF c) (getOSPF c) = Some True"
      "ospfEqual (getOSPF3 c) (getOSPF3 c) = Some True" "staticRoutesEqual (getStaticRoutes c) (getStaticRoutes c) = Some True"
    using bgpEqual_refl [OF g(2)] ospfEqual_refl [OF g(4)] ospfEqual_refl [OF g(5)] staticRoutesEqual_refl [of "getStaticRoutes c"] by auto
  moreover have "rel_option deepBFD (getBFD c) (getBFD c)" "rel_option deepEVPN (getEVPN c) (getEVPN c)" "rel_option deepVRRP (getVRRP c) (getVRRP c)"
      "rel_option deepPolicy (rc_Policy c) (rc_Policy c)" "rel_option deepCoS (rc_ClassOfService c) (rc_ClassOfService c)"
      "rel_option deepSecurity (rc_Security c) (rc_Security c)" "rel_option deepChassis (rc_Chassis c) (rc_Chassis c)"
    using assms(1) [unfolded goConfig_def] g by (blast intro: pred_rel_option deep_refl)+
  moreover have "routingEqual (rc_Routing c) (rc_Routing c)" by (cases "rc_Routing c") (simp_all add: routingEqual_def)
  moreover have "keys_ok (rc_RoutingInstances c)" using assms(1) by (simp add: goConfig_def)
  ultimately show ?thesis by (simp add: sectionFlags_def policyEqual_def systemEqual_def securityEqual_def)
qed

lemma self_no_change:
  assumes "goConfig c" and "ComputeDiff (Some c) (Some c) = Some d"
  shows "\<not> HasChanges d"
proof -
  have ok: "keys_ok (rc_Interfaces c)" using assms(1) by (auto simp: goConfig_def dest: okMap_keys)
  have "diffInterface k p p = None" for k p by (simp add: diffInterface_def containsAddress_set)
  then have False if "(k, p) \<in> set (changedInterfaces (rc_Interfaces c) (rc_Interfaces c))" for k p
    using that ok by (auto simp: in_changed keys_ok_def dest: eq_key_imp_eq_value)
  then have "set (changedInterfaces (rc_Interfaces c) (rc_Interfaces c)) = {}" by (metis equals0I surj_pair)
  moreover have "set (removedInterfaces (rc_Interfaces c) (rc_Interfaces c)) = {}" by (simp add: removed_set)
  moreover have "fst ` set (addedInterfaces (rc_Interfaces c) (rc_Interfaces c)) = {}" by (simp add: added_keys)
  ultimately have "changedInterfaces (rc_Interfaces c) (rc_Interfaces c) = []" "removedInterfaces (rc_Interfaces c) (rc_Interfaces c) = []"
      "addedInterfaces (rc_Interfaces c) (rc_Interfaces c) = []" by (simp_all only: set_empty image_is_empty)
  with ComputeDiff_fields [OF assms(2)] sectionFlags_refl [OF assms(1)] assms(2) show ?thesis by (simp add: HasChanges_flags heads_def)
qed

section \<open>Accepted configurations can be compared\<close>

definition ospfEntriesSet :: "MOSPFConfig option \<Rightarrow> bool" where
  "ospfEntriesSet x = pred_option (\<lambda>x. list_all (\<lambda>(k, p). pred_option (\<lambda>a. list_all (\<lambda>(i, q). q \<noteq> None) (moa_Interfaces a)) p) (mospf_Areas x)) x"

lemma fullMap_entries: "fullMap P m \<Longrightarrow> list_all (\<lambda>(k, p). p \<noteq> None) m"
  by (auto simp: fullMap_def list_all_iff split: option.splits)

lemma fullMap_value: "fullMap P m \<Longrightarrow> (k, Some v) \<in> set m \<Longrightarrow> P k v"
  by (force simp: fullMap_def list_all_iff)

lemma bgpEqual_total:
  assumes "pred_option (\<lambda>b. fullMap (\<lambda>_ g. noNil (mbg_Neighbors g)) (mbgp_Groups b)) a"
    and "pred_option (\<lambda>b. fullMap (\<lambda>_ g. noNil (mbg_Neighbors g)) (mbgp_Groups b)) b"
  shows "bgpEqual a b \<noteq> None"
proof (cases a; cases b)
  fix x y
  assume xy: "a = Some x" "b = Some y"
  with assms have f: "fullMap (\<lambda>_ g. noNil (mbg_Neighbors g)) (mbgp_Groups x)" "fullMap (\<lambda>_ g. noNil (mbg_Neighbors g)) (mbgp_Groups y)" by simp_all
  have "groupEqual v w \<noteq> None" if "(k, Some v) \<in> set (mbgp_Groups x)" "(k, Some w) \<in> set (mbgp_Groups y)" for k v w
  proof -
    from f that have "noNil (mbg_Neighbors v)" "noNil (mbg_Neighbors w)" by (auto dest: fullMap_value)
    then have "eqMaps (\<lambda>an bn. Some (neighborEqual an bn)) (mbg_Neighbors v) (mbg_Neighbors w) \<noteq> None"
      by (intro eqMaps_total fullMap_entries [where P = "\<lambda>_ _. True"]) auto
    then show ?thesis by (auto simp: groupEqual_def)
  qed
  with f have "eqMaps groupEqual (mbgp_Groups x) (mbgp_Groups y) \<noteq> None" by (intro eqMaps_total) (auto dest: fullMap_entries)
  with xy show ?thesis by (simp add: bgpEqual_def eqPtr_def)
qed (simp_all add: bgpEqual_def eqPtr_def)

lemma ospfEqual_total:
  assumes "pred_option (\<lambda>x. list_all (\<lambda>(k, p). p \<noteq> None) (mospf_Areas x)) a" "pred_option (\<lambda>x. list_all (\<lambda>(k, p). p \<noteq> None) (mospf_Areas x)) b"
    and "ospfEntriesSet a" "ospfEntriesSet b"
  shows "ospfEqual a b \<noteq> None"
proof (cases a; cases b)
  fix x y
  assume xy: "a = Some x" "b = Some y"
  let ?f = "\<lambda>aa ba. eqMaps (\<lambda>ai bi. Some (ospfInterfaceEqual ai bi)) (moa_Interfaces aa) (moa_Interfaces ba)"
  have "?f v w \<noteq> None" if "(k, Some v) \<in> set (mospf_Areas x)" "(k, Some w) \<in> set (mospf_Areas y)" for k v w
    using assms(3,4) xy that by (intro eqMaps_total) (fastforce simp: ospfEntriesSet_def list_all_iff)+
  then have "eqMaps ?f (mospf_Areas x) (mospf_Areas y) \<noteq> None" using assms(1,2) xy by (intro eqMaps_total [of _ _ ?f]) simp_all
  with xy show ?thesis by (auto simp: ospfEqual_def eqPtr_def)
qed (simp_all add: ospfEqual_def eqPtr_def)

lemma staticRoutesEqual_total:
  assumes "list_all (\<lambda>r. r \<noteq> None) a" and "list_all (\<lambda>r. r \<noteq> None) b"
  shows "staticRoutesEqual a b \<noteq> None"
proof -
  have "routeEqual x \<noteq> None" if "x \<in> set (zip a b)" for x
  proof -
    obtain p q where x: "x = (p, q)" by (cases x)
    with that have "p \<in> set a" "q \<in> set b" by (auto dest: set_zip_leftD set_zip_rightD)
    with assms x show ?thesis by (auto simp: list_all_iff routeEqual_def split: option.splits)
  qed
  then have "allM routeEqual (zip a b) \<noteq> None" by (rule allM_total)
  then show ?thesis by (auto simp: staticRoutesEqual_def)
qed

lemma accepted_ospf_areas:
  assumes "Validate lib (Some c) = Inr ()"
  shows "pred_option (\<lambda>x. list_all (\<lambda>(k, p). p \<noteq> None) (mospf_Areas x)) (getOSPF c)"
    and "pred_option (\<lambda>x. list_all (\<lambda>(k, p). p \<noteq> None) (mospf_Areas x)) (getOSPF3 c)"
proof -
  have a: "list_all (\<lambda>(k, p). p \<noteq> None) (mospf_Areas x)" if "validateOSPF c pr x = Inr ()" for pr x
    using that by (simp only: validateOSPF_def passed) (fastforce simp: list_all_iff)
  have p: "validateProtocols c = Inr ()" using assms by (simp add: Validate_ok)
  show "pred_option (\<lambda>x. list_all (\<lambda>(k, p). p \<noteq> None) (mospf_Areas x)) (getOSPF c)"
    using protocols_passed(4) [OF p] a by (cases "rc_Protocols c") (auto simp: getOSPF_def option.pred_set)
  show "pred_option (\<lambda>x. list_all (\<lambda>(k, p). p \<noteq> None) (mospf_Areas x)) (getOSPF3 c)"
    using protocols_passed(5) [OF p] a by (cases "rc_Protocols c") (auto simp: getOSPF3_def option.pred_set)
qed

lemma accepted_bgp:
  assumes "goConfig c" and "Validate lib (Some c) = Inr ()"
  shows "pred_option (\<lambda>b. fullMap (\<lambda>_ g. noNil (mbg_Neighbors g)) (mbgp_Groups b)) (getBGP c)"
proof (cases "rc_Protocols c")
  case (Some pc)
  with protocols_passed(2) [OF _ Some] assms bgp_full show ?thesis
    by (cases "mpc_BGP pc") (auto simp: getBGP_def Validate_ok goConfig_def goProtocols_def)
qed (simp add: getBGP_def)

lemma accepted_routes:
  assumes "Validate lib (Some c) = Inr ()"
  shows "list_all (\<lambda>r. r \<noteq> None) (getStaticRoutes c)"
  using assms routing_full [of c] by (cases "rc_Routing c") (simp_all add: getStaticRoutes_def Validate_ok)

lemma accepted_comparable:
  assumes "goConfig old" and "goConfig new" and "Validate lib (Some old) = Inr ()" and "Validate lib (Some new) = Inr ()"
    and "ospfEntriesSet (getOSPF old)" and "ospfEntriesSet (getOSPF3 old)" and "ospfEntriesSet (getOSPF new)" and "ospfEntriesSet (getOSPF3 new)"
  shows "ComputeDiff (Some old) (Some new) \<noteq> None"
  unfolding ComputeDiff_total_iff
  using bgpEqual_total [OF accepted_bgp [OF assms(1,3)] accepted_bgp [OF assms(2,4)]]
    ospfEqual_total [OF accepted_ospf_areas(1) [OF assms(3)] accepted_ospf_areas(1) [OF assms(4)] assms(5,7)]
    ospfEqual_total [OF accepted_ospf_areas(2) [OF assms(3)] accepted_ospf_areas(2) [OF assms(4)] assms(6,8)]
    staticRoutesEqual_total [OF accepted_routes [OF assms(3)] accepted_routes [OF assms(4)]] by blast

section \<open>Trees that differ in their interfaces only\<close>

lemma get_interfaces [simp]:
  "getBFD (c\<lparr>rc_Interfaces := ifs\<rparr>) = getBFD c" "getBGP (c\<lparr>rc_Interfaces := ifs\<rparr>) = getBGP c"
  "getEVPN (c\<lparr>rc_Interfaces := ifs\<rparr>) = getEVPN c" "getOSPF (c\<lparr>rc_Interfaces := ifs\<rparr>) = getOSPF c"
  "getOSPF3 (c\<lparr>rc_Interfaces := ifs\<rparr>) = getOSPF3 c" "getMPLS (c\<lparr>rc_Interfaces := ifs\<rparr>) = getMPLS c"
  "getVRRP (c\<lparr>rc_Interfaces := ifs\<rparr>) = getVRRP c" "getStaticRoutes (c\<lparr>rc_Interfaces := ifs\<rparr>) = getStaticRoutes c"
  by (simp_all add: getBFD_def getBGP_def getEVPN_def getOSPF_def getOSPF3_def getMPLS_def getVRRP_def getStaticRoutes_def)

lemma interfaces_total:
  "ComputeDiff (Some c) (Some c) \<noteq> None \<Longrightarrow> ComputeDiff (Some c) (Some (c\<lparr>rc_Interfaces := ifs\<rparr>)) \<noteq> None"
  unfolding ComputeDiff_total_iff by simp

lemma interfaces_silent:
  assumes "goConfig c" and "ComputeDiff (Some c) (Some c) \<noteq> None" and "addedInterfaces (rc_Interfaces c) ifs = []"
    and "removedInterfaces (rc_Interfaces c) ifs = []" and "changedInterfaces (rc_Interfaces c) ifs = []"
  obtains d where "ComputeDiff (Some c) (Some (c\<lparr>rc_Interfaces := ifs\<rparr>)) = Some d" "\<not> HasChanges d"
proof -
  obtain d where d: "ComputeDiff (Some c) (Some (c\<lparr>rc_Interfaces := ifs\<rparr>)) = Some d" using interfaces_total [OF assms(2)] by blast
  have "sectionFlags c (c\<lparr>rc_Interfaces := ifs\<rparr>) = sectionFlags c c" by (simp add: sectionFlags_def)
  with ComputeDiff_fields [OF d] sectionFlags_refl [OF assms(1,2)] assms(3-5) have "\<not> HasChanges d"
    by (simp add: HasChanges_flags heads_def)
  with d show thesis by (rule that)
qed

lemma sampleRouter_self: "ComputeDiff (Some sampleRouter) (Some sampleRouter) \<noteq> None"
  by (rule accepted_comparable [OF sampleRouter_go sampleRouter_go sampleRouter_ok sampleRouter_ok])
    (simp_all add: ospfEntriesSet_def getOSPF_def getOSPF3_def sampleRouter_def)

section \<open>Properties\<close>




text \<open>
  C30. Where no change is reported, the two trees agree in everything the difference compares: the
  descriptions and the sets of addresses of the interfaces and every other section.
\<close>

theorem diff_silent_agree:
  assumes "goConfig old" and "goConfig new" and "ComputeDiff (Some old) (Some new) = Some d" and "\<not> HasChanges d"
  shows "agree old new"
  by (rule no_change_agree [OF assms])

theorem diff_silent_agree_witness: "agree sampleRouter (sampleRouter\<lparr>rc_Interfaces := rev sampleInterfaces\<rparr>)"
proof -
  let ?c = "sampleRouter\<lparr>rc_Interfaces := rev sampleInterfaces\<rparr>"
  have go: "goConfig ?c"
    by (simp add: sampleRouter_def sampleInterfaces_def NewRouterConfig_def goConfig_def go_defs okMap_def keys_ok_def)
  have "addedInterfaces sampleInterfaces (rev sampleInterfaces) = []" "removedInterfaces sampleInterfaces (rev sampleInterfaces) = []"
    "changedInterfaces sampleInterfaces (rev sampleInterfaces) = []" by code_simp+
  then obtain d where "ComputeDiff (Some sampleRouter) (Some ?c) = Some d" "\<not> HasChanges d"
    using interfaces_silent [OF sampleRouter_go sampleRouter_self, of "rev sampleInterfaces"] by (auto simp: sampleRouter_def)
  then show ?thesis by (rule diff_silent_agree [OF sampleRouter_go go])
qed

text \<open>
  C31. Two configurations that pass validation and have no nil OSPF interface entries are compared
  without a nil dereference, and comparing such a configuration with itself reports no change.
\<close>

theorem diff_of_accepted:
  assumes "goConfig old" and "goConfig new" and "Validate lib (Some old) = Inr ()" and "Validate lib (Some new) = Inr ()"
    and "ospfEntriesSet (getOSPF old)" and "ospfEntriesSet (getOSPF3 old)" and "ospfEntriesSet (getOSPF new)" and "ospfEntriesSet (getOSPF3 new)"
  shows "\<exists>d. ComputeDiff (Some old) (Some new) = Some d \<and> (new = old \<longrightarrow> \<not> HasChanges d)"
proof -
  have "ComputeDiff (Some old) (Some new) \<noteq> None" by (rule accepted_comparable [OF assms])
  then show ?thesis using self_no_change [OF assms(1)] by blast
qed

theorem diff_of_accepted_witness:
  "\<exists>d. ComputeDiff (Some sampleRouter) (Some sampleRouter) = Some d \<and> \<not> HasChanges d"
proof -
  have "ospfEntriesSet (getOSPF sampleRouter)" "ospfEntriesSet (getOSPF3 sampleRouter)"
    by (simp_all add: ospfEntriesSet_def getOSPF_def getOSPF3_def sampleRouter_def)
  then show ?thesis using diff_of_accepted [OF sampleRouter_go sampleRouter_go sampleRouter_ok sampleRouter_ok] by blast
qed




end
