(* ===== verification/EngineLaws.thy ===== *)
theory EngineLaws
  imports Engine DiffLaws
begin

text \<open>
  The engine as a transaction: seen from outside it is a versioned store whose content changes
  only by a commit, and where the plugins keep the contract of plugin.go the systems below stay in
  step with the running configuration.
\<close>

section \<open>Helpers\<close>

lemma ComputeDiff_running: "ComputeDiff (oldConfig e) q = ComputeDiff (Some (Running e)) q"
proof -
  have "getOr NewRouterConfig (oldConfig e) = Running e"
    by (auto simp: oldConfig_def Running_def split: option.splits)
  then show ?thesis by (simp add: ComputeDiff_def)
qed

lemma CloneDiff_same: "ComputeDiff (Some old) (Some new) = Some d \<Longrightarrow> CloneDiff d = Some d"
  using ComputeDiff_fields(1) [of old new d] by (simp add: CloneDiff_def heads_def)

section \<open>The contract of the plugins\<close>

text \<open>
  \<open>inSync i c w\<close>: the system behind plugin \<open>i\<close> shows configuration \<open>c\<close>. \<open>undoable i c w\<close>: a rollback
  leads back to \<open>c\<close>. Validation has no side effects; a difference that was validated and applied
  without error leads to the new configuration; whatever \<open>ApplyChanges\<close> returned, its effect can be
  undone; plugins do not disturb each other.
\<close>

locale southbound =
  fixes ps :: "'w Plugin list" and inSync :: "nat \<Rightarrow> RouterConfig \<Rightarrow> 'w \<Rightarrow> bool" and undoable :: "nat \<Rightarrow> RouterConfig \<Rightarrow> 'w \<Rightarrow> bool"
  assumes validate_pure: "i < length ps \<Longrightarrow> plg_ValidateChanges (ps ! i) d w = (w', r) \<Longrightarrow> w' = w"
    and apply_sync: "i < length ps \<Longrightarrow> inSync i old w \<Longrightarrow> ComputeDiff (Some old) (Some new) = Some d \<Longrightarrow>
      plg_ValidateChanges (ps ! i) d w0 = (w1, None) \<Longrightarrow> plg_ApplyChanges (ps ! i) d w = (w', None) \<Longrightarrow> inSync i new w'"
    and apply_undoable: "i < length ps \<Longrightarrow> inSync i old w \<Longrightarrow> ComputeDiff (Some old) (Some new) = Some d \<Longrightarrow>
      plg_ApplyChanges (ps ! i) d w = (w', r) \<Longrightarrow> undoable i old w'"
    and rollback_sync: "i < length ps \<Longrightarrow> undoable i old w \<Longrightarrow> ComputeDiff (Some old) (Some new) = Some d \<Longrightarrow>
      plg_RollbackChanges (ps ! i) d w = (w', None) \<Longrightarrow> inSync i old w'"
    and apply_frame: "i < length ps \<Longrightarrow> j < length ps \<Longrightarrow> i \<noteq> j \<Longrightarrow> plg_ApplyChanges (ps ! j) d w = (w', r) \<Longrightarrow>
      (inSync i c w \<longrightarrow> inSync i c w') \<and> (undoable i c w \<longrightarrow> undoable i c w')"
    and rollback_frame: "i < length ps \<Longrightarrow> j < length ps \<Longrightarrow> i \<noteq> j \<Longrightarrow> plg_RollbackChanges (ps ! j) d w = (w', r) \<Longrightarrow>
      (inSync i c w \<longrightarrow> inSync i c w') \<and> (undoable i c w \<longrightarrow> undoable i c w')"
begin

lemma validate_all:
  assumes "CloneDiff d = Some d" and "k \<le> length ps" and "validatePlugins (drop k ps) d w = Some (w', r)"
  shows "w' = w \<and> (r = None \<longrightarrow> (\<forall>i. k \<le> i \<longrightarrow> i < length ps \<longrightarrow> (\<exists>w0 w1. plg_ValidateChanges (ps ! i) d w0 = (w1, None))))"
  using assms(2,3)
proof (induction "length ps - k" arbitrary: k w)
  case 0
  then show ?case by simp
next
  case (Suc n)
  then have k: "k < length ps" by simp
  then have dk: "drop k ps = ps ! k # drop (Suc k) ps" by (simp add: Cons_nth_drop_Suc)
  obtain w1 r1 where v: "plg_ValidateChanges (ps ! k) d w = (w1, r1)" by (cases "plg_ValidateChanges (ps ! k) d w")
  then have w1: "w1 = w" using validate_pure [OF k] by blast
  show ?case
  proof (cases r1)
    case None
    with Suc(4) v w1 have "validatePlugins (drop (Suc k) ps) d w = Some (w', r)" by (simp add: dk assms(1))
    with Suc(1) [of "Suc k" w] Suc(2) k have "w' = w \<and> (r = None \<longrightarrow> (\<forall>i. Suc k \<le> i \<longrightarrow> i < length ps \<longrightarrow> (\<exists>w0 w1. plg_ValidateChanges (ps ! i) d w0 = (w1, None))))" by auto
    with v None show ?thesis by (metis Suc_leI le_neq_implies_less)
  next
    case (Some err)
    with Suc(4) v w1 show ?thesis by (auto simp: dk assms(1))
  qed
qed

lemma rollbackLoop_errs: "rollbackLoop rs w errs = (w', errs') \<Longrightarrow> \<exists>more. errs' = errs @ more"
proof (induction rs arbitrary: w errs)
  case (Cons x rs)
  obtain p d where x: "x = (p, d)" by (cases x)
  obtain w1 r1 where v: "plg_RollbackChanges p d w = (w1, r1)" by (cases "plg_RollbackChanges p d w")
  show ?case
  proof (cases r1)
    case None
    with Cons x v show ?thesis by simp
  next
    case (Some err)
    with Cons(2) x v have "rollbackLoop rs w1 (errs @ [''plugin '' @ plg_Name p @ '' rollback failed: '' @ err]) = (w', errs')" by simp
    from Cons(1) [OF this] show ?thesis by auto
  qed
qed simp

lemma rollback_all:
  assumes "ComputeDiff (Some old) (Some new) = Some d" and "distinct is" and "\<forall>i \<in> set is. i < length ps \<and> undoable i old w"
    and "rollbackLoop (map (\<lambda>i. (ps ! i, d)) is) w [] = (w', [])"
  shows "(\<forall>i \<in> set is. inSync i old w') \<and> (\<forall>i c. i < length ps \<longrightarrow> i \<notin> set is \<longrightarrow> inSync i c w \<longrightarrow> inSync i c w')"
  using assms(2-4)
proof (induction "is" arbitrary: w)
  case (Cons j js)
  obtain w1 r1 where v: "plg_RollbackChanges (ps ! j) d w = (w1, r1)" by (cases "plg_RollbackChanges (ps ! j) d w")
  have r1: "r1 = None"
  proof (rule ccontr)
    assume "r1 \<noteq> None"
    then obtain err where "r1 = Some err" by blast
    with Cons(4) v have "rollbackLoop (map (\<lambda>i. (ps ! i, d)) js) w1 [''plugin '' @ plg_Name (ps ! j) @ '' rollback failed: '' @ err] = (w', [])" by simp
    from rollbackLoop_errs [OF this] show False by simp
  qed
  have j: "j < length ps" "undoable j old w" using Cons(3) by simp_all
  have sj: "inSync j old w1" using rollback_sync [OF j assms(1)] v r1 by simp
  have fr: "(inSync i c w \<longrightarrow> inSync i c w1) \<and> (undoable i c w \<longrightarrow> undoable i c w1)" if "i < length ps" "i \<noteq> j" for i c
    by (rule rollback_frame [OF that(1) j(1) that(2) v])
  have "\<forall>i \<in> set js. i < length ps \<and> undoable i old w1" using Cons(2,3) fr by (metis distinct.simps(2) list.set_intros(2))
  moreover have "rollbackLoop (map (\<lambda>i. (ps ! i, d)) js) w1 [] = (w', [])" using Cons(4) v r1 by simp
  ultimately have ih: "(\<forall>i \<in> set js. inSync i old w') \<and> (\<forall>i c. i < length ps \<longrightarrow> i \<notin> set js \<longrightarrow> inSync i c w1 \<longrightarrow> inSync i c w')"
    using Cons(1) [of w1] Cons(2) by simp
  then have "inSync j old w'" using Cons(2) j(1) sj by simp
  then show ?case using ih fr by auto
qed simp

lemma apply_all:
  assumes d: "ComputeDiff (Some old) (Some new) = Some d"
    and valid: "\<forall>i < length ps. \<exists>w0 w1. plg_ValidateChanges (ps ! i) d w0 = (w1, None)"
  shows "k \<le> length ps \<Longrightarrow> \<forall>i < k. inSync i new w \<and> undoable i old w \<Longrightarrow> \<forall>i. k \<le> i \<longrightarrow> i < length ps \<longrightarrow> inSync i old w \<Longrightarrow>
    applyPlugins (drop k ps) d (map (\<lambda>i. (ps ! i, d)) [0..<k]) w = Some (w', r) \<Longrightarrow>
    (case r of None \<Rightarrow> \<forall>i < length ps. inSync i new w' | Some err \<Rightarrow> ae_RollbackSucceeded err \<longrightarrow> (\<forall>i < length ps. inSync i old w'))"
proof (induction "length ps - k" arbitrary: k w)
  case 0
  then show ?case by simp
next
  case (Suc n)
  then have k: "k < length ps" by simp
  then have dk: "drop k ps = ps ! k # drop (Suc k) ps" by (simp add: Cons_nth_drop_Suc)
  note c = CloneDiff_same [OF d]
  have ap: "map (\<lambda>i. (ps ! i, d)) [0..<k] @ [(ps ! k, d)] = map (\<lambda>i. (ps ! i, d)) [0..<Suc k]" by simp
  obtain w1 r1 where v: "plg_ApplyChanges (ps ! k) d w = (w1, r1)" by (cases "plg_ApplyChanges (ps ! k) d w")
  have sk: "inSync k old w" using Suc(5) k by simp
  have uk: "undoable k old w1" by (rule apply_undoable [OF k sk d v])
  have fr: "(inSync i x w \<longrightarrow> inSync i x w1) \<and> (undoable i x w \<longrightarrow> undoable i x w1)" if "i < length ps" "i \<noteq> k" for i x
    by (rule apply_frame [OF that(1) k that(2) v])
  have und: "\<forall>i < Suc k. undoable i old w1" using Suc(4) fr uk k by (auto simp: less_Suc_eq)
  have rest: "\<forall>i. Suc k \<le> i \<longrightarrow> i < length ps \<longrightarrow> inSync i old w1" using Suc(5) fr by auto
  show ?case
  proof (cases r1)
    case None
    obtain w0 w0' where "plg_ValidateChanges (ps ! k) d w0 = (w0', None)" using valid k by blast
    then have "inSync k new w1" using apply_sync [OF k sk d] v None by simp
    then have "\<forall>i < Suc k. inSync i new w1 \<and> undoable i old w1" using Suc(4) fr und k by (auto simp: less_Suc_eq)
    moreover have "applyPlugins (drop (Suc k) ps) d (map (\<lambda>i. (ps ! i, d)) [0..<Suc k]) w1 = Some (w', r)"
      using Suc(6) v None by (simp add: dk c ap del: upt_Suc)
    moreover have "n = length ps - Suc k" "Suc k \<le> length ps" using Suc(2) k by simp_all
    ultimately show ?thesis using Suc(1) [of "Suc k" w1] rest by (simp del: upt_Suc)
  next
    case (Some err)
    let ?is = "rev [0..<Suc k]"
    obtain w2 errs where rb: "rollbackLoop (map (\<lambda>i. (ps ! i, d)) ?is) w1 [] = (w2, errs)"
      by (cases "rollbackLoop (map (\<lambda>i. (ps ! i, d)) ?is) w1 []")
    have "rollback (map (\<lambda>i. (ps ! i, d)) [0..<Suc k]) w1 = (w2, errs)" using rb by (simp only: rollback_def rev_map)
    then have "Some (w', r) = Some (w2, Some \<lparr>ae_Plugin = plg_Name (ps ! k), ae_Phase = ''apply'', ae_RollbackAttempted = True,
        ae_RollbackSucceeded = (errs = []), ae_RollbackDiagnostics = errs, ae_Err = Some err\<rparr>)"
      using Suc(6) v Some by (simp only: dk applyPlugins.simps c ap option.case prod.case Let_def)
    then have r: "w' = w2" "\<exists>e. r = Some e \<and> ae_RollbackSucceeded e = (errs = [])" by simp_all
    have "\<forall>i < length ps. inSync i old w2" if "errs = []"
    proof -
      have "(\<forall>i \<in> set ?is. inSync i old w2) \<and> (\<forall>i c. i < length ps \<longrightarrow> i \<notin> set ?is \<longrightarrow> inSync i c w1 \<longrightarrow> inSync i c w2)"
        using und k rb that by (intro rollback_all [OF d]) (auto simp del: upt_Suc)
      moreover have "i \<in> set ?is \<or> Suc k \<le> i" for i by auto
      ultimately show ?thesis using rest by blast
    qed
    with r show ?thesis by fastforce
  qed
qed

end

section \<open>The engine as a versioned store\<close>

text \<open>What a client may rely on: a request is refused and changes nothing, or it is accepted without effect because
  the content agrees with it already, or the content becomes the requested configuration under the next version.\<close>

inductive storeStep :: "RouterConfig \<times> 64 word \<Rightarrow> RouterConfig option \<Rightarrow> bool \<Rightarrow> RouterConfig \<times> 64 word \<Rightarrow> bool" where
  refuse: "storeStep s p False s"
| keep: "agree c new \<Longrightarrow> storeStep (c, v) (Some new) True (c, v)"
| commit: "storeStep (c, v) (Some new) True (new, v + 1)"

inductive_simps storeStep_simps: "storeStep s p ok s'"

definition absEngine :: "'w Engine \<Rightarrow> RouterConfig \<times> 64 word" where
  "absEngine e = (Running e, en_version e)"

lemma validatePlugins_error: "validatePlugins ps d w = Some (w', Some err) \<Longrightarrow> \<nexists>x. err = ApplyFailed x"
  by (induction ps d w rule: validatePlugins.induct) (auto split: option.splits prod.splits)

lemma Apply_cases:
  assumes "Apply env e p author message w = Some (e', w', r)"
  obtains (refused) err where "e' = e" "r = Some err" "w' = w" "\<nexists>x. err = ApplyFailed x"
  | (noChange) c d where "p = Some c" "ComputeDiff (Some (Running e)) (Some c) = Some d" "\<not> HasChanges d" "e' = e" "w' = w" "r = None"
  | (invalid) c d err where "p = Some c" "ComputeDiff (Some (Running e)) (Some c) = Some d"
      "validatePlugins (en_plugins e) d w = Some (w', Some err)" "e' = e" "r = Some err" "\<nexists>x. err = ApplyFailed x"
  | (failed) c d w1 err where "p = Some c" "ComputeDiff (Some (Running e)) (Some c) = Some d"
      "validatePlugins (en_plugins e) d w = Some (w1, None)" "applyPlugins (en_plugins e) d [] w1 = Some (w', Some err)"
      "e' = e" "r = Some (ApplyFailed err)"
  | (committed) c d w1 where "p = Some c" "Validate (ev_lib env) (Some c) = Inr ()" "ComputeDiff (Some (Running e)) (Some c) = Some d"
      "HasChanges d" "validatePlugins (en_plugins e) d w = Some (w1, None)" "applyPlugins (en_plugins e) d [] w1 = Some (w', None)"
      "e' = e\<lparr>en_version := en_version e + 1, en_running := Some (NewSnapshot env (Some c) (en_version e + 1) author message)\<rparr>" "r = None"
proof (cases p)
  case None
  with assms refused show thesis by (auto simp: Apply_def)
next
  case (Some c)
  note a = assms [unfolded Apply_def ComputeDiff_running Some Clone_same Let_def option.case]
  show thesis
  proof (cases "Validate (ev_lib env) (Some c)")
    case (Inl err)
    with a refused show thesis by auto
  next
    case (Inr u)
    from a Inr obtain d where d: "ComputeDiff (Some (Running e)) (Some c) = Some d" by (cases "ComputeDiff (Some (Running e)) (Some c)") simp_all
    show thesis
    proof (cases "HasChanges d")
      case False
      with a Inr d noChange [OF Some d False] show thesis by auto
    next
      case True
      have "validatePlugins (en_plugins e) d w \<noteq> None" using a Inr d True by (intro notI) simp
      then obtain w1 v where v: "validatePlugins (en_plugins e) d w = Some (w1, v)" by fastforce
      show thesis
      proof (cases v)
        case (Some err)
        with a Inr d True v have "e' = e" "w' = w1" "r = Some err" by simp_all
        with v Some show thesis by (intro invalid [OF \<open>p = Some c\<close> d] validatePlugins_error) simp_all
      next
        case None
        have "applyPlugins (en_plugins e) d [] w1 \<noteq> None" using a Inr d True v None by (intro notI) simp
        then obtain w2 ap where ap: "applyPlugins (en_plugins e) d [] w1 = Some (w2, ap)" by fastforce
        have u: "Validate (ev_lib env) (Some c) = Inr ()" using Inr by simp
        show thesis
        proof (cases ap)
          case (Some err)
          with a u d True v None ap have "e' = e" "w' = w2" "r = Some (ApplyFailed err)" by simp_all
          with v None ap Some show thesis by (intro failed [OF \<open>p = Some c\<close> d]) simp_all
        next
          case ok: None
          with a u d True v None ap have "e' = e\<lparr>en_version := en_version e + 1,
              en_running := Some (NewSnapshot env (Some c) (en_version e + 1) author message)\<rparr>" "w' = w2" "r = None" by simp_all
          with v None ap ok show thesis by (intro committed [OF \<open>p = Some c\<close> u d True]) simp_all
        qed
      qed
    qed
  qed
qed

lemma Running_committed:
  "Running (e\<lparr>en_version := v, en_running := Some (NewSnapshot env (Some c) v author message)\<rparr>) = c"
  by (simp add: Running_def NewSnapshot_def Let_def)

text \<open>A sequence of requests to the engine, with what each returned, and the same of the store.\<close>

fun applyAll :: "engineEnv \<Rightarrow> 'w Engine \<Rightarrow> (RouterConfig option \<times> string \<times> string) list \<Rightarrow> 'w \<Rightarrow> ('w Engine \<times> 'w \<times> bool list) option" where
  "applyAll env e [] w = Some (e, w, [])"
| "applyAll env e ((p, author, message) # reqs) w =
     (case Apply env e p author message w of None \<Rightarrow> None
      | Some (e', w', r) \<Rightarrow> map_option (\<lambda>(e'', w'', oks). (e'', w'', (r = None) # oks)) (applyAll env e' reqs w'))"

inductive storeRun :: "RouterConfig \<times> 64 word \<Rightarrow> RouterConfig option list \<Rightarrow> bool list \<Rightarrow> RouterConfig \<times> 64 word \<Rightarrow> bool" where
  stop: "storeRun s [] [] s"
| more: "storeStep s p ok s' \<Longrightarrow> storeRun s' ps oks s'' \<Longrightarrow> storeRun s (p # ps) (ok # oks) s''"

lemma Apply_storeStep:
  assumes "Apply env e p author message w = Some (e', w', r)" and "goConfig (Running e)" and "pred_option goConfig p"
  shows "storeStep (absEngine e) p (r = None) (absEngine e')" and "goConfig (Running e')"
proof -
  from assms(1) have "storeStep (absEngine e) p (r = None) (absEngine e') \<and> goConfig (Running e')"
  proof (cases rule: Apply_cases)
    case (noChange c d)
    with no_change_agree [OF assms(2) _ noChange(2,3)] assms(2,3) show ?thesis by (auto simp: absEngine_def intro: storeStep.keep)
  next
    case (committed c d w1)
    then show ?thesis using assms(3) by (auto simp: absEngine_def Running_committed intro: storeStep.commit)
  qed (use assms(2) in \<open>auto simp: absEngine_def intro: storeStep.refuse\<close>)
  then show "storeStep (absEngine e) p (r = None) (absEngine e')" "goConfig (Running e')" by blast+
qed

section \<open>Systems in step with the running configuration\<close>

lemma Apply_in_sync:
  assumes "southbound (en_plugins e) inSync undoable" and "\<forall>i < length (en_plugins e). inSync i (Running e) w"
    and "Apply env e p author message w = Some (e', w', r)"
    and "\<And>err. r = Some (ApplyFailed err) \<Longrightarrow> ae_RollbackSucceeded err"
  shows "\<forall>i < length (en_plugins e'). inSync i (Running e') w'"
  using assms(3)
proof (cases rule: Apply_cases)
  case (invalid c d err)
  have "w' = w" using southbound.validate_all [OF assms(1) CloneDiff_same [OF invalid(2)], of 0] invalid(3) by simp
  then show ?thesis using assms(2) invalid(4) by simp
next
  case (failed c d w1 err)
  have v: "w1 = w" "\<forall>i < length (en_plugins e). \<exists>w0 w1. plg_ValidateChanges (en_plugins e ! i) d w0 = (w1, None)"
    using southbound.validate_all [OF assms(1) CloneDiff_same [OF failed(2)], of 0 w w1 None] failed(3) by simp_all
  then show ?thesis
    using southbound.apply_all [OF assms(1) failed(2) v(2), of 0 w w' "Some err"] failed assms(2,4) by simp
next
  case (committed c d w1)
  have v: "w1 = w" "\<forall>i < length (en_plugins e). \<exists>w0 w1. plg_ValidateChanges (en_plugins e ! i) d w0 = (w1, None)"
    using southbound.validate_all [OF assms(1) CloneDiff_same [OF committed(3)], of 0 w w1 None] committed(5) by simp_all
  then have "\<forall>i < length (en_plugins e). inSync i c w'"
    using southbound.apply_all [OF assms(1) committed(3) v(2), of 0 w w' None] committed assms(2) by simp
  then show ?thesis by (simp add: committed(7) Running_committed)
qed (use assms(2) in simp_all)

section \<open>Units without addresses\<close>

definition withEmptyUnit :: "RouterConfig \<Rightarrow> string \<Rightarrow> InterfaceConfig \<Rightarrow> int \<Rightarrow> RouterConfig" where
  "withEmptyUnit c name i n = c\<lparr>rc_Interfaces := mput name (i\<lparr>ic_Units := ic_Units i @ [(n, Some \<lparr>mu_Family = []\<rparr>)]\<rparr>) (rc_Interfaces c)\<rparr>"

lemma emptyUnit_invisible:
  assumes "goConfig c" and "mget (rc_Interfaces c) name = Some i"
    and "i' = i\<lparr>ic_Units := ic_Units i @ [(n, Some \<lparr>mu_Family = []\<rparr>)]\<rparr>"
  shows "addedInterfaces (rc_Interfaces c) (mput name i' (rc_Interfaces c)) = []" (is ?a)
    and "removedInterfaces (rc_Interfaces c) (mput name i' (rc_Interfaces c)) = []" (is ?r)
    and "changedInterfaces (rc_Interfaces c) (mput name i' (rc_Interfaces c)) = []" (is ?c)
proof -
  have ok: "keys_ok (rc_Interfaces c)" using assms(1) by (auto simp: goConfig_def dest: okMap_keys)
  have key: "name \<in> fst ` set (rc_Interfaces c)" using assms(2) by (rule mget_key)
  have "fst ` set (addedInterfaces (rc_Interfaces c) (mput name i' (rc_Interfaces c))) = {}" using key by (auto simp: added_keys)
  then show ?a by (simp only: image_is_empty set_empty)
  have "set (removedInterfaces (rc_Interfaces c) (mput name i' (rc_Interfaces c))) = {}" by (auto simp: removed_set)
  then show ?r by (simp only: set_empty)
  have same: "diffInterface k p p = None" "diffInterface k (Some i) (Some i') = None" for k p
    using assms(3) by (simp_all add: diffInterface_def containsAddress_set collectAddresses_def collectUnit_def interfaceDescription_def)
  have False if kp: "(k, p) \<in> set (changedInterfaces (rc_Interfaces c) (mput name i' (rc_Interfaces c)))" for k p
  proof -
    from kp obtain q n' ch where q: "(k, q) \<in> set (rc_Interfaces c)" "map_of (mput name i' (rc_Interfaces c)) k = Some n'"
      "diffInterface k q n' = Some ch" by (auto simp: in_changed)
    show False
    proof (cases "k = name")
      case True
      with q(1) assms(2) ok have "q = Some i" by (simp add: mget_in_set)
      moreover have "n' = Some i'" using q(2) True by (simp add: mput_def update_conv)
      ultimately show False using q(3) same by simp
    next
      case False
      with q(1,2) ok have "n' = q" by (simp add: mput_def update_conv keys_ok_def)
      then show False using q(3) same by simp
    qed
  qed
  then have "set (changedInterfaces (rc_Interfaces c) (mput name i' (rc_Interfaces c))) = {}" by (metis equals0I surj_pair)
  then show ?c by (simp only: set_empty)
qed

section \<open>Properties\<close>

text \<open>
  C33. Refinement: every sequence of \<open>Apply\<close> calls, whatever the plugins do, is a run of a versioned
  store, in which a refused request changes nothing, an accepted one either finds the content in
  agreement already or replaces it by the requested configuration under the next version.
\<close>

theorem engine_refines_store:
  assumes "applyAll env e reqs w = Some (e', w', oks)" and "goConfig (Running e)" and "list_all (\<lambda>(p, _). pred_option goConfig p) reqs"
  shows "storeRun (absEngine e) (map fst reqs) oks (absEngine e')"
  using assms
proof (induction reqs arbitrary: e w oks)
  case Nil
  then show ?case by (auto intro: storeRun.stop)
next
  case (Cons q reqs)
  obtain p author message where q: "q = (p, author, message)" by (cases q) auto
  from Cons(2) obtain e1 w1 r oks1 where s: "Apply env e p author message w = Some (e1, w1, r)"
    "applyAll env e1 reqs w1 = Some (e', w', oks1)" "oks = (r = None) # oks1"
    unfolding q by (auto split: option.splits)
  from Cons(4) q have "pred_option goConfig p" by simp
  note st = Apply_storeStep [OF s(1) Cons(3) this]
  have "storeRun (absEngine e1) (map fst reqs) oks1 (absEngine e')"
    using Cons(1) [OF s(2) st(2)] Cons(4) by simp
  with st(1) show ?case unfolding s(3) q by (auto intro: storeRun.more)
qed

definition sampleEnv :: engineEnv where
  "sampleEnv = \<lparr>ev_lib = sampleLib, ev_marshal = (\<lambda>_. []), ev_now = 0\<rparr>"

definition namedRouter :: RouterConfig where
  "namedRouter = NewRouterConfig\<lparr>rc_System := Some \<lparr>msys_HostName = ''r1'', msys_Services = None\<rparr>\<rparr>"

lemma Apply_commits:
  assumes "Validate (ev_lib env) (Some c) = Inr ()" and "ComputeDiff (oldConfig e) (Some c) = Some d" and "HasChanges d"
    and "validatePlugins (en_plugins e) d w = Some (w1, None)" and "applyPlugins (en_plugins e) d [] w1 = Some (w2, None)"
  shows "\<exists>e'. Apply env e (Some c) author message w = Some (e', w2, None) \<and> absEngine e' = (c, en_version e + 1) \<and> en_plugins e' = en_plugins e"
  using assms by (simp add: Apply_def absEngine_def Running_def NewSnapshot_def Let_def)

lemma namedRouter_accepted: "Validate (ev_lib sampleEnv) (Some namedRouter) = Inr ()"
  by code_simp

lemma namedRouter_changes: "map_option HasChanges (ComputeDiff None (Some namedRouter)) = Some True"
  by code_simp

theorem engine_refines_store_witness:
  "storeRun (absEngine (NewEngine [] :: unit Engine)) [None, Some namedRouter] [False, True] (namedRouter, 1)"
proof -
  let ?e = "NewEngine [] :: unit Engine" and ?reqs = "[(None, ''a'', ''m''), (Some namedRouter, ''a'', ''m'')]"
  obtain d where d: "ComputeDiff None (Some namedRouter) = Some d" "HasChanges d" using namedRouter_changes by auto
  then obtain e' where e: "Apply sampleEnv ?e (Some namedRouter) ''a'' ''m'' () = Some (e', (), None)" "absEngine e' = (namedRouter, 1)"
    using Apply_commits [OF namedRouter_accepted, of ?e d "()" "()" "()" "''a''" "''m''"] by (auto simp: NewEngine_def oldConfig_def)
  have a: "applyAll sampleEnv ?e ?reqs () = Some (e', (), [False, True])" using e(1) by (simp add: Apply_def [of _ _ None])
  have "goConfig (Running ?e)" "goConfig namedRouter"
    by (simp_all add: Running_def NewEngine_def namedRouter_def NewRouterConfig_def goConfig_def okMap_def)
  then show ?thesis using engine_refines_store [OF a] unfolding e(2) by simp
qed

text \<open>
  C34. A candidate that only adds a unit without addresses to an interface passes validation and is
  answered with success, but nothing is applied and the running configuration stays without it.
\<close>

theorem apply_drops_empty_unit:
  assumes "goConfig (Running e)" and "ComputeDiff (Some (Running e)) (Some (Running e)) \<noteq> None"
    and "mget (rc_Interfaces (Running e)) name = Some i" and "candidate = withEmptyUnit (Running e) name i n"
    and "Validate (ev_lib env) (Some candidate) = Inr ()"
  shows "Apply env e (Some candidate) author message w = Some (e, w, None) \<and> Running e \<noteq> candidate"
proof
  obtain d where d: "ComputeDiff (Some (Running e)) (Some candidate) = Some d" "\<not> HasChanges d"
    using interfaces_silent [OF assms(1,2) emptyUnit_invisible [OF assms(1,3) refl]] assms(4) unfolding withEmptyUnit_def by metis
  then show "Apply env e (Some candidate) author message w = Some (e, w, None)"
    using assms(5) by (simp add: Apply_def ComputeDiff_running)
  show "Running e \<noteq> candidate"
  proof
    assume eq: "Running e = candidate"
    have "mget (rc_Interfaces candidate) name = Some (i\<lparr>ic_Units := ic_Units i @ [(n, Some \<lparr>mu_Family = []\<rparr>)]\<rparr>)"
      by (simp add: assms(4) withEmptyUnit_def)
    with assms(3) eq have "i\<lparr>ic_Units := ic_Units i @ [(n, Some \<lparr>mu_Family = []\<rparr>)]\<rparr> = i" by simp
    from arg_cong [OF this, of ic_Units] show False by simp
  qed
qed

definition runningSample :: "unit Engine" where
  "runningSample = InitializeRunning sampleEnv (NewEngine []) (Some sampleRouter) 1"

theorem apply_drops_empty_unit_witness:
  "\<exists>candidate. Apply sampleEnv runningSample (Some candidate) ''alice'' ''add unit 7'' () = Some (runningSample, (), None) \<and>
     Running runningSample \<noteq> candidate"
proof -
  have r: "Running runningSample = sampleRouter"
    by (simp add: runningSample_def InitializeRunning_def NewSnapshot_def Running_def Let_def)
  let ?i = "\<lparr>ic_Description = [], ic_Units = []\<rparr>"
  have v: "Validate (ev_lib sampleEnv) (Some (withEmptyUnit sampleRouter ''lo0'' ?i 7)) = Inr ()" by code_simp
  have i: "mget (rc_Interfaces sampleRouter) ''lo0'' = Some ?i" by code_simp
  show ?thesis using apply_drops_empty_unit [of runningSample "''lo0''" ?i _ 7 sampleEnv] sampleRouter_go sampleRouter_self i v unfolding r by blast
qed

end
