(* ===== verification/ClusterSync.thy ===== *)
theory ClusterSync
  imports EngineLaws
begin

text \<open>
  cmd/arca-routerd/cluster\_sync.go: the plugin that refuses a configuration whose etcd endpoints
  are not those the daemon was started with. Its ApplyChanges and RollbackChanges do nothing. The
  datastore configuration is that of pkg/datastore/schema.go.
\<close>

record TLSConfig =
  tls_CertFile :: string
  tls_KeyFile :: string
  tls_CAFile :: string

record datastoreConfig =
  dc_Backend :: string
  dc_SQLitePath :: string
  dc_EtcdEndpoints :: "string list"
  dc_EtcdPrefix :: string
  dc_EtcdTimeout :: int
  dc_EtcdUsername :: string
  dc_EtcdPassword :: string
  dc_EtcdTLS :: "TLSConfig option"

definition BackendEtcd :: string where "BackendEtcd = ''etcd''"

definition clusterEtcdEndpoints :: "RouterConfig \<Rightarrow> string list" where
  "clusterEtcdEndpoints cfg = (case Option.bind (rc_Chassis cfg) mch_Cluster of None \<Rightarrow> []
     | Some cl \<Rightarrow> if \<not> mcl_Enabled cl then [] else
         (case Option.bind (mcl_Sync cl) mcs_Etcd of None \<Rightarrow> [] | Some e \<Rightarrow> mes_Endpoints e))"

fun normalizeLoop :: "string list \<Rightarrow> string list \<Rightarrow> string list" where
  "normalizeLoop [] seen = seen"
| "normalizeLoop (endpoint # rest) seen =
     (let endpoint = TrimSpace endpoint in
      if endpoint = [] \<or> endpoint \<in> set seen then normalizeLoop rest seen else normalizeLoop rest (seen @ [endpoint]))"

definition normalizedEndpoints :: "string list \<Rightarrow> string list" where
  "normalizedEndpoints endpoints = sort (normalizeLoop endpoints [])"

definition sameEndpoints :: "string list \<Rightarrow> string list \<Rightarrow> bool" where
  "sameEndpoints a b \<longleftrightarrow> length a = length b \<and> list_all (\<lambda>i. a ! i = b ! i) [0..<length a]"

definition clusterValidate :: "datastoreConfig option \<Rightarrow> ConfigDiff \<Rightarrow> 'w \<Rightarrow> 'w \<times> string option" where
  "clusterValidate dc d w =
     (let endpoints = clusterEtcdEndpoints (cd_NewConfig d) in
      if endpoints = [] then (w, None)
      else case dc of None \<Rightarrow> (w, Some ''chassis cluster sync etcd requires daemon datastore configuration'')
      | Some cfg \<Rightarrow>
          if dc_Backend cfg \<noteq> BackendEtcd then
            (w, Some (''chassis cluster sync etcd requires --datastore-backend=etcd (current: '' @ dc_Backend cfg @ '')''))
          else let configured = normalizedEndpoints endpoints; daemon = normalizedEndpoints (dc_EtcdEndpoints cfg) in
            if \<not> sameEndpoints configured daemon then
              (w, Some (''chassis cluster sync etcd endpoints '' @ JoinWith '','' configured @ '' do not match daemon --etcd-endpoints '' @
                 JoinWith '','' daemon))
            else (w, None))"

definition clusterSyncPlugin :: "datastoreConfig option \<Rightarrow> 'w Plugin" where
  "clusterSyncPlugin dc = \<lparr>plg_Name = ''cluster-sync'', plg_Init = (\<lambda>w. (w, None)), plg_Close = (\<lambda>w. (w, None)),
     plg_HealthCheck = (\<lambda>w. (w, None)), plg_ValidateChanges = clusterValidate dc, plg_ApplyChanges = (\<lambda>d w. (w, None)),
     plg_RollbackChanges = (\<lambda>d w. (w, None))\<rparr>"

section \<open>Endpoints\<close>

text \<open>The endpoints that count: trimmed and not empty.\<close>

definition endpointSet :: "string list \<Rightarrow> string set" where
  "endpointSet es = TrimSpace ` set es - {[]}"

lemma normalizeLoop_set: "set (normalizeLoop es seen) = set seen \<union> endpointSet es"
  by (induction es seen rule: normalizeLoop.induct) (auto simp: Let_def endpointSet_def)

lemma normalizeLoop_distinct: "distinct seen \<Longrightarrow> distinct (normalizeLoop es seen)"
  by (induction es seen rule: normalizeLoop.induct) (auto simp: Let_def)

lemma sameEndpoints_eq: "sameEndpoints a b \<longleftrightarrow> a = b"
  by (auto simp: sameEndpoints_def list_all_iff intro: nth_equalityI)

lemma normalized_same: "normalizedEndpoints a = normalizedEndpoints b \<longleftrightarrow> endpointSet a = endpointSet b"
proof
  assume "normalizedEndpoints a = normalizedEndpoints b"
  then have "set (normalizedEndpoints a) = set (normalizedEndpoints b)" by simp
  then show "endpointSet a = endpointSet b" by (simp add: normalizedEndpoints_def normalizeLoop_set)
next
  assume "endpointSet a = endpointSet b"
  then show "normalizedEndpoints a = normalizedEndpoints b"
    by (simp add: normalizedEndpoints_def normalizeLoop_set normalizeLoop_distinct sort_distinct_set)
qed

text \<open>The daemon serves a configuration: it names no etcd endpoints, or the daemon runs on etcd with the same set.\<close>

definition serves :: "datastoreConfig option \<Rightarrow> RouterConfig \<Rightarrow> bool" where
  "serves dc c \<longleftrightarrow> clusterEtcdEndpoints c = [] \<or>
     (\<exists>cfg. dc = Some cfg \<and> dc_Backend cfg = BackendEtcd \<and> endpointSet (clusterEtcdEndpoints c) = endpointSet (dc_EtcdEndpoints cfg))"

lemma clusterValidate_accepts: "snd (clusterValidate dc d w) = None \<longleftrightarrow> serves dc (cd_NewConfig d)"
  by (auto simp: clusterValidate_def serves_def Let_def sameEndpoints_eq normalized_same split: option.splits)

lemma clusterValidate_pure: "fst (clusterValidate dc d w) = w"
  by (simp add: clusterValidate_def Let_def split: option.splits)

text \<open>The plugin keeps the contract: a configuration is in step with it where the daemon serves it.\<close>

interpretation cluster: southbound "[clusterSyncPlugin dc]" "\<lambda>i c w. serves dc c" "\<lambda>i c w. serves dc c" for dc
proof unfold_locales
  fix i d w w' r
  assume "i < length [clusterSyncPlugin dc]" "plg_ValidateChanges ([clusterSyncPlugin dc] ! i) d w = (w', r)"
  then show "w' = w" using clusterValidate_pure [of dc d w] by (simp add: clusterSyncPlugin_def)
next
  fix i old w new d w0 w1 w'
  assume "i < length [clusterSyncPlugin dc]" "ComputeDiff (Some old) (Some new) = Some d"
    "plg_ValidateChanges ([clusterSyncPlugin dc] ! i) d w0 = (w1, None)"
  moreover from this have "cd_NewConfig d = new" using ComputeDiff_fields(1) [of old new d] by (simp add: heads_def)
  ultimately show "serves dc new" using clusterValidate_accepts [of dc d w0] by (simp add: clusterSyncPlugin_def)
qed simp_all


section \<open>Properties\<close>













end
