(* ===== verification/Datastore.thy ===== *)
theory Datastore
  imports Secrets "HOL-Library.AList"
begin

text \<open>
  The SQLite configuration datastore (src/pkg/datastore: sqlite\_lock.go, sqlite\_commit.go,
  sqlite\_config.go, the transactions and clean-up of sqlite.go, the types of schema.go). A table of
  the schema is a list of rows, in order of insertion, or a list of keyed rows where the key is the
  primary key; a statement is a function on the tables that is None where a constraint of the
  schema is violated. The driver is a parameter: the start of a transaction, each of its statements,
  numbered within the operation, and its end may fail with an error text. A transaction that fails
  leaves the tables as they were, also where its end fails. Times are nanoseconds since the epoch, the clock
  and the commit identifiers are arguments. The columns id and timestamp of the audit log, which
  SQLite fills in, are left out, as are reads of history with paging.
\<close>

section \<open>Errors (schema.go)\<close>

datatype ErrorCode = ErrCodeNotFound | ErrCodeConflict | ErrCodeValidation | ErrCodeTimeout | ErrCodeInternal | ErrCodeUnauthorized

datatype errorCause = Driver string | Secret secretError

record Error =
  er_Code :: ErrorCode
  er_Message :: string
  er_Cause :: "errorCause option"

definition NewError :: "ErrorCode \<Rightarrow> string \<Rightarrow> errorCause option \<Rightarrow> Error" where
  "NewError code message cause = \<lparr>er_Code = code, er_Message = message, er_Cause = cause\<rparr>"

section \<open>Requests and results (schema.go)\<close>

definition LockTargetCandidate :: string where "LockTargetCandidate = ''candidate''"

definition LockTargetRunning :: string where "LockTargetRunning = ''running''"

record RunningConfig =
  run_CommitID :: string
  run_ConfigText :: string
  run_Timestamp :: int

record CandidateConfig =
  cand_SessionID :: string
  cand_ConfigText :: string
  cand_CreatedAt :: int
  cand_UpdatedAt :: int

record CommitRequest =
  creq_SessionID :: string
  creq_User :: string
  creq_Message :: string
  creq_SourceIP :: string
  creq_CorrelationID :: string

record RollbackRequest =
  rreq_SessionID :: string
  rreq_CommitID :: string
  rreq_User :: string
  rreq_Message :: string
  rreq_SourceIP :: string
  rreq_CorrelationID :: string

record LockRequest =
  lreq_Target :: string
  lreq_SessionID :: string
  lreq_User :: string
  lreq_Timeout :: int

record StealLockRequest =
  sreq_Target :: string
  sreq_NewSessionID :: string
  sreq_User :: string
  sreq_TargetSessionID :: string
  sreq_Reason :: string

record LockInfo =
  li_IsLocked :: bool
  li_SessionID :: string
  li_User :: string
  li_AcquiredAt :: "int option"
  li_ExpiresAt :: "int option"

record CommitHistoryEntry =
  hist_CommitID :: string
  hist_User :: string
  hist_Timestamp :: int
  hist_Message :: string
  hist_ConfigText :: string
  hist_IsRollback :: bool
  hist_SourceIP :: string

definition ValidateLockTarget :: "string \<Rightarrow> Error option" where
  "ValidateLockTarget target =
     (if target \<noteq> LockTargetCandidate \<and> target \<noteq> LockTargetRunning
      then Some (NewError ErrCodeValidation (''invalid lock target: must be '' @ [CHR 0x27] @ ''candidate'' @ [CHR 0x27] @ '' or '' @
        [CHR 0x27] @ ''running'' @ [CHR 0x27]) None)
      else None)"

text \<open>The validations return the request that the pointer refers to.\<close>

definition validateLockRequest :: "LockRequest option \<Rightarrow> Error + LockRequest" where
  "validateLockRequest p =
     (case p of None \<Rightarrow> Inl (NewError ErrCodeValidation ''lock request is nil'' None)
      | Some req \<Rightarrow> (case ValidateLockTarget (lreq_Target req) of Some e \<Rightarrow> Inl e | None \<Rightarrow> Inr req))"

definition validateCommitRequest :: "CommitRequest option \<Rightarrow> Error + CommitRequest" where
  "validateCommitRequest p =
     (case p of None \<Rightarrow> Inl (NewError ErrCodeValidation ''commit request is nil'' None) | Some req \<Rightarrow> Inr req)"

definition validateRollbackRequest :: "RollbackRequest option \<Rightarrow> Error + RollbackRequest" where
  "validateRollbackRequest p =
     (case p of None \<Rightarrow> Inl (NewError ErrCodeValidation ''rollback request is nil'' None) | Some req \<Rightarrow> Inr req)"

section \<open>Tables (migrations/001\_init.sql, 002\_target\_based\_locks.sql)\<close>

record RunningRow =
  rr_commit_id :: string
  rr_config_text :: string
  rr_timestamp :: int
  rr_is_current :: bool

record CandidateRow =
  cr_config_text :: string
  cr_created_at :: int
  cr_updated_at :: int

record LockRow =
  lk_session_id :: string
  lk_user :: string
  lk_acquired_at :: int
  lk_expires_at :: int
  lk_last_activity :: int

record AuditRow =
  au_user :: string
  au_session_id :: string
  au_source_ip :: "string option"
  au_correlation_id :: "string option"
  au_action :: string
  au_result :: string
  au_error_code :: "string option"
  au_details :: string

record db =
  db_running :: "RunningRow list"
  db_candidates :: "(string \<times> CandidateRow) list"
  db_history :: "CommitHistoryEntry list"
  db_locks :: "(string \<times> LockRow) list"
  db_audit :: "AuditRow list"

definition emptyDB :: db where
  "emptyDB = \<lparr>db_running = [], db_candidates = [], db_history = [], db_locks = [], db_audit = []\<rparr>"

subsection \<open>Statements\<close>

definition insertLock :: "string \<Rightarrow> LockRow \<Rightarrow> db \<Rightarrow> db option" where
  "insertLock target row d =
     (if map_of (db_locks d) target \<noteq> None \<or> target \<notin> {LockTargetCandidate, LockTargetRunning} then None
      else Some (d\<lparr>db_locks := db_locks d @ [(target, row)]\<rparr>))"

definition replaceLock :: "string \<Rightarrow> LockRow \<Rightarrow> db \<Rightarrow> db option" where
  "replaceLock target row d =
     (if target \<notin> {LockTargetCandidate, LockTargetRunning} then None
      else Some (d\<lparr>db_locks := AList.update target row (db_locks d)\<rparr>))"

definition deleteLock :: "string \<Rightarrow> db \<Rightarrow> db option" where
  "deleteLock target d = Some (d\<lparr>db_locks := AList.delete target (db_locks d)\<rparr>)"

definition deleteLockOf :: "string \<Rightarrow> string \<Rightarrow> db \<Rightarrow> db option" where
  "deleteLockOf target session d =
     Some (d\<lparr>db_locks := filter (\<lambda>(t, l). \<not> (t = target \<and> lk_session_id l = session)) (db_locks d)\<rparr>)"

definition extendLockRow :: "string \<Rightarrow> int \<Rightarrow> int \<Rightarrow> db \<Rightarrow> db option" where
  "extendLockRow target expires activity d =
     Some (d\<lparr>db_locks := map (\<lambda>(t, l). (t, if t = target then l\<lparr>lk_expires_at := expires, lk_last_activity := activity\<rparr> else l)) (db_locks d)\<rparr>)"

definition clearCurrent :: "db \<Rightarrow> db option" where
  "clearCurrent d = Some (d\<lparr>db_running := map (\<lambda>r. r\<lparr>rr_is_current := False\<rparr>) (db_running d)\<rparr>)"

definition insertRunning :: "string \<Rightarrow> string \<Rightarrow> int \<Rightarrow> db \<Rightarrow> db option" where
  "insertRunning commitID text now d =
     (if commitID \<in> rr_commit_id ` set (db_running d) \<or> list_ex rr_is_current (db_running d) then None
      else Some (d\<lparr>db_running := db_running d @ [\<lparr>rr_commit_id = commitID, rr_config_text = text, rr_timestamp = now, rr_is_current = True\<rparr>]\<rparr>))"

definition insertHistory :: "CommitHistoryEntry \<Rightarrow> db \<Rightarrow> db option" where
  "insertHistory h d =
     (if hist_CommitID h \<in> hist_CommitID ` set (db_history d) then None else Some (d\<lparr>db_history := db_history d @ [h]\<rparr>))"

definition upsertCandidate :: "string \<Rightarrow> string \<Rightarrow> int \<Rightarrow> db \<Rightarrow> db option" where
  "upsertCandidate session text now d =
     Some (d\<lparr>db_candidates := AList.update session
       (case map_of (db_candidates d) session of
          None \<Rightarrow> \<lparr>cr_config_text = text, cr_created_at = now, cr_updated_at = now\<rparr>
        | Some c \<Rightarrow> c\<lparr>cr_config_text := text, cr_updated_at := now\<rparr>) (db_candidates d)\<rparr>)"

definition deleteCandidate :: "string \<Rightarrow> db \<Rightarrow> db option" where
  "deleteCandidate session d = Some (d\<lparr>db_candidates := AList.delete session (db_candidates d)\<rparr>)"

definition audit :: "AuditRow \<Rightarrow> db \<Rightarrow> db option" where
  "audit row d = Some (d\<lparr>db_audit := db_audit d @ [row]\<rparr>)"

definition auditRow :: "string \<Rightarrow> string \<Rightarrow> string \<Rightarrow> string \<Rightarrow> AuditRow" where
  "auditRow user session action details = \<lparr>au_user = user, au_session_id = session, au_source_ip = None, au_correlation_id = None,
     au_action = action, au_result = ''success'', au_error_code = None, au_details = details\<rparr>"

section \<open>Times\<close>

definition second :: int where "second = 1000000000"

definition minute :: int where "minute = 60 * second"

text \<open>\<open>time.Time.Unix\<close>.\<close>

definition Unix :: "int \<Rightarrow> int" where "Unix t = t div second"

text \<open>\<open>time.Duration.String\<close>; the sign of microseconds is the UTF-8 form of U+00B5.\<close>

fun trimZeros :: "string \<Rightarrow> string" where
  "trimZeros s = (if s \<noteq> [] \<and> last s = CHR ''0'' then trimZeros (butlast s) else s)"

declare trimZeros.simps [simp del]

definition fracText :: "nat \<Rightarrow> nat \<Rightarrow> string" where
  "fracText prec n =
     (let digits = trimZeros (map (\<lambda>i. digitChar (n div 10 ^ (prec - Suc i) mod 10)) [0..<prec])
      in if digits = [] then [] else CHR ''.'' # digits)"

definition unsignedDuration :: "nat \<Rightarrow> string" where
  "unsignedDuration u =
     (let part = (\<lambda>prec. formatNat (u div 10 ^ prec) @ fracText prec (u mod 10 ^ prec))
      in if u = 0 then ''0s''
         else if u < 1000 then part 0 @ ''ns''
         else if u < 1000000 then part 3 @ [CHR 0xC2, CHR 0xB5] @ ''s''
         else if u < 1000000000 then part 6 @ ''ms''
         else let s = u div 10 ^ 9; f = fracText 9 (u mod 10 ^ 9); m = s div 60; h = m div 60
              in (if h = 0 then [] else formatNat h @ ''h'') @ (if m = 0 then [] else formatNat (m mod 60) @ ''m'') @
                 formatNat (s mod 60) @ f @ ''s'')"

definition DurationString :: "int \<Rightarrow> string" where
  "DurationString d = (if d < 0 then CHR ''-'' # unsignedDuration (nat (- d)) else unsignedDuration (nat d))"

section \<open>Transactions (sqlite.go)\<close>

record faults =
  ft_begin :: "string option"
  ft_stmt :: "nat \<Rightarrow> string option"
  ft_constraint :: string
  ft_commit :: "string option"

type_synonym 'a tx = "db \<Rightarrow> Error + db \<times> 'a"

definition query :: "faults \<Rightarrow> nat \<Rightarrow> string \<Rightarrow> (db \<Rightarrow> 'b) \<Rightarrow> ('b \<Rightarrow> 'a tx) \<Rightarrow> 'a tx" where
  "query ft n message sel k d =
     (case ft_stmt ft n of Some c \<Rightarrow> Inl (NewError ErrCodeInternal message (Some (Driver c))) | None \<Rightarrow> k (sel d) d)"

definition exec :: "faults \<Rightarrow> nat \<Rightarrow> string \<Rightarrow> (db \<Rightarrow> db option) \<Rightarrow> 'a tx \<Rightarrow> 'a tx" where
  "exec ft n message f k d =
     (case ft_stmt ft n of Some c \<Rightarrow> Inl (NewError ErrCodeInternal message (Some (Driver c)))
      | None \<Rightarrow> (case f d of None \<Rightarrow> Inl (NewError ErrCodeInternal message (Some (Driver (ft_constraint ft)))) | Some d' \<Rightarrow> k d'))"

definition fail :: "ErrorCode \<Rightarrow> string \<Rightarrow> 'a tx" where
  "fail code message d = Inl (NewError code message None)"

definition succeed :: "'a \<Rightarrow> 'a tx" where
  "succeed x d = Inr (d, x)"

definition withTx :: "faults \<Rightarrow> 'a tx \<Rightarrow> db \<Rightarrow> db \<times> (Error + 'a)" where
  "withTx ft fn d =
     (case ft_begin ft of Some c \<Rightarrow> (d, Inl (NewError ErrCodeInternal ''failed to begin transaction'' (Some (Driver c))))
      | None \<Rightarrow> (case fn d of Inl e \<Rightarrow> (d, Inl e)
      | Inr (d', x) \<Rightarrow> (case ft_commit ft of
            Some c \<Rightarrow> (d, Inl (NewError ErrCodeInternal ''failed to commit transaction'' (Some (Driver c))))
          | None \<Rightarrow> (d', Inr x))))"

section \<open>Locks (sqlite\_lock.go)\<close>

definition insertNewLock :: "faults \<Rightarrow> int \<Rightarrow> int \<Rightarrow> LockRequest \<Rightarrow> unit tx" where
  "insertNewLock ft now timeout req =
     exec ft 3 (''failed to acquire '' @ lreq_Target req @ '' lock'')
       (insertLock (lreq_Target req) \<lparr>lk_session_id = lreq_SessionID req, lk_user = lreq_User req, lk_acquired_at = Unix now,
          lk_expires_at = Unix (now + timeout), lk_last_activity = Unix now\<rparr>)
     (exec ft 4 (''failed to log '' @ lreq_Target req @ '' lock acquisition audit event'')
       (audit (auditRow (lreq_User req) (lreq_SessionID req) ''lock_acquire''
          (''target='' @ lreq_Target req @ '', timeout='' @ DurationString timeout)))
     (succeed ()))"

definition AcquireLock :: "faults \<Rightarrow> int \<Rightarrow> LockRequest option \<Rightarrow> db \<Rightarrow> db \<times> (Error + unit)" where
  "AcquireLock ft now p d =
     (case validateLockRequest p of Inl e \<Rightarrow> (d, Inl e)
      | Inr req \<Rightarrow>
     (let target = lreq_Target req; timeout = (if lreq_Timeout req = 0 then 30 * minute else lreq_Timeout req)
      in withTx ft
        (query ft 0 (''failed to check '' @ target @ '' lock'') (\<lambda>d. map_of (db_locks d) target)
          (\<lambda>row. case row of None \<Rightarrow> insertNewLock ft now timeout req
           | Some l \<Rightarrow>
               if lk_expires_at l < Unix now then
                 exec ft 1 (''failed to delete expired '' @ target @ '' lock'') (deleteLock target) (insertNewLock ft now timeout req)
               else if lk_session_id l = lreq_SessionID req then
                 exec ft 1 (''failed to extend '' @ target @ '' lock'') (extendLockRow target (Unix (now + timeout)) (Unix now))
                 (exec ft 2 (''failed to log '' @ target @ '' lock extension audit event'')
                   (audit (auditRow (lk_user l) (lreq_SessionID req) ''lock_extend'' (''target='' @ target @ '', duration='' @ DurationString timeout)))
                 (succeed ()))
               else fail ErrCodeConflict (target @ '' lock already held by session '' @ lk_session_id l @ '' (user: '' @ lk_user l @ '')''))) d))"

definition ReleaseLock :: "faults \<Rightarrow> int \<Rightarrow> string \<Rightarrow> string \<Rightarrow> db \<Rightarrow> db \<times> (Error + unit)" where
  "ReleaseLock ft now target session d =
     (case ValidateLockTarget target of Some e \<Rightarrow> (d, Inl e)
      | None \<Rightarrow> withTx ft
        (query ft 0 (''failed to check '' @ target @ '' lock ownership'') (\<lambda>d. map_of (db_locks d) target)
          (\<lambda>row. case row of None \<Rightarrow> succeed ()
           | Some l \<Rightarrow>
               if lk_expires_at l < Unix now then
                 exec ft 1 (''failed to delete expired '' @ target @ '' lock'') (deleteLock target) (succeed ())
               else if lk_session_id l \<noteq> session then
                 fail ErrCodeConflict (target @ '' lock is held by another session '' @ lk_session_id l)
               else exec ft 1 (''failed to release '' @ target @ '' lock'') (deleteLock target)
                 (exec ft 2 (''failed to log '' @ target @ '' lock release audit event'')
                   (audit (auditRow (lk_user l) session ''lock_release'' (''target='' @ target))) (succeed ())))) d)"

definition ExtendLock :: "faults \<Rightarrow> int \<Rightarrow> string \<Rightarrow> string \<Rightarrow> int \<Rightarrow> db \<Rightarrow> db \<times> (Error + unit)" where
  "ExtendLock ft now target session duration d =
     (case ValidateLockTarget target of Some e \<Rightarrow> (d, Inl e)
      | None \<Rightarrow>
     (let duration = (if duration = 0 then 30 * minute else duration)
      in withTx ft
        (query ft 0 (''failed to check '' @ target @ '' lock'') (\<lambda>d. map_of (db_locks d) target)
          (\<lambda>row. case row of None \<Rightarrow> fail ErrCodeNotFound (''no '' @ target @ '' lock to extend'')
           | Some l \<Rightarrow>
               if lk_expires_at l < Unix now then
                 fail ErrCodeConflict (target @ '' lock has expired, cannot extend (re-acquire lock instead)'')
               else if lk_session_id l \<noteq> session then
                 fail ErrCodeConflict (target @ '' lock is held by another session '' @ lk_session_id l)
               else exec ft 1 (''failed to extend '' @ target @ '' lock'') (extendLockRow target (Unix (now + duration)) (Unix now))
                 (exec ft 2 (''failed to log '' @ target @ '' lock extension audit event'')
                   (audit (auditRow (lk_user l) session ''lock_extend'' (''target='' @ target @ '', duration='' @ DurationString duration)))
                 (succeed ())))) d))"

text \<open>\<open>StealLock\<close> dereferences its request without a check; the argument is the request itself.\<close>

definition StealLock :: "faults \<Rightarrow> int \<Rightarrow> StealLockRequest \<Rightarrow> db \<Rightarrow> db \<times> (Error + unit)" where
  "StealLock ft now req d =
     (let target = sreq_Target req in
      case ValidateLockTarget target of Some e \<Rightarrow> (d, Inl e)
      | None \<Rightarrow> withTx ft
        (query ft 0 (''failed to check existing '' @ target @ '' lock'') (\<lambda>d. map_of (db_locks d) target)
          (\<lambda>row. let old = (case row of None \<Rightarrow> ([], []) | Some l \<Rightarrow> (lk_session_id l, lk_user l)) in
             exec ft 1 (''failed to steal '' @ target @ '' lock'')
               (replaceLock target \<lparr>lk_session_id = sreq_NewSessionID req, lk_user = sreq_User req, lk_acquired_at = Unix now,
                  lk_expires_at = Unix (now + 30 * minute), lk_last_activity = Unix now\<rparr>)
             (exec ft 2 (''failed to log '' @ target @ '' lock steal audit event'')
               (audit (auditRow (sreq_User req) (sreq_NewSessionID req) ''lock_steal''
                 (''target='' @ target @ (if fst old = [] then [] else
                    '', stolen from session='' @ fst old @ '' (user='' @ snd old @ ''), reason='' @ sreq_Reason req))))
             (succeed ())))) d)"

definition unlocked :: LockInfo where
  "unlocked = \<lparr>li_IsLocked = False, li_SessionID = [], li_User = [], li_AcquiredAt = None, li_ExpiresAt = None\<rparr>"

definition GetLockInfo :: "faults \<Rightarrow> int \<Rightarrow> string \<Rightarrow> db \<Rightarrow> Error + LockInfo" where
  "GetLockInfo ft now target d =
     (case ValidateLockTarget target of Some e \<Rightarrow> Inl e
      | None \<Rightarrow> (case ft_stmt ft 0 of Some c \<Rightarrow> Inl (NewError ErrCodeInternal (''failed to get '' @ target @ '' lock info'') (Some (Driver c)))
      | None \<Rightarrow> (case map_of (db_locks d) target of None \<Rightarrow> Inr unlocked
      | Some l \<Rightarrow>
          if lk_expires_at l * second < now then Inr unlocked
          else Inr \<lparr>li_IsLocked = True, li_SessionID = lk_session_id l, li_User = lk_user l,
                   li_AcquiredAt = Some (lk_acquired_at l * second), li_ExpiresAt = Some (lk_expires_at l * second)\<rparr>)))"

section \<open>Configurations (sqlite\_config.go)\<close>

definition GetRunning :: "faults \<Rightarrow> db \<Rightarrow> Error + RunningConfig" where
  "GetRunning ft d =
     (case ft_stmt ft 0 of Some c \<Rightarrow> Inl (NewError ErrCodeInternal ''failed to get running config'' (Some (Driver c)))
      | None \<Rightarrow> (case find rr_is_current (db_running d) of
          None \<Rightarrow> Inl (NewError ErrCodeNotFound ''no running configuration found'' None)
        | Some r \<Rightarrow> Inr \<lparr>run_CommitID = rr_commit_id r, run_ConfigText = rr_config_text r, run_Timestamp = rr_timestamp r\<rparr>))"

definition GetCandidate :: "faults \<Rightarrow> string \<Rightarrow> db \<Rightarrow> Error + CandidateConfig" where
  "GetCandidate ft session d =
     (case ft_stmt ft 0 of Some c \<Rightarrow> Inl (NewError ErrCodeInternal ''failed to get candidate config'' (Some (Driver c)))
      | None \<Rightarrow> (case map_of (db_candidates d) session of
          None \<Rightarrow> Inl (NewError ErrCodeNotFound ''no candidate configuration found for session'' None)
        | Some c \<Rightarrow> Inr \<lparr>cand_SessionID = session, cand_ConfigText = cr_config_text c, cand_CreatedAt = cr_created_at c,
                        cand_UpdatedAt = cr_updated_at c\<rparr>))"

definition SaveCandidate :: "hasher \<Rightarrow> faults \<Rightarrow> int \<Rightarrow> string \<Rightarrow> string \<Rightarrow> db \<Rightarrow> db \<times> (Error + unit)" where
  "SaveCandidate hash ft now session configText d =
     (case ProtectSecretsInSetCommands hash configText of
        Inl e \<Rightarrow> (d, Inl (NewError ErrCodeValidation ''failed to protect sensitive candidate config values'' (Some (Secret e))))
      | Inr protectedText \<Rightarrow> withTx ft
          (exec ft 0 ''failed to save candidate config'' (upsertCandidate session protectedText now) (succeed ())) d)"

definition DeleteCandidate :: "faults \<Rightarrow> string \<Rightarrow> db \<Rightarrow> db \<times> (Error + unit)" where
  "DeleteCandidate ft session d = withTx ft
     (exec ft 0 ''failed to delete candidate config'' (deleteCandidate session)
     (query ft 1 ''failed to check delete result'' (\<lambda>_. ()) (\<lambda>_. succeed ()))) d"

section \<open>Commits (sqlite\_commit.go)\<close>

text \<open>The check of the candidate lock that \<open>Commit\<close> and \<open>Rollback\<close> share, with the verb of its messages.\<close>

definition requireLock :: "faults \<Rightarrow> int \<Rightarrow> string \<Rightarrow> string \<Rightarrow> 'a tx \<Rightarrow> 'a tx" where
  "requireLock ft now verb session k =
     query ft 0 ''failed to check lock ownership'' (\<lambda>d. map_of (db_locks d) LockTargetCandidate)
       (\<lambda>row. case row of
          None \<Rightarrow> fail ErrCodeConflict (''cannot '' @ verb @ '': no config lock held (lock must be acquired before '' @ verb @ '')'')
        | Some l \<Rightarrow>
            if lk_expires_at l < Unix now then
              fail ErrCodeConflict (''cannot '' @ verb @ '': config lock has expired (re-acquire lock before '' @ verb @ '')'')
            else if lk_session_id l \<noteq> session then
              fail ErrCodeConflict (''cannot '' @ verb @ '': config lock is held by another session ('' @ lk_session_id l @ '')'')
            else k)"

definition commitAudit :: "string \<Rightarrow> string \<Rightarrow> string \<Rightarrow> string \<Rightarrow> string \<Rightarrow> string \<Rightarrow> AuditRow" where
  "commitAudit user session sourceIP correlation action details = (auditRow user session action details)
     \<lparr>au_source_ip := Some sourceIP, au_correlation_id := Some correlation\<rparr>"

definition CommitTx :: "faults \<Rightarrow> int \<Rightarrow> string \<Rightarrow> CommitRequest \<Rightarrow> string tx" where
  "CommitTx ft now commitID req =
     (let session = creq_SessionID req in
      requireLock ft now ''commit'' session
     (query ft 1 ''failed to get candidate config'' (\<lambda>d. map_of (db_candidates d) session)
       (\<lambda>row. case row of None \<Rightarrow> fail ErrCodeNotFound ''no candidate configuration found for session''
        | Some candidate \<Rightarrow>
          exec ft 2 ''failed to update running config flags'' clearCurrent
         (exec ft 3 ''failed to insert new running config'' (insertRunning commitID (cr_config_text candidate) now)
         (exec ft 4 ''failed to insert commit history''
            (insertHistory \<lparr>hist_CommitID = commitID, hist_User = creq_User req, hist_Timestamp = now, hist_Message = creq_Message req,
               hist_ConfigText = cr_config_text candidate, hist_IsRollback = False, hist_SourceIP = creq_SourceIP req\<rparr>)
         (exec ft 5 ''failed to delete candidate config'' (deleteCandidate session)
         (exec ft 6 ''failed to release lock'' (deleteLockOf LockTargetCandidate session)
         (exec ft 7 ''failed to log audit event''
            (audit (commitAudit (creq_User req) session (creq_SourceIP req) (creq_CorrelationID req) ''commit'' (''commit_id: '' @ commitID)))
         (succeed commitID)))))))))"

definition Commit :: "faults \<Rightarrow> int \<Rightarrow> string \<Rightarrow> CommitRequest option \<Rightarrow> db \<Rightarrow> db \<times> (Error + string)" where
  "Commit ft now commitID p d =
     (case validateCommitRequest p of Inl e \<Rightarrow> (d, Inl e) | Inr req \<Rightarrow> withTx ft (CommitTx ft now commitID req) d)"

definition GetCommit :: "faults \<Rightarrow> string \<Rightarrow> db \<Rightarrow> Error + CommitHistoryEntry" where
  "GetCommit ft commitID d =
     (case ft_stmt ft 8 of Some c \<Rightarrow> Inl (NewError ErrCodeInternal ''failed to get commit'' (Some (Driver c)))
      | None \<Rightarrow> (case find (\<lambda>h. hist_CommitID h = commitID) (db_history d) of
          None \<Rightarrow> Inl (NewError ErrCodeNotFound ''commit not found'' None) | Some h \<Rightarrow> Inr h))"

definition RollbackTx :: "faults \<Rightarrow> int \<Rightarrow> string \<Rightarrow> CommitHistoryEntry \<Rightarrow> RollbackRequest \<Rightarrow> string tx" where
  "RollbackTx ft now newCommitID targetCommit req =
     (let session = rreq_SessionID req;
          message = (if rreq_Message req = [] then ''rollback to commit '' @ rreq_CommitID req else rreq_Message req) in
      if session = [] then fail ErrCodeConflict ''cannot rollback: no config lock held (lock must be acquired before rollback)''
      else requireLock ft now ''rollback'' session
     (exec ft 1 ''failed to update running config flags'' clearCurrent
     (exec ft 2 ''failed to insert rollback running config'' (insertRunning newCommitID (hist_ConfigText targetCommit) now)
     (exec ft 3 ''failed to insert rollback history''
        (insertHistory \<lparr>hist_CommitID = newCommitID, hist_User = rreq_User req, hist_Timestamp = now, hist_Message = message,
           hist_ConfigText = hist_ConfigText targetCommit, hist_IsRollback = True, hist_SourceIP = rreq_SourceIP req\<rparr>)
     (exec ft 4 ''failed to release lock'' (deleteLockOf LockTargetCandidate session)
     (exec ft 5 ''failed to log audit event''
        (audit (commitAudit (rreq_User req) session (rreq_SourceIP req) (rreq_CorrelationID req) ''rollback''
          (''new_commit_id: '' @ newCommitID @ '', target_commit_id: '' @ rreq_CommitID req)))
     (succeed newCommitID)))))))"

text \<open>
  The target of a rollback is read before the transaction. The history only grows and its rows are
  never changed, so the row is the same at the time of the transaction.
\<close>

definition Rollback :: "faults \<Rightarrow> int \<Rightarrow> string \<Rightarrow> RollbackRequest option \<Rightarrow> db \<Rightarrow> db \<times> (Error + string)" where
  "Rollback ft now newCommitID p d =
     (case validateRollbackRequest p of Inl e \<Rightarrow> (d, Inl e)
      | Inr req \<Rightarrow> (case GetCommit ft (rreq_CommitID req) d of Inl e \<Rightarrow> (d, Inl e)
      | Inr targetCommit \<Rightarrow> withTx ft (RollbackTx ft now newCommitID targetCommit req) d))"

definition CountCommitHistory :: "faults \<Rightarrow> db \<Rightarrow> Error + nat" where
  "CountCommitHistory ft d =
     (case ft_stmt ft 0 of Some c \<Rightarrow> Inl (NewError ErrCodeInternal ''failed to count commit history'' (Some (Driver c)))
      | None \<Rightarrow> Inr (length (db_history d)))"

section \<open>Clean-up (sqlite.go)\<close>

definition performLockCleanup :: "faults \<Rightarrow> int \<Rightarrow> db \<Rightarrow> db \<times> (Error + unit)" where
  "performLockCleanup ft now d =
     (let expired = (\<lambda>(t, l). lk_expires_at l < Unix now); n = length (filter expired (db_locks d)) in
      withTx ft
       (exec ft 0 ''failed to cleanup expired locks'' (\<lambda>d. Some (d\<lparr>db_locks := filter (\<lambda>e. \<not> expired e) (db_locks d)\<rparr>))
       (query ft 1 ''failed to check cleanup result'' (\<lambda>_. ())
         (\<lambda>_. if 0 < n then
            exec ft 2 ''failed to log cleanup audit event''
              (audit (auditRow ''system'' [] ''lock_cleanup'' (''cleaned up '' @ formatNat n @ '' expired lock(s)''))) (succeed ())
          else succeed ()))) d)"

definition logCleanupError :: "faults \<Rightarrow> string \<Rightarrow> db \<Rightarrow> db \<times> (Error + unit)" where
  "logCleanupError ft cleanupErr d = withTx ft
     (exec ft 0 ''failed to log cleanup error'' (audit ((auditRow ''system'' [] ''lock_cleanup'' cleanupErr)
        \<lparr>au_result := ''failure'', au_error_code := Some ''CLEANUP_ERROR''\<rparr>)) (succeed ())) d"

definition CleanupEphemeralState :: "faults \<Rightarrow> db \<Rightarrow> db \<times> (Error + unit)" where
  "CleanupEphemeralState ft d =
     (let candidatesRemoved = length (db_candidates d); locksRemoved = length (db_locks d) in
      withTx ft
       (exec ft 0 ''failed to cleanup candidate configs'' (\<lambda>d. Some (d\<lparr>db_candidates := []\<rparr>))
       (exec ft 1 ''failed to cleanup config locks'' (\<lambda>d. Some (d\<lparr>db_locks := []\<rparr>))
       (query ft 2 ''failed to check candidate cleanup result'' (\<lambda>_. ())
         (\<lambda>_. query ft 3 ''failed to check lock cleanup result'' (\<lambda>_. ())
         (\<lambda>_. if candidatesRemoved = 0 \<and> locksRemoved = 0 then succeed ()
          else exec ft 4 ''failed to log startup cleanup audit event''
            (audit (auditRow ''system'' [] ''startup_cleanup'' (''removed '' @ formatNat locksRemoved @ '' lock(s), '' @
               formatNat candidatesRemoved @ '' candidate config(s)''))) (succeed ())))))) d)"

end
