(* ===== verification/DatastoreLaws.thy ===== *)
theory DatastoreLaws
  imports Datastore
begin

text \<open>
  What the datastore guarantees, for every sequence of operations, every clock and every pattern of
  driver failures: the history and the running configuration agree, the running configuration
  changes only under the candidate lock, and an unexpired lock stays with its session. The locale
  \<open>lock_service\<close> is the contract of the locks.
\<close>

section \<open>Operations as steps\<close>

datatype dsOp =
    OpAcquire "LockRequest option" | OpRelease string string | OpExtend string string int | OpSteal StealLockRequest
  | OpSave string string | OpDelete string | OpCommit string "CommitRequest option" | OpRollback string "RollbackRequest option"
  | OpCleanup | OpLogCleanup string | OpStartup

definition outcome :: "db \<times> (Error + 'a) \<Rightarrow> db \<times> Error option" where
  "outcome r = (fst r, case snd r of Inl e \<Rightarrow> Some e | Inr _ \<Rightarrow> None)"

record dsCall =
  ca_faults :: faults
  ca_now :: int
  ca_op :: dsOp

fun runOp :: "hasher \<Rightarrow> faults \<Rightarrow> int \<Rightarrow> dsOp \<Rightarrow> db \<Rightarrow> db \<times> Error option" where
  "runOp hash ft now (OpAcquire p) d = outcome (AcquireLock ft now p d)"
| "runOp hash ft now (OpRelease t s) d = outcome (ReleaseLock ft now t s d)"
| "runOp hash ft now (OpExtend t s dur) d = outcome (ExtendLock ft now t s dur d)"
| "runOp hash ft now (OpSteal r) d = outcome (StealLock ft now r d)"
| "runOp hash ft now (OpSave s text) d = outcome (SaveCandidate hash ft now s text d)"
| "runOp hash ft now (OpDelete s) d = outcome (DeleteCandidate ft s d)"
| "runOp hash ft now (OpCommit i p) d = outcome (Commit ft now i p d)"
| "runOp hash ft now (OpRollback i p) d = outcome (Rollback ft now i p d)"
| "runOp hash ft now OpCleanup d = outcome (performLockCleanup ft now d)"
| "runOp hash ft now (OpLogCleanup e) d = outcome (logCleanupError ft e d)"
| "runOp hash ft now OpStartup d = outcome (CleanupEphemeralState ft d)"

definition call :: "hasher \<Rightarrow> dsCall \<Rightarrow> db \<Rightarrow> db" where
  "call hash c d = fst (runOp hash (ca_faults c) (ca_now c) (ca_op c) d)"

inductive reachable :: "hasher \<Rightarrow> db \<Rightarrow> bool" for hash where
  start: "reachable hash emptyDB"
| step: "reachable hash d \<Longrightarrow> reachable hash (call hash c d)"

section \<open>Transactions\<close>

lemma query_ok [simp]: "query ft n m sel k d = Inr r \<longleftrightarrow> ft_stmt ft n = None \<and> k (sel d) d = Inr r"
  by (simp add: query_def split: option.splits)

lemma exec_ok [simp]: "exec ft n m f k d = Inr r \<longleftrightarrow> ft_stmt ft n = None \<and> (\<exists>d'. f d = Some d' \<and> k d' = Inr r)"
  by (auto simp: exec_def split: option.splits)

lemma fail_ok [simp]: "fail c m d \<noteq> Inr r"
  by (simp add: fail_def)

lemma succeed_ok [simp]: "succeed x d = Inr r \<longleftrightarrow> r = (d, x)"
  by (auto simp: succeed_def)

text \<open>A transaction that ends with an error changes nothing; one that succeeds is what its function does.\<close>

lemma withTx_cases:
  obtains e where "withTx ft fn d = (d, Inl e)"
  | d' x where "withTx ft fn d = (d', Inr x)" "fn d = Inr (d', x)"
  by (cases "ft_begin ft"; cases "fn d"; cases "ft_commit ft") (auto simp: withTx_def)

lemma tx_keeps:
  assumes "P d" and "\<And>d' x. fn d = Inr (d', x) \<Longrightarrow> P d'"
  shows "P (fst (withTx ft fn d))"
  using assms by (cases rule: withTx_cases [of ft fn d]) auto

lemma outcome_fst [simp]: "fst (outcome r) = fst r"
  by (simp add: outcome_def)

lemma tx_failed: "outcome (withTx ft fn d) = (d', Some e) \<Longrightarrow> d' = d"
  by (cases rule: withTx_cases [of ft fn d]) (auto simp: outcome_def)

lemmas op_defs = AcquireLock_def ReleaseLock_def ExtendLock_def StealLock_def SaveCandidate_def DeleteCandidate_def Commit_def Rollback_def
  performLockCleanup_def logCleanupError_def CleanupEphemeralState_def

lemmas stmt_defs = insertLock_def replaceLock_def deleteLock_def deleteLockOf_def extendLockRow_def clearCurrent_def insertRunning_def
  insertHistory_def upsertCandidate_def deleteCandidate_def audit_def

lemma outcome_Inl [simp]: "outcome (d, Inl e) = (d, Some e)"
  by (simp add: outcome_def)

lemma runOp_failed: "runOp hash ft now op d = (d', Some e) \<Longrightarrow> d' = d"
  by (cases op) (auto simp: op_defs Let_def simp del: query_ok exec_ok dest!: tx_failed split: sum.splits option.splits)

section \<open>Commits\<close>

text \<open>A session holds the lock of a target until a second.\<close>

definition holds :: "db \<Rightarrow> string \<Rightarrow> string \<Rightarrow> int \<Rightarrow> bool" where
  "holds d target session until \<longleftrightarrow>
     (\<exists>l. map_of (db_locks d) target = Some l \<and> lk_session_id l = session \<and> until \<le> lk_expires_at l)"

text \<open>A text becomes the running configuration under a new identifier.\<close>

definition promoted :: "db \<Rightarrow> int \<Rightarrow> string \<Rightarrow> string \<Rightarrow> db \<Rightarrow> bool" where
  "promoted d now i text d' \<longleftrightarrow> i \<notin> hist_CommitID ` set (db_history d) \<and>
     db_running d' = map (\<lambda>r. r\<lparr>rr_is_current := False\<rparr>) (db_running d) @
       [\<lparr>rr_commit_id = i, rr_config_text = text, rr_timestamp = now, rr_is_current = True\<rparr>] \<and>
     (\<exists>h. db_history d' = db_history d @ [h] \<and> hist_CommitID h = i \<and> hist_ConfigText h = text \<and> hist_Timestamp h = now)"

lemma requireLock_ok [simp]:
  "requireLock ft now verb s k d = Inr r \<longleftrightarrow> ft_stmt ft 0 = None \<and> holds d LockTargetCandidate s (Unix now) \<and> k d = Inr r"
  by (auto simp: requireLock_def holds_def split: option.splits if_splits)

lemma CommitTx_ok:
  assumes "CommitTx ft now i req d = Inr (d', x)"
  shows "holds d LockTargetCandidate (creq_SessionID req) (Unix now)"
    and "\<exists>c. map_of (db_candidates d) (creq_SessionID req) = Some c \<and> promoted d now i (cr_config_text c) d'"
    and "db_locks d' = filter (\<lambda>(t, l). \<not> (t = LockTargetCandidate \<and> lk_session_id l = creq_SessionID req)) (db_locks d)"
    and "db_candidates d' = AList.delete (creq_SessionID req) (db_candidates d)"
  using assms by (auto simp: CommitTx_def Let_def stmt_defs promoted_def split: option.splits if_splits)

lemma RollbackTx_ok:
  assumes "RollbackTx ft now i target req d = Inr (d', x)"
  shows "holds d LockTargetCandidate (rreq_SessionID req) (Unix now)"
    and "promoted d now i (hist_ConfigText target) d'"
    and "db_locks d' = filter (\<lambda>(t, l). \<not> (t = LockTargetCandidate \<and> lk_session_id l = rreq_SessionID req)) (db_locks d)"
    and "db_candidates d' = db_candidates d"
  using assms by (auto simp: RollbackTx_def Let_def stmt_defs promoted_def split: option.splits if_splits)

lemma GetCommit_ok: "GetCommit ft i d = Inr h \<Longrightarrow> h \<in> set (db_history d) \<and> hist_CommitID h = i"
  by (auto simp: GetCommit_def find_Some_iff split: option.splits)

text \<open>Every other operation leaves the running configuration and the history alone.\<close>

fun promotes :: "dsOp \<Rightarrow> bool" where
  "promotes (OpCommit _ _) = True"
| "promotes (OpRollback _ _) = True"
| "promotes _ = False"

lemma insertNewLock_ok [simp]:
  "insertNewLock ft now timeout req d = Inr r \<longleftrightarrow> ft_stmt ft 3 = None \<and> ft_stmt ft 4 = None \<and>
     map_of (db_locks d) (lreq_Target req) = None \<and> lreq_Target req \<in> {LockTargetCandidate, LockTargetRunning} \<and>
     r = (d\<lparr>db_locks := db_locks d @ [(lreq_Target req, \<lparr>lk_session_id = lreq_SessionID req, lk_user = lreq_User req,
            lk_acquired_at = Unix now, lk_expires_at = Unix (now + timeout), lk_last_activity = Unix now\<rparr>)],
          db_audit := db_audit d @ [auditRow (lreq_User req) (lreq_SessionID req) ''lock_acquire''
            (''target='' @ lreq_Target req @ '', timeout='' @ DurationString timeout)]\<rparr>, ())"
  unfolding insertNewLock_def exec_ok succeed_ok insertLock_def audit_def by auto

lemma quiet: "\<not> promotes op \<Longrightarrow> db_running (fst (runOp hash ft now op d)) = db_running d \<and> db_history (fst (runOp hash ft now op d)) = db_history d"
  by (cases op) (auto simp: op_defs Let_def stmt_defs split: sum.splits option.splits if_splits
      intro!: tx_keeps [where P = "\<lambda>d'. db_running d' = db_running d \<and> db_history d' = db_history d" for d])

text \<open>What a commit or rollback that changes anything has done.\<close>

lemma promoting:
  assumes "promotes op" and "fst (runOp hash ft now op d) \<noteq> d"
  obtains (commit) i req c where "op = OpCommit i (Some req)" "holds d LockTargetCandidate (creq_SessionID req) (Unix now)"
      "map_of (db_candidates d) (creq_SessionID req) = Some c" "promoted d now i (cr_config_text c) (fst (runOp hash ft now op d))"
  | (rollback) i req h where "op = OpRollback i (Some req)" "holds d LockTargetCandidate (rreq_SessionID req) (Unix now)"
      "h \<in> set (db_history d)" "hist_CommitID h = rreq_CommitID req" "promoted d now i (hist_ConfigText h) (fst (runOp hash ft now op d))"
proof (cases op)
  case (OpCommit i p)
  with assms(2) obtain req where p: "p = Some req" by (cases p) (auto simp: Commit_def validateCommitRequest_def)
  with OpCommit assms(2) obtain x where "CommitTx ft now i req d = Inr (fst (runOp hash ft now op d), x)"
    by (cases rule: withTx_cases [of ft "CommitTx ft now i req" d]) (auto simp: Commit_def validateCommitRequest_def)
  from CommitTx_ok(1,2) [OF this] commit OpCommit p show thesis by blast
next
  case (OpRollback i p)
  with assms(2) obtain req where p: "p = Some req" by (cases p) (auto simp: Rollback_def validateRollbackRequest_def)
  with OpRollback assms(2) obtain h where h: "GetCommit ft (rreq_CommitID req) d = Inr h"
    by (cases "GetCommit ft (rreq_CommitID req) d") (auto simp: Rollback_def validateRollbackRequest_def)
  with OpRollback assms(2) p obtain x where "RollbackTx ft now i h req d = Inr (fst (runOp hash ft now op d), x)"
    by (cases rule: withTx_cases [of ft "RollbackTx ft now i h req" d]) (auto simp: Rollback_def validateRollbackRequest_def)
  from RollbackTx_ok(1,2) [OF this] GetCommit_ok [OF h] rollback OpRollback p show thesis by blast
qed (use assms(1) in simp_all)

section \<open>The store invariant\<close>

text \<open>
  Running rows and history are the same sequence of commits, identifiers are not repeated, and of
  the running rows exactly the last is current.
\<close>

definition storeInv :: "db \<Rightarrow> bool" where
  "storeInv d \<longleftrightarrow> distinct (map hist_CommitID (db_history d)) \<and>
     map (\<lambda>r. (rr_commit_id r, rr_config_text r, rr_timestamp r)) (db_running d) =
       map (\<lambda>h. (hist_CommitID h, hist_ConfigText h, hist_Timestamp h)) (db_history d) \<and>
     list_all (\<lambda>r. \<not> rr_is_current r) (butlast (db_running d)) \<and> (db_running d \<noteq> [] \<longrightarrow> rr_is_current (last (db_running d)))"

lemma promoted_inv:
  assumes "storeInv d" and "promoted d now i text d'"
  shows "storeInv d'"
proof -
  from assms(2) obtain h where h: "db_history d' = db_history d @ [h]" "hist_CommitID h = i" "hist_ConfigText h = text" "hist_Timestamp h = now"
    "i \<notin> hist_CommitID ` set (db_history d)"
    "db_running d' = map (\<lambda>r. r\<lparr>rr_is_current := False\<rparr>) (db_running d) @
       [\<lparr>rr_commit_id = i, rr_config_text = text, rr_timestamp = now, rr_is_current = True\<rparr>]"
    unfolding promoted_def by blast
  from assms(1) show ?thesis unfolding storeInv_def h(1,6) using h(2-5) by (simp add: comp_def list_all_iff)
qed

lemma reachable_inv: "reachable hash d \<Longrightarrow> storeInv d"
proof (induction rule: reachable.induct)
  case start
  show ?case by (simp add: storeInv_def emptyDB_def)
next
  case (step d c)
  show ?case
  proof (cases "promotes (ca_op c) \<and> call hash c d \<noteq> d")
    case True
    then have "promotes (ca_op c)" "fst (runOp hash (ca_faults c) (ca_now c) (ca_op c) d) \<noteq> d" by (simp_all add: call_def)
    then show ?thesis by (cases rule: promoting) (auto simp: call_def intro: promoted_inv [OF step.IH])
  next
    case False
    then show ?thesis
      using step.IH quiet [of "ca_op c" hash "ca_faults c" "ca_now c" d] by (cases "promotes (ca_op c)") (simp_all add: call_def storeInv_def)
  qed
qed

text \<open>The answer of \<open>GetRunning\<close> without a driver failure.\<close>

definition noFaults :: faults where
  "noFaults = \<lparr>ft_begin = None, ft_stmt = (\<lambda>_. None), ft_constraint = [], ft_commit = None\<rparr>"

definition latest :: "CommitHistoryEntry list \<Rightarrow> Error + RunningConfig" where
  "latest hs = (if hs = [] then Inl (NewError ErrCodeNotFound ''no running configuration found'' None)
     else Inr \<lparr>run_CommitID = hist_CommitID (last hs), run_ConfigText = hist_ConfigText (last hs), run_Timestamp = hist_Timestamp (last hs)\<rparr>)"

lemma find_last: "\<forall>x \<in> set xs. \<not> P x \<Longrightarrow> P y \<Longrightarrow> find P (xs @ [y]) = Some y"
  by (induction xs) auto

lemma running_latest:
  assumes "storeInv d"
  shows "GetRunning noFaults d = latest (db_history d)"
proof (cases "db_history d" rule: rev_cases)
  case Nil
  with assms show ?thesis by (simp add: storeInv_def GetRunning_def noFaults_def latest_def)
next
  case (snoc hs h)
  with assms obtain rs r where r: "db_running d = rs @ [r]" by (cases "db_running d" rule: rev_cases) (auto simp: storeInv_def)
  with assms have "\<forall>x \<in> set rs. \<not> rr_is_current x" "rr_is_current r" by (simp_all add: storeInv_def list_all_iff)
  from find_last [of rs rr_is_current, OF this] assms snoc r show ?thesis
    by (simp add: storeInv_def GetRunning_def noFaults_def latest_def)
qed

section \<open>Exclusive locks\<close>

text \<open>The contract of a lock service: a lock survives the calls of others until it expires.\<close>

locale lock_service =
  fixes holding :: "'d \<Rightarrow> string \<Rightarrow> string \<Rightarrow> int \<Rightarrow> bool" and perform :: "'c \<Rightarrow> 'd \<Rightarrow> 'd"
    and others :: "'c \<Rightarrow> string \<Rightarrow> string \<Rightarrow> int \<Rightarrow> bool"
  assumes keeps: "holding d t s u \<Longrightarrow> others c t s u \<Longrightarrow> holding (perform c d) t s u"
begin

lemma sequence: "holding d t s u \<Longrightarrow> list_all (\<lambda>c. others c t s u) cs \<Longrightarrow> holding (fold perform cs d) t s u"
  by (induction cs arbitrary: d) (auto intro: keeps)

end

text \<open>
  The operations of others: those of another session or on another target, except that a lock may be
  stolen on purpose and that all locks are removed when the daemon starts.
\<close>

fun opOthers :: "dsOp \<Rightarrow> string \<Rightarrow> string \<Rightarrow> bool" where
  "opOthers (OpAcquire p) t s = pred_option (\<lambda>r. lreq_Target r \<noteq> t \<or> lreq_SessionID r \<noteq> s) p"
| "opOthers (OpRelease t' s') t s = (t' \<noteq> t \<or> s' \<noteq> s)"
| "opOthers (OpExtend t' s' _) t s = (t' \<noteq> t \<or> s' \<noteq> s)"
| "opOthers (OpSteal r) t s = (sreq_Target r \<noteq> t)"
| "opOthers (OpCommit _ p) t s = (t \<noteq> LockTargetCandidate \<or> pred_option (\<lambda>r. creq_SessionID r \<noteq> s) p)"
| "opOthers (OpRollback _ p) t s = (t \<noteq> LockTargetCandidate \<or> pred_option (\<lambda>r. rreq_SessionID r \<noteq> s) p)"
| "opOthers OpStartup t s = False"
| "opOthers _ t s = True"

definition callOthers :: "dsCall \<Rightarrow> string \<Rightarrow> string \<Rightarrow> int \<Rightarrow> bool" where
  "callOthers c t s u \<longleftrightarrow> Unix (ca_now c) \<le> u \<and> opOthers (ca_op c) t s"

lemma map_of_values: "map_of (map (\<lambda>(k, v). (k, f k v)) xs) k = map_option (f k) (map_of xs k)"
  by (induction xs) auto

lemma extend_other: "t' \<noteq> t \<Longrightarrow> map_of (map (\<lambda>(k, l). (k, if k = t' then g l else l)) xs) t = map_of xs t"
  using map_of_values [of "\<lambda>k l. if k = t' then g l else l" xs t] by (simp add: option.map_ident)

lemma holds_locks: "holds (d\<lparr>db_audit := a\<rparr>) t s u = holds d t s u" "holds (d\<lparr>db_candidates := c\<rparr>) t s u = holds d t s u"
  by (simp_all add: holds_def)

lemma tx_holds: "holds d t s u \<Longrightarrow> (\<And>d' x. fn d = Inr (d', x) \<Longrightarrow> holds d' t s u) \<Longrightarrow> holds (fst (withTx ft fn d)) t s u"
  by (rule tx_keeps)

lemma validateLockRequest_ok: "validateLockRequest p = Inr r \<longleftrightarrow> p = Some r \<and> ValidateLockTarget (lreq_Target r) = None"
  by (auto simp: validateLockRequest_def split: option.splits)

lemma holds_delete: "holds d t s u \<Longrightarrow> t' \<noteq> t \<Longrightarrow> holds (d\<lparr>db_locks := AList.delete t' (db_locks d)\<rparr>) t s u"
  by (simp add: holds_def AList.delete_conv')

lemma holds_update: "holds d t s u \<Longrightarrow> t' \<noteq> t \<Longrightarrow> holds (d\<lparr>db_locks := AList.update t' l (db_locks d)\<rparr>) t s u"
  by (simp add: holds_def AList.update_conv')

lemma holds_insert: "holds d t s u \<Longrightarrow> holds (d\<lparr>db_locks := db_locks d @ [e]\<rparr>) t s u"
  by (auto simp: holds_def map_add_def)

lemma holds_extend: "holds d t s u \<Longrightarrow> t' \<noteq> t \<Longrightarrow> holds (d\<lparr>db_locks := map (\<lambda>(k, l). (k, if k = t' then g l else l)) (db_locks d)\<rparr>) t s u"
  by (simp add: holds_def extend_other)

lemma holds_filter:
  "holds d t s u \<Longrightarrow> (\<And>l. lk_session_id l = s \<Longrightarrow> u \<le> lk_expires_at l \<Longrightarrow> P t l) \<Longrightarrow> holds (d\<lparr>db_locks := filter (\<lambda>(k, l). P k l) (db_locks d)\<rparr>) t s u"
  unfolding holds_def by (auto intro: map_of_filter_in)

lemma holds_row: "holds d t s u \<Longrightarrow> map_of (db_locks d) t = Some l \<Longrightarrow> lk_session_id l = s \<and> u \<le> lk_expires_at l"
  by (simp add: holds_def)

lemmas holds_steps = holds_delete holds_update holds_insert holds_extend

lemma acquire_keeps:
  assumes "holds d t s u" and "Unix now \<le> u" and "opOthers (OpAcquire p) t s"
  shows "holds (fst (AcquireLock ft now p d)) t s u"
proof (cases "validateLockRequest p")
  case (Inr r)
  show ?thesis
  proof (cases "lreq_Target r = t")
    case True
    obtain l where l: "map_of (db_locks d) t = Some l" "lk_session_id l = s" "u \<le> lk_expires_at l" using assms(1) by (auto simp: holds_def)
    moreover have "lreq_SessionID r \<noteq> s" using Inr True assms(3) by (simp add: validateLockRequest_ok)
    ultimately show ?thesis using Inr True assms(1,2) by (auto simp: AcquireLock_def Let_def intro!: tx_holds split: if_splits)
  next
    case False
    with Inr assms(1) show ?thesis
      by (auto simp: AcquireLock_def Let_def stmt_defs holds_locks intro!: tx_holds holds_steps [of d] split: option.splits if_splits)
        (use holds_insert [OF holds_delete [OF assms(1)]] in auto)
  qed
qed (use assms(1) in \<open>simp add: AcquireLock_def\<close>)

lemma release_keeps:
  assumes "holds d t s u" and "Unix now \<le> u" and "t' \<noteq> t \<or> s' \<noteq> s"
  shows "holds (fst (ReleaseLock ft now t' s' d)) t s u"
  using assms holds_row [OF assms(1)]
  by (cases "t' = t") (auto simp: ReleaseLock_def Let_def stmt_defs holds_locks intro!: tx_holds holds_steps split: option.splits if_splits)

lemma extend_keeps:
  assumes "holds d t s u" and "t' \<noteq> t \<or> s' \<noteq> s"
  shows "holds (fst (ExtendLock ft now t' s' n d)) t s u"
  using assms holds_row [OF assms(1)]
  by (cases "t' = t") (auto simp: ExtendLock_def Let_def stmt_defs holds_locks intro!: tx_holds holds_steps split: option.splits if_splits)

lemma steal_keeps: "holds d t s u \<Longrightarrow> sreq_Target r \<noteq> t \<Longrightarrow> holds (fst (StealLock ft now r d)) t s u"
  by (auto simp: StealLock_def Let_def stmt_defs holds_locks intro!: tx_holds holds_steps split: option.splits if_splits)

lemma cleanup_keeps: "holds d t s u \<Longrightarrow> Unix now \<le> u \<Longrightarrow> holds (fst (performLockCleanup ft now d)) t s u"
  using holds_filter [of d t s u "\<lambda>k l. \<not> lk_expires_at l < Unix now"]
  by (auto simp: performLockCleanup_def Let_def audit_def holds_locks case_prod_beta' intro!: tx_holds split: if_splits)

lemma commit_keeps:
  assumes "holds d t s u" and "opOthers (OpCommit i p) t s"
  shows "holds (fst (Commit ft now i p d)) t s u"
proof (cases p)
  case (Some req)
  have "holds d' t s u" if "CommitTx ft now i req d = Inr (d', x)" for d' x
    using CommitTx_ok(3) [OF that] holds_filter [OF assms(1), of "\<lambda>k l. \<not> (k = LockTargetCandidate \<and> lk_session_id l = creq_SessionID req)"]
      assms(2) Some by (auto simp: holds_def)
  then show ?thesis using assms(1) Some by (auto simp: Commit_def validateCommitRequest_def intro!: tx_holds)
qed (use assms(1) in \<open>simp add: Commit_def validateCommitRequest_def\<close>)

lemma rollback_keeps:
  assumes "holds d t s u" and "opOthers (OpRollback i p) t s"
  shows "holds (fst (Rollback ft now i p d)) t s u"
proof (cases p)
  case (Some req)
  have "holds d' t s u" if "RollbackTx ft now i h req d = Inr (d', x)" for d' x h
    using RollbackTx_ok(3) [OF that] holds_filter [OF assms(1), of "\<lambda>k l. \<not> (k = LockTargetCandidate \<and> lk_session_id l = rreq_SessionID req)"]
      assms(2) Some by (auto simp: holds_def)
  then show ?thesis using assms(1) Some by (auto simp: Rollback_def validateRollbackRequest_def intro!: tx_holds split: sum.splits)
qed (use assms(1) in \<open>simp add: Rollback_def validateRollbackRequest_def\<close>)

lemma rest_keeps:
  assumes "holds d t s u"
  shows "holds (fst (SaveCandidate hash ft now s' text d)) t s u" and "holds (fst (DeleteCandidate ft s' d)) t s u"
    and "holds (fst (logCleanupError ft e d)) t s u"
  using assms by (auto simp: SaveCandidate_def DeleteCandidate_def logCleanupError_def stmt_defs holds_locks intro!: tx_holds split: sum.splits)

interpretation sqlite: lock_service holds "call hash" callOthers for hash
proof unfold_locales
  fix d t s u c
  assume "holds d t s u" "callOthers c t s u"
  then show "holds (call hash c d) t s u"
    by (cases "ca_op c") (simp_all add: call_def callOthers_def acquire_keeps release_keeps extend_keeps steal_keeps cleanup_keeps commit_keeps
        rollback_keeps rest_keeps)
qed

lemma acquire_refused:
  assumes "map_of (db_locks d) (lreq_Target req) = Some l" and "lk_session_id l \<noteq> lreq_SessionID req" and "Unix now \<le> lk_expires_at l"
  shows "\<exists>e. AcquireLock ft now (Some req) d = (d, Inl e)"
proof (cases "ValidateLockTarget (lreq_Target req)")
  case None
  with assms show ?thesis
    by (cases "ft_begin ft"; cases "ft_stmt ft 0") (simp_all add: AcquireLock_def validateLockRequest_def Let_def withTx_def query_def fail_def)
qed (simp add: AcquireLock_def validateLockRequest_def)

section \<open>Properties\<close>

text \<open>
  C37. After any sequence of operations, at any times and with any failures of the driver, the running
  rows are the commits of the history in order, no identifier is repeated, the running configuration
  is the latest commit, and a call that returns an error has changed nothing.
\<close>

theorem store_agrees:
  assumes "reachable hash d"
  shows "storeInv d \<and> GetRunning noFaults d = latest (db_history d) \<and>
    (\<forall>c. snd (runOp hash (ca_faults c) (ca_now c) (ca_op c) d) = None \<or> call hash c d = d)"
proof (intro conjI allI)
  show "storeInv d" "GetRunning noFaults d = latest (db_history d)" using reachable_inv [OF assms] running_latest by blast+
  fix c
  show "snd (runOp hash (ca_faults c) (ca_now c) (ca_op c) d) = None \<or> call hash c d = d"
    unfolding call_def by (metis runOp_failed option.exhaust prod.collapse)
qed

definition sampleCalls :: "dsCall list" where
  "sampleCalls = map (\<lambda>op. \<lparr>ca_faults = noFaults, ca_now = 5 * second, ca_op = op\<rparr>)
     [OpAcquire (Some \<lparr>lreq_Target = ''candidate'', lreq_SessionID = ''s1'', lreq_User = ''alice'', lreq_Timeout = 10 * second\<rparr>),
      OpSave ''s1'' ''set system host-name r1'',
      OpCommit ''c1'' (Some \<lparr>creq_SessionID = ''s1'', creq_User = ''alice'', creq_Message = ''first'', creq_SourceIP = [], creq_CorrelationID = []\<rparr>)]"

definition sampleHash :: hasher where
  "sampleHash p = Inr p"

definition sampleStore :: "nat \<Rightarrow> db" where
  "sampleStore n = fold (call sampleHash) (take n sampleCalls) emptyDB"

lemma fold_reachable: "reachable hash d \<Longrightarrow> reachable hash (fold (call hash) cs d)"
  by (induction cs arbitrary: d) (auto intro: reachable.step)

lemma sampleStore_reachable: "reachable sampleHash (sampleStore n)"
  unfolding sampleStore_def by (rule fold_reachable) (rule reachable.start)

lemma sampleText: "ProtectSecretsInSetCommands sampleHash ''set system host-name r1'' = Inr ''set system host-name r1''"
  by code_simp

lemmas sample_simps = call_def outcome_def withTx_def query_def exec_def succeed_def noFaults_def emptyDB_def LockTargetCandidate_def
  LockTargetRunning_def stmt_defs

lemma sampleStore_saved:
  "db_locks (sampleStore 2) = [(''candidate'', \<lparr>lk_session_id = ''s1'', lk_user = ''alice'', lk_acquired_at = 5, lk_expires_at = 15, lk_last_activity = 5\<rparr>)]"
  "db_running (sampleStore 2) = []" "db_history (sampleStore 2) = []"
  "db_candidates (sampleStore 2) = [(''s1'', \<lparr>cr_config_text = ''set system host-name r1'', cr_created_at = 5 * second, cr_updated_at = 5 * second\<rparr>)]"
  by (simp_all add: sampleStore_def sampleCalls_def numeral_2_eq_2 AcquireLock_def validateLockRequest_def ValidateLockTarget_def insertNewLock_def
      SaveCandidate_def sampleText sample_simps Unix_def second_def)

lemma sampleStore_Suc: "sampleStore 3 = call sampleHash (sampleCalls ! 2) (sampleStore 2)"
  by (simp add: sampleStore_def sampleCalls_def numeral_3_eq_3 numeral_2_eq_2)

lemma sampleStore_history: "map hist_ConfigText (db_history (sampleStore 3)) = [''set system host-name r1'']"
  unfolding sampleStore_Suc
  by (simp add: sampleCalls_def Commit_def validateCommitRequest_def CommitTx_def requireLock_def sample_simps sampleStore_saved Let_def Unix_def second_def)

theorem store_agrees_witness:
  "map_sum er_Code run_ConfigText (GetRunning noFaults (sampleStore 3)) = Inr ''set system host-name r1''"
proof -
  have "GetRunning noFaults (sampleStore 3) = latest (db_history (sampleStore 3))"
    using store_agrees [OF sampleStore_reachable [of 3]] by blast
  moreover obtain h where "db_history (sampleStore 3) = [h]" "hist_ConfigText h = ''set system host-name r1''"
    using sampleStore_history by (auto simp: map_eq_Cons_conv)
  ultimately show ?thesis by (simp add: latest_def)
qed

text \<open>
  C38. The running configuration changes only by a commit or a rollback of a session that holds the
  candidate lock, unexpired, and what it changes to is that session's candidate or the text of the
  commit that is rolled back to.
\<close>

theorem running_guarded:
  assumes "reachable hash d" and "GetRunning noFaults (call hash c d) \<noteq> GetRunning noFaults d"
  shows "\<exists>i session body. holds d LockTargetCandidate session (Unix (ca_now c)) \<and>
    GetRunning noFaults (call hash c d) = Inr \<lparr>run_CommitID = i, run_ConfigText = body, run_Timestamp = ca_now c\<rparr> \<and>
    ((\<exists>req row. ca_op c = OpCommit i (Some req) \<and> creq_SessionID req = session \<and> map_of (db_candidates d) session = Some row \<and>
        cr_config_text row = body) \<or>
     (\<exists>req h. ca_op c = OpRollback i (Some req) \<and> rreq_SessionID req = session \<and> h \<in> set (db_history d) \<and>
        hist_CommitID h = rreq_CommitID req \<and> hist_ConfigText h = body))"
proof -
  let ?d = "fst (runOp hash (ca_faults c) (ca_now c) (ca_op c) d)"
  have new: "GetRunning noFaults ?d = Inr \<lparr>run_CommitID = i, run_ConfigText = body, run_Timestamp = ca_now c\<rparr>"
    if "promoted d (ca_now c) i body ?d" for i body
    using running_latest [OF promoted_inv [OF reachable_inv [OF assms(1)] that]] that by (auto simp: promoted_def latest_def)
  have "GetRunning noFaults ?d = GetRunning noFaults d" if "\<not> promotes (ca_op c)"
    using quiet [OF that] by (simp add: GetRunning_def noFaults_def)
  then have "promotes (ca_op c)" using assms(2) by (auto simp: call_def)
  moreover have "?d \<noteq> d" using assms(2) by (auto simp: call_def)
  ultimately show ?thesis
  proof (cases rule: promoting)
    case (commit i req row)
    then show ?thesis using new [OF commit(4)] unfolding call_def by blast
  next
    case (rollback i req h)
    then show ?thesis using new [OF rollback(5)] unfolding call_def by blast
  qed
qed

theorem running_guarded_witness: "\<exists>session. holds (sampleStore 2) LockTargetCandidate session (Unix (ca_now (sampleCalls ! 2)))"
proof -
  have "GetRunning noFaults (call sampleHash (sampleCalls ! 2) (sampleStore 2)) \<noteq> GetRunning noFaults (sampleStore 2)"
    unfolding sampleStore_Suc [symmetric] running_latest [OF reachable_inv [OF sampleStore_reachable]]
    using sampleStore_history sampleStore_saved(3) by (auto simp: latest_def)
  from running_guarded [OF sampleStore_reachable this] show ?thesis by blast
qed

text \<open>
  C39. While a session holds an unexpired lock, no sequence of operations of other sessions takes it
  away, whatever fails, unless the lock is stolen or the daemon restarts: the session still holds it
  afterwards, and an attempt of another session to acquire it is refused without effect.
\<close>

theorem lock_exclusive:
  assumes "holds d t s u" and "list_all (\<lambda>c. callOthers c t s u) cs"
    and "lreq_Target req = t" and "lreq_SessionID req \<noteq> s" and "Unix now \<le> u"
  shows "holds (fold (call hash) cs d) t s u \<and>
    (\<exists>e. AcquireLock ft now (Some req) (fold (call hash) cs d) = (fold (call hash) cs d, Inl e))"
proof
  show h: "holds (fold (call hash) cs d) t s u" using assms(1,2) by (rule sqlite.sequence)
  then obtain l where "map_of (db_locks (fold (call hash) cs d)) t = Some l" "lk_session_id l = s" "u \<le> lk_expires_at l" by (auto simp: holds_def)
  with assms(3-5) show "\<exists>e. AcquireLock ft now (Some req) (fold (call hash) cs d) = (fold (call hash) cs d, Inl e)"
    by (intro acquire_refused [of _ _ l]) auto
qed

lemma sampleStore_holds: "holds (sampleStore 2) ''candidate'' ''s1'' 15"
  by (simp add: holds_def sampleStore_saved)

definition rivalRequest :: LockRequest where
  "rivalRequest = \<lparr>lreq_Target = ''candidate'', lreq_SessionID = ''s2'', lreq_User = ''bob'', lreq_Timeout = 0\<rparr>"

definition rivalCalls :: "dsCall list" where
  "rivalCalls = map (\<lambda>op. \<lparr>ca_faults = noFaults, ca_now = 9 * second, ca_op = op\<rparr>)
     [OpAcquire (Some rivalRequest), OpRelease ''candidate'' ''s2'', OpCleanup]"

theorem lock_exclusive_witness:
  "holds (fold (call sampleHash) rivalCalls (sampleStore 2)) ''candidate'' ''s1'' 15"
proof -
  have "list_all (\<lambda>c. callOthers c ''candidate'' ''s1'' 15) rivalCalls"
    by (simp add: rivalCalls_def rivalRequest_def callOthers_def Unix_def second_def)
  from lock_exclusive [OF sampleStore_holds this, of rivalRequest "9 * second"] show ?thesis
    by (simp add: rivalRequest_def Unix_def second_def)
qed

text \<open>
  C40. In the second in which a lock expires the answers disagree: \<open>GetLockInfo\<close>, which compares times,
  reports the target as free, while \<open>AcquireLock\<close>, which compares seconds, still refuses it to every
  other session as a conflict.
\<close>

theorem lock_info_disagrees:
  assumes "map_of (db_locks d) (lreq_Target req) = Some l" and "ValidateLockTarget (lreq_Target req) = None"
    and "lk_expires_at l * second < now" and "now < (lk_expires_at l + 1) * second" and "lk_session_id l \<noteq> lreq_SessionID req"
  shows "GetLockInfo noFaults now (lreq_Target req) d = Inr unlocked \<and>
    (\<exists>e. AcquireLock noFaults now (Some req) d = (d, Inl e) \<and> er_Code e = ErrCodeConflict)"
proof
  show "GetLockInfo noFaults now (lreq_Target req) d = Inr unlocked" using assms(1-3) by (simp add: GetLockInfo_def noFaults_def)
  have "Unix now \<le> lk_expires_at l" using assms(4) by (simp add: Unix_def second_def)
  then show "\<exists>e. AcquireLock noFaults now (Some req) d = (d, Inl e) \<and> er_Code e = ErrCodeConflict"
    using assms(1,2,5) by (simp add: AcquireLock_def validateLockRequest_def Let_def withTx_def query_def fail_def noFaults_def NewError_def)
qed

theorem lock_info_disagrees_witness:
  "GetLockInfo noFaults (15 * second + 1) ''candidate'' (sampleStore 2) = Inr unlocked \<and>
   (\<exists>e. AcquireLock noFaults (15 * second + 1) (Some rivalRequest) (sampleStore 2) = (sampleStore 2, Inl e) \<and> er_Code e = ErrCodeConflict)"
  using lock_info_disagrees [of "sampleStore 2" rivalRequest _ "15 * second + 1"]
  by (simp add: rivalRequest_def sampleStore_saved ValidateLockTarget_def LockTargetCandidate_def second_def)

end
