(* ===== verification/Spec2Isabelle.thy ===== *)
theory Spec2Isabelle
  imports RoundTrip Redaction ModelRoundTrip TablePlan Framing RateLimit ClusterSync DatastoreLaws
begin

text \<open>
  A verification of arca-router, a router daemon whose configuration is a tree that is read from,
  and printed as, Junos-style set commands (Go sources under src/).

  \<^bold>\<open>Configuration language\<close> (src/pkg/config). ConfigTypes holds the tree of types.go: one record per
  struct, pointers as options, maps of pointers as association lists with optional values.
  Lexer models lexer.go and token.go on runes U+0000 to U+00FF, with line and column numbers.
  ParserBase, ParserSystem, ParserProtocols, ParserPolicy, ParserSecurity and Parser model
  parser.go, parser\_protocols.go, parser\_policy.go and parser\_cos\_security.go, one definition per
  method, every error branch with its message. Escape and Serializer model serializer.go, Secrets
  security.go, Password src/pkg/auth/password.go. The loops are total functions: the measure
  \<open>pending\<close> of the lexer and \<open>todo\<close> of the parser decrease, so no fuel is used.

  \<^bold>\<open>Reading back\<close>. Reading defines what it means that the parser consumes a text, the locale
  \<open>reading\<close> derives from two laws what the serializer's line, list and map loops need, and it is
  interpreted on the parser. The RoundTrip theories prove one lemma per printed line, compose them
  per section and, in RoundTrip, for the whole tree. Redaction shows what redacted text reveals.

  ParserInvariant shows the type invariant of every parsed tree.

  \<^bold>\<open>Canonical model\<close> (src/internal/model). ModelTypes holds the records of config.go, ModelConvert
  both directions of convert.go, with a nil dereference as the value None, and ModelRoundTrip the
  round trip of the two. ModelClone models clone.go: a copy is the value it returns, and the
  theories say nothing about sharing of memory. ModelEqual defines when two trees are the same
  value up to the enumeration order of maps. ModelValidate models validate.go and
  src/pkg/security/snmp.go, check by check; ValidateLaws shows that acceptance depends on the value
  only, that references of an accepted tree resolve and that it converts. TablePlan models
  routing\_instance\_table.go on 32-bit words, with the wrap-around of the probe loop.

  \<^bold>\<open>Engine\<close> (src/internal/engine). Diff models diff.go, DiffLaws shows that the interface part is an
  exact patch and that silence means agreement. Engine models engine.go and plugin.go: a plugin is
  a record of functions on a state \<open>'w\<close> of the systems below. Apply is one step, because
  the code holds applyMu throughout; the candidate is checked before. Logging is left out.
  EngineLaws shows that Apply refines a versioned store. The locale \<open>southbound\<close> is the contract of
  the plugins; ClusterSync models src/cmd/arca-routerd/cluster\_sync.go and interprets it.

  \<^bold>\<open>Datastore\<close> (src/pkg/datastore). Datastore models the SQLite backend: the tables of the schema, the
  statements on them, transactions that a failure of the driver may end at any statement, locks,
  candidates, commits, rollbacks and clean-up. DatastoreLaws shows, over all sequences of operations,
  that history and running configuration agree and what the locks protect; the locale
  \<open>lock_service\<close> is the contract of the locks, interpreted on the operations.

  \<^bold>\<open>Access\<close>. Framing models src/pkg/netconf/framing.go, RateLimit rate\_limit.go, its defaults in
  config.go and the password and key callbacks of ssh\_server.go; Pubkey models
  src/pkg/auth/pubkey.go.

  \<^bold>\<open>Identifications\<close>. A nil and an empty map or slice are the same value of the model. The code tells
  them apart in reflect.DeepEqual, which can report a difference that the model does not. The
  properties that speak of the absence of a difference are about a tree compared with itself, or
  with a copy changed in one unit, whose other maps and slices are nil in both or in neither.
  Strings are lists of characters up to U+00FF.

  \<^bold>\<open>Not modelled\<close>. Generated code (src/api/v1, src/pkg/vpp/binapi); the clients of VPP, FRR,
  etcd and gRPC and the programs under src/cmd, src/tools and src/examples, which mostly call other
  processes; NETCONF operations, XML conversion and XPath filters; the FRR text generators; the
  checks of src/pkg/config/validate.go on the legacy tree; status views, telemetry,
  web pages and queries of the audit log.

  \<^bold>\<open>Standard library\<close>. GoLib, GoNet and GoIP define the functions of strings, strconv, unicode, net and
  netip that the sources call. sort.Slice on static routes is modelled as a stable sort by the
  comparison's key. Pubkey defines SHA-256 and base64. The argon2id key derivation, the random
  source, the clock, commit identifiers, failures of the SQLite driver, regexp.Compile, json.Marshal
  and the parsers of golang.org/x/crypto/ssh are parameters.
\<close>

section \<open>Concrete inputs\<close>

text \<open>A key derivation function, a salt and a configuration at which the properties are applied.\<close>

definition sampleKey :: idkey where
  "sampleKey password salt time memory threads keyLen = replicate keyLen 7"

definition sampleSalt :: "nat list" where
  "sampleSalt = replicate 16 0"

definition sampleHash :: hasher where
  "sampleHash = HashPassword sampleKey (Some sampleSalt)"

definition sampleInterface :: Interface where
  "sampleInterface = \<lparr>if_Description = ''to core'', if_Units = [(0, Some \<lparr>unit_Family =
     [(''inet'', Some \<lparr>fam_Addresses = [''192.0.2.1/24'']\<rparr>)]\<rparr>)]\<rparr>"

definition sampleUser :: "string \<Rightarrow> UserConfig" where
  "sampleUser password = \<lparr>us_Username = ''alice'', us_Password = password, us_Role = ''admin'', us_SSHKey = ''ssh-rsa AAAA''\<rparr>"

definition sampleConfig :: "string \<Rightarrow> Config" where
  "sampleConfig password = NewConfig\<lparr>cfg_System := Some \<lparr>sys_HostName = ''edge1'', sys_Services = None\<rparr>,
     cfg_Interfaces := [(''ge-0/0/0'', Some sampleInterface)],
     cfg_Security := Some \<lparr>sec_NETCONF = None, sec_Users = [(''alice'', Some (sampleUser password))], sec_RateLimit = None\<rparr>\<rparr>"

definition sampleModel :: RouterConfig where
  "sampleModel = NewRouterConfig\<lparr>rc_Interfaces := [(''ge-0/0/0'', Some \<lparr>ic_Description = ''to core'', ic_Units =
       [(0, Some \<lparr>mu_Family = [(''inet'', Some \<lparr>af_Addresses = [''192.0.2.1/24'']\<rparr>)]\<rparr>)]\<rparr>)],
     rc_Protocols := Some \<lparr>mpc_BFD = None, mpc_BGP = Some \<lparr>mbgp_Groups = [(''peers'', Some \<lparr>mbg_Type = ''external'', mbg_Neighbors =
       [(''192.0.2.2'', Some \<lparr>mbn_PeerAS = 64512, mbn_Description = [], mbn_LocalAddress = [], mbn_BFD = False, mbn_BFDProfile = []\<rparr>)],
       mbg_Import = [], mbg_Export = []\<rparr>)]\<rparr>, mpc_EVPN = None, mpc_OSPF = None, mpc_OSPF3 = None, mpc_MPLS = None, mpc_VRRP = None\<rparr>\<rparr>"

lemma sampleKey_bytes:
  "bytes (sampleKey pw salt t m p argon2KeyLength)" "length (sampleKey pw salt t m p argon2KeyLength) = argon2KeyLength"
  by (simp_all add: sampleKey_def argon2KeyLength_def list_all_iff)

lemma sampleSalt_bytes: "bytes sampleSalt" "length sampleSalt = argon2SaltLength"
  by (simp_all add: sampleSalt_def argon2SaltLength_def list_all_iff)

section \<open>Passwords\<close>

lemma HashPassword_total: "\<exists>h. HashPassword IDKey (Some salt) pw = Inr h"
  by (simp add: HashPassword_def)

lemma HashPassword_stored:
  assumes "bytes salt" "length salt = argon2SaltLength"
    and "\<And>pw. bytes (IDKey pw salt argon2Time argon2Memory argon2Threads argon2KeyLength)"
    and "\<And>pw. length (IDKey pw salt argon2Time argon2Memory argon2Threads argon2KeyLength) = argon2KeyLength"
  shows "goodHasher (HashPassword IDKey (Some salt))"
  unfolding goodHasher_def
proof (intro allI impI)
  fix p q
  assume q: "HashPassword IDKey (Some salt) p = Inr q"
  then have "HasPrefix q encodedPasswordHashPrefix"
    by (auto simp: HashPassword_def HasPrefix_def encodedPasswordHashPrefix_def)
  with parse_HashPassword [OF assms(1,2) assms(3,4) q] show "ValidateStoredHash q = Inr ()"
    by (simp add: ValidateStoredHash_def ValidatePasswordHash_def)
qed

lemma sampleHash_good: "goodHasher sampleHash"
  unfolding sampleHash_def by (rule HashPassword_stored) (simp_all add: sampleSalt_bytes sampleKey_bytes)

lemma sampleConfig_prints: "\<exists>s. ToSetCommandsWithError sampleHash (Some (sampleConfig ''secret'')) = Inr s"
proof -
  obtain q where "NormalizePasswordForStorage sampleHash ''secret'' = Inr q"
    by (simp add: NormalizePasswordForStorage_def HasPrefix_def encodedPasswordHashPrefix_def sampleHash_def
        HashPassword_def)
  then show ?thesis
    by (simp add: ToSetCommandsWithError_def toSetCommandsWithError_def sampleConfig_def sampleUser_def writeSecurity_def
        printedPassword_plain sortedKeys_def mget_def)
qed

lemma sampleConfig_wf: "wfConfig (sampleConfig pw)"
  by (simp add: wfConfig_def sampleConfig_def sampleInterface_def sampleUser_def NewConfig_def wfSystem_def wfChassis_def wfInterfaces_def
      wfRoutingOptions_def wfRoutingInstances_def wfProtocols_def wfPolicy_def wfCoS_def wfSecurity_def wfMap_def
      wfUser_def roleOk_def keyOk_def keys_ok_def wfInterface_def wfUnit_def wfFamily_def plain_def isWord_def isNumber_def scalar_def
      needsQuotedValue_def isWordChar_def rune_class_defs intOk_def)

lemma sampleConfig_differ: "sampleConfig ''secret'' \<noteq> sampleConfig ''other''"
proof
  assume "sampleConfig ''secret'' = sampleConfig ''other''"
  then have "cfg_Security (sampleConfig ''secret'') = cfg_Security (sampleConfig ''other'')" by simp
  then show False by (simp add: sampleConfig_def sampleUser_def)
qed

section \<open>Properties\<close>

text \<open>
  C1. Reading back a printed configuration. Whenever \<open>ToSetCommandsWithError\<close> prints a
  well-formed tree, \<open>Parser.Parse\<close> accepts the whole text and returns the normalised tree: the
  same values, map entries in key order, nil entries and empty sections dropped, passwords in
  their stored form.
\<close>

theorem parse_print_roundtrip:
  assumes "wfConfig cfg" and "goodHasher hash" and "ToSetCommandsWithError hash (Some cfg) = Inr s"
  shows "Parse hash' s = Inr (normConfig hash cfg)"
  using assms by (rule Parse_print)

theorem parse_print_roundtrip_witness:
  "\<exists>s. ToSetCommandsWithError sampleHash (Some (sampleConfig ''secret'')) = Inr s \<and>
     Parse sampleHash s = Inr (normConfig sampleHash (sampleConfig ''secret''))"
  using parse_print_roundtrip [OF sampleConfig_wf sampleHash_good] sampleConfig_prints by blast

text \<open>
  C2. The lexer always reaches the end of its input: among the first \<open>|s| + 1\<close> tokens of any
  text \<open>s\<close> there is the end-of-file token, whatever errors and comments the text contains.
\<close>

theorem lexer_reaches_EOF:
  "list_ex (\<lambda>t. tk_Type t = TokenEOF) (tokens (length s + 1) (NewLexer s))"
  using tokens_reach_EOF [of "NewLexer s" "length s + 1"] by (simp add: list_ex_iff)

text \<open>
  C3. Escaping and lexing are inverse: the lexer reads the text of \<open>EscapeValue v\<close>, for any value
  \<open>v\<close>, as exactly one token whose value is \<open>v\<close>, and then the end of the input.
\<close>

theorem escape_lex_roundtrip:
  "lex_at (NewLexer (EscapeValue v)) [(escType v, v)]"
  using lexes_EscapeValue [OF _ lexes_Nil, of v] by (simp add: lexes_def)

text \<open>
  C4. Redacted output leaks no credential: it never fails, and two trees that differ only in the
  contents of their SNMP community and user passwords have the same redacted text, whatever
  hashers are used.
\<close>

theorem redacted_noninterference:
  assumes "maskConfig c = maskConfig d"
  shows "\<exists>s. ToSetCommandsRedactedWithError h (Some c) = Inr s \<and> ToSetCommandsRedactedWithError h' (Some d) = Inr s"
  using redacted_total [of h "Some c"] redacted_mask [where hash = h and hash' = h and c = c]
    redacted_mask [where hash = h and hash' = h' and c = d] assms by auto

theorem redacted_noninterference_witness:
  "sampleConfig ''secret'' \<noteq> sampleConfig ''other'' \<and>
   (\<exists>s. ToSetCommandsRedactedWithError sampleHash (Some (sampleConfig ''secret'')) = Inr s \<and>
     ToSetCommandsRedactedWithError sampleHash (Some (sampleConfig ''other'')) = Inr s)"
proof -
  have "maskConfig (sampleConfig ''secret'') = maskConfig (sampleConfig ''other'')"
    by (simp add: maskConfig_def sampleConfig_def sampleUser_def maskSecurity_def maskMap_def maskUser_def)
  from redacted_noninterference [OF this, of sampleHash sampleHash] show ?thesis
    using sampleConfig_differ by blast
qed

text \<open>
  C5. A hash made by \<open>HashPassword\<close> is accepted by \<open>ValidatePasswordHash\<close> and verifies the password
  it was made from, for any key derivation function that returns keys of the requested length.
\<close>

theorem hash_verify_roundtrip:
  assumes "bytes salt" "length salt = argon2SaltLength"
    and "bytes (IDKey pw salt argon2Time argon2Memory argon2Threads argon2KeyLength)"
    and "length (IDKey pw salt argon2Time argon2Memory argon2Threads argon2KeyLength) = argon2KeyLength"
    and "HashPassword IDKey (Some salt) pw = Inr h"
  shows "ValidatePasswordHash h = Inr () \<and>
    VerifyPassword IDKey pw' h =
      Inr (IDKey pw salt argon2Time argon2Memory argon2Threads argon2KeyLength =
           IDKey pw' salt argon2Time argon2Memory argon2Threads argon2KeyLength)"
  using assms(4) by (simp add: ValidatePasswordHash_def VerifyPassword_def parse_HashPassword [OF assms])

theorem hash_verify_roundtrip_witness:
  "\<exists>h. HashPassword sampleKey (Some sampleSalt) ''secret'' = Inr h \<and> ValidatePasswordHash h = Inr () \<and>
     VerifyPassword sampleKey ''secret'' h = Inr True"
proof -
  obtain h where h: "HashPassword sampleKey (Some sampleSalt) ''secret'' = Inr h" using HashPassword_total by blast
  from hash_verify_roundtrip [where IDKey = sampleKey and pw = "''secret''" and pw' = "''secret''", OF sampleSalt_bytes sampleKey_bytes h]
  show ?thesis using h by simp
qed

text \<open>
  C6. Protecting a password for storage is idempotent: what \<open>NormalizePasswordForStorage\<close> returns
  is left unchanged by a second call, so a stored hash is never hashed again.
\<close>

theorem normalize_password_idempotent:
  assumes "goodHasher hash" and "NormalizePasswordForStorage hash pw = Inr s"
  shows "NormalizePasswordForStorage hash' s = Inr s"
proof (cases "s = []")
  case True
  then show ?thesis by (simp add: NormalizePasswordForStorage_def)
next
  case False
  with storedPassword_ok(3) [OF assms] show ?thesis by (simp add: Normalize_stored)
qed

theorem normalize_password_idempotent_witness:
  "\<exists>s. NormalizePasswordForStorage sampleHash ''secret'' = Inr s \<and> NormalizePasswordForStorage sampleHash s = Inr s"
proof -
  obtain s where "NormalizePasswordForStorage sampleHash ''secret'' = Inr s"
    by (simp add: NormalizePasswordForStorage_def HasPrefix_def encodedPasswordHashPrefix_def sampleHash_def
        HashPassword_def)
  with normalize_password_idempotent [OF sampleHash_good this, of sampleHash] show ?thesis by blast
qed



text \<open>
  C8. A host name that consists of digits does not survive: it is printed without quotes, the
  lexer reads it as a number, and the parser refuses its own serializer's line.
\<close>

theorem numeric_host_name_rejected:
  assumes "isNumber v"
  shows "\<exists>line col. Parse hash (writeHostName (Some \<lparr>sys_HostName = v, sys_Services = None\<rparr>)) =
    Inl (ParseErr line col ''expected hostname value'')"
proof -
  have v: "v \<noteq> []" "escType v = TokenNumber"
    using isNumber_token [OF assms] assms by (auto simp: isNumber_def)
  let ?ws = "[''set'', ''system'', ''host-name'', EscapeValue v]"
  have "at (NewParser (writeLine ?ws @ [])) (map tokOf ?ws @ [(TokenEOL, [])])"
    by (intro at_NewParser lexes_writeLine) (simp_all add: running lexing)
  then have "\<exists>line col. Parse hash (writeLine ?ws @ []) = Inl (ParseErr line col ''expected hostname value'')"
    by (rule Parse_first_error) (simp_all add: running v parseStatement_def parseSystem_def perror_def)
  then show ?thesis using v(1) by (simp add: writeHostName_def onlyIf_def)
qed

theorem numeric_host_name_rejected_witness:
  "\<exists>line col. Parse sampleHash (writeHostName (Some \<lparr>sys_HostName = ''42'', sys_Services = None\<rparr>)) =
    Inl (ParseErr line col ''expected hostname value'')"
  by (rule numeric_host_name_rejected) (simp add: isNumber_def rune_class_defs)

text \<open>
  C9. An SSH key that needs no quotes is refused by the parser: the serializer prints it as a
  word, the parser wants a string.
\<close>

theorem bare_ssh_key_rejected:
  assumes "plain k" and "v \<noteq> []" and "\<not> needsQuotedValue v"
  shows "\<exists>line col. Parse hash (writeUser k \<lparr>us_Username = k, us_Password = [], us_Role = [], us_SSHKey = v\<rparr> []) =
    Inl (ParseErr line col ''expected SSH key string'')"
proof -
  let ?ws = "[''set'', ''security'', ''users'', ''user'', k, ''ssh-key'', EscapeValue v]"
  have v: "escType v \<noteq> TokenString" using assms by (simp add: escType_def wordType_def)
  have "at (NewParser (writeLine ?ws @ [])) (map tokOf ?ws @ [(TokenEOL, [])])"
    using assms by (intro at_NewParser lexes_writeLine) (simp_all add: running lexing)
  then have "\<exists>line col. Parse hash (writeLine ?ws @ []) = Inl (ParseErr line col ''expected SSH key string'')"
    by (rule Parse_first_error)
      (simp_all add: running v assms parseStatement_def parseSecurity_def parseSecurityUsers_def perror_def)
  then show ?thesis using assms(2) by (simp add: writeUser_def onlyIf_def)
qed

theorem bare_ssh_key_rejected_witness:
  "\<exists>line col. Parse sampleHash (writeUser ''alice'' \<lparr>us_Username = ''alice'', us_Password = [], us_Role = [], us_SSHKey = ''AAAA''\<rparr> []) =
    Inl (ParseErr line col ''expected SSH key string'')"
  by (rule bare_ssh_key_rejected)
    (simp_all add: plain_def isWord_def isNumber_def needsQuotedValue_def isWordChar_def rune_class_defs)

text \<open>
  C10. A comment at the end of a statement joins it with the next line: the lexer skips the line
  end together with the comment, so a second statement on the next line is an error.
\<close>

theorem trailing_comment_joins_lines:
  assumes "plain v" and "plain v'" and "newline \<notin> set w"
  shows "\<exists>line col. Parse hash (''set system host-name '' @ v @ '' #'' @ w @ [newline] @ writeLine [''set'', ''system'', ''host-name'', v']) =
    Inl (ParseErr line col ''expected end of line after statement'')"
proof -
  let ?ws = "[''set'', ''system'', ''host-name'', v]" and ?ws' = "[''set'', ''system'', ''host-name'', v']"
  let ?s = "JoinWith '' '' ?ws @ '' #'' @ w @ newline # writeLine ?ws'"
  have "lexes (writeLine ?ws' @ []) (map tokOf ?ws' @ [(TokenEOL, [])])"
    using assms by (intro lexes_writeLine) (simp_all add: running lexing)
  then have "lexes ('' #'' @ w @ newline # writeLine ?ws') (map tokOf ?ws' @ [(TokenEOL, [])])"
    using lexes_comment [OF assms(3)] by (simp add: lexes_blank blank_def rune_class_defs)
  then have "at (NewParser ?s) (map tokOf ?ws @ map tokOf ?ws' @ [(TokenEOL, [])])"
    using assms by (intro at_NewParser lexes_fields) (simp_all add: running)
  then have "\<exists>line col. Parse hash ?s = Inl (ParseErr line col ''expected end of line after statement'')"
    by (rule Parse_unterminated) (simp_all add: running assms parseStatement_def parseSystem_def)
  then show ?thesis by simp
qed

theorem trailing_comment_joins_lines_witness:
  "\<exists>line col. Parse sampleHash (''set system host-name a #'' @ '' note'' @ [newline] @ writeLine [''set'', ''system'', ''host-name'', ''b'']) =
    Inl (ParseErr line col ''expected end of line after statement'')"
  using trailing_comment_joins_lines [of "''a''" "''b''" "'' note''" sampleHash]
  by (simp add: plain_def isWord_def isNumber_def isWordChar_def rune_class_defs)



text \<open>
  C12. A parsed configuration is always converted: \<open>FromLegacyConfig\<close>, which dereferences map
  entries without nil checks, never panics on a tree that \<open>Parser.Parse\<close> returned.
\<close>

theorem parsed_tree_converts:
  assumes "goodHasher hash" and "Parse hash s = Inr c"
  shows "\<exists>m. FromLegacyConfig (Some c) = Some m"
  using FromLegacy_total [OF Parse_typed [OF assms]] .

theorem parsed_tree_converts_witness:
  "\<exists>m. FromLegacyConfig (Some (normConfig sampleHash (sampleConfig ''secret''))) = Some m"
  using parsed_tree_converts [OF sampleHash_good] Parse_print [OF sampleConfig_wf sampleHash_good] sampleConfig_prints by blast

text \<open>
  C13. The adapters lose nothing: a canonical tree without nil entries and empty wrappers is
  converted to the legacy tree without a panic, and \<open>FromLegacyConfig\<close> gives the same tree back.
\<close>

theorem model_legacy_roundtrip:
  assumes "wfModel c"
  shows "\<exists>old. ToLegacyConfig (Some c) = Some old \<and> FromLegacyConfig (Some old) = Some c"
  using assms by (rule FromLegacy_ToLegacy)

theorem model_legacy_roundtrip_witness:
  "\<exists>old. ToLegacyConfig (Some sampleModel) = Some old \<and> FromLegacyConfig (Some old) = Some sampleModel"
  by (rule model_legacy_roundtrip)
    (simp add: wfModel_def sampleModel_def NewRouterConfig_def wfMInterface_def wfMProtocols_def fullMap_def keys_ok_def)

end
